(* ===== verification/Igris_Prelude.thy ===== *)
theory Igris_Prelude
  imports Main "HOL-Library.Word" "HOL-Library.Sublist" "HOL-Library.List_Lexorder"
    "HOL-Library.Char_ord"
begin

text \<open>
  The prelude of the development: the parts of Go's language and standard library that the
  control plane uses (package \<^verbatim>\<open>strings\<close>, sorted \<^verbatim>\<open>map\<close> iteration as done by
  \<^verbatim>\<open>encoding/json\<close>, decimal printing) and the relational update that every SQL
  \<^verbatim>\<open>UPDATE ... WHERE\<close> of the store is an instance of, with the lemmas the components share.

  Go strings are byte sequences and are modelled as \<open>string\<close>. \<^verbatim>\<open>strings.TrimSpace\<close> and
  \<^verbatim>\<open>strings.ToLower\<close> are modelled on their ASCII behaviour: white space and letters outside
  ASCII are left alone. Identifiers of the third-party package \<^verbatim>\<open>google/uuid\<close> are their
  16 bytes, a \<open>128 word\<close>, with \<^verbatim>\<open>uuid.Nil\<close> the zero word. Times are integers.
\<close>

named_theorems go_defs \<open>definitions of the modelled parts of the Go standard library\<close>
named_theorems sql_simps \<open>facts on relational updates\<close>

type_synonym uuid = "128 word"
type_synonym uint32 = "32 word"
type_synonym uint64 = "64 word"
type_synonym gotime = int

abbreviation uuid_Nil :: uuid where "uuid_Nil \<equiv> 0"

section \<open>Package strings\<close>

definition go_space :: "char \<Rightarrow> bool" where
  "go_space c \<longleftrightarrow> (let n = (of_char c :: nat) in n = 32 \<or> 9 \<le> n \<and> n \<le> 13)"

definition TrimSpace :: "string \<Rightarrow> string" where
  "TrimSpace s = rev (dropWhile go_space (rev (dropWhile go_space s)))"

definition lower_char :: "char \<Rightarrow> char" where
  "lower_char c = (let n = (of_char c :: nat) in
     if 65 \<le> n \<and> n \<le> 90 then char_of (n + 32) else c)"

definition ToLower :: "string \<Rightarrow> string" where
  "ToLower s = map lower_char s"

definition EqualFold :: "string \<Rightarrow> string \<Rightarrow> bool" where
  "EqualFold s t \<longleftrightarrow> ToLower s = ToLower t"

definition HasPrefix :: "string \<Rightarrow> string \<Rightarrow> bool" where
  "HasPrefix s p \<longleftrightarrow> prefix p s"

definition HasSuffix :: "string \<Rightarrow> string \<Rightarrow> bool" where
  "HasSuffix s p \<longleftrightarrow> suffix p s"

definition TrimPrefix :: "string \<Rightarrow> string \<Rightarrow> string" where
  "TrimPrefix s p = (if prefix p s then drop (length p) s else s)"

definition TrimSuffix :: "string \<Rightarrow> string \<Rightarrow> string" where
  "TrimSuffix s p = (if suffix p s then take (length s - length p) s else s)"

definition Contains :: "string \<Rightarrow> string \<Rightarrow> bool" where
  "Contains s sub \<longleftrightarrow> sublist sub s"

fun Split_aux :: "char \<Rightarrow> string \<Rightarrow> string \<Rightarrow> string list" where
  "Split_aux sep acc [] = [rev acc]"
| "Split_aux sep acc (c # cs) =
     (if c = sep then rev acc # Split_aux sep [] cs else Split_aux sep (c # acc) cs)"

definition Split :: "string \<Rightarrow> char \<Rightarrow> string list" where
  "Split s sep = Split_aux sep [] s"

fun Join :: "string list \<Rightarrow> string \<Rightarrow> string" where
  "Join [] sep = []"
| "Join [s] sep = s"
| "Join (s # t # ts) sep = s @ sep @ Join (t # ts) sep"

definition ReplaceChar :: "string \<Rightarrow> char \<Rightarrow> char \<Rightarrow> string" where
  "ReplaceChar s old new = map (\<lambda>c. if c = old then new else c) s"

lemmas [go_defs] = TrimSpace_def ToLower_def EqualFold_def HasPrefix_def HasSuffix_def
  TrimPrefix_def TrimSuffix_def Contains_def Split_def ReplaceChar_def

text \<open>Decimal printing of \<^verbatim>\<open>%d\<close> for unsigned values, and of signed ones.\<close>

definition digit_char :: "nat \<Rightarrow> char" where
  "digit_char d = char_of (48 + d)"

fun nat_dec :: "nat \<Rightarrow> string" where
  "nat_dec n = (if n < 10 then [digit_char n] else nat_dec (n div 10) @ [digit_char (n mod 10)])"

declare nat_dec.simps [simp del]

definition int_dec :: "int \<Rightarrow> string" where
  "int_dec i = (if i < 0 then CHR ''-'' # nat_dec (nat (- i)) else nat_dec (nat i))"

subsection \<open>Facts on strings\<close>

lemma lower_char_idem [simp]: "lower_char (lower_char c) = lower_char c"
  by (auto simp: lower_char_def Let_def)

lemma ToLower_idem [simp]: "ToLower (ToLower s) = ToLower s"
  by (simp add: ToLower_def)

lemma ToLower_Nil_iff [simp]: "ToLower s = [] \<longleftrightarrow> s = []"
  by (simp add: ToLower_def)

lemma ToLower_append [simp]: "ToLower (s @ t) = ToLower s @ ToLower t"
  by (simp add: ToLower_def)

lemma ToLower_Nil [simp]: "ToLower [] = []"
  by (simp add: ToLower_def)

lemma go_space_lower [simp]: "go_space (lower_char c) \<longleftrightarrow> go_space c"
  by (auto simp: go_space_def lower_char_def Let_def)

lemma TrimSpace_ToLower: "TrimSpace (ToLower s) = ToLower (TrimSpace s)"
  by (simp add: TrimSpace_def ToLower_def dropWhile_map rev_map comp_def)

lemma dropWhile_rev_dropWhile_id:
  "dropWhile P (rev (dropWhile P (rev (dropWhile P xs)))) = rev (dropWhile P (rev (dropWhile P xs)))"
proof -
  let ?ys = "dropWhile P xs"
  have "prefix (rev (dropWhile P (rev ?ys))) ?ys"
    by (metis rev_rev_ident suffix_dropWhile suffix_to_prefix)
  then obtain zs where ys: "?ys = rev (dropWhile P (rev ?ys)) @ zs" by (auto simp: prefix_def)
  show ?thesis
  proof (cases "rev (dropWhile P (rev ?ys))")
    case (Cons a as)
    with ys have "hd ?ys = a" "?ys \<noteq> []" by (metis append_Cons list.sel(1), auto)
    then have "\<not> P a" by (metis hd_dropWhile)
    with Cons show ?thesis by simp
  next
    case Nil
    show ?thesis by (simp only: Nil dropWhile.simps)
  qed
qed

lemma TrimSpace_idem [simp]: "TrimSpace (TrimSpace s) = TrimSpace s"
  by (simp add: TrimSpace_def dropWhile_rev_dropWhile_id)

lemma TrimSpace_Nil [simp]: "TrimSpace [] = []"
  by (simp add: TrimSpace_def)

lemma set_TrimSpace: "set (TrimSpace s) \<subseteq> set s"
  by (auto simp: TrimSpace_def dest!: set_dropWhileD)

lemma dropWhile_none: "(\<forall>x\<in>set xs. \<not> P x) \<Longrightarrow> dropWhile P xs = xs"
  by (cases xs) auto

lemma TrimSpace_no_space: "(\<forall>c\<in>set s. \<not> go_space c) \<Longrightarrow> TrimSpace s = s"
  by (simp add: TrimSpace_def dropWhile_none)

lemma length_TrimSpace: "length (TrimSpace s) \<le> length s"
  unfolding TrimSpace_def by (metis length_dropWhile_le length_rev order_trans)

lemma Contains_trans: "Contains s t \<Longrightarrow> Contains t u \<Longrightarrow> Contains s u"
  unfolding Contains_def by (rule sublist_order.order_trans)

lemma Contains_ToLower: "Contains s t \<Longrightarrow> Contains (ToLower s) (ToLower t)"
  unfolding Contains_def ToLower_def by (rule map_mono_sublist)

lemma Contains_append: "Contains (a @ s @ b) s"
  by (auto simp: Contains_def sublist_def)

lemma Contains_Nil_iff [simp]: "Contains [] sub \<longleftrightarrow> sub = []"
  by (simp add: Contains_def)

lemma Contains_Cons [simp]: "Contains (c # s) sub \<longleftrightarrow> prefix sub (c # s) \<or> Contains s sub"
  by (simp add: Contains_def sublist_Cons_right)

text \<open>Code equations for evaluation: a comparison stops at the first difference, and the classes of
  characters are decided on their bits.\<close>

lemma prefix_code [code]:
  "prefix [] ys = True" "prefix (x # xs) [] = False" "prefix (x # xs) (y # ys) = (if x = y then prefix xs ys else False)"
  by simp_all

lemma Contains_code [code]:
  "Contains [] sub = (case sub of [] \<Rightarrow> True | _ \<Rightarrow> False)"
  "Contains (c # s) sub = (if prefix sub (c # s) then True else Contains s sub)"
  by (simp_all split: list.split)

lemma equal_list_code [code]:
  "HOL.equal [] ([] :: 'a :: equal list) = True" "HOL.equal [] (y # ys :: 'a :: equal list) = False"
  "HOL.equal (x # xs :: 'a :: equal list) [] = False"
  "HOL.equal (x # xs :: 'a :: equal list) (y # ys) = (if HOL.equal x y then HOL.equal xs ys else False)"
  by (simp_all add: equal)

lemma member_code [code]:
  "List.member [] y = False" "List.member (x # xs) y = (if x = y then True else List.member xs y)"
  by simp_all

lemma list_ex_code [code]:
  "list_ex P [] = False" "list_ex P (x # xs) = (if P x then True else list_ex P xs)"
  by simp_all

lemma lower_char_code [code]:
  "lower_char (Char b0 b1 b2 b3 b4 b5 b6 b7) =
     Char b0 b1 b2 b3 b4 (b5 \<or> \<not> b7 \<and> b6 \<and> (b0 \<or> b1 \<or> b2 \<or> b3 \<or> b4) \<and> \<not> (b4 \<and> b3 \<and> (b2 \<or> b1 \<and> b0))) b6 b7"
  by (cases b0; cases b1; cases b2; cases b3; cases b4; cases b5; cases b6; cases b7)
    (simp_all add: lower_char_def char_of_def bit_0)

lemma go_space_code [code]:
  "go_space (Char b0 b1 b2 b3 b4 b5 b6 b7) \<longleftrightarrow> \<not> b7 \<and> \<not> b6 \<and> \<not> b4
     \<and> (if b5 then \<not> b3 \<and> \<not> b2 \<and> \<not> b1 \<and> \<not> b0 else b3 \<and> (if b2 then \<not> b1 else b1 \<or> b0))"
  by (cases b0; cases b1; cases b2; cases b3; cases b4; cases b5; cases b6; cases b7) (simp_all add: go_space_def)

lemma Split_aux_not_Nil [simp]: "Split_aux sep acc s \<noteq> []"
  by (induction sep acc s rule: Split_aux.induct) auto

lemma Join_Cons: "ts \<noteq> [] \<Longrightarrow> Join (s # ts) sep = s @ sep @ Join ts sep"
  by (cases ts) auto

lemma Join_Split_aux: "Join (Split_aux sep acc s) [sep] = rev acc @ s"
  by (induction sep acc s rule: Split_aux.induct) (auto simp: Join_Cons)

lemma Join_Split: "Join (Split s sep) [sep] = s"
  by (simp add: Split_def Join_Split_aux)

lemma Contains_Join: "s \<in> set ss \<Longrightarrow> Contains (Join ss sep) s"
proof (induction ss sep rule: Join.induct)
  case (3 a t ts sep)
  have head: "Contains (Join (a # t # ts) sep) a"
    using Contains_append [of "[]" a "sep @ Join (t # ts) sep"] by simp
  have tail: "Contains (Join (a # t # ts) sep) (Join (t # ts) sep)"
    using Contains_append [of "a @ sep" "Join (t # ts) sep" "[]"] by simp
  from 3 head tail show ?case by (auto intro: Contains_trans)
qed (auto simp: Contains_def)

section \<open>Go maps with string keys\<close>

text \<open>
  \<^verbatim>\<open>encoding/json\<close> writes the keys of a Go map in sorted order, so a map with string keys is
  an association list kept sorted by key; assignment is \<open>map_put\<close>, a decoded JSON object
  becomes a map by assigning its members in order (the last of two equal keys wins).
\<close>

fun map_put :: "string \<Rightarrow> 'a \<Rightarrow> (string \<times> 'a) list \<Rightarrow> (string \<times> 'a) list" where
  "map_put k v [] = [(k, v)]"
| "map_put k v ((a, b) # ps) =
     (if k < a then (k, v) # (a, b) # ps else if k = a then (k, v) # ps
      else (a, b) # map_put k v ps)"

definition go_map :: "(string \<times> 'a) list \<Rightarrow> (string \<times> 'a) list" where
  "go_map kvs = fold (\<lambda>(k, v). map_put k v) kvs []"

abbreviation sorted_keys :: "(string \<times> 'a) list \<Rightarrow> bool" where
  "sorted_keys m \<equiv> sorted_wrt (<) (map fst m)"

locale go_map_spec =
  fixes mempty :: "'m"
    and put :: "'k \<Rightarrow> 'v \<Rightarrow> 'm \<Rightarrow> 'm"
    and look :: "'m \<Rightarrow> 'k \<Rightarrow> 'v option"
    and ok :: "'m \<Rightarrow> bool"
  assumes look_empty: "look mempty k = None"
    and look_put: "look (put k v m) k' = (if k' = k then Some v else look m k')"
    and ok_empty: "ok mempty"
    and ok_put: "ok m \<Longrightarrow> ok (put k v m)"
    and ok_ext: "ok m \<Longrightarrow> ok m' \<Longrightarrow> look m = look m' \<Longrightarrow> m = m'"
begin

lemma put_overwrite: "ok m \<Longrightarrow> put k v (put k w m) = put k v m"
  by (rule ok_ext) (auto simp: look_put ok_put fun_eq_iff)

lemma put_commute: "ok m \<Longrightarrow> k \<noteq> l \<Longrightarrow> put k v (put l w m) = put l w (put k v m)"
  by (rule ok_ext) (auto simp: look_put ok_put fun_eq_iff)

lemma put_same: "ok m \<Longrightarrow> look m k = Some v \<Longrightarrow> put k v m = m"
  by (rule ok_ext) (auto simp: look_put ok_put fun_eq_iff)

end

lemma map_of_map_put [simp]: "map_of (map_put k v m) = (map_of m)(k \<mapsto> v)"
  by (induction k v m rule: map_put.induct) auto

lemma set_keys_map_put [simp]: "fst ` set (map_put k v m) = insert k (fst ` set m)"
  by (induction k v m rule: map_put.induct) auto

lemma sorted_keys_map_put: "sorted_keys m \<Longrightarrow> sorted_keys (map_put k v m)"
proof (induction k v m rule: map_put.induct)
  case (2 k v a b ps)
  from "2.prems" have ih: "sorted_keys ps" by simp
  have keys: "set (map fst (map_put k v ps)) = insert k (fst ` set ps)"
    by (metis set_map set_keys_map_put)
  show ?case
  proof (cases "k < a \<or> k = a")
    case True
    with "2.prems" show ?thesis by auto
  next
    case False
    then have "a < k" by auto
    with False "2.IH" ih "2.prems" keys show ?thesis by auto
  qed
qed simp

lemma sorted_keys_distinct: "sorted_keys m \<Longrightarrow> distinct (map fst m)"
  by (simp add: strict_sorted_iff)

lemma sorted_keys_ext:
  assumes "sorted_keys m" and "sorted_keys m'" and eq: "map_of m = map_of m'"
  shows "m = m'"
proof (rule map_sorted_distinct_set_unique [where f = fst])
  show "inj_on fst (set m \<union> set m')"
  proof (rule inj_onI)
    fix x y assume "x \<in> set m \<union> set m'" "y \<in> set m \<union> set m'" "fst x = fst y"
    moreover have "\<And>x. x \<in> set m \<union> set m' \<Longrightarrow> map_of m (fst x) = Some (snd x)"
      using assms by (metis UnE map_of_is_SomeI prod.collapse sorted_keys_distinct)
    ultimately show "x = y" by (metis option.inject prod_eqI)
  qed
  show "sorted (map fst m)" "sorted (map fst m')" "distinct (map fst m)" "distinct (map fst m')"
    using assms by (auto simp: strict_sorted_iff)
  show "set m = set m'"
    using assms by (metis map_of_eq_Some_iff prod.exhaust sorted_keys_distinct subset_antisym subrelI)
qed

interpretation gm: go_map_spec "[]" map_put map_of sorted_keys
  by unfold_locales (auto intro: sorted_keys_map_put sorted_keys_ext)

lemma fold_map_put_sorted: "sorted_keys m \<Longrightarrow> sorted_keys (fold (\<lambda>(k, v). map_put k v) kvs m)"
  by (induction kvs arbitrary: m) (auto intro: sorted_keys_map_put split: prod.splits)

lemma sorted_keys_go_map [simp]: "sorted_keys (go_map kvs)"
  by (simp add: go_map_def fold_map_put_sorted)

lemma map_of_fold_map_put:
  "map_of (fold (\<lambda>(k, v). map_put k v) kvs m) = map_of m ++ map_of (rev kvs)"
proof (induction kvs arbitrary: m)
  case (Cons p kvs)
  obtain k v where "p = (k, v)" by fastforce
  with Cons show ?case by (simp add: fun_eq_iff map_add_def split: option.splits)
qed simp

lemma map_of_go_map [simp]: "map_of (go_map kvs) = map_of (rev kvs)"
  by (simp add: go_map_def map_of_fold_map_put)

lemma map_of_rev_sorted: "sorted_keys m \<Longrightarrow> map_of (rev m) = map_of m"
  by (simp add: map_of_inject_set rev_map [symmetric] sorted_keys_distinct)

lemma go_map_id: "sorted_keys m \<Longrightarrow> go_map m = m"
  by (rule sorted_keys_ext) (simp_all add: map_of_rev_sorted)

lemma find_Some_in: "find P xs = Some x \<Longrightarrow> x \<in> set xs \<and> P x"
  by (induction xs) (auto split: if_splits)

section \<open>SQL updates\<close>

text \<open>
  A table is the list of its rows. \<open>UPDATE t SET f WHERE P\<close> changes the rows that satisfy
  \<open>P\<close> and reports how many there were; the driver reports that count as \<^verbatim>\<open>RowsAffected\<close>.
\<close>

definition sql_update :: "('r \<Rightarrow> bool) \<Rightarrow> ('r \<Rightarrow> 'r) \<Rightarrow> 'r list \<Rightarrow> 'r list \<times> nat" where
  "sql_update P f t = (map (\<lambda>r. if P r then f r else r) t, length (filter P t))"

lemma sql_update_none [sql_simps]: "(\<forall>r\<in>set t. \<not> P r) \<Longrightarrow> sql_update P f t = (t, 0)"
  by (auto simp: sql_update_def map_idI)

lemma sql_update_count_pos [sql_simps]: "snd (sql_update P f t) = 0 \<longleftrightarrow> (\<forall>r\<in>set t. \<not> P r)"
  by (auto simp: sql_update_def filter_empty_conv)

lemma sql_update_length [simp]: "length (fst (sql_update P f t)) = length t"
  by (simp add: sql_update_def)

lemma sql_update_keys:
  "(\<And>r. key (f r) = key r) \<Longrightarrow> map key (fst (sql_update P f t)) = map key t"
  by (simp add: sql_update_def)

lemma set_sql_update: "set (fst (sql_update P f t)) = (\<lambda>r. if P r then f r else r) ` set t"
  by (simp add: sql_update_def)

section \<open>Machine words\<close>

lemma unat_plus_one: "(w :: 'a::len word) \<noteq> - 1 \<Longrightarrow> unat (w + 1) = Suc (unat w)"
proof -
  assume "w \<noteq> - 1"
  then have "1 + w \<noteq> 0" by (simp add: add_eq_0_iff)
  then show ?thesis by (simp add: unatSuc add.commute)
qed

lemma less_not_max: "(w :: 'a::len word) < v \<Longrightarrow> w \<noteq> - 1"
  by (metis word_n1_ge leD)

lemma unat_plus_one_less: "(w :: 'a::len word) < v \<Longrightarrow> unat (w + 1) = Suc (unat w)"
  by (simp add: unat_plus_one less_not_max)

lemma unat_of_nat_le: "k \<le> unat (l :: 'a::len word) \<Longrightarrow> unat (word_of_nat k :: 'a word) = k"
proof -
  assume "k \<le> unat l"
  also have "unat l < 2 ^ LENGTH('a)" by (rule unsigned_less)
  finally show ?thesis by (simp add: unat_of_nat)
qed

end
