(* ===== verification/Json_Model.thy ===== *)
theory Json_Model
  imports Igris_Prelude
begin

text \<open>
  JSON values, the two textual layouts the program meets, and the decoding that package
  \<^verbatim>\<open>encoding/json\<close> does for the target types the coordinator uses.

  A \<^verbatim>\<open>json.RawMessage\<close> is a byte string. The coordinator decodes some of them and searches the
  text of others, so the model keeps both views: \<open>RawJSON st j\<close> is the text of the value \<open>j\<close>
  in layout \<open>st\<close>, \<open>RawBad s\<close> is a byte string that is not JSON. The layouts are \<open>Compact\<close>, which
  \<^verbatim>\<open>json.Marshal\<close> writes, and \<open>Spaced\<close>, in which PostgreSQL prints a \<^verbatim>\<open>JSONB\<close> column (one
  blank after every colon and comma). A JSON object is the list of its members in textual order.

  Decoding into a Go map compares keys exactly and the last of two equal keys wins; decoding
  into a struct compares them up to letter case. Decoding \<^verbatim>\<open>null\<close> leaves the zero value and is
  no error. Objects with two members whose names differ in letter case only are outside the model.
\<close>

section \<open>Values and their text\<close>

datatype jnum = JInt bool nat | JDec bool nat int

datatype json =
    JNull
  | JBool bool
  | JNum jnum
  | JStr string
  | JArr "json list"
  | JObj "(string \<times> json) list"

datatype json_style = Compact | Spaced

definition hex_digit :: "nat \<Rightarrow> char" where
  "hex_digit d = (if d < 10 then char_of (48 + d) else char_of (87 + d))"

definition esc_char :: "json_style \<Rightarrow> char \<Rightarrow> string" where
  "esc_char st c = (let n = (of_char c :: nat) in
     if c = CHR 0x22 \<or> c = CHR 0x5C then [CHR 0x5C, c]
     else if n = 10 then [CHR 0x5C, CHR ''n'']
     else if n = 13 then [CHR 0x5C, CHR ''r'']
     else if n = 9 then [CHR 0x5C, CHR ''t'']
     else if n < 32 \<or> (st = Compact \<and> n \<in> {38, 60, 62})
       then [CHR 0x5C, CHR ''u'', CHR ''0'', CHR ''0'', hex_digit (n div 16), hex_digit (n mod 16)]
     else [c])"

definition quote_json :: "json_style \<Rightarrow> string \<Rightarrow> string" where
  "quote_json st s = [CHR 0x22] @ concat (map (esc_char st) s) @ [CHR 0x22]"

fun jnum_text :: "jnum \<Rightarrow> string" where
  "jnum_text (JInt neg n) = (if neg then ''-'' else []) @ nat_dec n"
| "jnum_text (JDec neg m e) = (if neg then ''-'' else []) @ nat_dec m @ ''e'' @ int_dec e"

definition comma :: "json_style \<Rightarrow> string" where
  "comma st = (case st of Compact \<Rightarrow> '','' | Spaced \<Rightarrow> '', '')"

definition colon :: "json_style \<Rightarrow> string" where
  "colon st = (case st of Compact \<Rightarrow> '':'' | Spaced \<Rightarrow> '': '')"

fun json_text :: "json_style \<Rightarrow> json \<Rightarrow> string" where
  "json_text st JNull = ''null''"
| "json_text st (JBool b) = (if b then ''true'' else ''false'')"
| "json_text st (JNum n) = jnum_text n"
| "json_text st (JStr s) = quote_json st s"
| "json_text st (JArr xs) = ''['' @ Join (map (json_text st) xs) (comma st) @ '']''"
| "json_text st (JObj kvs) =
     [CHR 0x7B] @ Join (map (\<lambda>(k, v). quote_json st k @ colon st @ json_text st v) kvs) (comma st)
     @ [CHR 0x7D]"

lemma text_member: "(k, v) \<in> set kvs \<Longrightarrow> Contains (json_text st (JObj kvs)) (json_text st v)"
proof -
  assume kv: "(k, v) \<in> set kvs"
  let ?f = "\<lambda>(k, v). quote_json st k @ colon st @ json_text st v"
  have "Contains (Join (map ?f kvs) (comma st)) (?f (k, v))"
    using kv by (intro Contains_Join) force
  moreover have "Contains (?f (k, v)) (json_text st v)"
    using Contains_append [of "quote_json st k @ colon st" "json_text st v" "[]"] by simp
  moreover have "Contains (json_text st (JObj kvs)) (Join (map ?f kvs) (comma st))"
    using Contains_append [of "[CHR 0x7B]" "Join (map ?f kvs) (comma st)" "[CHR 0x7D]"] by simp
  ultimately show ?thesis by (blast intro: Contains_trans)
qed

lemma text_element: "v \<in> set vs \<Longrightarrow> Contains (json_text st (JArr vs)) (json_text st v)"
proof -
  assume v: "v \<in> set vs"
  have "Contains (Join (map (json_text st) vs) (comma st)) (json_text st v)"
    using v by (intro Contains_Join) force
  moreover have "Contains (json_text st (JArr vs)) (Join (map (json_text st) vs) (comma st))"
    using Contains_append [of "''[''" "Join (map (json_text st) vs) (comma st)" "'']''"] by simp
  ultimately show ?thesis by (blast intro: Contains_trans)
qed

section \<open>Raw messages\<close>

datatype raw = RawJSON json_style json | RawBad string

fun raw_text :: "raw \<Rightarrow> string" where
  "raw_text (RawJSON st j) = json_text st j"
| "raw_text (RawBad s) = s"

fun raw_value :: "raw \<Rightarrow> json option" where
  "raw_value (RawJSON st j) = Some j"
| "raw_value (RawBad s) = None"

fun raw_with :: "raw \<Rightarrow> json \<Rightarrow> raw" where
  \<comment> \<open>a nested raw message keeps the layout of the text it is cut from\<close>
  "raw_with (RawJSON st _) j = RawJSON st j"
| "raw_with (RawBad s) j = RawJSON Compact j"

definition marshal :: "json \<Rightarrow> raw" where
  "marshal j = RawJSON Compact j"

definition jsonb_column :: "raw \<Rightarrow> raw" where
  \<comment> \<open>what is read back from a JSONB column\<close>
  "jsonb_column r = (case raw_value r of Some j \<Rightarrow> RawJSON Spaced j | None \<Rightarrow> r)"

lemma raw_value_marshal [simp]: "raw_value (marshal j) = Some j"
  by (simp add: marshal_def)

lemma raw_value_jsonb [simp]: "raw_value (jsonb_column r) = raw_value r"
  by (cases r) (simp_all add: jsonb_column_def)

section \<open>Decoding\<close>

text \<open>\<open>None\<close> is the decoding error.\<close>

fun unm_string :: "json \<Rightarrow> string option" where
  "unm_string (JStr s) = Some s"
| "unm_string JNull = Some []"
| "unm_string _ = None"

fun unm_bool :: "json \<Rightarrow> bool option" where
  "unm_bool (JBool b) = Some b"
| "unm_bool JNull = Some False"
| "unm_bool _ = None"

fun unm_array :: "json \<Rightarrow> json list option" where
  "unm_array (JArr xs) = Some xs"
| "unm_array JNull = Some []"
| "unm_array _ = None"

fun unm_object :: "json \<Rightarrow> (string \<times> json) list option" where
  "unm_object (JObj kvs) = Some kvs"
| "unm_object JNull = Some []"
| "unm_object _ = None"

fun unm_uint :: "nat \<Rightarrow> json \<Rightarrow> nat option" where
  \<comment> \<open>an unsigned integer of the given width\<close>
  "unm_uint w (JNum (JInt neg n)) = (if neg \<or> n \<ge> 2 ^ w then None else Some n)"
| "unm_uint w JNull = Some 0"
| "unm_uint w _ = None"

definition unm_strings :: "json \<Rightarrow> string list option" where
  "unm_strings j = (case unm_array j of None \<Rightarrow> None
     | Some xs \<Rightarrow> if list_all (\<lambda>x. unm_string x \<noteq> None) xs then Some (map (the \<circ> unm_string) xs)
       else None)"

text \<open>Lookup in a decoded map, and in a decoded struct (by field name, any letter case).\<close>

definition obj_get :: "(string \<times> json) list \<Rightarrow> string \<Rightarrow> json option" where
  "obj_get kvs k = map_of (rev kvs) k"

definition struct_get :: "(string \<times> json) list \<Rightarrow> string \<Rightarrow> json option" where
  "struct_get kvs k = map_option snd (find (\<lambda>(k', v). EqualFold k' k) (rev kvs))"

definition struct_string :: "(string \<times> json) list \<Rightarrow> string \<Rightarrow> string" where
  \<comment> \<open>a string field whose decoding error is ignored\<close>
  "struct_string kvs k = (case struct_get kvs k of None \<Rightarrow> []
     | Some j \<Rightarrow> (case unm_string j of None \<Rightarrow> [] | Some s \<Rightarrow> s))"

definition assert_string :: "json option \<Rightarrow> string" where
  \<comment> \<open>\<open>s, _ := v.(string)\<close> on a map of any values\<close>
  "assert_string v = (case v of Some (JStr s) \<Rightarrow> s | _ \<Rightarrow> [])"

definition assert_bool :: "json option \<Rightarrow> bool" where
  "assert_bool v = (case v of Some (JBool b) \<Rightarrow> b | _ \<Rightarrow> False)"

lemma obj_get_in: "obj_get kvs k = Some v \<Longrightarrow> (k, v) \<in> set kvs"
  unfolding obj_get_def by (drule map_of_SomeD) simp

lemma struct_get_in: "struct_get kvs k = Some v \<Longrightarrow> \<exists>k'. (k', v) \<in> set kvs"
proof -
  assume "struct_get kvs k = Some v"
  then obtain p where "find (\<lambda>(k', v). EqualFold k' k) (rev kvs) = Some p" and "snd p = v"
    by (auto simp: struct_get_def)
  then show ?thesis by (metis find_Some_in prod.collapse set_rev)
qed

lemma obj_get_sorted: "sorted_keys kvs \<Longrightarrow> obj_get kvs = map_of kvs"
  by (simp add: obj_get_def [abs_def] map_of_rev_sorted)

lemma obj_get_map_put [simp]:
  "sorted_keys m \<Longrightarrow> obj_get (map_put k v m) k' = (if k' = k then Some v else obj_get m k')"
  by (simp add: obj_get_sorted sorted_keys_map_put)

lemma obj_get_go_map [simp]: "obj_get (go_map kvs) = obj_get kvs"
  by (simp add: obj_get_sorted fun_eq_iff obj_get_def)

end
