(* ===== verification/Byte_Encoding.thy ===== *)
theory Byte_Encoding
  imports Json_Model
begin

text \<open>
  The two byte encodings of the Go standard library the coordinator relies on:
  \<^verbatim>\<open>encoding/hex\<close> and the four alphabets of \<^verbatim>\<open>encoding/base64\<close> (standard and URL, padded and
  raw), with the round trips the WAL and receipt code needs. A byte is an \<open>8 word\<close>.
\<close>

type_synonym byte = "8 word"

section \<open>Hexadecimal\<close>

definition hex_val :: "char \<Rightarrow> nat option" where
  "hex_val c = (let n = (of_char c :: nat) in
     if 48 \<le> n \<and> n \<le> 57 then Some (n - 48)
     else if 97 \<le> n \<and> n \<le> 102 then Some (n - 87)
     else if 65 \<le> n \<and> n \<le> 70 then Some (n - 55)
     else None)"

fun hex_DecodeString :: "string \<Rightarrow> byte list option" where
  "hex_DecodeString [] = Some []"
| "hex_DecodeString [c] = None"
| "hex_DecodeString (a # b # s) =
     (case (hex_val a, hex_val b) of
        (Some x, Some y) \<Rightarrow> map_option ((#) (word_of_nat (16 * x + y))) (hex_DecodeString s)
      | _ \<Rightarrow> None)"

fun hex_EncodeToString :: "byte list \<Rightarrow> string" where
  "hex_EncodeToString [] = []"
| "hex_EncodeToString (w # ws) =
     hex_digit (unat w div 16) # hex_digit (unat w mod 16) # hex_EncodeToString ws"

lemma of_char_char_of_small: "n < 256 \<Longrightarrow> of_char (char_of n :: char) = (n :: nat)"
  by simp

lemma hex_val_digit: "d < 16 \<Longrightarrow> hex_val (hex_digit d) = Some d"
  by (auto simp: hex_val_def hex_digit_def Let_def)

lemma hex_digit_val: "hex_val c = Some d \<Longrightarrow> hex_digit d = lower_char c"
proof -
  assume v: "hex_val c = Some d"
  let ?n = "of_char c :: nat"
  have c: "char_of ?n = c" by simp
  from v consider "48 \<le> ?n \<and> ?n \<le> 57 \<and> d = ?n - 48" | "97 \<le> ?n \<and> ?n \<le> 102 \<and> d = ?n - 87"
    | "65 \<le> ?n \<and> ?n \<le> 70 \<and> d = ?n - 55"
    by (auto simp: hex_val_def Let_def split: if_splits)
  then show ?thesis
  proof cases
    case 1
    then have "48 + d = ?n" "d < 10" by auto
    with 1 show ?thesis by (simp add: hex_digit_def lower_char_def Let_def)
  next
    case 2
    then have "87 + d = ?n" "\<not> d < 10" "\<not> ?n \<le> 90" by auto
    then show ?thesis by (simp add: hex_digit_def lower_char_def Let_def)
  next
    case 3
    then have "87 + d = ?n + 32" "\<not> d < 10" "65 \<le> ?n" "?n \<le> 90" by auto
    then show ?thesis by (simp add: hex_digit_def lower_char_def Let_def)
  qed
qed

lemma hex_val_less: "hex_val c = Some d \<Longrightarrow> d < 16"
  by (auto simp: hex_val_def Let_def split: if_splits)

lemma unat_byte_less [simp]: "unat (w :: byte) < 256"
  using unsigned_less [of w, where ?'a = nat] by simp

lemma byte_div_16 [simp]: "unat (w :: byte) div 16 < 16"
  using unat_byte_less [of w] by linarith

lemma hex_decode_encode [simp]: "hex_DecodeString (hex_EncodeToString ws) = Some ws"
proof (induction ws)
  case (Cons w ws)
  have "16 * (unat w div 16) + unat w mod 16 = unat w" by simp
  then show ?case using Cons by (simp add: hex_val_digit del: mult_div_mod_eq)
qed simp

lemma unat_word_of_small: "n < 256 \<Longrightarrow> unat (word_of_nat n :: byte) = n"
  by (simp add: unat_of_nat)

lemma hex_encode_decode: "hex_DecodeString s = Some ws \<Longrightarrow> hex_EncodeToString ws = ToLower s"
proof (induction s arbitrary: ws rule: hex_DecodeString.induct)
  case (3 a b s)
  then obtain x y vs where xy: "hex_val a = Some x" "hex_val b = Some y"
    and vs: "hex_DecodeString s = Some vs" and ws: "ws = word_of_nat (16 * x + y) # vs"
    by (auto split: option.splits)
  from xy have lt: "x < 16" "y < 16" by (auto dest: hex_val_less)
  then have "unat (word_of_nat (16 * x + y) :: byte) = 16 * x + y"
    by (intro unat_word_of_small) simp
  with 3 xy vs ws lt show ?case by (simp add: hex_digit_val ToLower_def)
qed (auto simp: ToLower_def)

lemma hex_decode_length: "hex_DecodeString s = Some ws \<Longrightarrow> length s = 2 * length ws"
  by (induction s arbitrary: ws rule: hex_DecodeString.induct) (auto split: option.splits)

lemma hex_decode_chars: "hex_DecodeString s = Some ws \<Longrightarrow> c \<in> set s \<Longrightarrow> hex_val c \<noteq> None"
  by (induction s arbitrary: ws rule: hex_DecodeString.induct) (auto split: option.splits)

section \<open>Base64\<close>

datatype b64_encoding = StdEncoding | RawStdEncoding | URLEncoding | RawURLEncoding

definition b64_padded :: "b64_encoding \<Rightarrow> bool" where
  "b64_padded e \<longleftrightarrow> e = StdEncoding \<or> e = URLEncoding"

definition b64_url :: "b64_encoding \<Rightarrow> bool" where
  "b64_url e \<longleftrightarrow> e = URLEncoding \<or> e = RawURLEncoding"

definition b64_char :: "b64_encoding \<Rightarrow> nat \<Rightarrow> char" where
  "b64_char e v = (if v < 26 then char_of (65 + v) else if v < 52 then char_of (71 + v)
     else if v < 62 then char_of (v - 4)
     else if v = 62 then (if b64_url e then CHR ''-'' else CHR ''+'')
     else (if b64_url e then CHR ''_'' else CHR ''/''))"

definition b64_val :: "b64_encoding \<Rightarrow> char \<Rightarrow> nat option" where
  "b64_val e c = (let n = (of_char c :: nat) in
     if 65 \<le> n \<and> n \<le> 90 then Some (n - 65)
     else if 97 \<le> n \<and> n \<le> 122 then Some (n - 71)
     else if 48 \<le> n \<and> n \<le> 57 then Some (n + 4)
     else if c = (if b64_url e then CHR ''-'' else CHR ''+'') then Some 62
     else if c = (if b64_url e then CHR ''_'' else CHR ''/'') then Some 63
     else None)"

definition b64_pad :: "b64_encoding \<Rightarrow> nat \<Rightarrow> string" where
  "b64_pad e k = (if b64_padded e then replicate k (CHR ''='') else [])"

fun b64_EncodeToString :: "b64_encoding \<Rightarrow> byte list \<Rightarrow> string" where
  "b64_EncodeToString e [] = []"
| "b64_EncodeToString e [a] =
     [b64_char e (unat a div 4), b64_char e (unat a mod 4 * 16)] @ b64_pad e 2"
| "b64_EncodeToString e [a, b] =
     [b64_char e (unat a div 4), b64_char e (unat a mod 4 * 16 + unat b div 16),
      b64_char e (unat b mod 16 * 4)] @ b64_pad e 1"
| "b64_EncodeToString e (a # b # c # ws) =
     [b64_char e (unat a div 4), b64_char e (unat a mod 4 * 16 + unat b div 16),
      b64_char e (unat b mod 16 * 4 + unat c div 64), b64_char e (unat c mod 64)]
     @ b64_EncodeToString e ws"

text \<open>The decoder skips carriage returns and line feeds, wants the padding of the padded
  alphabets exactly, and does not look at the unused low bits of the last character.\<close>

fun b64_quads :: "b64_encoding \<Rightarrow> string \<Rightarrow> byte list option" where
  "b64_quads e [] = Some []"
| "b64_quads e [a] = None"
| "b64_quads e [a, b] =
     (case (b64_val e a, b64_val e b) of
        (Some x, Some y) \<Rightarrow> if b64_padded e then None else Some [word_of_nat (x * 4 + y div 16)]
      | _ \<Rightarrow> None)"
| "b64_quads e [a, b, c] =
     (case (b64_val e a, b64_val e b, b64_val e c) of
        (Some x, Some y, Some z) \<Rightarrow> if b64_padded e then None
          else Some [word_of_nat (x * 4 + y div 16), word_of_nat (y mod 16 * 16 + z div 4)]
      | _ \<Rightarrow> None)"
| "b64_quads e (a # b # c # d # s) =
     (case (b64_val e a, b64_val e b) of
        (Some x, Some y) \<Rightarrow>
          (case b64_val e c of
             None \<Rightarrow> if b64_padded e \<and> c = CHR ''='' \<and> d = CHR ''='' \<and> s = []
                       then Some [word_of_nat (x * 4 + y div 16)] else None
           | Some z \<Rightarrow>
               (case b64_val e d of
                  None \<Rightarrow> if b64_padded e \<and> d = CHR ''='' \<and> s = []
                            then Some [word_of_nat (x * 4 + y div 16),
                                       word_of_nat (y mod 16 * 16 + z div 4)] else None
                | Some u \<Rightarrow> map_option (\<lambda>ws. word_of_nat (x * 4 + y div 16) #
                              word_of_nat (y mod 16 * 16 + z div 4) #
                              word_of_nat (z mod 4 * 64 + u) # ws) (b64_quads e s)))
      | _ \<Rightarrow> None)"

definition b64_DecodeString :: "b64_encoding \<Rightarrow> string \<Rightarrow> byte list option" where
  "b64_DecodeString e s = b64_quads e (filter (\<lambda>c. c \<noteq> CHR 0x0A \<and> c \<noteq> CHR 0x0D) s)"

lemma b64_val_char: "v < 64 \<Longrightarrow> b64_val e (b64_char e v) = Some v"
  by (auto simp: b64_val_def b64_char_def Let_def)

lemma b64_val_pad: "b64_val e (CHR ''='') = None"
  by (simp add: b64_val_def)

lemma b64_group_bounds:
  fixes a b c :: byte
  shows "unat a div 4 < 64" "unat a mod 4 * 16 < 64" "unat a mod 4 * 16 + unat b div 16 < 64"
    "unat b mod 16 * 4 < 64" "unat b mod 16 * 4 + unat c div 64 < 64" "unat c mod 64 < 64"
  using unat_byte_less [of a] unat_byte_less [of b] unat_byte_less [of c] by linarith+

lemma b64_group_arith:
  fixes a b c :: nat
  assumes "a < 256" "b < 256" "c < 256"
  shows "a div 4 * 4 + (a mod 4 * 16 + b div 16) div 16 = a"
    and "a div 4 * 4 + (a mod 4 * 16) div 16 = a"
    and "(a mod 4 * 16 + b div 16) mod 16 * 16 + (b mod 16 * 4 + c div 64) div 4 = b"
    and "(a mod 4 * 16 + b div 16) mod 16 * 16 + (b mod 16 * 4) div 4 = b"
    and "(b mod 16 * 4 + c div 64) mod 4 * 64 + c mod 64 = c"
proof -
  have split: "(x * k + y) div k = x" "(x * k + y) mod k = y" if "y < k" for x y k :: nat
    using that by simp_all
  have b: "b div 16 < 16" and c: "c div 64 < 4" using assms by linarith+
  show "a div 4 * 4 + (a mod 4 * 16 + b div 16) div 16 = a" unfolding split [OF b] by simp
  show "a div 4 * 4 + (a mod 4 * 16) div 16 = a" by simp
  show "(a mod 4 * 16 + b div 16) mod 16 * 16 + (b mod 16 * 4 + c div 64) div 4 = b"
    unfolding split [OF b] split [OF c] by simp
  show "(a mod 4 * 16 + b div 16) mod 16 * 16 + (b mod 16 * 4) div 4 = b"
    unfolding split [OF b] by simp
  show "(b mod 16 * 4 + c div 64) mod 4 * 64 + c mod 64 = c" unfolding split [OF c] by simp
qed

lemmas b64_group_unat =
  b64_group_arith [OF unat_byte_less unat_byte_less unat_byte_less]

lemma b64_alphabet: "c \<in> set (b64_EncodeToString e ws) \<Longrightarrow> c = CHR ''='' \<or> b64_val e c \<noteq> None"
  by (induction e ws rule: b64_EncodeToString.induct)
    (auto simp: b64_pad_def b64_val_char b64_group_bounds split: if_splits)

lemma b64_alphabet_no_space: "c = CHR ''='' \<or> b64_val e c \<noteq> None \<Longrightarrow> \<not> go_space c"
  by (auto simp: b64_val_def go_space_def Let_def split: if_splits)

lemma b64_no_space: "c \<in> set (b64_EncodeToString e ws) \<Longrightarrow> \<not> go_space c"
  by (rule b64_alphabet_no_space [OF b64_alphabet])

lemma b64_no_newline: "c \<in> set (b64_EncodeToString e ws) \<Longrightarrow> c \<noteq> CHR 0x0A \<and> c \<noteq> CHR 0x0D"
  using b64_no_space [of "CHR 0x0A"] b64_no_space [of "CHR 0x0D"] by (auto simp: go_space_def)

lemma b64_pad_in: "b64_padded e \<Longrightarrow> length ws mod 3 \<noteq> 0 \<Longrightarrow> CHR ''='' \<in> set (b64_EncodeToString e ws)"
  by (induction e ws rule: b64_EncodeToString.induct) (auto simp: b64_pad_def mod_Suc split: if_splits)

lemma b64_quads_encode: "b64_quads e (b64_EncodeToString e ws) = Some ws"
proof (induction e ws rule: b64_EncodeToString.induct)
  case (2 e a)
  show ?case
    by (simp add: b64_pad_def b64_val_char b64_group_bounds b64_val_pad b64_group_unat
        numeral_2_eq_2)
next
  case (3 e a b)
  show ?case
    by (simp add: b64_pad_def b64_val_char b64_group_bounds b64_val_pad b64_group_unat)
next
  case (4 e a b c ws)
  show ?case
    by (simp only: b64_EncodeToString.simps append.simps b64_quads.simps b64_val_char
        b64_group_bounds option.case prod.case b64_group_unat 4 option.map) simp
qed simp

lemma b64_decode_encode [simp]: "b64_DecodeString e (b64_EncodeToString e ws) = Some ws"
proof -
  have "filter (\<lambda>c. c \<noteq> CHR 0x0A \<and> c \<noteq> CHR 0x0D) (b64_EncodeToString e ws) = b64_EncodeToString e ws"
    using b64_no_newline by (auto simp: filter_id_conv)
  then show ?thesis by (simp add: b64_DecodeString_def b64_quads_encode)
qed

end
