(* ===== verification/Checkpoints.thy ===== *)
theory Checkpoints
  imports Byte_Encoding
begin

text \<open>
  Checkpoints and write-ahead-log entries (\<^verbatim>\<open>coordinator/checkpoint_store.go\<close>): the data the
  Rust runtime and Overture exchange, the wire form of a WAL entry, the predicates that decide
  whether a checkpoint may be stored or used for recovery, and the reconstruction of the
  committed prefix from delta checkpoints.
\<close>

section \<open>Data\<close>

record ResumeToken =
  rt_LastCommittedStep :: uint32
  rt_CheckpointDigest :: string
  rt_RuntimeID :: string

record WalEntry =
  we_EntryID :: uuid
  we_TaskID :: uuid
  we_StepIndex :: uint32
  we_StepType :: json
  we_Status :: string
  we_InputDigest :: string
  we_OutputDigest :: "string option"
  we_TimestampMs :: uint64
  we_RuntimeID :: string
  we_Signature :: "string option"

record CheckpointPayload =
  cp_TaskID :: uuid
  cp_ResumeToken :: ResumeToken
  cp_WalEntries :: "WalEntry list"
  cp_Metadata :: "raw option"
  cp_CapturedAt :: gotime

abbreviation cp_last :: "CheckpointPayload \<Rightarrow> uint32" where
  "cp_last cp \<equiv> rt_LastCommittedStep (cp_ResumeToken cp)"

section \<open>The wire form of a WAL entry\<close>

text \<open>The anonymous struct \<^verbatim>\<open>walEntryJSON\<close> of both directions; a field that is absent from the
  text is \<open>None\<close>.\<close>

record walEntryJSON =
  wj_EntryID :: uuid
  wj_TaskID :: uuid
  wj_StepIndex :: uint32
  wj_StepType :: json
  wj_Status :: "json option"
  wj_InputDigest :: "json option"
  wj_OutputDigest :: "json option"
  wj_TimestampMs :: uint64
  wj_RuntimeID :: string
  wj_Signature :: "json option"

datatype wal_error = FieldDecode | FieldLength nat nat

definition marshalHexByteArrayField :: "string \<Rightarrow> nat \<Rightarrow> json" where
  "marshalHexByteArrayField value expectedLen =
     (let trimmed = TrimSpace value in
      if trimmed = [] then JStr trimmed
      else case hex_DecodeString trimmed of
        None \<Rightarrow> JStr trimmed
      | Some decoded \<Rightarrow>
          if expectedLen > 0 \<and> length decoded \<noteq> expectedLen then JStr trimmed
          else JStr (b64_EncodeToString StdEncoding decoded))"

fun first_base64 :: "b64_encoding list \<Rightarrow> string \<Rightarrow> nat \<Rightarrow> byte list option" where
  "first_base64 [] s n = None"
| "first_base64 (e # es) s n =
     (case b64_DecodeString e s of
        Some decoded \<Rightarrow> if n = 0 \<or> length decoded = n then Some decoded else first_base64 es s n
      | None \<Rightarrow> first_base64 es s n)"

definition decodeBase64ByteArrayField :: "string \<Rightarrow> nat \<Rightarrow> byte list option" where
  "decodeBase64ByteArrayField value expectedLen =
     (let trimmed = TrimSpace value in
      if trimmed = [] then None
      else first_base64 [StdEncoding, RawStdEncoding, URLEncoding, RawURLEncoding] trimmed expectedLen)"

fun unm_byte :: "json \<Rightarrow> byte option" where
  "unm_byte j = map_option word_of_nat (unm_uint 8 j)"

definition unm_bytes :: "json \<Rightarrow> byte list option" where
  \<comment> \<open>a JSON array decoded into a byte slice\<close>
  "unm_bytes j = (case j of JArr xs \<Rightarrow>
       if list_all (\<lambda>x. unm_byte x \<noteq> None) xs then Some (map (the \<circ> unm_byte) xs) else None
     | _ \<Rightarrow> None)"

definition unmarshalHexByteArrayField :: "json option \<Rightarrow> nat \<Rightarrow> wal_error + string" where
  "unmarshalHexByteArrayField data expectedLen =
     (case data of
        None \<Rightarrow> Inr []
      | Some JNull \<Rightarrow> Inr []
      | Some (JStr value) \<Rightarrow>
          if value = [] then Inr []
          else (case hex_DecodeString value of
             Some decoded \<Rightarrow>
               if expectedLen = 0 \<or> length decoded = expectedLen then Inr (ToLower value)
               else (case decodeBase64ByteArrayField value expectedLen of
                       Some bs \<Rightarrow> Inr (hex_EncodeToString bs) | None \<Rightarrow> Inr (ToLower value))
           | None \<Rightarrow> (case decodeBase64ByteArrayField value expectedLen of
                       Some bs \<Rightarrow> Inr (hex_EncodeToString bs) | None \<Rightarrow> Inr (ToLower value)))
      | Some j \<Rightarrow> (case unm_bytes j of
           None \<Rightarrow> Inl FieldDecode
         | Some bs \<Rightarrow> if expectedLen > 0 \<and> length bs \<noteq> expectedLen
             then Inl (FieldLength expectedLen (length bs)) else Inr (hex_EncodeToString bs)))"

definition unmarshalOptionalHexByteArrayField ::
  "json option \<Rightarrow> nat \<Rightarrow> wal_error + string option" where
  "unmarshalOptionalHexByteArrayField data expectedLen =
     (if data = None \<or> data = Some JNull then Inr None
      else case unmarshalHexByteArrayField data expectedLen of
        Inl e \<Rightarrow> Inl e | Inr value \<Rightarrow> Inr (Some value))"

definition marshalBinaryArrayField :: "string \<Rightarrow> json" where
  "marshalBinaryArrayField value =
     (case b64_DecodeString StdEncoding value of
        None \<Rightarrow> JStr value | Some decoded \<Rightarrow> JStr (b64_EncodeToString StdEncoding decoded))"

definition unmarshalOptionalBinaryArrayField :: "json option \<Rightarrow> wal_error + string option" where
  "unmarshalOptionalBinaryArrayField data =
     (case data of
        None \<Rightarrow> Inr None
      | Some JNull \<Rightarrow> Inr None
      | Some (JStr value) \<Rightarrow> Inr (Some value)
      | Some j \<Rightarrow> (case unm_bytes j of
           None \<Rightarrow> Inl FieldDecode
         | Some bs \<Rightarrow> Inr (Some (b64_EncodeToString StdEncoding bs))))"

definition normalizeWalStatus :: "string \<Rightarrow> string" where
  "normalizeWalStatus status = ToLower (TrimSpace status)"

text \<open>A status may also be an object with one member, the serialisation of a Rust enum variant
  with data; Go takes an arbitrary member, the model the first.\<close>

definition unmarshalWalStatusField :: "json option \<Rightarrow> string" where
  "unmarshalWalStatusField data =
     (case data of
        Some (JStr value) \<Rightarrow> normalizeWalStatus value
      | Some (JObj ((k, v) # kvs)) \<Rightarrow> normalizeWalStatus k
      | _ \<Rightarrow> [])"

definition marshalWalStatusField :: "string \<Rightarrow> string" where
  "marshalWalStatusField status =
     (let s = normalizeWalStatus status in
      if s = ''intent'' then ''Intent''
      else if s = ''executing'' then ''Executing''
      else if s = ''committed'' \<or> s = ''completed'' then ''Committed''
      else if s = ''failed'' then ''Failed''
      else status)"

definition WalEntry_MarshalJSON :: "WalEntry \<Rightarrow> walEntryJSON" where
  "WalEntry_MarshalJSON e =
     \<lparr>wj_EntryID = we_EntryID e, wj_TaskID = we_TaskID e, wj_StepIndex = we_StepIndex e,
      wj_StepType = we_StepType e, wj_Status = Some (JStr (marshalWalStatusField (we_Status e))),
      wj_InputDigest = Some (marshalHexByteArrayField (we_InputDigest e) 32),
      wj_OutputDigest = map_option (\<lambda>d. marshalHexByteArrayField d 32) (we_OutputDigest e),
      wj_TimestampMs = we_TimestampMs e, wj_RuntimeID = we_RuntimeID e,
      wj_Signature = map_option marshalBinaryArrayField (we_Signature e)\<rparr>"

definition WalEntry_UnmarshalJSON :: "walEntryJSON \<Rightarrow> wal_error + WalEntry" where
  "WalEntry_UnmarshalJSON d =
     (case unmarshalHexByteArrayField (wj_InputDigest d) 32 of Inl e \<Rightarrow> Inl e
      | Inr inputDigest \<Rightarrow>
     (case unmarshalOptionalHexByteArrayField (wj_OutputDigest d) 32 of Inl e \<Rightarrow> Inl e
      | Inr outputDigest \<Rightarrow>
     (case unmarshalOptionalBinaryArrayField (wj_Signature d) of Inl e \<Rightarrow> Inl e
      | Inr signature \<Rightarrow>
         Inr \<lparr>we_EntryID = wj_EntryID d, we_TaskID = wj_TaskID d, we_StepIndex = wj_StepIndex d,
              we_StepType = wj_StepType d, we_Status = unmarshalWalStatusField (wj_Status d),
              we_InputDigest = inputDigest, we_OutputDigest = outputDigest,
              we_TimestampMs = wj_TimestampMs d, we_RuntimeID = wj_RuntimeID d,
              we_Signature = signature\<rparr>)))"

text \<open>A checkpoint as it is stored in a \<^verbatim>\<open>JSONB\<close> column: \<^verbatim>\<open>json.Marshal\<close> of the payload, with
  its WAL entries in wire form.\<close>

record StoredCheckpoint =
  sc_TaskID :: uuid
  sc_ResumeToken :: ResumeToken
  sc_WalEntries :: "walEntryJSON list"
  sc_Metadata :: "raw option"
  sc_CapturedAt :: gotime

definition marshalCheckpoint :: "CheckpointPayload \<Rightarrow> StoredCheckpoint" where
  "marshalCheckpoint cp = \<lparr>sc_TaskID = cp_TaskID cp, sc_ResumeToken = cp_ResumeToken cp,
     sc_WalEntries = map WalEntry_MarshalJSON (cp_WalEntries cp),
     sc_Metadata = map_option jsonb_column (cp_Metadata cp), sc_CapturedAt = cp_CapturedAt cp\<rparr>"

fun unmarshalEntries :: "walEntryJSON list \<Rightarrow> WalEntry list option" where
  "unmarshalEntries [] = Some []"
| "unmarshalEntries (d # ds) =
     (case WalEntry_UnmarshalJSON d of Inl err \<Rightarrow> None
      | Inr e \<Rightarrow> (case unmarshalEntries ds of None \<Rightarrow> None | Some es \<Rightarrow> Some (e # es)))"

definition decodeCheckpointPayload :: "StoredCheckpoint option \<Rightarrow> CheckpointPayload option" where
  "decodeCheckpointPayload cpBytes =
     (case cpBytes of None \<Rightarrow> None
      | Some sc \<Rightarrow> (case unmarshalEntries (sc_WalEntries sc) of None \<Rightarrow> None
          | Some es \<Rightarrow> Some \<lparr>cp_TaskID = sc_TaskID sc, cp_ResumeToken = sc_ResumeToken sc,
              cp_WalEntries = es, cp_Metadata = sc_Metadata sc, cp_CapturedAt = sc_CapturedAt sc\<rparr>))"

definition walEntriesEquivalent :: "WalEntry \<Rightarrow> WalEntry \<Rightarrow> bool" where
  "walEntriesEquivalent a b \<longleftrightarrow> WalEntry_MarshalJSON a = WalEntry_MarshalJSON b"

section \<open>Predicates on checkpoints\<close>

text \<open>A nil pointer is \<open>None\<close>.\<close>

definition TaskCheckpointAdvances :: "CheckpointPayload option \<Rightarrow> CheckpointPayload option \<Rightarrow> bool" where
  "TaskCheckpointAdvances current nxt =
     (case nxt of None \<Rightarrow> False
      | Some n \<Rightarrow> (case current of None \<Rightarrow> True | Some c \<Rightarrow> cp_last n > cp_last c))"

fun watermark_loop :: "uint32 \<Rightarrow> WalEntry list \<Rightarrow> uint32 \<Rightarrow> bool" where
  "watermark_loop lastStep [] maxStep = (maxStep = lastStep)"
| "watermark_loop lastStep (e # es) maxStep =
     (if we_StepIndex e > lastStep then False
      else watermark_loop lastStep es (if we_StepIndex e > maxStep then we_StepIndex e else maxStep))"

definition TaskCheckpointWatermarkConsistent :: "CheckpointPayload option \<Rightarrow> bool" where
  "TaskCheckpointWatermarkConsistent cpo =
     (case cpo of None \<Rightarrow> False
      | Some cp \<Rightarrow> if cp_WalEntries cp = [] then cp_last cp = 0
                  else watermark_loop (cp_last cp) (cp_WalEntries cp) 0)"

definition TaskCheckpointEntriesBelongToTask :: "CheckpointPayload option \<Rightarrow> bool" where
  "TaskCheckpointEntriesBelongToTask cpo =
     (case cpo of None \<Rightarrow> False
      | Some cp \<Rightarrow> cp_TaskID cp \<noteq> uuid_Nil
          \<and> list_all (\<lambda>e. we_TaskID e = cp_TaskID cp) (cp_WalEntries cp))"

definition TaskCheckpointEntriesHaveStableIDs :: "CheckpointPayload option \<Rightarrow> bool" where
  "TaskCheckpointEntriesHaveStableIDs cpo =
     (case cpo of None \<Rightarrow> False
      | Some cp \<Rightarrow> list_all (\<lambda>e. we_EntryID e \<noteq> uuid_Nil) (cp_WalEntries cp))"

definition TaskRecoveryCheckpointUsable :: "uuid \<Rightarrow> CheckpointPayload option \<Rightarrow> bool" where
  "TaskRecoveryCheckpointUsable taskID cpo =
     (case cpo of None \<Rightarrow> False
      | Some cp \<Rightarrow> taskID \<noteq> uuid_Nil \<and> cp_TaskID cp = taskID
          \<and> TaskCheckpointWatermarkConsistent cpo \<and> TaskCheckpointEntriesBelongToTask cpo
          \<and> TaskCheckpointEntriesHaveStableIDs cpo)"

section \<open>The cumulative recovery checkpoint\<close>

datatype cumulative_error =
    CumTaskIDRequired
  | CumCheckpointTaskMismatch
  | CumEntryTaskMismatch
  | CumConflictingStep uint32
  | CumLatestNotUsable
  | CumMissingStep uint32

fun cum_entries :: "uuid \<Rightarrow> WalEntry list \<Rightarrow> (uint32 \<rightharpoonup> WalEntry) \<Rightarrow>
    cumulative_error + (uint32 \<rightharpoonup> WalEntry)" where
  "cum_entries taskID [] m = Inr m"
| "cum_entries taskID (e # es) m =
     (if we_TaskID e \<noteq> taskID then Inl CumEntryTaskMismatch
      else if normalizeWalStatus (we_Status e) \<noteq> ''committed'' then cum_entries taskID es m
      else (case m (we_StepIndex e) of
          Some existing \<Rightarrow>
            if walEntriesEquivalent existing e then cum_entries taskID es m
            else Inl (CumConflictingStep (we_StepIndex e))
        | None \<Rightarrow> cum_entries taskID es (m(we_StepIndex e \<mapsto> e))))"

fun cum_checkpoints :: "uuid \<Rightarrow> CheckpointPayload option list \<Rightarrow> CheckpointPayload option \<Rightarrow>
    (uint32 \<rightharpoonup> WalEntry) \<Rightarrow>
    cumulative_error + (CheckpointPayload option \<times> (uint32 \<rightharpoonup> WalEntry))" where
  "cum_checkpoints taskID [] latest m = Inr (latest, m)"
| "cum_checkpoints taskID (None # cps) latest m = cum_checkpoints taskID cps latest m"
| "cum_checkpoints taskID (Some cp # cps) latest m =
     (if cp_TaskID cp \<noteq> taskID then Inl CumCheckpointTaskMismatch
      else let latest' = (if latest = None \<or> TaskCheckpointAdvances latest (Some cp)
                          then Some cp else latest)
           in (case cum_entries taskID (cp_WalEntries cp) m of
                 Inl err \<Rightarrow> Inl err
               | Inr m' \<Rightarrow> cum_checkpoints taskID cps latest' m'))"

text \<open>The loop over \<open>step = 0 .. lastStep\<close> in 32-bit arithmetic: the explicit \<^verbatim>\<open>break\<close> at the
  largest value is what makes it end when \<open>lastStep\<close> is that value.\<close>

function cum_collect :: "(uint32 \<rightharpoonup> WalEntry) \<Rightarrow> uint32 \<Rightarrow> uint32 \<Rightarrow> WalEntry list \<Rightarrow>
    cumulative_error + WalEntry list" where
  "cum_collect m lastStep step entries =
     (if step \<le> lastStep then
        (case m step of
           None \<Rightarrow> Inl (CumMissingStep step)
         | Some entry \<Rightarrow>
             if step = - 1 then Inr (entries @ [entry])
             else cum_collect m lastStep (step + 1) (entries @ [entry]))
      else Inr entries)"
  by pat_completeness auto
termination
proof (relation "measure (\<lambda>(m, lastStep, step, entries). 2 ^ 32 - unat step)")
  fix m :: "uint32 \<rightharpoonup> WalEntry" and lastStep step :: uint32 and entries :: "WalEntry list" and entry
  assume "step \<noteq> - 1"
  then have "unat (step + 1) = Suc (unat step)" by (rule unat_plus_one)
  moreover have "unat step < 2 ^ 32" using unsigned_less [of step, where ?'a = nat] by simp
  ultimately show "((m, lastStep, step + 1, entries @ [entry]), m, lastStep, step, entries)
      \<in> measure (\<lambda>(m, lastStep, step, entries). 2 ^ 32 - unat step)" by simp
qed simp

declare cum_collect.simps [simp del]

definition BuildCumulativeRecoveryCheckpoint ::
  "uuid \<Rightarrow> CheckpointPayload option list \<Rightarrow> cumulative_error + CheckpointPayload option" where
  "BuildCumulativeRecoveryCheckpoint taskID checkpoints =
     (if taskID = uuid_Nil then Inl CumTaskIDRequired
      else if checkpoints = [] then Inr None
      else case cum_checkpoints taskID checkpoints None Map.empty of
        Inl err \<Rightarrow> Inl err
      | Inr (None, m) \<Rightarrow> Inr None
      | Inr (Some latest, m) \<Rightarrow>
          if \<not> TaskRecoveryCheckpointUsable taskID (Some latest) then Inl CumLatestNotUsable
          else case cum_collect m (cp_last latest) 0 [] of
            Inl err \<Rightarrow> Inl err
          | Inr entries \<Rightarrow>
              Inr (Some \<lparr>cp_TaskID = cp_TaskID latest, cp_ResumeToken = cp_ResumeToken latest,
                        cp_WalEntries = sort_key we_StepIndex entries,
                        cp_Metadata = cp_Metadata latest, cp_CapturedAt = cp_CapturedAt latest\<rparr>))"

definition selectRecoveryCheckpoint ::
  "CheckpointPayload option \<Rightarrow> CheckpointPayload option \<Rightarrow> CheckpointPayload option" where
  "selectRecoveryCheckpoint primary secondary =
     (if primary = None then secondary
      else if secondary = None then primary
      else if TaskCheckpointAdvances primary secondary then secondary else primary)"

definition checkpointDigest :: "CheckpointPayload option \<Rightarrow> string" where
  "checkpointDigest cpo = (case cpo of None \<Rightarrow> [] | Some cp \<Rightarrow> rt_CheckpointDigest (cp_ResumeToken cp))"

definition checkpointLastCommittedStep :: "CheckpointPayload option \<Rightarrow> nat option" where
  "checkpointLastCommittedStep cpo = map_option (\<lambda>cp. unat (cp_last cp)) cpo"

text \<open>All steps of a task over its checkpoint rows, the first entry with an id wins.\<close>

fun dedup_entries :: "uuid list \<Rightarrow> WalEntry list \<Rightarrow> WalEntry list" where
  "dedup_entries seen [] = []"
| "dedup_entries seen (e # es) =
     (if we_EntryID e \<in> set seen then dedup_entries seen es
      else e # dedup_entries (we_EntryID e # seen) es)"

definition taskStepsOf :: "CheckpointPayload list \<Rightarrow> WalEntry list" where
  "taskStepsOf cps = sort_key we_StepIndex (dedup_entries [] (concat (map cp_WalEntries cps)))"

section \<open>Facts on stored checkpoints\<close>

lemma decode_some:
  "decodeCheckpointPayload (Some sc) = Some cp \<Longrightarrow>
     cp_TaskID cp = sc_TaskID sc \<and> cp_ResumeToken cp = sc_ResumeToken sc"
  by (auto simp: decodeCheckpointPayload_def split: option.splits)

lemma marshalCheckpoint_simps [simp]:
  "sc_TaskID (marshalCheckpoint cp) = cp_TaskID cp"
  "sc_ResumeToken (marshalCheckpoint cp) = cp_ResumeToken cp"
  by (simp_all add: marshalCheckpoint_def)

text \<open>Every wire form that \<^verbatim>\<open>MarshalJSON\<close> writes can be read: the text fields are JSON strings.\<close>

lemma marshalHex_string: "\<exists>s. marshalHexByteArrayField v n = JStr s"
  by (auto simp: marshalHexByteArrayField_def Let_def split: option.splits)

lemma marshalBinary_string: "\<exists>s. marshalBinaryArrayField v = JStr s"
  by (auto simp: marshalBinaryArrayField_def split: option.splits)

lemma unmarshalHex_string: "\<exists>v. unmarshalHexByteArrayField (Some (JStr s)) n = Inr v"
  by (auto simp: unmarshalHexByteArrayField_def split: option.splits)

lemma unmarshal_marshal_entry: "\<exists>e'. WalEntry_UnmarshalJSON (WalEntry_MarshalJSON e) = Inr e'"
proof -
  obtain i where i: "unmarshalHexByteArrayField (Some (marshalHexByteArrayField (we_InputDigest e) 32)) 32 = Inr i"
    using marshalHex_string unmarshalHex_string by metis
  obtain out where out: "unmarshalOptionalHexByteArrayField
      (map_option (\<lambda>d. marshalHexByteArrayField d 32) (we_OutputDigest e)) 32 = Inr out"
  proof (cases "we_OutputDigest e")
    case (Some d)
    obtain s where s: "marshalHexByteArrayField d 32 = JStr s" using marshalHex_string by blast
    obtain v where "unmarshalHexByteArrayField (Some (JStr s)) 32 = Inr v"
      using unmarshalHex_string by blast
    with s Some that show ?thesis by (simp add: unmarshalOptionalHexByteArrayField_def)
  qed (use that in \<open>simp add: unmarshalOptionalHexByteArrayField_def\<close>)
  obtain sig where "unmarshalOptionalBinaryArrayField
      (map_option marshalBinaryArrayField (we_Signature e)) = Inr sig"
  proof (cases "we_Signature e")
    case (Some d)
    obtain s where "marshalBinaryArrayField d = JStr s" using marshalBinary_string by blast
    with Some that show ?thesis by (simp add: unmarshalOptionalBinaryArrayField_def)
  qed (use that in \<open>simp add: unmarshalOptionalBinaryArrayField_def\<close>)
  with i out show ?thesis by (simp add: WalEntry_UnmarshalJSON_def WalEntry_MarshalJSON_def)
qed

lemma unmarshalEntries_marshal: "\<exists>es'. unmarshalEntries (map WalEntry_MarshalJSON es) = Some es'"
proof (induction es)
  case (Cons e es)
  with unmarshal_marshal_entry [of e] show ?case by auto
qed simp

lemma decode_marshal:
  "\<exists>cp'. decodeCheckpointPayload (Some (marshalCheckpoint cp)) = Some cp'
     \<and> cp_TaskID cp' = cp_TaskID cp \<and> cp_ResumeToken cp' = cp_ResumeToken cp"
  using unmarshalEntries_marshal [of "cp_WalEntries cp"]
  by (auto simp: decodeCheckpointPayload_def marshalCheckpoint_def)

section \<open>Facts on the predicates\<close>

lemma watermark_loop_iff:
  "m \<le> l \<Longrightarrow> watermark_loop l es m \<longleftrightarrow>
     (\<forall>e\<in>set es. we_StepIndex e \<le> l) \<and> (m = l \<or> (\<exists>e\<in>set es. we_StepIndex e = l))"
  by (induction l es m rule: watermark_loop.induct) (auto simp: not_less)

lemma watermark_iff:
  "TaskCheckpointWatermarkConsistent (Some cp) \<longleftrightarrow>
     (if cp_WalEntries cp = [] then cp_last cp = 0
      else (\<forall>e\<in>set (cp_WalEntries cp). we_StepIndex e \<le> cp_last cp)
         \<and> (\<exists>e\<in>set (cp_WalEntries cp). we_StepIndex e = cp_last cp))"
proof (cases "cp_WalEntries cp = []")
  case False
  have "(\<exists>e\<in>set (cp_WalEntries cp). we_StepIndex e = cp_last cp)"
    if "\<forall>e\<in>set (cp_WalEntries cp). we_StepIndex e \<le> cp_last cp" "0 = cp_last cp"
    using that hd_in_set [OF False] by fastforce
  with False show ?thesis
    by (auto simp: TaskCheckpointWatermarkConsistent_def watermark_loop_iff)
qed (simp add: TaskCheckpointWatermarkConsistent_def)

lemma usable_iff:
  "TaskRecoveryCheckpointUsable taskID cpo \<longleftrightarrow>
     (\<exists>cp. cpo = Some cp \<and> taskID \<noteq> uuid_Nil \<and> cp_TaskID cp = taskID
        \<and> TaskCheckpointWatermarkConsistent cpo
        \<and> (\<forall>e\<in>set (cp_WalEntries cp). we_TaskID e = taskID \<and> we_EntryID e \<noteq> uuid_Nil))"
  by (auto simp: TaskRecoveryCheckpointUsable_def TaskCheckpointEntriesBelongToTask_def
      TaskCheckpointEntriesHaveStableIDs_def list_all_iff split: option.splits)

section \<open>Facts on the cumulative checkpoint\<close>

definition committed_entry :: "uuid \<Rightarrow> WalEntry \<Rightarrow> bool" where
  "committed_entry taskID e \<longleftrightarrow> we_TaskID e = taskID \<and> normalizeWalStatus (we_Status e) = ''committed''"

definition cum_inv :: "uuid \<Rightarrow> WalEntry set \<Rightarrow> (uint32 \<rightharpoonup> WalEntry) \<Rightarrow> bool" where
  "cum_inv taskID E m \<longleftrightarrow> (\<forall>step e. m step = Some e \<longrightarrow>
     e \<in> E \<and> we_StepIndex e = step \<and> committed_entry taskID e)"

lemma cum_inv_mono: "cum_inv taskID E m \<Longrightarrow> E \<subseteq> E' \<Longrightarrow> cum_inv taskID E' m"
  by (auto simp: cum_inv_def)

lemma cum_entries_Cons:
  "cum_entries taskID (e # es) m = Inr m' \<longleftrightarrow> we_TaskID e = taskID \<and>
     (if \<not> committed_entry taskID e then cum_entries taskID es m = Inr m'
      else case m (we_StepIndex e) of
          None \<Rightarrow> cum_entries taskID es (m(we_StepIndex e \<mapsto> e)) = Inr m'
        | Some x \<Rightarrow> walEntriesEquivalent x e \<and> cum_entries taskID es m = Inr m')"
  by (simp add: committed_entry_def split: option.split)

declare cum_entries.simps(2) [simp del]

lemma cum_entries_step:
  assumes "cum_entries taskID (e # es) m = Inr m'"
  obtains m1 where "we_TaskID e = taskID" "cum_entries taskID es m1 = Inr m'" "m \<subseteq>\<^sub>m m1"
    "committed_entry taskID e \<longrightarrow> (\<exists>x. m1 (we_StepIndex e) = Some x \<and> walEntriesEquivalent x e)"
    "m1 = m \<or> committed_entry taskID e \<and> m1 = m(we_StepIndex e \<mapsto> e)"
proof (rule that [of "if committed_entry taskID e \<and> m (we_StepIndex e) = None
    then m(we_StepIndex e \<mapsto> e) else m"])
qed (use assms in \<open>auto simp: cum_entries_Cons map_le_def walEntriesEquivalent_def
    split: if_split_asm option.split_asm\<close>)

lemma cum_entries_inv:
  "cum_entries taskID es m = Inr m' \<Longrightarrow> cum_inv taskID E m \<Longrightarrow> cum_inv taskID (E \<union> set es) m'"
proof (induction es arbitrary: E m)
  case (Cons e es)
  from Cons.prems(1) obtain m1 where m1: "cum_entries taskID es m1 = Inr m'"
    and "m1 = m \<or> committed_entry taskID e \<and> m1 = m(we_StepIndex e \<mapsto> e)"
    by (rule cum_entries_step)
  then have "cum_inv taskID (insert e E) m1" using Cons.prems(2)
    by (auto simp: cum_inv_def split: if_splits)
  with m1 have "cum_inv taskID (insert e E \<union> set es) m'" by (rule Cons.IH)
  then show ?case by simp
qed simp

text \<open>No committed entry is lost: each is represented at its step by an equivalent one.\<close>

lemma cum_entries_keeps: "cum_entries taskID es m = Inr m' \<Longrightarrow> m \<subseteq>\<^sub>m m'"
  by (induction es arbitrary: m) (auto elim!: cum_entries_step dest: map_le_trans)

lemma cum_entries_task: "cum_entries taskID es m = Inr m' \<Longrightarrow> e \<in> set es \<Longrightarrow> we_TaskID e = taskID"
proof (induction es arbitrary: m)
  case (Cons a es)
  from Cons.prems(1) obtain m1 where "we_TaskID a = taskID" "cum_entries taskID es m1 = Inr m'"
    by (rule cum_entries_step)
  with Cons show ?case by auto
qed simp

lemma map_le_Some: "m \<subseteq>\<^sub>m m' \<Longrightarrow> m k = Some x \<Longrightarrow> m' k = Some x"
  by (metis domI map_le_def)

lemma cum_entries_represents:
  "cum_entries taskID es m = Inr m' \<Longrightarrow> e \<in> set es \<Longrightarrow> committed_entry taskID e \<Longrightarrow>
     \<exists>x. m' (we_StepIndex e) = Some x \<and> walEntriesEquivalent x e"
proof (induction es arbitrary: m)
  case (Cons a es)
  from Cons.prems(1) obtain m1 where m1: "cum_entries taskID es m1 = Inr m'"
    "committed_entry taskID a \<longrightarrow> (\<exists>x. m1 (we_StepIndex a) = Some x \<and> walEntriesEquivalent x a)"
    by (rule cum_entries_step)
  then show ?case
    using Cons.IH [OF m1(1)] Cons.prems(2,3) map_le_Some [OF cum_entries_keeps [OF m1(1)]] by auto
qed simp

lemma cum_checkpoints_Some:
  assumes "cum_checkpoints taskID (Some cp # cps) latest m = Inr r"
  obtains m1 where "cp_TaskID cp = taskID" "cum_entries taskID (cp_WalEntries cp) m = Inr m1"
    "cum_checkpoints taskID cps
       (if latest = None \<or> TaskCheckpointAdvances latest (Some cp) then Some cp else latest) m1 = Inr r"
  using assms by (simp add: Let_def split: if_split_asm sum.split_asm)

declare cum_checkpoints.simps(3) [simp del]

definition checkpoint_entries :: "CheckpointPayload option list \<Rightarrow> WalEntry set" where
  "checkpoint_entries cps = {e. \<exists>cp. Some cp \<in> set cps \<and> e \<in> set (cp_WalEntries cp)}"

lemma checkpoint_entries_simps [simp]:
  "checkpoint_entries [] = {}"
  "checkpoint_entries (None # cps) = checkpoint_entries cps"
  "checkpoint_entries (Some cp # cps) = set (cp_WalEntries cp) \<union> checkpoint_entries cps"
  by (auto simp: checkpoint_entries_def)

lemma cum_checkpoints_inv:
  "cum_checkpoints taskID cps latest m = Inr (latest', m') \<Longrightarrow> cum_inv taskID E m \<Longrightarrow>
     cum_inv taskID (E \<union> checkpoint_entries cps) m'"
proof (induction cps arbitrary: E latest m)
  case (Cons c cps)
  show ?case
  proof (cases c)
    case (Some cp)
    with Cons.prems(1) obtain m1 n where m1: "cum_entries taskID (cp_WalEntries cp) m = Inr m1"
      and n: "cum_checkpoints taskID cps n m1 = Inr (latest', m')"
      by (auto elim: cum_checkpoints_Some)
    have "cum_inv taskID (E \<union> set (cp_WalEntries cp) \<union> checkpoint_entries cps) m'"
      by (rule Cons.IH [OF n cum_entries_inv [OF m1 Cons.prems(2)]])
    then show ?thesis by (simp add: Some Un_assoc)
  qed (use Cons in auto)
qed simp

lemma cum_checkpoints_keeps:
  "cum_checkpoints taskID cps latest m = Inr (latest', m') \<Longrightarrow> m \<subseteq>\<^sub>m m'"
proof (induction cps arbitrary: latest m)
  case (Cons c cps)
  then show ?case
    by (cases c) (auto elim!: cum_checkpoints_Some dest!: cum_entries_keeps intro: map_le_trans)
qed simp

lemma cum_checkpoints_represents:
  "cum_checkpoints taskID cps latest m = Inr (latest', m') \<Longrightarrow> e \<in> checkpoint_entries cps \<Longrightarrow>
     committed_entry taskID e \<Longrightarrow> \<exists>x. m' (we_StepIndex e) = Some x \<and> walEntriesEquivalent x e"
proof (induction cps arbitrary: latest m)
  case (Cons c cps)
  show ?case
  proof (cases c)
    case (Some cp)
    with Cons.prems(1) obtain m1 n where m1: "cum_entries taskID (cp_WalEntries cp) m = Inr m1"
      and n: "cum_checkpoints taskID cps n m1 = Inr (latest', m')"
      by (auto elim: cum_checkpoints_Some)
    show ?thesis
      using Cons.IH [OF n _ Cons.prems(3)] Cons.prems(2) Some
        cum_entries_represents [OF m1 _ Cons.prems(3)] map_le_Some [OF cum_checkpoints_keeps [OF n]]
      by auto
  qed (use Cons in auto)
qed simp

lemma cum_checkpoints_latest:
  "cum_checkpoints taskID cps latest m = Inr (latest', m') \<Longrightarrow>
     (\<forall>l. latest = Some l \<longrightarrow> cp_TaskID l = taskID) \<Longrightarrow>
     (latest' = None \<longleftrightarrow> latest = None \<and> (\<forall>cp. Some cp \<notin> set cps)) \<and>
     (\<forall>l. latest' = Some l \<longrightarrow> cp_TaskID l = taskID \<and> (latest = Some l \<or> Some l \<in> set cps)
        \<and> (\<forall>cp. Some cp \<in> set cps \<or> latest = Some cp \<longrightarrow> cp_last cp \<le> cp_last l))"
proof (induction taskID cps latest m rule: cum_checkpoints.induct)
  case (3 taskID cp cps latest m)
  from "3.prems"(1) obtain m1 where m1: "cum_entries taskID (cp_WalEntries cp) m = Inr m1"
    and tid: "cp_TaskID cp = taskID" by (rule cum_checkpoints_Some)
  define n where "n = (if latest = None \<or> TaskCheckpointAdvances latest (Some cp) then Some cp else latest)"
  have rec: "cum_checkpoints taskID cps n m1 = Inr (latest', m')"
    using "3.prems"(1) m1 tid by (simp add: n_def cum_checkpoints.simps(3))
  have nt: "\<forall>l. n = Some l \<longrightarrow> cp_TaskID l = taskID" using "3.prems"(2) tid by (auto simp: n_def)
  have ih: "(latest' = None \<longleftrightarrow> n = None \<and> (\<forall>cp. Some cp \<notin> set cps)) \<and>
     (\<forall>l. latest' = Some l \<longrightarrow> cp_TaskID l = taskID \<and> (n = Some l \<or> Some l \<in> set cps)
        \<and> (\<forall>cp. Some cp \<in> set cps \<or> n = Some cp \<longrightarrow> cp_last cp \<le> cp_last l))"
    using "3.IH" [OF _ n_def m1 rec nt] tid by simp
  from ih obtain l where l: "latest' = Some l" by (cases latest') (auto simp: n_def split: if_splits)
  have ge: "\<And>c. c = cp \<or> latest = Some c \<Longrightarrow> \<exists>d. n = Some d \<and> cp_last c \<le> cp_last d"
    by (auto simp: n_def TaskCheckpointAdvances_def not_less split: option.splits if_splits)
  have "\<forall>c. Some c \<in> set (Some cp # cps) \<or> latest = Some c \<longrightarrow> cp_last c \<le> cp_last l"
    using ih l ge by (metis insertE list.set(2) option.inject order_trans)
  with ih l show ?case by (auto simp: n_def split: if_splits)
qed auto

lemma cum_collect_Inr:
  "cum_collect m l step acc = Inr es \<Longrightarrow> step \<le> l \<Longrightarrow>
     es = acc @ map (\<lambda>k. the (m (word_of_nat k))) [unat step..<Suc (unat l)]
     \<and> (\<forall>k. step \<le> k \<and> k \<le> l \<longrightarrow> m k \<noteq> None)"
proof (induction m l step acc rule: cum_collect.induct)
  case (1 m l step acc)
  from "1.prems" obtain e where e: "m step = Some e"
    by (subst (asm) cum_collect.simps) (auto split: option.splits)
  have le: "unat step \<le> unat l" using "1.prems"(2) by (simp add: word_le_nat_alt)
  have upt: "[unat step..<Suc (unat l)] = unat step # [Suc (unat step)..<Suc (unat l)]"
    using le by (simp add: upt_conv_Cons)
  show ?case
  proof (cases "step = l")
    case True
    have "es = acc @ [e]"
    proof (cases "step = - 1")
      case True
      with "1.prems" e show ?thesis by (subst (asm) cum_collect.simps) simp
    next
      case False
      then have "\<not> step + 1 \<le> l" using True by (simp add: word_le_nat_alt unat_plus_one)
      then have "cum_collect m l (step + 1) (acc @ [e]) = Inr (acc @ [e])"
        by (subst cum_collect.simps) simp
      with "1.prems" e False show ?thesis by (subst (asm) cum_collect.simps) simp
    qed
    with True e show ?thesis by auto
  next
    case False
    with "1.prems"(2) have lt: "step < l" by simp
    then have n1: "step \<noteq> - 1" and u: "unat (step + 1) = Suc (unat step)"
      by (auto simp: unat_plus_one_less less_not_max)
    from lt u have le1: "step + 1 \<le> l" by (simp add: word_le_nat_alt word_less_nat_alt)
    have rec: "cum_collect m l (step + 1) (acc @ [e]) = Inr es"
      using "1.prems" e n1 by (subst (asm) cum_collect.simps) simp
    have ih: "es = (acc @ [e]) @ map (\<lambda>k. the (m (word_of_nat k))) [unat (step + 1)..<Suc (unat l)]
       \<and> (\<forall>k. step + 1 \<le> k \<and> k \<le> l \<longrightarrow> m k \<noteq> None)"
      by (rule "1.IH" [OF "1.prems"(2) e n1 rec le1])
    have "k = step \<or> step + 1 \<le> k" if "step \<le> k" for k
      using that u by (cases "k = step")
        (auto simp: word_le_nat_alt Suc_le_eq order_le_less dest: unsigned_word_eqI)
    with ih e show ?thesis unfolding upt u by auto
  qed
qed

section \<open>The reconstructed prefix\<close>

text \<open>The steps of a collected list are the counters it was collected for.\<close>

lemma cum_collect_prefix:
  assumes col: "cum_collect m l 0 [] = Inr es" and inv: "cum_inv taskID E m"
  shows "map we_StepIndex es = map word_of_nat [0..<Suc (unat l)]"
    and "\<And>e. e \<in> set es \<Longrightarrow> e \<in> E \<and> committed_entry taskID e"
    and "\<And>k x. m k = Some x \<Longrightarrow> k \<le> l \<Longrightarrow> x \<in> set es"
proof -
  have es: "es = map (\<lambda>k. the (m (word_of_nat k))) [0..<Suc (unat l)]"
    and ne: "\<And>k. k \<le> l \<Longrightarrow> m k \<noteq> None"
    using cum_collect_Inr [OF col] by auto
  have k: "\<exists>x. m (word_of_nat k) = Some x \<and> x \<in> E \<and> we_StepIndex x = word_of_nat k
      \<and> committed_entry taskID x" if "k < Suc (unat l)" for k
  proof -
    from that have "word_of_nat k \<le> l"
      using unat_of_nat_le [of k l] by (simp add: word_le_nat_alt less_Suc_eq_le)
    with ne inv show ?thesis unfolding cum_inv_def by fastforce
  qed
  show "map we_StepIndex es = map word_of_nat [0..<Suc (unat l)]"
    unfolding es map_map comp_def using k by (intro map_cong) fastforce+
  show "e \<in> E \<and> committed_entry taskID e" if "e \<in> set es" for e
  proof -
    from that obtain j where "j < Suc (unat l)" "e = the (m (word_of_nat j))"
      unfolding es by (auto simp del: upt_Suc)
    with k [of j] show ?thesis by auto
  qed
  show "x \<in> set es" if "m j = Some x" "j \<le> l" for j x
    using that unfolding es
    by (auto simp: word_le_nat_alt less_Suc_eq_le simp del: upt_Suc
        intro!: image_eqI [where x = "unat j"])
qed

lemma sorted_steps: "sorted (map word_of_nat [0..<Suc (unat (l :: 'a::len word))] :: 'a word list)"
proof -
  have "word_of_nat i \<le> (word_of_nat j :: 'a word)" if "i \<le> j" "j \<le> unat l" for i j
    using that unat_of_nat_le [of _ l] by (simp add: word_le_nat_alt)
  then show ?thesis by (auto simp: sorted_iff_nth_mono less_Suc_eq_le simp del: upt_Suc)
qed

lemma Build_Some:
  assumes "BuildCumulativeRecoveryCheckpoint taskID cps = Inr (Some cp)"
  obtains latest m where "taskID \<noteq> uuid_Nil"
    "cum_checkpoints taskID cps None Map.empty = Inr (Some latest, m)"
    "TaskRecoveryCheckpointUsable taskID (Some latest)"
    "cum_collect m (cp_last latest) 0 [] = Inr (cp_WalEntries cp)"
    "cp = latest\<lparr>cp_WalEntries := cp_WalEntries cp\<rparr>"
proof -
  from assms obtain latest m es where l: "taskID \<noteq> uuid_Nil"
    "cum_checkpoints taskID cps None Map.empty = Inr (Some latest, m)"
    "TaskRecoveryCheckpointUsable taskID (Some latest)"
    "cum_collect m (cp_last latest) 0 [] = Inr es"
    "cp = \<lparr>cp_TaskID = cp_TaskID latest, cp_ResumeToken = cp_ResumeToken latest,
           cp_WalEntries = sort_key we_StepIndex es,
           cp_Metadata = cp_Metadata latest, cp_CapturedAt = cp_CapturedAt latest\<rparr>"
    by (auto simp: BuildCumulativeRecoveryCheckpoint_def split: if_splits sum.splits option.splits)
  have "cum_inv taskID {} Map.empty" by (simp add: cum_inv_def)
  from cum_checkpoints_inv [OF l(2) this] have "cum_inv taskID (checkpoint_entries cps) m" by simp
  from cum_collect_prefix(1) [OF l(4) this] have "sorted (map we_StepIndex es)"
    using sorted_steps [of "cp_last latest"] by simp
  then have "sort_key we_StepIndex es = es" by (rule sort_key_id_if_sorted)
  with l that show ?thesis by simp
qed

lemma cumulative_checkpoint_facts:
  assumes "BuildCumulativeRecoveryCheckpoint taskID cps = Inr (Some cp)"
  shows "cp_TaskID cp = taskID"
    and "map we_StepIndex (cp_WalEntries cp) = map word_of_nat [0..<Suc (unat (cp_last cp))]"
    and "\<forall>e\<in>set (cp_WalEntries cp). e \<in> checkpoint_entries cps \<and> committed_entry taskID e"
    and "\<forall>e\<in>checkpoint_entries cps. committed_entry taskID e \<and> we_StepIndex e \<le> cp_last cp \<longrightarrow>
           (\<exists>x\<in>set (cp_WalEntries cp). we_StepIndex x = we_StepIndex e \<and> walEntriesEquivalent x e)"
    and "\<exists>latest. Some latest \<in> set cps \<and> cp_ResumeToken cp = cp_ResumeToken latest"
    and "\<forall>c. Some c \<in> set cps \<longrightarrow> cp_last c \<le> cp_last cp"
proof -
  from assms obtain latest m where b: "taskID \<noteq> uuid_Nil"
    "cum_checkpoints taskID cps None Map.empty = Inr (Some latest, m)"
    "cum_collect m (cp_last latest) 0 [] = Inr (cp_WalEntries cp)"
    "cp = latest\<lparr>cp_WalEntries := cp_WalEntries cp\<rparr>" by (rule Build_Some)
  from b(4) have same: "cp_TaskID cp = cp_TaskID latest" "cp_ResumeToken cp = cp_ResumeToken latest"
    by (metis CheckpointPayload.select_convs(1,2) CheckpointPayload.update_convs(3)
        CheckpointPayload.surjective)+
  have latest: "cp_TaskID latest = taskID" "Some latest \<in> set cps"
    "\<forall>c. Some c \<in> set cps \<longrightarrow> cp_last c \<le> cp_last latest"
    using cum_checkpoints_latest [OF b(2)] by auto
  have "cum_inv taskID {} Map.empty" by (simp add: cum_inv_def)
  from cum_checkpoints_inv [OF b(2) this] have inv: "cum_inv taskID (checkpoint_entries cps) m" by simp
  note pre = cum_collect_prefix [OF b(3) inv]
  show "cp_TaskID cp = taskID" "\<exists>latest. Some latest \<in> set cps \<and> cp_ResumeToken cp = cp_ResumeToken latest"
    "\<forall>c. Some c \<in> set cps \<longrightarrow> cp_last c \<le> cp_last cp"
    using same latest by auto
  show "map we_StepIndex (cp_WalEntries cp) = map word_of_nat [0..<Suc (unat (cp_last cp))]"
    "\<forall>e\<in>set (cp_WalEntries cp). e \<in> checkpoint_entries cps \<and> committed_entry taskID e"
    using pre(1,2) same by auto
  show "\<forall>e\<in>checkpoint_entries cps. committed_entry taskID e \<and> we_StepIndex e \<le> cp_last cp \<longrightarrow>
     (\<exists>x\<in>set (cp_WalEntries cp). we_StepIndex x = we_StepIndex e \<and> walEntriesEquivalent x e)"
    using cum_checkpoints_represents [OF b(2)] pre(3) inv same unfolding cum_inv_def by metis
qed

text \<open>C6: The cumulative recovery checkpoint is exactly the committed prefix. When the
  reconstruction succeeds, its entries are one committed entry of the task for each step
  0, 1, ..., last committed step, in order, each taken from the given checkpoints; no committed
  entry of the prefix is lost or contradicted (each one in any of the checkpoints is equivalent to
  the one kept for its step); and the resume token is the one of the furthest checkpoint.\<close>

theorem cumulative_checkpoint_sound:
  assumes "BuildCumulativeRecoveryCheckpoint taskID cps = Inr (Some cp)"
  shows "cp_TaskID cp = taskID
    \<and> map we_StepIndex (cp_WalEntries cp) = map word_of_nat [0..<Suc (unat (cp_last cp))]
    \<and> (\<forall>e\<in>set (cp_WalEntries cp). e \<in> checkpoint_entries cps \<and> committed_entry taskID e)
    \<and> (\<forall>e\<in>checkpoint_entries cps. committed_entry taskID e \<and> we_StepIndex e \<le> cp_last cp \<longrightarrow>
         (\<exists>x\<in>set (cp_WalEntries cp). we_StepIndex x = we_StepIndex e \<and> walEntriesEquivalent x e))
    \<and> (\<exists>latest. Some latest \<in> set cps \<and> cp_ResumeToken cp = cp_ResumeToken latest)
    \<and> (\<forall>c. Some c \<in> set cps \<longrightarrow> cp_last c \<le> cp_last cp)"
  using cumulative_checkpoint_facts [OF assms] by (intro conjI)

text \<open>Two delta checkpoints of one task, as a runtime that has finished its first two steps
  reports them.\<close>

definition sample_entry :: "uint32 \<Rightarrow> WalEntry" where
  "sample_entry i = \<lparr>we_EntryID = 7, we_TaskID = 5, we_StepIndex = i, we_StepType = JNull,
     we_Status = ''Committed'', we_InputDigest = [], we_OutputDigest = None, we_TimestampMs = 0,
     we_RuntimeID = ''rt'', we_Signature = None\<rparr>"

definition sample_checkpoint :: "uint32 \<Rightarrow> CheckpointPayload" where
  "sample_checkpoint i = \<lparr>cp_TaskID = 5, cp_ResumeToken = \<lparr>rt_LastCommittedStep = i,
     rt_CheckpointDigest = [], rt_RuntimeID = ''rt''\<rparr>, cp_WalEntries = [sample_entry i],
     cp_Metadata = None, cp_CapturedAt = 0\<rparr>"

lemma sample_cumulative:
  "BuildCumulativeRecoveryCheckpoint 5 [Some (sample_checkpoint 0), Some (sample_checkpoint 1)] =
     Inr (Some ((sample_checkpoint 1)\<lparr>cp_WalEntries := [sample_entry 0, sample_entry 1]\<rparr>))"
  by code_simp

theorem cumulative_checkpoint_sound_witness:
  "BuildCumulativeRecoveryCheckpoint 5 [Some (sample_checkpoint 0), Some (sample_checkpoint 1)] =
     Inr (Some ((sample_checkpoint 1)\<lparr>cp_WalEntries := [sample_entry 0, sample_entry 1]\<rparr>))
   \<and> cp_TaskID ((sample_checkpoint 1)\<lparr>cp_WalEntries := [sample_entry 0, sample_entry 1]\<rparr>) = 5"
  using sample_cumulative cumulative_checkpoint_sound [OF sample_cumulative, THEN conjunct1]
  by (rule conjI)

section \<open>When the reconstruction succeeds\<close>

definition entries_agree :: "uuid \<Rightarrow> WalEntry set \<Rightarrow> bool" where
  "entries_agree taskID E \<longleftrightarrow> (\<forall>a\<in>E. \<forall>b\<in>E. committed_entry taskID a \<and> committed_entry taskID b
     \<and> we_StepIndex a = we_StepIndex b \<longrightarrow> walEntriesEquivalent a b)"

lemma entries_agree_mono: "entries_agree taskID E \<Longrightarrow> F \<subseteq> E \<Longrightarrow> entries_agree taskID F"
  unfolding entries_agree_def by blast

lemma cum_entries_ok:
  "\<forall>e\<in>set es. we_TaskID e = taskID \<Longrightarrow> cum_inv taskID E m \<Longrightarrow> entries_agree taskID (E \<union> set es) \<Longrightarrow>
     \<exists>m'. cum_entries taskID es m = Inr m'"
proof (induction es arbitrary: E m)
  case (Cons e es)
  define m1 where "m1 = (if committed_entry taskID e \<and> m (we_StepIndex e) = None
    then m(we_StepIndex e \<mapsto> e) else m)"
  have "cum_inv taskID (insert e E) m1"
    using Cons.prems(2) by (auto simp: cum_inv_def m1_def)
  then have "\<exists>m'. cum_entries taskID es m1 = Inr m'"
    using Cons.prems by (intro Cons.IH [of "insert e E"]) auto
  moreover have "walEntriesEquivalent x e"
    if "committed_entry taskID e" "m (we_StepIndex e) = Some x" for x
    using that Cons.prems(2,3) unfolding cum_inv_def entries_agree_def by fastforce
  ultimately show ?case
    using Cons.prems(1) unfolding cum_entries_Cons m1_def by (auto split: if_splits option.split)
qed simp

lemma cum_checkpoints_ok:
  "\<forall>cp. Some cp \<in> set cps \<longrightarrow> cp_TaskID cp = taskID \<Longrightarrow> \<forall>e\<in>checkpoint_entries cps. we_TaskID e = taskID \<Longrightarrow>
     cum_inv taskID E m \<Longrightarrow> entries_agree taskID (E \<union> checkpoint_entries cps) \<Longrightarrow>
     \<exists>r. cum_checkpoints taskID cps latest m = Inr r"
proof (induction cps arbitrary: E latest m)
  case (Cons c cps)
  show ?case
  proof (cases c)
    case (Some cp)
    have agree: "entries_agree taskID (E \<union> set (cp_WalEntries cp))"
      by (rule entries_agree_mono [OF Cons.prems(4)]) (auto simp: Some)
    obtain m1 where m1: "cum_entries taskID (cp_WalEntries cp) m = Inr m1"
      using cum_entries_ok [OF _ Cons.prems(3) agree] Cons.prems(2) Some by auto
    have inv: "cum_inv taskID (E \<union> set (cp_WalEntries cp)) m1"
      by (rule cum_entries_inv [OF m1 Cons.prems(3)])
    have "\<exists>r. cum_checkpoints taskID cps n m1 = Inr r" for n
      using Cons.prems Some by (intro Cons.IH [OF _ _ inv]) (auto simp: Un_assoc)
    with m1 Cons.prems(1) Some show ?thesis by (simp add: cum_checkpoints.simps(3))
  qed (use Cons in auto)
qed simp

lemma cum_collect_ok:
  "(\<And>k. step \<le> k \<Longrightarrow> k \<le> l \<Longrightarrow> m k \<noteq> None) \<Longrightarrow> \<exists>es. cum_collect m l step acc = Inr es"
proof (induction m l step acc rule: cum_collect.induct)
  case (1 m l step acc)
  show ?case
  proof (cases "step \<le> l \<and> step \<noteq> - 1")
    case True
    then obtain e where e: "m step = Some e" using "1.prems" by auto
    have "step \<le> k" if "step + 1 \<le> k" for k
      using that True unat_plus_one [of step] by (simp add: word_le_nat_alt)
    then have "\<exists>es. cum_collect m l (step + 1) (acc @ [e]) = Inr es"
      using True e "1.prems" by (intro "1.IH") auto
    with True e show ?thesis by (subst cum_collect.simps) simp
  next
    case False
    then show ?thesis using "1.prems" [of step]
      by (subst cum_collect.simps) (auto split: option.split)
  qed
qed

text \<open>C9: The reconstruction succeeds whenever it should. If every checkpoint of the task is usable,
  no two of their committed entries contradict each other, and every step up to any reported
  watermark has a committed entry somewhere, then the cumulative checkpoint exists.\<close>

theorem cumulative_checkpoint_complete:
  assumes "Some c \<in> set cps"
    and usable: "\<forall>cp. Some cp \<in> set cps \<longrightarrow> TaskRecoveryCheckpointUsable taskID (Some cp)"
    and agree: "entries_agree taskID (checkpoint_entries cps)"
    and covered: "\<forall>cp k. Some cp \<in> set cps \<and> k \<le> cp_last cp \<longrightarrow>
      (\<exists>e\<in>checkpoint_entries cps. committed_entry taskID e \<and> we_StepIndex e = k)"
  shows "\<exists>cp. BuildCumulativeRecoveryCheckpoint taskID cps = Inr (Some cp)"
proof -
  have tid: "\<forall>cp. Some cp \<in> set cps \<longrightarrow> cp_TaskID cp = taskID" and "taskID \<noteq> uuid_Nil"
    and ents: "\<forall>e\<in>checkpoint_entries cps. we_TaskID e = taskID"
    using usable assms(1) unfolding usable_iff checkpoint_entries_def by auto
  have "cum_inv taskID {} Map.empty" by (simp add: cum_inv_def)
  from cum_checkpoints_ok [OF tid ents this, of None] agree obtain lo m where
    r: "cum_checkpoints taskID cps None Map.empty = Inr (lo, m)" by auto
  from cum_checkpoints_latest [OF r] assms(1) obtain latest where
    l: "lo = Some latest" "Some latest \<in> set cps" by auto
  have "m k \<noteq> None" if "k \<le> cp_last latest" for k
    using covered l(2) that cum_checkpoints_represents [OF r] by blast
  then obtain es where "cum_collect m (cp_last latest) 0 [] = Inr es"
    using cum_collect_ok by blast
  with r l usable \<open>taskID \<noteq> uuid_Nil\<close> assms(1) show ?thesis
    by (auto simp: BuildCumulativeRecoveryCheckpoint_def)
qed

lemma sample_entries:
  "checkpoint_entries [Some (sample_checkpoint 0), Some (sample_checkpoint 1)]
     = {sample_entry 0, sample_entry 1}"
  "committed_entry 5 (sample_entry i)" "we_StepIndex (sample_entry i) = i"
proof -
  have "normalizeWalStatus ''Committed'' = ''committed''" by code_simp
  then show "committed_entry 5 (sample_entry i)"
    by (simp add: committed_entry_def sample_entry_def)
qed (auto simp: sample_checkpoint_def sample_entry_def)

theorem cumulative_checkpoint_complete_witness:
  "\<exists>cp. BuildCumulativeRecoveryCheckpoint 5
     [Some (sample_checkpoint 0), Some (sample_checkpoint 1)] = Inr (Some cp)"
proof (rule cumulative_checkpoint_complete [where c = "sample_checkpoint 0"])
  show "\<forall>cp. Some cp \<in> set [Some (sample_checkpoint 0), Some (sample_checkpoint 1)] \<longrightarrow>
      TaskRecoveryCheckpointUsable 5 (Some cp)"
  proof -
    have "TaskRecoveryCheckpointUsable 5 (Some (sample_checkpoint 0))"
      "TaskRecoveryCheckpointUsable 5 (Some (sample_checkpoint 1))" by code_simp+
    then show ?thesis by auto
  qed
  have k01: "k = 0 \<or> k = 1" if "k \<le> (1 :: uint32)" for k
    using that by (metis word_le_nat_alt unat_1 le_Suc_eq le_0_eq unat_0 One_nat_def word_unat_eq_iff)
  show "\<forall>cp k. Some cp \<in> set [Some (sample_checkpoint 0), Some (sample_checkpoint 1)]
      \<and> k \<le> cp_last cp \<longrightarrow> (\<exists>e\<in>checkpoint_entries [Some (sample_checkpoint 0),
        Some (sample_checkpoint 1)]. committed_entry 5 e \<and> we_StepIndex e = k)"
    unfolding sample_entries by (auto simp: sample_entries sample_checkpoint_def dest: k01)
  show "entries_agree 5 (checkpoint_entries [Some (sample_checkpoint 0), Some (sample_checkpoint 1)])"
    unfolding sample_entries entries_agree_def walEntriesEquivalent_def
    by (auto simp: sample_entries)
qed simp

section \<open>Round trip of a WAL entry\<close>

definition digest32 :: "string \<Rightarrow> bool" where
  \<comment> \<open>the hexadecimal text of 32 bytes\<close>
  "digest32 s \<longleftrightarrow> (case hex_DecodeString s of Some d \<Rightarrow> length d = 32 | None \<Rightarrow> False)"

lemma hex_no_space: "hex_DecodeString s = Some d \<Longrightarrow> c \<in> set s \<Longrightarrow> \<not> go_space c"
  using hex_decode_chars [of s d c] by (auto simp: hex_val_def go_space_def Let_def)

lemma b64_32_not_hex: "length d = 32 \<Longrightarrow> hex_DecodeString (b64_EncodeToString StdEncoding d) = None"
proof (rule ccontr)
  assume d: "length d = 32" and "hex_DecodeString (b64_EncodeToString StdEncoding d) \<noteq> None"
  then obtain ws where "hex_DecodeString (b64_EncodeToString StdEncoding d) = Some ws" by auto
  moreover have "CHR ''='' \<in> set (b64_EncodeToString StdEncoding d)"
    by (rule b64_pad_in) (simp_all add: b64_padded_def d)
  ultimately have "hex_val (CHR ''='') \<noteq> None" by (rule hex_decode_chars)
  then show False by (simp add: hex_val_def)
qed

lemma hex_field_round_trip:
  assumes "digest32 s"
  shows "unmarshalHexByteArrayField (Some (marshalHexByteArrayField s 32)) 32 = Inr (ToLower s)"
    and "marshalHexByteArrayField s 32 \<noteq> JNull"
proof -
  from assms obtain d where d: "hex_DecodeString s = Some d" "length d = 32"
    by (auto simp: digest32_def split: option.splits)
  let ?b = "b64_EncodeToString StdEncoding d"
  have trim: "TrimSpace s = s" "TrimSpace ?b = ?b"
    using hex_no_space [OF d(1)] b64_no_space by (auto intro!: TrimSpace_no_space)
  have ne: "s \<noteq> []" "?b \<noteq> []"
    using hex_decode_length [OF d(1)] d(2) b64_pad_in [of StdEncoding d] by (auto simp: b64_padded_def)
  have m: "marshalHexByteArrayField s 32 = JStr ?b"
    using trim ne d by (simp add: marshalHexByteArrayField_def)
  show "unmarshalHexByteArrayField (Some (marshalHexByteArrayField s 32)) 32 = Inr (ToLower s)"
    using trim ne d hex_encode_decode [OF d(1)] unfolding m
    by (simp add: unmarshalHexByteArrayField_def b64_32_not_hex decodeBase64ByteArrayField_def)
  show "marshalHexByteArrayField s 32 \<noteq> JNull" by (simp add: m)
qed

definition walCanonical :: "WalEntry \<Rightarrow> WalEntry" where
  "walCanonical e = e\<lparr>we_Status := normalizeWalStatus (marshalWalStatusField (we_Status e)),
     we_InputDigest := ToLower (we_InputDigest e),
     we_OutputDigest := map_option ToLower (we_OutputDigest e)\<rparr>"



section \<open>The step log of a task\<close>

lemma dedup_in: "e \<in> set (dedup_entries seen es) \<Longrightarrow> e \<in> set es \<and> we_EntryID e \<notin> set seen"
  by (induction seen es rule: dedup_entries.induct) (auto split: if_splits)

lemma dedup_distinct: "distinct (map we_EntryID (dedup_entries seen es))"
  by (induction seen es rule: dedup_entries.induct) (auto dest: dedup_in)

lemma dedup_ids: "we_EntryID ` set (dedup_entries seen es) = we_EntryID ` set es - set seen"
  by (induction seen es rule: dedup_entries.induct) (auto simp: image_iff)

text \<open>C21: The step log of a task lists every entry of its checkpoints once: entry ids are distinct,
  every id that occurs in a checkpoint occurs in the log, nothing else does, and the log is ordered
  by step.\<close>

theorem task_steps_once_each:
  "distinct (map we_EntryID (taskStepsOf cps))
   \<and> we_EntryID ` set (taskStepsOf cps) = (\<Union>cp\<in>set cps. we_EntryID ` set (cp_WalEntries cp))
   \<and> set (taskStepsOf cps) \<subseteq> (\<Union>cp\<in>set cps. set (cp_WalEntries cp))
   \<and> sorted (map we_StepIndex (taskStepsOf cps))"
proof -
  let ?es = "concat (map cp_WalEntries cps)"
  have "distinct (map we_EntryID (sort_key we_StepIndex (dedup_entries [] ?es)))"
    using dedup_distinct by (simp add: distinct_map)
  moreover have "we_EntryID ` set ?es = (\<Union>cp\<in>set cps. we_EntryID ` set (cp_WalEntries cp))" by auto
  ultimately show ?thesis
    unfolding taskStepsOf_def using dedup_ids [of "[]" ?es] dedup_in [of _ "[]" ?es] by auto
qed

end
