(* ===== verification/Task_Data.thy ===== *)
theory Task_Data
  imports Checkpoints
begin

text \<open>
  The data of the task coordinator: identities, capabilities and permission envelopes
  (\<^verbatim>\<open>coordinator/task_governance.go\<close>), the durable task record with its proof and failure
  state (\<^verbatim>\<open>coordinator/checkpoint_store.go\<close>), and the predicates on a task's status.

  Slices are lists; a nil slice and an empty one are the same list. A nil pointer and a NULL
  column are \<open>None\<close>.
\<close>

section \<open>Identities, capabilities and credentials\<close>

record AgentIdentity =
  ai_AgentID :: string
  ai_PrincipalID :: string
  ai_SubmittedBy :: string
  ai_ActingOnBehalfOf :: string
  ai_DelegationChain :: "string list"

record CredentialRequest =
  cr_Tool :: string
  cr_Capability :: string
  cr_Scope :: string
  cr_ExpiresInSeconds :: int

record CredentialReference =
  cf_ReferenceID :: string
  cf_TenantID :: string
  cf_TaskID :: string
  cf_Tool :: string
  cf_Capability :: string
  cf_Scope :: string
  cf_ExpiresAtUnixMs :: int
  cf_Revocable :: bool

record CapabilityDecision =
  cd_Capability :: string
  cd_Permit :: bool
  cd_Reason :: string
  cd_PolicyVersion :: string

record TaskPermissionEnvelope =
  pe_SchemaVersion :: string
  pe_EnvelopeID :: string
  pe_TenantID :: string
  pe_TaskID :: string
  pe_RuntimeID :: "string option"
  pe_AgentIdentity :: AgentIdentity
  pe_RequiredCapabilities :: "string list"
  pe_Decisions :: "CapabilityDecision list"
  pe_CredentialRefs :: "CredentialReference list"
  pe_IssuedAtUnixMs :: int
  pe_ExpiresAtUnixMs :: int
  pe_SignerKeyVersion :: "string option"
  pe_Signature :: string

record taskGovernance =
  tg_AgentIdentity :: AgentIdentity
  tg_RequiredCapabilities :: "string list"
  tg_CredentialRequests :: "CredentialRequest list"

definition empty_identity :: AgentIdentity where
  "empty_identity = \<lparr>ai_AgentID = [], ai_PrincipalID = [], ai_SubmittedBy = [],
     ai_ActingOnBehalfOf = [], ai_DelegationChain = []\<rparr>"

definition empty_governance :: taskGovernance where
  "empty_governance = \<lparr>tg_AgentIdentity = empty_identity, tg_RequiredCapabilities = [],
     tg_CredentialRequests = []\<rparr>"

section \<open>The task record\<close>

datatype TaskRecordStatus =
    TaskStatusPending
  | TaskStatusDispatched
  | TaskStatusCheckpointed
  | TaskStatusCompleted
  | TaskStatusFailed
  | TaskStatusRecovering
  | TaskStatusCanceled
  | TaskStatusApprovalRequired

record TaskProofState =
  ps_ExecutionID :: string
  ps_ExpectedHash :: string
  ps_StoredHash :: string
  ps_Signature :: string
  ps_Status :: string
  ps_CheckedAt :: "gotime option"
  ps_Verified :: "bool option"
  ps_HashValid :: "bool option"
  ps_SignatureMatches :: "bool option"
  ps_RuntimeKeyFound :: "bool option"
  ps_ChainLinkValid :: "bool option"
  ps_VerificationReason :: string
  ps_VerifiedAt :: "gotime option"

record TaskProofVerificationSummary =
  pv_Verified :: bool
  pv_HashValid :: bool
  pv_SignatureMatches :: bool
  pv_RuntimeKeyFound :: bool
  pv_ChainChecked :: bool
  pv_ChainLinkValid :: bool
  pv_Reason :: string

record TaskFailureDetails =
  fd_Source :: string
  fd_Operation :: string
  fd_StatusCode :: int
  fd_RejectionType :: string
  fd_Message :: string
  fd_StepIndex :: "uint32 option"
  fd_Domain :: string
  fd_NodeID :: string
  fd_RequestedLastStep :: "uint32 option"
  fd_LocalLastStep :: "uint32 option"
  fd_RequestedCheckpointDigest :: string
  fd_LocalCheckpointDigest :: string
  fd_ResumeCheckpointProvided :: "bool option"
  fd_EffectState :: string
  fd_ReconciliationRequired :: bool
  fd_TargetErrorCode :: string
  fd_TargetHost :: string
  fd_TargetResponseDigest :: string

record BoundActionRunIdentity =
  ba_BindingID :: uuid
  ba_ContractHash :: string
  ba_TargetActionID :: uuid
  ba_TargetVersionHash :: string
  ba_BusinessIdempotencyKey :: string
  ba_RequestFingerprint :: string

record TaskRecord =
  t_TaskID :: uuid
  t_TenantID :: string
  t_Status :: TaskRecordStatus
  t_RuntimeID :: "string option"
  t_RuntimeEndpoint :: "string option"
  t_TaskDefinition :: raw
  t_LastCheckpoint :: "CheckpointPayload option"
  t_ExecutionEnvelope :: "raw option"
  t_ExecutionReceipt :: "raw option"
  t_Proof :: "TaskProofState option"
  t_AgentIdentity :: AgentIdentity
  t_RequiredCapabilities :: "string list"
  t_CredentialRequests :: "CredentialRequest list"
  t_PermissionEnvelope :: "TaskPermissionEnvelope option"
  t_IdempotencyKey :: string
  t_FailureReason :: "string option"
  t_FailureDetails :: "TaskFailureDetails option"
  t_DeadlineAt :: "gotime option"
  t_DispatchedAt :: "gotime option"
  t_CompletedAt :: "gotime option"
  t_CanceledAt :: "gotime option"
  t_CreatedAt :: gotime
  t_ExecutedTarget :: "string option"
  t_FallbackReason :: "string option"
  t_RegisteredAgentID :: "uuid option"
  t_RegisteredAgentName :: string
  t_BoundAction :: "BoundActionRunIdentity option"

section \<open>Predicates on the status\<close>

fun TaskAllowsRuntimeMutation :: "TaskRecordStatus \<Rightarrow> bool" where
  "TaskAllowsRuntimeMutation TaskStatusDispatched = True"
| "TaskAllowsRuntimeMutation TaskStatusCheckpointed = True"
| "TaskAllowsRuntimeMutation TaskStatusRecovering = True"
| "TaskAllowsRuntimeMutation _ = False"

fun TaskAllowsDispatch :: "TaskRecordStatus \<Rightarrow> bool" where
  "TaskAllowsDispatch TaskStatusPending = True"
| "TaskAllowsDispatch TaskStatusRecovering = True"
| "TaskAllowsDispatch _ = False"

definition TaskAllowsRecoveryRedispatch :: "TaskRecordStatus \<Rightarrow> bool" where
  "TaskAllowsRecoveryRedispatch status \<longleftrightarrow> status = TaskStatusRecovering"

fun TaskAllowsCancellation :: "TaskRecordStatus \<Rightarrow> bool" where
  "TaskAllowsCancellation TaskStatusPending = True"
| "TaskAllowsCancellation TaskStatusDispatched = True"
| "TaskAllowsCancellation TaskStatusCheckpointed = True"
| "TaskAllowsCancellation TaskStatusRecovering = True"
| "TaskAllowsCancellation _ = False"

section \<open>Durability class and recovery eligibility\<close>

datatype TaskDurabilityClass = TaskDurabilityClassResumable | TaskDurabilityClassStreamingNonResumable

definition TaskDurabilityClassForDefinition :: "raw \<Rightarrow> TaskDurabilityClass" where
  "TaskDurabilityClassForDefinition taskDefinition =
     (case raw_value taskDefinition of
        None \<Rightarrow> TaskDurabilityClassResumable
      | Some j \<Rightarrow> (case unm_object j of
          None \<Rightarrow> TaskDurabilityClassResumable
        | Some kvs \<Rightarrow>
            (case (case struct_get kvs ''type'' of None \<Rightarrow> Some [] | Some v \<Rightarrow> unm_string v,
                   case struct_get kvs ''stream'' of None \<Rightarrow> Some False | Some v \<Rightarrow> unm_bool v) of
               (Some typ, Some stream) \<Rightarrow>
                 if typ = ''single_inference'' \<and> stream then TaskDurabilityClassStreamingNonResumable
                 else TaskDurabilityClassResumable
             | _ \<Rightarrow> TaskDurabilityClassResumable)))"

definition TaskSupportsRecoveryResume :: "TaskRecord \<Rightarrow> bool" where
  "TaskSupportsRecoveryResume task \<longleftrightarrow>
     TaskDurabilityClassForDefinition (t_TaskDefinition task) = TaskDurabilityClassResumable"

definition TaskRecoveryRedispatchEligible :: "TaskRecord \<Rightarrow> bool" where
  "TaskRecoveryRedispatchEligible task \<longleftrightarrow>
     TaskAllowsRecoveryRedispatch (t_Status task) \<and> TaskSupportsRecoveryResume task"

abbreviation TaskFailureReasonStreamingResumeUnsupported :: string where
  "TaskFailureReasonStreamingResumeUnsupported \<equiv> ''streaming durable tasks do not support resume''"

abbreviation TaskFailureReasonInvalidRecoveryCheckpoint :: string where
  "TaskFailureReasonInvalidRecoveryCheckpoint \<equiv> ''invalid checkpoint for recovery''"

definition TaskRecoverySkipReason :: "TaskRecord \<Rightarrow> string" where
  "TaskRecoverySkipReason task =
     (if TaskAllowsRecoveryRedispatch (t_Status task) then
        (if \<not> TaskSupportsRecoveryResume task then ''streaming_resume_unsupported'' else [])
      else (case t_Status task of
          TaskStatusCanceled \<Rightarrow> ''task_canceled''
        | TaskStatusApprovalRequired \<Rightarrow> ''approval_required''
        | TaskStatusCompleted \<Rightarrow> ''task_completed''
        | TaskStatusFailed \<Rightarrow>
            (case t_FailureReason task of
               None \<Rightarrow> ''task_failed''
             | Some r \<Rightarrow>
                 if r = ''no runtime available for recovery'' then ''no_runtime_available_for_recovery''
                 else if r = TaskFailureReasonInvalidRecoveryCheckpoint
                   then ''invalid_recovery_checkpoint''
                 else if r = TaskFailureReasonStreamingResumeUnsupported
                   then ''streaming_resume_unsupported''
                 else ''task_failed'')
        | _ \<Rightarrow> []))"

definition IsTypedReconciliationFailure :: "TaskFailureDetails option \<Rightarrow> bool" where
  "IsTypedReconciliationFailure details =
     (case details of None \<Rightarrow> False
      | Some d \<Rightarrow>
          if \<not> fd_ReconciliationRequired d \<or> fd_EffectState d \<noteq> ''unknown_effect_state''
             \<or> fd_TargetErrorCode d \<noteq> ''idempotency_unresolved''
             \<or> fd_StatusCode d < 400 \<or> fd_StatusCode d > 599
             \<or> length (fd_TargetResponseDigest d) \<noteq> 64
             \<or> length (TrimSpace (fd_TargetHost d)) < 1 \<or> length (TrimSpace (fd_TargetHost d)) > 253
          then False
          else (case hex_DecodeString (fd_TargetResponseDigest d) of
                  None \<Rightarrow> False | Some decoded \<Rightarrow> length decoded = 32))"

end
