(* ===== verification/Task_Governance.thy ===== *)
theory Task_Governance
  imports Task_Data
begin

text \<open>
  Capability governance of a task (\<^verbatim>\<open>coordinator/task_governance.go\<close>): the normal forms of
  capability lists, credential requests and delegation chains, the governance fields carried in a
  task definition, the capabilities a definition needs, the tenant's capability policy, and the
  signed permission envelope.

  The signature scheme (\<open>sign\<close>), the digest (\<open>H\<close>) and the identifiers of \<^verbatim>\<open>google/uuid\<close> are
  parameters. The tables \<^verbatim>\<open>ai_capability_policy_settings\<close> and \<^verbatim>\<open>tenants\<close> are lists of rows.
\<close>

section \<open>Normal forms\<close>

fun append_unseen :: "string list \<Rightarrow> string list \<Rightarrow> string list" where
  \<comment> \<open>the loop that skips empty and already seen values\<close>
  "append_unseen seen [] = []"
| "append_unseen seen (v # vs) =
     (if v = [] \<or> v \<in> set seen then append_unseen seen vs else v # append_unseen (v # seen) vs)"

definition normalizeCapabilityList :: "string list \<Rightarrow> string list" where
  "normalizeCapabilityList values = sort (append_unseen [] (map (\<lambda>v. TrimSpace (ToLower v)) values))"

definition normalizeCredentialRequest :: "CredentialRequest \<Rightarrow> CredentialRequest" where
  "normalizeCredentialRequest value =
     \<lparr>cr_Tool = TrimSpace (ToLower (cr_Tool value)),
      cr_Capability = TrimSpace (ToLower (cr_Capability value)),
      cr_Scope = TrimSpace (cr_Scope value), cr_ExpiresInSeconds = cr_ExpiresInSeconds value\<rparr>"

definition credentialRequestKept :: "CredentialRequest \<Rightarrow> bool" where
  "credentialRequestKept req \<longleftrightarrow> \<not> (cr_Tool req = [] \<and> cr_Capability req = [] \<and> cr_Scope req = [])"

definition normalizeCredentialRequests :: "CredentialRequest list \<Rightarrow> CredentialRequest list" where
  "normalizeCredentialRequests values =
     filter credentialRequestKept (map normalizeCredentialRequest values)"

definition normalizeDelegationChain :: "AgentIdentity \<Rightarrow> string list" where
  "normalizeDelegationChain identity =
     append_unseen [] (map TrimSpace (ai_ActingOnBehalfOf identity # ai_DelegationChain identity
       @ [ai_AgentID identity]))"

fun firstNonEmpty :: "string list \<Rightarrow> string" where
  "firstNonEmpty [] = []"
| "firstNonEmpty (v # vs) = (if TrimSpace v \<noteq> [] then v else firstNonEmpty vs)"

definition agentIdentityEmpty :: "AgentIdentity \<Rightarrow> bool" where
  "agentIdentityEmpty identity \<longleftrightarrow>
     TrimSpace (ai_AgentID identity) = [] \<and> TrimSpace (ai_PrincipalID identity) = []
     \<and> TrimSpace (ai_SubmittedBy identity) = [] \<and> TrimSpace (ai_ActingOnBehalfOf identity) = []
     \<and> ai_DelegationChain identity = []"

definition normalizeIdentity :: "string \<Rightarrow> AgentIdentity \<Rightarrow> AgentIdentity" where
  "normalizeIdentity tenantID i0 =
     (let submitted = firstNonEmpty [ai_SubmittedBy i0, tenantID];
          principal = firstNonEmpty [ai_PrincipalID i0, submitted];
          acting = firstNonEmpty [ai_ActingOnBehalfOf i0, principal];
          i1 = \<lparr>ai_AgentID = TrimSpace (ai_AgentID i0), ai_PrincipalID = TrimSpace principal,
                ai_SubmittedBy = TrimSpace submitted, ai_ActingOnBehalfOf = TrimSpace acting,
                ai_DelegationChain = ai_DelegationChain i0\<rparr>
      in i1\<lparr>ai_DelegationChain := normalizeDelegationChain i1\<rparr>)"

definition normalizeTaskGovernance :: "string \<Rightarrow> AgentIdentity option \<Rightarrow> string list \<Rightarrow>
    CredentialRequest list \<Rightarrow> taskGovernance" where
  "normalizeTaskGovernance tenantID identity required credentialRequests =
     \<lparr>tg_AgentIdentity = normalizeIdentity tenantID
        (case identity of None \<Rightarrow> empty_identity | Some i \<Rightarrow> i),
      tg_RequiredCapabilities = normalizeCapabilityList required,
      tg_CredentialRequests = normalizeCredentialRequests credentialRequests\<rparr>"

section \<open>Governance fields of a task definition\<close>

text \<open>\<^verbatim>\<open>json.Marshal\<close> of the structs, whose fields are all tagged \<^verbatim>\<open>omitempty\<close>.\<close>

definition omit_string :: "string \<Rightarrow> string \<Rightarrow> (string \<times> json) list" where
  "omit_string k s = (if s = [] then [] else [(k, JStr s)])"

definition marshalAgentIdentity :: "AgentIdentity \<Rightarrow> json" where
  "marshalAgentIdentity i = JObj
     (omit_string ''agent_id'' (ai_AgentID i) @ omit_string ''principal_id'' (ai_PrincipalID i)
      @ omit_string ''submitted_by'' (ai_SubmittedBy i)
      @ omit_string ''acting_on_behalf_of'' (ai_ActingOnBehalfOf i)
      @ (if ai_DelegationChain i = [] then []
         else [(''delegation_chain'', JArr (map JStr (ai_DelegationChain i)))]))"

definition int_json :: "int \<Rightarrow> json" where
  "int_json i = JNum (JInt (i < 0) (nat \<bar>i\<bar>))"

definition marshalCredentialRequest :: "CredentialRequest \<Rightarrow> json" where
  "marshalCredentialRequest r = JObj
     (omit_string ''tool'' (cr_Tool r) @ omit_string ''capability'' (cr_Capability r)
      @ omit_string ''scope'' (cr_Scope r)
      @ (if cr_ExpiresInSeconds r = 0 then []
         else [(''expires_in_seconds'', int_json (cr_ExpiresInSeconds r))]))"

text \<open>Decoding whose error is ignored: a member of the wrong type leaves the zero value, the
  other members are still decoded. A signed 64-bit field takes integers of that range only.\<close>

definition lax_strings :: "json option \<Rightarrow> string list" where
  "lax_strings v = (case v of
       Some (JArr xs) \<Rightarrow> map (\<lambda>x. case unm_string x of Some s \<Rightarrow> s | None \<Rightarrow> []) xs
     | _ \<Rightarrow> [])"

fun unm_int64 :: "json \<Rightarrow> int option" where
  "unm_int64 (JNum (JInt neg n)) =
     (let i = (if neg then - int n else int n) in
      if - (2 ^ 63) \<le> i \<and> i < 2 ^ 63 then Some i else None)"
| "unm_int64 JNull = Some 0"
| "unm_int64 _ = None"

definition unmarshalAgentIdentity :: "json option \<Rightarrow> AgentIdentity" where
  "unmarshalAgentIdentity v = (case v of
       Some (JObj kvs) \<Rightarrow>
         \<lparr>ai_AgentID = struct_string kvs ''agent_id'',
          ai_PrincipalID = struct_string kvs ''principal_id'',
          ai_SubmittedBy = struct_string kvs ''submitted_by'',
          ai_ActingOnBehalfOf = struct_string kvs ''acting_on_behalf_of'',
          ai_DelegationChain = lax_strings (struct_get kvs ''delegation_chain'')\<rparr>
     | _ \<Rightarrow> empty_identity)"

definition unmarshalCredentialRequest :: "json \<Rightarrow> CredentialRequest" where
  "unmarshalCredentialRequest v = (case v of
       JObj kvs \<Rightarrow>
         \<lparr>cr_Tool = struct_string kvs ''tool'', cr_Capability = struct_string kvs ''capability'',
          cr_Scope = struct_string kvs ''scope'',
          cr_ExpiresInSeconds = (case struct_get kvs ''expires_in_seconds'' of None \<Rightarrow> 0
            | Some j \<Rightarrow> (case unm_int64 j of None \<Rightarrow> 0 | Some i \<Rightarrow> i))\<rparr>
     | _ \<Rightarrow> \<lparr>cr_Tool = [], cr_Capability = [], cr_Scope = [], cr_ExpiresInSeconds = 0\<rparr>)"

definition unmarshalCredentialRequests :: "json option \<Rightarrow> CredentialRequest list" where
  "unmarshalCredentialRequests v =
     (case v of Some (JArr xs) \<Rightarrow> map unmarshalCredentialRequest xs | _ \<Rightarrow> [])"

text \<open>The definition is decoded into a map that is then assigned to. When the definition is the
  value \<^verbatim>\<open>null\<close> the map is nil and the assignment panics: \<open>None\<close>.\<close>

definition attachTaskGovernanceToDefinition :: "raw \<Rightarrow> taskGovernance \<Rightarrow> raw option" where
  "attachTaskGovernanceToDefinition def governance =
     (if tg_RequiredCapabilities governance = [] \<and> tg_CredentialRequests governance = []
         \<and> agentIdentityEmpty (tg_AgentIdentity governance)
      then Some def
      else (case raw_value def of
          None \<Rightarrow> Some def
        | Some (JObj kvs) \<Rightarrow>
            let o1 = map_put ''agent_identity'' (marshalAgentIdentity (tg_AgentIdentity governance))
                       (go_map kvs);
                o2 = map_put ''required_capabilities''
                       (JArr (map JStr (tg_RequiredCapabilities governance))) o1;
                o3 = (if tg_CredentialRequests governance = [] then o2
                      else map_put ''credential_requests''
                        (JArr (map marshalCredentialRequest (tg_CredentialRequests governance))) o2)
            in Some (marshal (JObj o3))
        | Some JNull \<Rightarrow> None
        | Some _ \<Rightarrow> Some def))"

definition extractTaskGovernanceFromDefinition :: "raw \<Rightarrow> taskGovernance" where
  "extractTaskGovernanceFromDefinition def =
     (case raw_value def of
        Some (JObj kvs) \<Rightarrow>
          \<lparr>tg_AgentIdentity = unmarshalAgentIdentity (obj_get kvs ''agent_identity''),
           tg_RequiredCapabilities =
             normalizeCapabilityList (lax_strings (obj_get kvs ''required_capabilities'')),
           tg_CredentialRequests =
             normalizeCredentialRequests
               (unmarshalCredentialRequests (obj_get kvs ''credential_requests''))\<rparr>
      | _ \<Rightarrow> empty_governance)"

section \<open>The capabilities a definition needs\<close>

text \<open>A field of a struct: the outer \<open>None\<close> is a decoding error, the inner one an absent or
  \<^verbatim>\<open>null\<close> member of a pointer field. JSON numbers are within the range of a \<^verbatim>\<open>float64\<close>.\<close>

definition ptr_field :: "(json \<Rightarrow> 'a option) \<Rightarrow> (string \<times> json) list \<Rightarrow> string \<Rightarrow> 'a option option" where
  "ptr_field dec kvs k = (case struct_get kvs k of
       None \<Rightarrow> Some None
     | Some JNull \<Rightarrow> Some None
     | Some j \<Rightarrow> (case dec j of None \<Rightarrow> None | Some v \<Rightarrow> Some (Some v)))"

definition bool_field :: "(string \<times> json) list \<Rightarrow> string \<Rightarrow> bool option" where
  "bool_field kvs k = (case struct_get kvs k of None \<Rightarrow> Some False | Some j \<Rightarrow> unm_bool j)"

fun unm_number :: "json \<Rightarrow> jnum option" where
  "unm_number (JNum n) = Some n"
| "unm_number _ = None"

definition addMemoryCapabilities :: "json option \<Rightarrow> string list" where
  "addMemoryCapabilities v = (case v of None \<Rightarrow> [] | Some j \<Rightarrow> (case unm_object j of None \<Rightarrow> []
     | Some kvs \<Rightarrow>
         (case (ptr_field unm_string kvs ''recall_query'', ptr_field unm_int64 kvs ''recall_top_k'',
                ptr_field unm_string kvs ''store_key'', bool_field kvs ''store_output'') of
            (Some recallQuery, Some recallTopK, Some storeKey, Some storeOutput) \<Rightarrow>
              (case recallQuery of Some q \<Rightarrow> if TrimSpace q \<noteq> [] then [''memory.read''] else [] | None \<Rightarrow> [])
              @ (case recallTopK of Some k \<Rightarrow> if k > 0 then [''memory.read''] else [] | None \<Rightarrow> [])
              @ (if storeOutput then [''memory.write''] else [])
              @ (case storeKey of Some q \<Rightarrow> if TrimSpace q \<noteq> [] then [''memory.write''] else [] | None \<Rightarrow> [])
          | _ \<Rightarrow> [])))"

definition addApprovalCapability :: "json option \<Rightarrow> string list" where
  "addApprovalCapability v = (case v of None \<Rightarrow> [] | Some j \<Rightarrow> (case unm_object j of None \<Rightarrow> []
     | Some kvs \<Rightarrow>
         (case (bool_field kvs ''required'', ptr_field unm_number kvs ''confidence'') of
            (Some required, Some confidence) \<Rightarrow>
              if required \<or> confidence \<noteq> None then [''human.approval''] else []
          | _ \<Rightarrow> [])))"

definition unm_objects :: "json \<Rightarrow> (string \<times> json) list list option" where
  \<comment> \<open>a slice of maps\<close>
  "unm_objects j = (case unm_array j of None \<Rightarrow> None
     | Some xs \<Rightarrow> if list_all (\<lambda>x. unm_object x \<noteq> None) xs then Some (map (the \<circ> unm_object) xs)
       else None)"

definition objects_field :: "(string \<times> json) list \<Rightarrow> string \<Rightarrow> (string \<times> json) list list" where
  \<comment> \<open>the slice of maps in a struct field, empty on a decoding error\<close>
  "objects_field kvs k = (case struct_get kvs k of None \<Rightarrow> []
     | Some j \<Rightarrow> (case unm_objects j of None \<Rightarrow> [] | Some os \<Rightarrow> os))"

definition lax_string :: "json option \<Rightarrow> string" where
  "lax_string v = (case v of Some j \<Rightarrow> (case unm_string j of Some s \<Rightarrow> s | None \<Rightarrow> []) | None \<Rightarrow> [])"

definition normalizeToolCapability :: "string \<Rightarrow> string" where
  "normalizeToolCapability toolName =
     (let normalized = TrimSpace (ToLower toolName) in
      if normalized = [] then []
      else if HasPrefix normalized ''tools.'' then normalized
      else ''tools.'' @ normalized)"

definition nodeCapabilities :: "(string \<times> json) list \<Rightarrow> string list" where
  "nodeCapabilities node =
     (let kind = TrimSpace (ToLower (lax_string (obj_get node ''kind''))) in
      if kind = ''tool'' then
        (case obj_get node ''tool_name'' of None \<Rightarrow> []
         | Some j \<Rightarrow> (case unm_string j of None \<Rightarrow> [] | Some n \<Rightarrow> [normalizeToolCapability n]))
      else if kind = ''memory_recall'' then [''memory.read'']
      else if kind = ''memory_store'' then [''memory.write'']
      else if kind = ''human_approval'' then [''human.approval'']
      else if kind = ''robotics'' then
        ''robotics.execute'' # addApprovalCapability (obj_get node ''approval'')
      else if kind = ''behavior_tree'' then [''behavior_tree.execute'']
      else if kind = ''reason'' then
        addMemoryCapabilities (obj_get node ''memory'') @ addApprovalCapability (obj_get node ''approval'')
      else [])"

definition definitionCapabilities :: "(string \<times> json) list \<Rightarrow> string list" where
  "definitionCapabilities kvs =
     (let taskType = lax_string (obj_get kvs ''type'') in
      if taskType = ''single_inference'' then
        addMemoryCapabilities (obj_get kvs ''memory'') @ addApprovalCapability (obj_get kvs ''approval'')
      else if taskType = ''agent_workflow'' then
        concat (map (\<lambda>step. addMemoryCapabilities (obj_get step ''memory'')
                            @ addApprovalCapability (obj_get step ''approval''))
               (objects_field kvs ''steps''))
      else if taskType = ''robotics_workflow'' then
        ''robotics.execute'' # concat (map (\<lambda>step. addApprovalCapability (obj_get step ''approval''))
               (objects_field kvs ''steps''))
      else if taskType = ''behavior_tree'' then [''behavior_tree.execute'']
      else if taskType = ''execution_graph'' then
        (case struct_get kvs ''graph'' of None \<Rightarrow> []
         | Some g \<Rightarrow> (case unm_object g of None \<Rightarrow> []
             | Some graph \<Rightarrow> concat (map nodeCapabilities (objects_field graph ''nodes''))))
      else [])"

definition deriveRequiredCapabilitiesFromTaskDefinition :: "raw \<Rightarrow> string list" where
  "deriveRequiredCapabilitiesFromTaskDefinition def =
     (case raw_value def of
        Some (JObj kvs) \<Rightarrow>
          sort (remdups (filter (\<lambda>c. c \<noteq> [])
            (map (\<lambda>c. TrimSpace (ToLower c)) (definitionCapabilities kvs))))
      | _ \<Rightarrow> [])"

text \<open>\<open>keyed\<close> says whether the process has a signing key.\<close>

definition taskGovernanceForRecord :: "bool \<Rightarrow> TaskRecord \<Rightarrow> taskGovernance" where
  "taskGovernanceForRecord keyed task =
     (let g0 = \<lparr>tg_AgentIdentity = t_AgentIdentity task,
                tg_RequiredCapabilities = normalizeCapabilityList (t_RequiredCapabilities task),
                tg_CredentialRequests = normalizeCredentialRequests (t_CredentialRequests task)\<rparr>;
          g1 = (if tg_RequiredCapabilities g0 = [] \<and> tg_CredentialRequests g0 = []
                   \<and> agentIdentityEmpty (tg_AgentIdentity g0)
                then extractTaskGovernanceFromDefinition (t_TaskDefinition task) else g0);
          g2 = (if tg_RequiredCapabilities g1 = [] \<and> keyed
                then g1\<lparr>tg_RequiredCapabilities :=
                  deriveRequiredCapabilitiesFromTaskDefinition (t_TaskDefinition task)\<rparr> else g1)
      in g2\<lparr>tg_AgentIdentity := tg_AgentIdentity (normalizeTaskGovernance (t_TenantID task)
              (Some (tg_AgentIdentity g2)) (tg_RequiredCapabilities g2) (tg_CredentialRequests g2))\<rparr>)"

section \<open>The capability policy\<close>

record policy_setting_row =
  cps_tenant_id :: string
  cps_policy :: "raw option"
  cps_active :: bool
  cps_status :: string
  cps_expires_at :: "gotime option"
  cps_updated_at :: gotime

record policy_db =
  pdb_settings :: "policy_setting_row list"
  pdb_tenants :: "(string \<times> raw option) list"
  pdb_fault :: bool

definition setting_in_force :: "gotime \<Rightarrow> string \<Rightarrow> policy_setting_row \<Rightarrow> bool" where
  "setting_in_force now tenantID r \<longleftrightarrow> cps_tenant_id r = tenantID \<and> cps_active r
     \<and> cps_status r = ''active''
     \<and> (case cps_expires_at r of None \<Rightarrow> True | Some e \<Rightarrow> e > now)"

definition capability_policy_query :: "policy_db \<Rightarrow> gotime \<Rightarrow> string \<Rightarrow> raw" where
  \<comment> \<open>the COALESCE of the newest setting in force, the tenant's own column, and the empty object\<close>
  "capability_policy_query db now tenantID =
     (let first = (case rev (sort_key cps_updated_at (filter (setting_in_force now tenantID) (pdb_settings db))) of
                     r # _ \<Rightarrow> cps_policy r | [] \<Rightarrow> None);
          second = (case map_of (pdb_tenants db) tenantID of Some (Some p) \<Rightarrow> Some p | _ \<Rightarrow> None)
      in case first of Some p \<Rightarrow> p
         | None \<Rightarrow> (case second of Some p \<Rightarrow> p | None \<Rightarrow> RawJSON Spaced (JObj [])))"

fun policyVersion_keys :: "(string \<times> json) list \<Rightarrow> string list \<Rightarrow> string option" where
  "policyVersion_keys policy [] = None"
| "policyVersion_keys policy (k # ks) =
     (case obj_get policy k of
        Some (JStr value) \<Rightarrow> if TrimSpace value \<noteq> [] then Some (TrimSpace value)
                            else policyVersion_keys policy ks
      | _ \<Rightarrow> policyVersion_keys policy ks)"

definition policyVersionFromCapabilityPolicy ::
  "(string \<Rightarrow> byte list) \<Rightarrow> raw \<Rightarrow> (string \<times> json) list \<Rightarrow> string" where
  "policyVersionFromCapabilityPolicy H rw policy =
     (case policyVersion_keys policy [''policy_version'', ''version'', ''policy_hash''] of
        Some v \<Rightarrow> v
      | None \<Rightarrow> ''capabilities-policy:'' @ hex_EncodeToString (take 8 (H (raw_text rw))))"

definition capabilityDecisions :: "string list \<Rightarrow> string \<Rightarrow> bool \<Rightarrow> string \<Rightarrow> CapabilityDecision list" where
  "capabilityDecisions required policyVersion permit reason =
     map (\<lambda>c. \<lparr>cd_Capability = c, cd_Permit = permit, cd_Reason = reason,
               cd_PolicyVersion = policyVersion\<rparr>) required"

definition policy_values :: "json \<Rightarrow> string list" where
  "policy_values v = (case v of
       JArr items \<Rightarrow> concat (map (\<lambda>i. case i of JStr t \<Rightarrow> [TrimSpace (ToLower t)] | _ \<Rightarrow> []) items)
     | JStr t \<Rightarrow> map (\<lambda>i. TrimSpace (ToLower i)) (Split t (CHR '',''))
     | _ \<Rightarrow> [])"

definition stringListFromPolicy :: "(string \<times> json) list \<Rightarrow> string list \<Rightarrow> string list" where
  "stringListFromPolicy policy keys =
     concat (map (\<lambda>k. case obj_get policy k of None \<Rightarrow> [] | Some v \<Rightarrow> policy_values v) keys)"

fun boolPolicy :: "(string \<times> json) list \<Rightarrow> string list \<Rightarrow> bool" where
  "boolPolicy policy [] = False"
| "boolPolicy policy (k # ks) =
     (case obj_get policy k of Some (JBool b) \<Rightarrow> b | _ \<Rightarrow> boolPolicy policy ks)"

fun capabilityMatchesAny :: "string \<Rightarrow> string list \<Rightarrow> bool" where
  "capabilityMatchesAny capability [] = False"
| "capabilityMatchesAny capability (pattern # patterns) =
     (if pattern = [] then capabilityMatchesAny capability patterns
      else if pattern = capability \<or> pattern = ''*'' then True
      else if HasSuffix pattern ''.*'' \<and> HasPrefix capability (TrimSuffix pattern ''*'') then True
      else capabilityMatchesAny capability patterns)"

definition deniedPatterns :: "(string \<times> json) list \<Rightarrow> string list" where
  "deniedPatterns policy =
     stringListFromPolicy policy [''denied_capabilities'', ''deny'', ''deny_capabilities'']"

definition allowedPatterns :: "(string \<times> json) list \<Rightarrow> string list" where
  "allowedPatterns policy =
     stringListFromPolicy policy [''allowed_capabilities'', ''allow'', ''allow_capabilities'']"

definition capabilityPermittedByPolicy :: "string \<Rightarrow> (string \<times> json) list \<Rightarrow> bool \<times> string" where
  "capabilityPermittedByPolicy c policy =
     (if capabilityMatchesAny c (deniedPatterns policy) then (False, ''capability explicitly denied'')
      else if capabilityMatchesAny c (allowedPatterns policy) then (True, ''capability explicitly allowed'')
      else if c = ''network.http'' \<or> HasPrefix c ''network.http.'' then
        (boolPolicy policy [''allow_http''], ''capability mapped to allow_http'')
      else if c = ''network.api'' \<or> HasPrefix c ''network.api.'' then
        (boolPolicy policy [''allow_external_api''], ''capability mapped to allow_external_api'')
      else if c = ''filesystem.write'' \<or> HasPrefix c ''filesystem.write.'' then
        (boolPolicy policy [''allow_fs_write'', ''allow_filesystem_write''],
         ''capability mapped to filesystem write policy'')
      else if c = ''filesystem.read'' \<or> HasPrefix c ''filesystem.read.'' then
        (boolPolicy policy [''allow_filesystem'', ''allow_fs_read''],
         ''capability mapped to filesystem read policy'')
      else if c = ''tools.shell'' \<or> HasPrefix c ''tools.shell.'' then
        (boolPolicy policy [''allow_shell''], ''capability mapped to allow_shell'')
      else (False, ''capability is not allow-listed''))"

record capabilityPolicyEvaluation =
  ev_Decisions :: "CapabilityDecision list"
  ev_PolicyVersion :: string
  ev_Permit :: bool
  ev_Reason :: string

definition default_deny :: "string list \<Rightarrow> string \<Rightarrow> capabilityPolicyEvaluation" where
  "default_deny required reason =
     \<lparr>ev_Decisions = capabilityDecisions required ''capabilities-policy.missing'' False reason,
      ev_PolicyVersion = ''capabilities-policy.missing'', ev_Permit = False, ev_Reason = reason\<rparr>"

text \<open>\<open>None\<close> is the nil database handle.\<close>

definition evaluateTaskCapabilityPolicy :: "(string \<Rightarrow> byte list) \<Rightarrow> policy_db option \<Rightarrow> gotime \<Rightarrow>
    string \<Rightarrow> string list \<Rightarrow> capabilityPolicyEvaluation" where
  "evaluateTaskCapabilityPolicy H db now tenantID required =
     (if required = [] then
        \<lparr>ev_Decisions = [], ev_PolicyVersion = ''capabilities-policy.missing'', ev_Permit = True,
         ev_Reason = ''no capabilities requested''\<rparr>
      else case db of
        None \<Rightarrow> default_deny required ''default deny: no active capability policy''
      | Some d \<Rightarrow>
          if pdb_fault d then default_deny required ''default deny: capability policy lookup failed''
          else let rw = capability_policy_query d now tenantID in
            (case (case raw_value rw of None \<Rightarrow> None | Some j \<Rightarrow> unm_object j) of
               None \<Rightarrow> default_deny required ''default deny: capability policy is invalid''
             | Some policy \<Rightarrow>
                 let version = policyVersionFromCapabilityPolicy H rw policy;
                     allPermit = list_all (\<lambda>c. fst (capabilityPermittedByPolicy c policy)) required
                 in \<lparr>ev_Decisions = map (\<lambda>c. \<lparr>cd_Capability = c,
                        cd_Permit = fst (capabilityPermittedByPolicy c policy),
                        cd_Reason = snd (capabilityPermittedByPolicy c policy),
                        cd_PolicyVersion = version\<rparr>) required,
                     ev_PolicyVersion = version, ev_Permit = allPermit,
                     ev_Reason = (if allPermit then ''capability policy permitted''
                       else ''capability policy denied one or more required capabilities'')\<rparr>))"

section \<open>The permission envelope\<close>

definition int64 :: "int \<Rightarrow> int" where
  \<comment> \<open>the value of a wrapped 64-bit signed result\<close>
  "int64 i = sint (word_of_int i :: 64 word)"

text \<open>Times are nanoseconds. \<^verbatim>\<open>time.Duration(s) * time.Second\<close> is a 64-bit product;
  \<^verbatim>\<open>UnixMilli\<close> rounds down.\<close>

definition credential_expiry :: "gotime \<Rightarrow> int \<Rightarrow> int \<Rightarrow> int" where
  "credential_expiry now secs defaultExpiresAt =
     (if secs > 0 then (now + int64 (secs * 1000000000)) div 1000000 else defaultExpiresAt)"

definition buildCredentialReferences :: "(nat \<Rightarrow> string) \<Rightarrow> (uuid \<Rightarrow> string) \<Rightarrow> gotime \<Rightarrow> TaskRecord \<Rightarrow>
    CredentialRequest list \<Rightarrow> int \<Rightarrow> CredentialReference list" where
  "buildCredentialReferences newID uuidString now task requests defaultExpiresAt =
     map (\<lambda>(i, req). \<lparr>cf_ReferenceID = ''credref-'' @ newID i, cf_TenantID = t_TenantID task,
            cf_TaskID = uuidString (t_TaskID task), cf_Tool = cr_Tool req,
            cf_Capability = cr_Capability req, cf_Scope = cr_Scope req,
            cf_ExpiresAtUnixMs = credential_expiry now (cr_ExpiresInSeconds req) defaultExpiresAt,
            cf_Revocable = True\<rparr>)
         (zip [0..<length requests] requests)"

definition canonicalAgentIdentity :: "AgentIdentity \<Rightarrow> json" where
  "canonicalAgentIdentity i = JObj (go_map
     [(''acting_on_behalf_of'', JStr (ai_ActingOnBehalfOf i)), (''agent_id'', JStr (ai_AgentID i)),
      (''delegation_chain'', JArr (map JStr (ai_DelegationChain i))),
      (''principal_id'', JStr (ai_PrincipalID i)), (''submitted_by'', JStr (ai_SubmittedBy i))])"

definition canonicalCapabilityDecision :: "CapabilityDecision \<Rightarrow> json" where
  "canonicalCapabilityDecision d = JObj (go_map
     [(''capability'', JStr (cd_Capability d)), (''permit'', JBool (cd_Permit d)),
      (''policy_version'', JStr (cd_PolicyVersion d)), (''reason'', JStr (cd_Reason d))])"

definition canonicalCredentialReference :: "CredentialReference \<Rightarrow> json" where
  "canonicalCredentialReference r = JObj (go_map
     [(''capability'', JStr (cf_Capability r)), (''expires_at_unix_ms'', int_json (cf_ExpiresAtUnixMs r)),
      (''reference_id'', JStr (cf_ReferenceID r)), (''revocable'', JBool (cf_Revocable r)),
      (''scope'', JStr (cf_Scope r)), (''task_id'', JStr (cf_TaskID r)),
      (''tenant_id'', JStr (cf_TenantID r)), (''tool'', JStr (cf_Tool r))])"

definition canonicalTaskPermissionEnvelope :: "TaskPermissionEnvelope \<Rightarrow> json" where
  "canonicalTaskPermissionEnvelope e =
     (let v0 = go_map
        [(''agent_identity'', canonicalAgentIdentity (pe_AgentIdentity e)),
         (''credential_refs'', JArr (map canonicalCredentialReference (pe_CredentialRefs e))),
         (''decisions'', JArr (map canonicalCapabilityDecision (pe_Decisions e))),
         (''envelope_id'', JStr (pe_EnvelopeID e)),
         (''expires_at_unix_ms'', int_json (pe_ExpiresAtUnixMs e)),
         (''issued_at_unix_ms'', int_json (pe_IssuedAtUnixMs e)),
         (''required_capabilities'', JArr (map JStr (pe_RequiredCapabilities e))),
         (''schema_version'', JStr (pe_SchemaVersion e)),
         (''task_id'', JStr (pe_TaskID e)), (''tenant_id'', JStr (pe_TenantID e))];
          v1 = (case pe_RuntimeID e of None \<Rightarrow> v0 | Some r \<Rightarrow> map_put ''runtime_id'' (JStr r) v0);
          v2 = (case pe_SignerKeyVersion e of None \<Rightarrow> v1
                | Some k \<Rightarrow> map_put ''signer_key_version'' (JStr k) v1)
      in JObj v2)"

definition signTaskPermissionEnvelope :: "(string \<Rightarrow> byte list) \<Rightarrow> ('key \<Rightarrow> byte list \<Rightarrow> byte list) \<Rightarrow>
    TaskPermissionEnvelope \<Rightarrow> 'key \<Rightarrow> string" where
  "signTaskPermissionEnvelope H sign envelope signingKey =
     b64_EncodeToString StdEncoding
       (sign signingKey (H (json_text Compact (canonicalTaskPermissionEnvelope envelope))))"

datatype envelope_error = MissingSigningKey | CapabilityDenied string

text \<open>What the process has: its signing key, the version of the key from the environment, and
  the sources of time and identifiers.\<close>

record 'key signing_env =
  se_key :: "'key option"
  se_key_version :: string
  se_H :: "string \<Rightarrow> byte list"
  se_sign :: "'key \<Rightarrow> byte list \<Rightarrow> byte list"
  se_new_id :: "nat \<Rightarrow> string"
  se_uuid_string :: "uuid \<Rightarrow> string"

definition unsignedEnvelope :: "'key signing_env \<Rightarrow> gotime \<Rightarrow> TaskRecord \<Rightarrow> taskGovernance \<Rightarrow>
    capabilityPolicyEvaluation \<Rightarrow> TaskPermissionEnvelope" where
  "unsignedEnvelope se now task governance evaluation =
     (let nowMs = now div 1000000;
          expiresAt = nowMs + 300000;
          keyVersion = TrimSpace (se_key_version se)
      in \<lparr>pe_SchemaVersion = ''task_permission_envelope.v1'',
          pe_EnvelopeID = se_new_id se 0, pe_TenantID = t_TenantID task,
          pe_TaskID = se_uuid_string se (t_TaskID task), pe_RuntimeID = t_RuntimeID task,
          pe_AgentIdentity = tg_AgentIdentity governance,
          pe_RequiredCapabilities = tg_RequiredCapabilities governance,
          pe_Decisions = ev_Decisions evaluation,
          pe_CredentialRefs = buildCredentialReferences (\<lambda>i. se_new_id se (Suc i))
            (se_uuid_string se) now task (tg_CredentialRequests governance) expiresAt,
          pe_IssuedAtUnixMs = nowMs, pe_ExpiresAtUnixMs = expiresAt,
          pe_SignerKeyVersion = (if keyVersion \<noteq> [] then Some keyVersion else None),
          pe_Signature = []\<rparr>)"

definition buildTaskPermissionEnvelope :: "'key signing_env \<Rightarrow> policy_db option \<Rightarrow> gotime \<Rightarrow>
    TaskRecord \<Rightarrow> taskGovernance \<Rightarrow> envelope_error + TaskPermissionEnvelope option" where
  "buildTaskPermissionEnvelope se db now task governance =
     (if tg_RequiredCapabilities governance = [] then Inr None
      else case se_key se of
        None \<Rightarrow> Inl MissingSigningKey
      | Some key \<Rightarrow>
          let evaluation = evaluateTaskCapabilityPolicy (se_H se) db now (t_TenantID task)
                (tg_RequiredCapabilities governance)
          in if \<not> ev_Permit evaluation then Inl (CapabilityDenied (ev_Reason evaluation))
             else let envelope = unsignedEnvelope se now task governance evaluation
               in Inr (Some (envelope\<lparr>pe_Signature :=
                    signTaskPermissionEnvelope (se_H se) (se_sign se) envelope key\<rparr>)))"

section \<open>Facts on the normal forms\<close>

lemma append_unseen_set: "set (append_unseen seen vs) = {v \<in> set vs. v \<noteq> [] \<and> v \<notin> set seen}"
  by (induction seen vs rule: append_unseen.induct) auto

lemma append_unseen_distinct: "distinct (append_unseen seen vs)"
  by (induction seen vs rule: append_unseen.induct) (auto simp: append_unseen_set)

lemma append_unseen_id:
  "distinct vs \<Longrightarrow> \<forall>v\<in>set vs. v \<noteq> [] \<and> v \<notin> set seen \<Longrightarrow> append_unseen seen vs = vs"
  by (induction seen vs rule: append_unseen.induct) auto

locale list_normaliser =
  fixes canon :: "'a \<Rightarrow> 'a" and keep :: "'a \<Rightarrow> bool" and shape :: "'a list \<Rightarrow> bool"
    and norm :: "'a list \<Rightarrow> 'a list"
  assumes canon_idem: "canon (canon x) = canon x"
    and norm_set: "set (norm xs) = {y \<in> canon ` set xs. keep y}"
    and norm_shape: "shape (norm xs)"
    and norm_fixed: "shape xs \<Longrightarrow> \<forall>x\<in>set xs. canon x = x \<and> keep x \<Longrightarrow> norm xs = xs"
begin

definition normal :: "'a list \<Rightarrow> bool" where
  "normal xs \<longleftrightarrow> shape xs \<and> (\<forall>x\<in>set xs. canon x = x \<and> keep x)"

lemma normal_norm: "normal (norm xs)"
  unfolding normal_def using norm_shape norm_set canon_idem by auto

lemma norm_normal: "normal xs \<Longrightarrow> norm xs = xs"
  unfolding normal_def using norm_fixed by blast

lemma norm_idem: "norm (norm xs) = norm xs"
  by (rule norm_normal [OF normal_norm])

lemma normal_iff: "normal xs \<longleftrightarrow> norm xs = xs"
  using normal_norm norm_normal by metis

end

abbreviation canon_capability :: "string \<Rightarrow> string" where
  "canon_capability c \<equiv> TrimSpace (ToLower c)"

interpretation caps: list_normaliser canon_capability "\<lambda>c. c \<noteq> []" "\<lambda>cs. sorted cs \<and> distinct cs"
    normalizeCapabilityList
proof unfold_locales
  show "canon_capability (canon_capability c) = canon_capability c" for c
    by (simp add: TrimSpace_ToLower)
  show "set (normalizeCapabilityList cs) = {y \<in> canon_capability ` set cs. y \<noteq> []}" for cs
    by (auto simp: normalizeCapabilityList_def append_unseen_set)
  show "sorted (normalizeCapabilityList cs) \<and> distinct (normalizeCapabilityList cs)" for cs
    by (simp add: normalizeCapabilityList_def append_unseen_distinct)
  show "normalizeCapabilityList cs = cs"
    if "sorted cs \<and> distinct cs" "\<forall>c\<in>set cs. canon_capability c = c \<and> c \<noteq> []" for cs
  proof -
    have "map canon_capability cs = cs" using that by (simp add: map_idI)
    with that show ?thesis by (simp add: normalizeCapabilityList_def append_unseen_id sorted_sort_id)
  qed
qed

interpretation creds: list_normaliser normalizeCredentialRequest credentialRequestKept "\<lambda>_. True"
    normalizeCredentialRequests
proof unfold_locales
  show "normalizeCredentialRequest (normalizeCredentialRequest r) = normalizeCredentialRequest r" for r
    by (simp add: normalizeCredentialRequest_def TrimSpace_ToLower)
  show "normalizeCredentialRequests rs = rs"
    if "\<forall>r\<in>set rs. normalizeCredentialRequest r = r \<and> credentialRequestKept r" for rs
    using that by (simp add: normalizeCredentialRequests_def map_idI)
qed (auto simp: normalizeCredentialRequests_def)

interpretation chain: list_normaliser TrimSpace "\<lambda>c. c \<noteq> []" distinct
    "\<lambda>vs. append_unseen [] (map TrimSpace vs)"
  by unfold_locales (auto simp: append_unseen_set append_unseen_distinct append_unseen_id map_idI)

lemma append_unseen_drop:
  "set ys \<subseteq> insert [] (set seen \<union> set xs) \<Longrightarrow> append_unseen seen (xs @ ys) = append_unseen seen xs"
proof (induction seen xs rule: append_unseen.induct)
  case (1 seen)
  then show ?case by (induction ys) auto
qed auto

lemma append_unseen_again:
  assumes "distinct c" "[] \<notin> set c" "a = [] \<or> (\<exists>r. c = a # r)" "g = [] \<or> g \<in> set c"
  shows "append_unseen [] (a # c @ [g]) = c"
proof -
  have drop: "append_unseen [] ((a # c) @ [g]) = append_unseen [] (a # c)"
    by (rule append_unseen_drop) (use assms(4) in auto)
  have "append_unseen [] (a # c) = c"
  proof (cases "a = []")
    case True
    then show ?thesis using assms(1,2) by (auto intro: append_unseen_id)
  next
    case False
    with assms(3) obtain r where r: "c = a # r" by auto
    have "append_unseen [a] r = r" by (rule append_unseen_id) (use assms(1,2) r in auto)
    with r False show ?thesis by simp
  qed
  with drop show ?thesis by simp
qed

lemma delegation_chain_idem:
  assumes "\<forall>v\<in>set (a # vs @ [g]). TrimSpace v = v" and c: "c = append_unseen [] (a # vs @ [g])"
  shows "append_unseen [] (map TrimSpace (a # c @ [g])) = c"
proof -
  have set_c: "set c = {v \<in> set (a # vs @ [g]). v \<noteq> []}"
    unfolding c append_unseen_set by simp
  have "map TrimSpace (a # c @ [g]) = a # c @ [g]"
    by (rule map_idI) (use assms(1) set_c in auto)
  moreover have "append_unseen [] (a # c @ [g]) = c"
  proof (rule append_unseen_again)
    show "distinct c" unfolding c by (rule append_unseen_distinct)
    show "a = [] \<or> (\<exists>r. c = a # r)" unfolding c by simp
  qed (use set_c in auto)
  ultimately show ?thesis by simp
qed

text \<open>Identities have a normal form that normalisation reaches in one step: doing it again for
  the same tenant changes nothing, and a task submitted by a named tenant always has a non-empty
  submitter, principal and party acted for, the last one heading the delegation chain.\<close>

theorem identity_normal_form:
  "normalizeIdentity tenantID (normalizeIdentity tenantID i) = normalizeIdentity tenantID i
   \<and> distinct (ai_DelegationChain (normalizeIdentity tenantID i))
   \<and> (TrimSpace tenantID = [] \<or>
      (ai_SubmittedBy (normalizeIdentity tenantID i) \<noteq> []
       \<and> ai_PrincipalID (normalizeIdentity tenantID i) \<noteq> []
       \<and> ai_ActingOnBehalfOf (normalizeIdentity tenantID i) \<noteq> []
       \<and> hd (ai_DelegationChain (normalizeIdentity tenantID i))
           = ai_ActingOnBehalfOf (normalizeIdentity tenantID i)))"
proof -
  let ?n = "normalizeIdentity tenantID i"
  have chain: "ai_DelegationChain ?n = append_unseen [] (ai_ActingOnBehalfOf ?n #
      map TrimSpace (ai_DelegationChain i) @ [ai_AgentID ?n])"
    by (simp add: normalizeIdentity_def Let_def normalizeDelegationChain_def)
  have trimmed: "\<forall>v\<in>set (ai_ActingOnBehalfOf ?n # map TrimSpace (ai_DelegationChain i) @ [ai_AgentID ?n]).
      TrimSpace v = v"
    by (auto simp: normalizeIdentity_def Let_def)
  have idem: "normalizeDelegationChain ?n = ai_DelegationChain ?n"
    unfolding normalizeDelegationChain_def
    by (rule delegation_chain_idem [OF trimmed chain])
  have "normalizeIdentity tenantID ?n = ?n\<lparr>ai_DelegationChain := normalizeDelegationChain ?n\<rparr>"
    unfolding normalizeIdentity_def [of tenantID ?n]
    by (simp add: Let_def) (simp add: normalizeIdentity_def Let_def)
  then have "normalizeIdentity tenantID ?n = ?n" by (simp add: idem)
  moreover have "distinct (ai_DelegationChain ?n)"
    unfolding chain by (rule append_unseen_distinct)
  moreover have "ai_SubmittedBy ?n \<noteq> [] \<and> ai_PrincipalID ?n \<noteq> [] \<and> ai_ActingOnBehalfOf ?n \<noteq> []"
    if "TrimSpace tenantID \<noteq> []"
    using that by (simp add: normalizeIdentity_def Let_def)
  moreover have "hd (ai_DelegationChain ?n) = ai_ActingOnBehalfOf ?n" if "ai_ActingOnBehalfOf ?n \<noteq> []"
    unfolding chain using that by simp
  ultimately show ?thesis by blast
qed

section \<open>Facts on capability patterns\<close>

definition pattern_covers :: "string \<Rightarrow> string \<Rightarrow> bool" where
  "pattern_covers p c \<longleftrightarrow> p \<noteq> [] \<and> (p = c \<or> p = ''*'' \<or> (\<exists>q. p = q @ ''.*'' \<and> prefix (q @ ''.'') c))"

lemma TrimSuffix_star: "TrimSuffix (q @ ''.*'') ''*'' = q @ ''.''"
  by (simp add: TrimSuffix_def suffix_def)

lemma glob_iff:
  "HasSuffix p ''.*'' \<and> HasPrefix c (TrimSuffix p ''*'') \<longleftrightarrow> (\<exists>q. p = q @ ''.*'' \<and> prefix (q @ ''.'') c)"
proof
  assume l: "HasSuffix p ''.*'' \<and> HasPrefix c (TrimSuffix p ''*'')"
  then obtain q where "p = q @ ''.*''" by (auto simp: HasSuffix_def suffix_def)
  with l TrimSuffix_star [of q] show "\<exists>q. p = q @ ''.*'' \<and> prefix (q @ ''.'') c"
    by (auto simp: HasPrefix_def)
qed (auto simp only: HasSuffix_def HasPrefix_def suffix_def TrimSuffix_star)

lemma capabilityMatchesAny_iff:
  "capabilityMatchesAny c ps \<longleftrightarrow> (\<exists>p\<in>set ps. pattern_covers p c)"
proof (induction ps)
  case (Cons p ps)
  have "capabilityMatchesAny c (p # ps) \<longleftrightarrow> pattern_covers p c \<or> capabilityMatchesAny c ps"
    unfolding capabilityMatchesAny.simps glob_iff pattern_covers_def if_bool_eq_conj by blast
  with Cons show ?case by simp
qed simp

definition family_flags :: "string \<Rightarrow> string list option" where
  "family_flags c =
     (if c = ''network.http'' \<or> HasPrefix c ''network.http.'' then Some [''allow_http'']
      else if c = ''network.api'' \<or> HasPrefix c ''network.api.'' then Some [''allow_external_api'']
      else if c = ''filesystem.write'' \<or> HasPrefix c ''filesystem.write.''
        then Some [''allow_fs_write'', ''allow_filesystem_write'']
      else if c = ''filesystem.read'' \<or> HasPrefix c ''filesystem.read.''
        then Some [''allow_filesystem'', ''allow_fs_read'']
      else if c = ''tools.shell'' \<or> HasPrefix c ''tools.shell.'' then Some [''allow_shell'']
      else None)"

lemma permit_iff:
  "fst (capabilityPermittedByPolicy c policy) \<longleftrightarrow>
     \<not> capabilityMatchesAny c (deniedPatterns policy) \<and>
     (capabilityMatchesAny c (allowedPatterns policy)
      \<or> (case family_flags c of None \<Rightarrow> False | Some ks \<Rightarrow> boolPolicy policy ks))"
  unfolding capabilityPermittedByPolicy_def family_flags_def
  by (cases "c = ''network.http'' \<or> HasPrefix c ''network.http.''";
      cases "c = ''network.api'' \<or> HasPrefix c ''network.api.''";
      cases "c = ''filesystem.write'' \<or> HasPrefix c ''filesystem.write.''";
      cases "c = ''filesystem.read'' \<or> HasPrefix c ''filesystem.read.''";
      cases "c = ''tools.shell'' \<or> HasPrefix c ''tools.shell.''";
      cases "capabilityMatchesAny c (deniedPatterns policy)";
      cases "capabilityMatchesAny c (allowedPatterns policy)";
      simp only: if_True if_False option.case fst_conv simp_thms)



definition sample_policy :: "(string \<times> json) list" where
  "sample_policy = [(''allow'', JArr [JStr ''Tools.*''])]"


section \<open>Facts on the permission envelope\<close>

lemma canonical_ignores_signature [simp]:
  "canonicalTaskPermissionEnvelope (e\<lparr>pe_Signature := s\<rparr>) = canonicalTaskPermissionEnvelope e"
  by (simp add: canonicalTaskPermissionEnvelope_def)

lemma permitted_not_denied:
  "fst (capabilityPermittedByPolicy c policy) \<Longrightarrow> \<not> (\<exists>p\<in>set (deniedPatterns policy). pattern_covers p c)"
  unfolding permit_iff capabilityMatchesAny_iff by blast

lemma evaluate_permit:
  assumes "ev_Permit (evaluateTaskCapabilityPolicy H db now tenantID required)" "required \<noteq> []"
  obtains d policy where "db = Some d" "\<not> pdb_fault d"
    "(case raw_value (capability_policy_query d now tenantID) of None \<Rightarrow> None | Some j \<Rightarrow> unm_object j) = Some policy"
    "list_all (\<lambda>c. fst (capabilityPermittedByPolicy c policy)) required"
    "map cd_Capability (ev_Decisions (evaluateTaskCapabilityPolicy H db now tenantID required)) = required"
    "list_all cd_Permit (ev_Decisions (evaluateTaskCapabilityPolicy H db now tenantID required))"
  using assms
  by (auto simp: evaluateTaskCapabilityPolicy_def default_deny_def Let_def comp_def list_all_iff
      split: option.splits if_splits)

text \<open>C7: A permission envelope is issued only when the policy permits it. When an envelope is
  built, the process has a signing key, the tenant's policy in force was read and decoded, every
  required capability is permitted by it (so none is covered by a deny pattern), the decisions in the
  envelope are one permit for each required capability in order, it names the task's tenant, it
  lives five minutes, and its signature is over exactly its other fields.\<close>

theorem envelope_only_if_permitted:
  assumes "buildTaskPermissionEnvelope se db now task governance = Inr (Some e)"
  shows "\<exists>key d policy. se_key se = Some key \<and> db = Some d \<and> \<not> pdb_fault d
    \<and> (case raw_value (capability_policy_query d now (t_TenantID task)) of
         None \<Rightarrow> None | Some j \<Rightarrow> unm_object j) = Some policy
    \<and> (\<forall>c\<in>set (tg_RequiredCapabilities governance).
         fst (capabilityPermittedByPolicy c policy)
         \<and> \<not> (\<exists>p\<in>set (deniedPatterns policy). pattern_covers p c))
    \<and> map cd_Capability (pe_Decisions e) = tg_RequiredCapabilities governance
    \<and> list_all cd_Permit (pe_Decisions e)
    \<and> pe_RequiredCapabilities e = tg_RequiredCapabilities governance
    \<and> pe_TenantID e = t_TenantID task
    \<and> pe_ExpiresAtUnixMs e = pe_IssuedAtUnixMs e + 300000
    \<and> pe_Signature e = signTaskPermissionEnvelope (se_H se) (se_sign se) e key"
proof -
  let ?ev = "evaluateTaskCapabilityPolicy (se_H se) db now (t_TenantID task) (tg_RequiredCapabilities governance)"
  from assms obtain key where key: "se_key se = Some key" and req: "tg_RequiredCapabilities governance \<noteq> []"
    and permit: "ev_Permit ?ev"
    by (auto simp: buildTaskPermissionEnvelope_def Let_def split: if_splits option.splits)
  from assms key req permit have e: "pe_Decisions e = ev_Decisions ?ev"
    "pe_RequiredCapabilities e = tg_RequiredCapabilities governance" "pe_TenantID e = t_TenantID task"
    "pe_ExpiresAtUnixMs e = pe_IssuedAtUnixMs e + 300000"
    "pe_Signature e = signTaskPermissionEnvelope (se_H se) (se_sign se) e key"
    by (auto simp: buildTaskPermissionEnvelope_def Let_def signTaskPermissionEnvelope_def)
      (simp_all add: unsignedEnvelope_def Let_def)
  from permit req obtain d policy where p: "db = Some d" "\<not> pdb_fault d"
    "(case raw_value (capability_policy_query d now (t_TenantID task)) of
        None \<Rightarrow> None | Some j \<Rightarrow> unm_object j) = Some policy"
    "list_all (\<lambda>c. fst (capabilityPermittedByPolicy c policy)) (tg_RequiredCapabilities governance)"
    "map cd_Capability (ev_Decisions ?ev) = tg_RequiredCapabilities governance"
    "list_all cd_Permit (ev_Decisions ?ev)" by (rule evaluate_permit)
  have "\<forall>c\<in>set (tg_RequiredCapabilities governance). fst (capabilityPermittedByPolicy c policy)
      \<and> \<not> (\<exists>p\<in>set (deniedPatterns policy). pattern_covers p c)"
    using p(4) permitted_not_denied unfolding list_all_iff by blast
  with key p e show ?thesis by (intro exI [of _ key] exI [of _ d] exI [of _ policy]) simp
qed

definition sample_task :: "raw \<Rightarrow> TaskRecord" where
  "sample_task def = \<lparr>t_TaskID = 5, t_TenantID = ''acme'', t_Status = TaskStatusPending,
     t_RuntimeID = None, t_RuntimeEndpoint = None, t_TaskDefinition = def, t_LastCheckpoint = None,
     t_ExecutionEnvelope = None, t_ExecutionReceipt = None, t_Proof = None,
     t_AgentIdentity = empty_identity, t_RequiredCapabilities = [], t_CredentialRequests = [],
     t_PermissionEnvelope = None, t_IdempotencyKey = ''k1'', t_FailureReason = None,
     t_FailureDetails = None, t_DeadlineAt = None, t_DispatchedAt = None, t_CompletedAt = None,
     t_CanceledAt = None, t_CreatedAt = 0, t_ExecutedTarget = None, t_FallbackReason = None,
     t_RegisteredAgentID = None, t_RegisteredAgentName = [], t_BoundAction = None\<rparr>"

definition sample_env :: "unit signing_env" where
  "sample_env = \<lparr>se_key = Some (), se_key_version = ''v1'', se_H = (\<lambda>s. map (of_char :: char \<Rightarrow> byte) (take 8 s)),
     se_sign = (\<lambda>_ bs. bs), se_new_id = nat_dec, se_uuid_string = (\<lambda>u. nat_dec (unat u))\<rparr>"

definition sample_policy_db :: policy_db where
  "sample_policy_db = \<lparr>pdb_settings = [\<lparr>cps_tenant_id = ''acme'', cps_policy = Some (marshal (JObj sample_policy)),
     cps_active = True, cps_status = ''active'', cps_expires_at = None, cps_updated_at = 1\<rparr>],
     pdb_tenants = [], pdb_fault = False\<rparr>"

definition sample_governance :: taskGovernance where
  "sample_governance = \<lparr>tg_AgentIdentity = empty_identity, tg_RequiredCapabilities = [''tools.search''],
     tg_CredentialRequests = []\<rparr>"

theorem envelope_only_if_permitted_witness:
  "\<exists>e. buildTaskPermissionEnvelope sample_env (Some sample_policy_db) 7 (sample_task (RawBad [])) sample_governance
       = Inr (Some e) \<and> map cd_Capability (pe_Decisions e) = [''tools.search'']"
proof -
  have q: "capability_policy_query sample_policy_db 7 ''acme'' = marshal (JObj sample_policy)" "\<not> pdb_fault sample_policy_db"
    by (simp_all add: capability_policy_query_def sample_policy_db_def setting_in_force_def Let_def)
  have p: "fst (capabilityPermittedByPolicy ''tools.search'' sample_policy)" by code_simp
  have "ev_Permit (evaluateTaskCapabilityPolicy (se_H sample_env) (Some sample_policy_db) 7 ''acme'' [''tools.search''])"
    by (simp add: evaluateTaskCapabilityPolicy_def q p marshal_def Let_def)
  then obtain e where e: "buildTaskPermissionEnvelope sample_env (Some sample_policy_db) 7
      (sample_task (RawBad [])) sample_governance = Inr (Some e)"
    by (simp add: buildTaskPermissionEnvelope_def sample_governance_def sample_task_def sample_env_def Let_def)
  from envelope_only_if_permitted [OF e]
  have "map cd_Capability (pe_Decisions e) = tg_RequiredCapabilities sample_governance" by (elim exE conjE)
  moreover have "tg_RequiredCapabilities sample_governance = [''tools.search'']"
    by (simp add: sample_governance_def)
  ultimately show ?thesis using e by (intro exI [of _ e] conjI) (simp_all only:)
qed

subsection \<open>Canonical form\<close>

lemma go_map_eqD: "go_map xs = go_map ys \<Longrightarrow> map_of (rev xs) k = map_of (rev ys) k"
  by (metis map_of_go_map)

lemma int_json_inject [simp]: "int_json i = int_json j \<longleftrightarrow> i = j"
  by (auto simp: int_json_def)

lemma map_JStr_inject [simp]: "map JStr xs = map JStr ys \<longleftrightarrow> xs = ys"
  by (simp add: inj_map_eq_map inj_def)

lemma canonicalAgentIdentity_inject [simp]: "canonicalAgentIdentity i = canonicalAgentIdentity j \<longleftrightarrow> i = j"
proof
  assume "canonicalAgentIdentity i = canonicalAgentIdentity j"
  then have eq: "\<And>k. obj_get (go_map [(''acting_on_behalf_of'', JStr (ai_ActingOnBehalfOf i)), (''agent_id'', JStr (ai_AgentID i)),
      (''delegation_chain'', JArr (map JStr (ai_DelegationChain i))),
      (''principal_id'', JStr (ai_PrincipalID i)), (''submitted_by'', JStr (ai_SubmittedBy i))]) k =
     obj_get (go_map [(''acting_on_behalf_of'', JStr (ai_ActingOnBehalfOf j)), (''agent_id'', JStr (ai_AgentID j)),
      (''delegation_chain'', JArr (map JStr (ai_DelegationChain j))),
      (''principal_id'', JStr (ai_PrincipalID j)), (''submitted_by'', JStr (ai_SubmittedBy j))]) k"
    by (simp add: canonicalAgentIdentity_def)
  show "i = j"
    using eq [of "''acting_on_behalf_of''"] eq [of "''agent_id''"] eq [of "''delegation_chain''"]
      eq [of "''principal_id''"] eq [of "''submitted_by''"]
    by (simp add: obj_get_def)
qed simp

lemma canonicalCapabilityDecision_inject [simp]:
  "canonicalCapabilityDecision d = canonicalCapabilityDecision d' \<longleftrightarrow> d = d'"
proof
  assume "canonicalCapabilityDecision d = canonicalCapabilityDecision d'"
  note eq = this [unfolded canonicalCapabilityDecision_def json.inject, THEN go_map_eqD]
  show "d = d'"
    using eq [of "''capability''"] eq [of "''permit''"] eq [of "''policy_version''"] eq [of "''reason''"]
    by simp
qed simp

lemma canonicalCredentialReference_inject [simp]:
  "canonicalCredentialReference r = canonicalCredentialReference r' \<longleftrightarrow> r = r'"
proof
  assume "canonicalCredentialReference r = canonicalCredentialReference r'"
  note eq = this [unfolded canonicalCredentialReference_def json.inject, THEN go_map_eqD]
  show "r = r'"
    using eq [of "''capability''"] eq [of "''expires_at_unix_ms''"] eq [of "''reference_id''"]
      eq [of "''revocable''"] eq [of "''scope''"] eq [of "''task_id''"] eq [of "''tenant_id''"]
      eq [of "''tool''"]
    by simp
qed simp

lemma map_of_put_option:
  "map_of (case x of None \<Rightarrow> v | Some r \<Rightarrow> map_put k (f r) v) k' =
     (if k' = k \<and> x \<noteq> None then Some (f (the x)) else map_of v k')"
  by (cases x) auto


definition sample_envelope :: TaskPermissionEnvelope where
  "sample_envelope = unsignedEnvelope sample_env 7 (sample_task (RawBad [])) sample_governance
     (default_deny [''tools.search''] [])"


subsection \<open>Lifetime of a credential reference\<close>

lemma int64_id: "- (2 ^ 63) \<le> i \<Longrightarrow> i < 2 ^ 63 \<Longrightarrow> int64 i = i"
  by (simp add: int64_def sint_sbintrunc' signed_take_bit_int_eq_self)

text \<open>C17: A credential reference expires when it was asked to, as long as the lifetime in
  nanoseconds fits 63 bits: for a request of at most 9223372036 seconds the expiry is that many
  seconds after now, and lies in the future.\<close>

theorem credential_expiry_exact:
  assumes "0 < secs" "secs \<le> 9223372036"
  shows "credential_expiry now secs d = now div 1000000 + secs * 1000
    \<and> credential_expiry now secs d > now div 1000000"
proof -
  have "int64 (secs * 1000000000) = secs * 1000000000"
    using assms by (intro int64_id) auto
  then have "credential_expiry now secs d = (now + (secs * 1000) * 1000000) div 1000000"
    using assms by (simp add: credential_expiry_def)
  also have "\<dots> = now div 1000000 + secs * 1000" by (subst div_mult_self1) auto
  finally show ?thesis using assms by simp
qed

theorem credential_expiry_exact_witness:
  "credential_expiry 5000000 3600 0 = 3600005"
  using credential_expiry_exact [of 3600 5000000 0] by simp


section \<open>Facts on the governance fields\<close>

lemma omit_string_get:
  "k \<noteq> k' \<Longrightarrow> \<not> EqualFold k k' \<Longrightarrow> struct_get (kvs @ omit_string k s) k' = struct_get kvs k'"
  by (simp add: omit_string_def struct_get_def)

lemma lax_strings_JStr [simp]: "lax_strings (Some (JArr (map JStr xs))) = xs"
  by (simp add: lax_strings_def comp_def)

lemma unmarshal_marshal_identity [simp]: "unmarshalAgentIdentity (Some (marshalAgentIdentity i)) = i"
  by (cases i) (simp add: unmarshalAgentIdentity_def marshalAgentIdentity_def omit_string_def
      struct_string_def struct_get_def EqualFold_def ToLower_def lower_char_def lax_strings_def comp_def)

lemma unmarshal_marshal_credential [simp]:
  "- (2 ^ 63) \<le> cr_ExpiresInSeconds r \<and> cr_ExpiresInSeconds r < 2 ^ 63 \<Longrightarrow>
     unmarshalCredentialRequest (marshalCredentialRequest r) = r"
  by (cases r) (auto simp: unmarshalCredentialRequest_def marshalCredentialRequest_def omit_string_def
      struct_string_def struct_get_def EqualFold_def ToLower_def lower_char_def int_json_def)

definition governance_normal :: "taskGovernance \<Rightarrow> bool" where
  "governance_normal g \<longleftrightarrow>
     normalizeCapabilityList (tg_RequiredCapabilities g) = tg_RequiredCapabilities g
     \<and> normalizeCredentialRequests (tg_CredentialRequests g) = tg_CredentialRequests g
     \<and> (\<forall>r\<in>set (tg_CredentialRequests g).
          - (2 ^ 63) \<le> cr_ExpiresInSeconds r \<and> cr_ExpiresInSeconds r < 2 ^ 63)"




end
