(* ===== verification/Action_Policy.thy ===== *)
theory Action_Policy
  imports Task_Governance
begin

text \<open>
  The built-in action policy (\<^verbatim>\<open>coordinator/execution_governance.go\<close>): how a task definition is
  classified, which of its steps are irreversible, whether a human has to approve it, what a bound
  contract adds, the decision on a submission or a recovery attempt, and whether a recovered task
  may be handed to another runtime.

  Irreversible actions and approval marks are found by searching the text of the definition, so
  the layout of that text matters: \<open>Compact\<close> as submitted, \<open>Spaced\<close> as read back from the
  \<^verbatim>\<open>JSONB\<close> column.
\<close>

section \<open>Decisions\<close>

abbreviation ActionDecisionAllowed :: string where "ActionDecisionAllowed \<equiv> ''allowed''"
abbreviation ActionDecisionDenied :: string where "ActionDecisionDenied \<equiv> ''denied''"
abbreviation ActionDecisionApprovalRequired :: string where
  "ActionDecisionApprovalRequired \<equiv> ''approval_required''"
abbreviation ReplayClassRetryable :: string where "ReplayClassRetryable \<equiv> ''retryable''"
abbreviation ReplayClassNonRetryable :: string where "ReplayClassNonRetryable \<equiv> ''non_retryable''"
abbreviation CheckpointPortabilitySameRuntime :: string where
  "CheckpointPortabilitySameRuntime \<equiv> ''same_runtime_only''"
abbreviation CheckpointPortabilityCompatibleRuntime :: string where
  "CheckpointPortabilityCompatibleRuntime \<equiv> ''compatible_runtime''"
abbreviation CheckpointPortabilityAnyRuntime :: string where
  "CheckpointPortabilityAnyRuntime \<equiv> ''any_runtime''"

record ActionPolicyDecision =
  apd_DecisionID :: uuid
  apd_TenantID :: string
  apd_TaskID :: uuid
  apd_AgentID :: string
  apd_RuntimeID :: string
  apd_TaskType :: string
  apd_ActionName :: string
  apd_EnvironmentLabel :: string
  apd_ResourceScope :: string
  apd_RiskLevel :: string
  apd_Decision :: string
  apd_ReplayClass :: string
  apd_Irreversible :: bool
  apd_HumanGated :: bool
  apd_PolicyVersion :: string
  apd_PolicyReason :: string
  apd_ActionDigest :: string
  apd_BoundaryDigest :: string
  apd_CheckpointPortability :: string
  apd_CreatedAt :: gotime

record actionPolicyInput =
  api_TenantID :: string
  api_TaskID :: uuid
  api_RuntimeID :: string
  api_TaskDefinition :: raw
  api_AgentIdentity :: AgentIdentity
  api_RequiredCaps :: "string list"
  api_Checkpoint :: "CheckpointPayload option"
  api_RecoveryAttempt :: bool

record boundActionPolicy =
  bp_Present :: bool
  bp_Risk :: string
  bp_ReplayClass :: string
  bp_ApprovalRequired :: bool

record boundaryDefaults =
  bd_allowedTools :: "string list"
  bd_deniedTools :: "string list"
  bd_networkScope :: string
  bd_fileScope :: string
  bd_apiScope :: string
  bd_resourceScope :: string
  bd_digest :: string

section \<open>Reading the execution graph\<close>

text \<open>\<^verbatim>\<open>graph.nodes\<close> decoded into a slice of a struct type; \<open>None\<close> is a decoding error.\<close>

definition graph_nodes :: "(json \<Rightarrow> 'a option) \<Rightarrow> raw \<Rightarrow> 'a list option" where
  "graph_nodes dec def =
     (case (case raw_value def of None \<Rightarrow> None | Some j \<Rightarrow> unm_object j) of
        None \<Rightarrow> None
      | Some kvs \<Rightarrow> (case struct_get kvs ''graph'' of
          None \<Rightarrow> Some []
        | Some g \<Rightarrow> (case unm_object g of
            None \<Rightarrow> None
          | Some gkvs \<Rightarrow> (case struct_get gkvs ''nodes'' of
              None \<Rightarrow> Some []
            | Some ns \<Rightarrow> (case unm_array ns of
                None \<Rightarrow> None
              | Some xs \<Rightarrow> if list_all (\<lambda>x. dec x \<noteq> None) xs then Some (map (the \<circ> dec) xs)
                           else None)))))"

definition node_metadata :: "json \<Rightarrow> (string \<times> json) list option" where
  \<comment> \<open>a node struct whose only field is the map \<^verbatim>\<open>metadata\<close>\<close>
  "node_metadata x = (case unm_object x of None \<Rightarrow> None
     | Some kvs \<Rightarrow> (case struct_get kvs ''metadata'' of None \<Rightarrow> Some [] | Some m \<Rightarrow> unm_object m))"

definition riskLevelRank :: "string \<Rightarrow> nat" where
  "riskLevelRank risk =
     (let r = ToLower (TrimSpace risk) in
      if r = ''low'' then 1 else if r = ''medium'' then 2 else if r = ''high'' then 3
      else if r = ''critical'' then 4 else 0)"

definition no_bound_policy :: boundActionPolicy where
  "no_bound_policy = \<lparr>bp_Present = False, bp_Risk = [], bp_ReplayClass = [], bp_ApprovalRequired = False\<rparr>"

fun bound_of_nodes :: "(string \<times> json) list list \<Rightarrow> boundActionPolicy" where
  "bound_of_nodes [] = no_bound_policy"
| "bound_of_nodes (m # ms) =
     (if TrimSpace (assert_string (obj_get m ''contract_hash'')) = []
         \<or> TrimSpace (assert_string (obj_get m ''contract_binding_id'')) = [] then bound_of_nodes ms
      else
        let risk = assert_string (obj_get m ''contract_risk'');
            replayClass = assert_string (obj_get m ''replay_class'')
        in \<lparr>bp_Present = True,
            bp_Risk = (if riskLevelRank risk = 0 then ''low'' else risk),
            bp_ReplayClass = (if replayClass \<noteq> ReplayClassNonRetryable then ReplayClassRetryable
                              else replayClass),
            bp_ApprovalRequired = assert_bool (obj_get m ''approval_required'')\<rparr>)"

definition extractBoundActionPolicy :: "raw \<Rightarrow> boundActionPolicy" where
  "extractBoundActionPolicy def =
     (case graph_nodes node_metadata def of None \<Rightarrow> no_bound_policy | Some ms \<Rightarrow> bound_of_nodes ms)"

text \<open>\<^verbatim>\<open>classifyTaskAction\<close> ignores the decoding error: what could be decoded is used.\<close>

definition lax_nodes :: "raw \<Rightarrow> (string \<times> json) list list" where
  "lax_nodes def = (case raw_value def of
       Some (JObj kvs) \<Rightarrow> (case struct_get kvs ''graph'' of
           Some (JObj g) \<Rightarrow> (case struct_get g ''nodes'' of
               Some (JArr xs) \<Rightarrow> map (\<lambda>x. case x of JObj n \<Rightarrow> n | _ \<Rightarrow> []) xs
             | _ \<Rightarrow> [])
         | _ \<Rightarrow> [])
     | _ \<Rightarrow> [])"

definition node_action :: "(string \<times> json) list \<Rightarrow> string list" where
  "node_action n =
     (if struct_string n ''tool_name'' \<noteq> [] then [''tool:'' @ struct_string n ''tool_name'']
      else if struct_string n ''action'' \<noteq> []
        then [struct_string n ''kind'' @ '':'' @ struct_string n ''action''] else [])"

definition classifyTaskAction :: "raw \<Rightarrow> string \<times> string" where
  "classifyTaskAction def =
     (let typ = (case raw_value def of Some (JObj kvs) \<Rightarrow> TrimSpace (struct_string kvs ''type'') | _ \<Rightarrow> []);
          taskType = (if typ = [] then ''unknown'' else typ);
          actions = concat (map node_action (lax_nodes def))
      in if actions = [] then (taskType, taskType) else (taskType, Join actions '',''))"

section \<open>Irreversible actions\<close>

definition containsIrreversibleActionToken :: "string \<Rightarrow> bool" where
  "containsIrreversibleActionToken lower \<longleftrightarrow>
     Contains lower ([CHR 0x22] @ ''irreversible'' @ [CHR 0x22] @ '':true'')
     \<or> Contains lower ([CHR 0x22] @ ''db_write'' @ [CHR 0x22])
     \<or> Contains lower ([CHR 0x22] @ ''database_write'' @ [CHR 0x22])
     \<or> Contains lower ([CHR 0x22] @ ''publish_velocity'' @ [CHR 0x22])
     \<or> Contains lower ([CHR 0x22] @ ''navigate_to_pose'' @ [CHR 0x22])"

definition taskHasIrreversibleAction :: "raw \<Rightarrow> bool" where
  "taskHasIrreversibleAction def \<longleftrightarrow> containsIrreversibleActionToken (ToLower (raw_text def))"

definition irreversible_node :: "raw \<Rightarrow> json \<Rightarrow> bool" where
  "irreversible_node def node \<longleftrightarrow> containsIrreversibleActionToken (ToLower (raw_text (raw_with def node)))"

definition irreversibleStepIndexes :: "raw \<Rightarrow> nat list" where
  "irreversibleStepIndexes def =
     (case graph_nodes Some def of None \<Rightarrow> []
      | Some nodes \<Rightarrow> filter (\<lambda>i. irreversible_node def (nodes ! i)) [0..<length nodes])"

definition recoveryForwardResumeSafe :: "uuid \<Rightarrow> raw \<Rightarrow> CheckpointPayload option \<Rightarrow> bool" where
  "recoveryForwardResumeSafe taskID def cpo =
     (if \<not> taskHasIrreversibleAction def then True
      else case cpo of
        None \<Rightarrow> False
      | Some cp \<Rightarrow>
          if \<not> TaskRecoveryCheckpointUsable taskID cpo then False
          else let indexes = irreversibleStepIndexes def in
            if indexes = [] then False
            else list_all (\<lambda>idx. \<not> idx \<le> unat (cp_last cp)) indexes)"

section \<open>Human approval\<close>

definition approval_flag :: "(string \<times> json) list \<Rightarrow> bool" where
  "approval_flag m = (case obj_get m ''approval_required'' of None \<Rightarrow> False
     | Some j \<Rightarrow> unm_bool j = Some True)"

definition taskRequiresHumanApproval :: "raw \<Rightarrow> bool" where
  "taskRequiresHumanApproval def =
     (let lower = ToLower (raw_text def) in
      if Contains lower ([CHR 0x22] @ ''approval'' @ [CHR 0x22])
         \<and> (Contains lower ([CHR 0x22] @ ''required'' @ [CHR 0x22] @ '':true'')
            \<or> Contains lower ([CHR 0x22] @ ''human_approval'' @ [CHR 0x22])) then True
      else case graph_nodes node_metadata def of
          None \<Rightarrow> False
        | Some ms \<Rightarrow> list_ex approval_flag ms)"

section \<open>The execution boundary\<close>

definition digestRaw :: "(string \<Rightarrow> byte list) \<Rightarrow> string \<Rightarrow> string" where
  "digestRaw H rw = hex_EncodeToString (H rw)"

fun boundary_caps :: "string list \<Rightarrow> boundaryDefaults \<Rightarrow> boundaryDefaults" where
  "boundary_caps [] b = b"
| "boundary_caps (cap # caps) b = boundary_caps caps
     (if HasPrefix cap ''tools.'' then
        b\<lparr>bd_allowedTools := bd_allowedTools b @ [TrimPrefix cap ''tools.'']\<rparr>
      else if HasPrefix cap ''network.'' then b\<lparr>bd_networkScope := ''policy_scoped''\<rparr>
      else if HasPrefix cap ''filesystem.'' then b\<lparr>bd_fileScope := ''policy_scoped''\<rparr>
      else b)"

definition slice_json :: "string list \<Rightarrow> json" where
  \<comment> \<open>these slices are nil until the first append\<close>
  "slice_json xs = (if xs = [] then JNull else JArr (map JStr xs))"

definition defaultExecutionBoundary :: "(string \<Rightarrow> byte list) \<Rightarrow> raw \<Rightarrow> string list \<Rightarrow> boundaryDefaults" where
  "defaultExecutionBoundary H def caps =
     (let b0 = boundary_caps caps \<lparr>bd_allowedTools = [], bd_deniedTools = [], bd_networkScope = ''none'',
                 bd_fileScope = ''none'', bd_apiScope = ''none'', bd_resourceScope = ''task'', bd_digest = []\<rparr>;
          action = snd (classifyTaskAction def);
          b1 = (if bd_allowedTools b0 = [] \<and> Contains action ''tool:''
                then b0\<lparr>bd_allowedTools := map (\<lambda>part. TrimPrefix part ''tool:'') (Split action (CHR '',''))\<rparr>
                else b0);
          rw = JObj (go_map [(''allowed_tools'', slice_json (bd_allowedTools b1)),
                 (''denied_tools'', slice_json (bd_deniedTools b1)),
                 (''network'', JStr (bd_networkScope b1)), (''filesystem'', JStr (bd_fileScope b1)),
                 (''api'', JStr (bd_apiScope b1))])
      in b1\<lparr>bd_digest := digestRaw H (json_text Compact rw)\<rparr>)"

section \<open>The decision\<close>

text \<open>The run of the local variables of \<^verbatim>\<open>evaluateActionPolicy\<close>: risk, decision, reason,
  portability and so on are assigned in the order of the code.\<close>

definition evaluateActionPolicy :: "(string \<Rightarrow> byte list) \<Rightarrow> uuid \<Rightarrow> gotime \<Rightarrow> actionPolicyInput \<Rightarrow>
    ActionPolicyDecision" where
  "evaluateActionPolicy H newID now input =
     (let def = api_TaskDefinition input;
          irreversible = taskHasIrreversibleAction def;
          boundPolicy = extractBoundActionPolicy def;
          forwardResumeSafe = (api_RecoveryAttempt input
            \<and> recoveryForwardResumeSafe (api_TaskID input) def (api_Checkpoint input));
          risk1 = (if irreversible then ''high'' else ''low'');
          risk2 = (if bp_Present boundPolicy \<and> riskLevelRank (bp_Risk boundPolicy) > riskLevelRank risk1
                   then bp_Risk boundPolicy else risk1);
          humanGated = (taskRequiresHumanApproval def
            \<or> (bp_Present boundPolicy \<and> bp_ApprovalRequired boundPolicy));
          risk3 = (if humanGated \<and> riskLevelRank ''medium'' > riskLevelRank risk2 then ''medium'' else risk2);
          replayClass = (if irreversible \<or> (bp_Present boundPolicy
              \<and> bp_ReplayClass boundPolicy = ReplayClassNonRetryable)
            then ReplayClassNonRetryable else ReplayClassRetryable);
          portability = (if irreversible \<and> \<not> forwardResumeSafe then CheckpointPortabilitySameRuntime
            else CheckpointPortabilityCompatibleRuntime);
          d1 = (if humanGated
                then (ActionDecisionApprovalRequired, ''human approval required before execution'')
                else (ActionDecisionAllowed,
                  if bp_Present boundPolicy
                  then ''allowed by stricter bound-contract and execution governance policy''
                  else ''allowed by built-in execution governance''));
          d2 = (if api_RecoveryAttempt input
                  \<and> \<not> TaskRecoveryCheckpointUsable (api_TaskID input) (api_Checkpoint input)
                then (ActionDecisionDenied, ''recovery checkpoint is missing or invalid'') else d1);
          d3 = (if api_RecoveryAttempt input \<and> irreversible \<and> \<not> forwardResumeSafe
                then (ActionDecisionDenied,
                  ''irreversible action already committed or checkpoint cannot prove safe forward-resume'')
                else d2);
          boundary = defaultExecutionBoundary H def (api_RequiredCaps input)
      in \<lparr>apd_DecisionID = newID, apd_TenantID = api_TenantID input, apd_TaskID = api_TaskID input,
          apd_AgentID = ai_AgentID (api_AgentIdentity input), apd_RuntimeID = api_RuntimeID input,
          apd_TaskType = fst (classifyTaskAction def), apd_ActionName = snd (classifyTaskAction def),
          apd_EnvironmentLabel = ''tenant-runtime'', apd_ResourceScope = bd_resourceScope boundary,
          apd_RiskLevel = risk3, apd_Decision = fst d3, apd_ReplayClass = replayClass,
          apd_Irreversible = irreversible, apd_HumanGated = humanGated,
          apd_PolicyVersion = (if bp_Present boundPolicy then ''execution-governance.contract-bound.v1''
            else ''execution-governance.builtin.v1''),
          apd_PolicyReason = snd d3, apd_ActionDigest = digestRaw H (raw_text def),
          apd_BoundaryDigest = bd_digest boundary, apd_CheckpointPortability = portability,
          apd_CreatedAt = now\<rparr>)"

definition RecoveryHandoffAllowed :: "TaskRecord \<Rightarrow> CheckpointPayload option \<Rightarrow> string \<Rightarrow>
    ActionPolicyDecision \<Rightarrow> bool \<times> string" where
  "RecoveryHandoffAllowed task checkpoint targetRuntimeID decision =
     (if apd_Decision decision \<noteq> ActionDecisionAllowed then (False, apd_PolicyReason decision)
      else if apd_Irreversible decision
          \<and> \<not> recoveryForwardResumeSafe (t_TaskID task) (t_TaskDefinition task) checkpoint
        then (False, ''irreversible action already committed or checkpoint cannot prove safe forward-resume'')
      else case checkpoint of
        None \<Rightarrow> (True, ''no checkpoint; first safe redispatch'')
      | Some cp \<Rightarrow>
          if apd_CheckpointPortability decision = CheckpointPortabilityAnyRuntime
             \<or> apd_CheckpointPortability decision = CheckpointPortabilityCompatibleRuntime
            then (True, ''checkpoint portability allows compatible runtime handoff'')
          else if apd_CheckpointPortability decision = CheckpointPortabilitySameRuntime then
            (if rt_RuntimeID (cp_ResumeToken cp) = [] \<or> rt_RuntimeID (cp_ResumeToken cp) = targetRuntimeID
             then (True, ''same runtime checkpoint'') else (False, ''checkpoint is same-runtime-only''))
          else (False, ''unknown checkpoint portability''))"

section \<open>Facts on irreversible steps\<close>

lemma token_mono: "Contains s t \<Longrightarrow> containsIrreversibleActionToken t \<Longrightarrow> containsIrreversibleActionToken s"
  unfolding containsIrreversibleActionToken_def by (blast intro: Contains_trans)

lemma graph_nodes_text:
  assumes "graph_nodes Some def = Some nodes" and "x \<in> set nodes"
  shows "Contains (raw_text def) (raw_text (raw_with def x))"
proof (cases def)
  case (RawJSON st j)
  with assms obtain kvs g gkvs ns where
    j: "unm_object j = Some kvs" "struct_get kvs ''graph'' = Some g" "unm_object g = Some gkvs"
    and n: "struct_get gkvs ''nodes'' = Some ns" "unm_array ns = Some nodes"
    by (auto simp: graph_nodes_def comp_def list_all_iff split: option.splits)
  from n(2) assms(2) have "ns = JArr nodes" by (cases ns) auto
  moreover from j(3) n(1) have "g = JObj gkvs" by (cases g) (auto simp: struct_get_def)
  moreover from j(1,2) have "j = JObj kvs" by (cases j) (auto simp: struct_get_def)
  ultimately have "Contains (json_text st j) (json_text st g)" "Contains (json_text st g) (json_text st ns)"
    "Contains (json_text st ns) (json_text st x)"
    using j(2) n(1) assms(2) text_member text_element by (blast dest: struct_get_in)+
  with RawJSON show ?thesis by (auto intro: Contains_trans)
qed (use assms in \<open>simp add: graph_nodes_def\<close>)

lemma irreversible_node_task:
  assumes "graph_nodes Some def = Some nodes" and "x \<in> set nodes" and "irreversible_node def x"
  shows "taskHasIrreversibleAction def"
  using assms graph_nodes_text [OF assms(1,2)] Contains_ToLower token_mono
  unfolding irreversible_node_def taskHasIrreversibleAction_def by blast

lemma irreversible_indexes_task: "irreversibleStepIndexes def \<noteq> [] \<Longrightarrow> taskHasIrreversibleAction def"
proof -
  assume "irreversibleStepIndexes def \<noteq> []"
  then obtain nodes i where "graph_nodes Some def = Some nodes" "i < length nodes"
    "irreversible_node def (nodes ! i)"
    by (auto simp: irreversibleStepIndexes_def filter_empty_conv split: option.splits)
  then show ?thesis by (blast intro: irreversible_node_task nth_mem)
qed

lemma forward_resume_pending:
  assumes "recoveryForwardResumeSafe taskID def (Some cp)" and "i \<in> set (irreversibleStepIndexes def)"
  shows "unat (cp_last cp) < i"
proof -
  have "taskHasIrreversibleAction def" using assms(2) irreversible_indexes_task by (metis empty_iff empty_set)
  with assms show ?thesis
    by (auto simp: recoveryForwardResumeSafe_def list_all_iff Let_def split: if_splits)
qed

section \<open>Facts on the decision\<close>

lemma decision_fields [simp]:
  "apd_Irreversible (evaluateActionPolicy H newID now input) = taskHasIrreversibleAction (api_TaskDefinition input)"
  "apd_TenantID (evaluateActionPolicy H newID now input) = api_TenantID input"
  "apd_TaskID (evaluateActionPolicy H newID now input) = api_TaskID input"
  "apd_RuntimeID (evaluateActionPolicy H newID now input) = api_RuntimeID input"
  "apd_DecisionID (evaluateActionPolicy H newID now input) = newID"
  by (simp_all add: evaluateActionPolicy_def Let_def)

lemma decision_gated:
  "apd_HumanGated (evaluateActionPolicy H newID now input) \<longleftrightarrow>
     taskRequiresHumanApproval (api_TaskDefinition input)
     \<or> bp_Present (extractBoundActionPolicy (api_TaskDefinition input))
       \<and> bp_ApprovalRequired (extractBoundActionPolicy (api_TaskDefinition input))"
  by (simp add: evaluateActionPolicy_def Let_def)

lemma decision_iff:
  "apd_Decision (evaluateActionPolicy H newID now input) =
     (if api_RecoveryAttempt input \<and>
         (\<not> TaskRecoveryCheckpointUsable (api_TaskID input) (api_Checkpoint input)
          \<or> taskHasIrreversibleAction (api_TaskDefinition input)
            \<and> \<not> recoveryForwardResumeSafe (api_TaskID input) (api_TaskDefinition input) (api_Checkpoint input))
      then ActionDecisionDenied
      else if apd_HumanGated (evaluateActionPolicy H newID now input) then ActionDecisionApprovalRequired
      else ActionDecisionAllowed)"
  by (simp add: evaluateActionPolicy_def Let_def)

lemma decision_allowed:
  "apd_Decision (evaluateActionPolicy H newID now input) = ActionDecisionAllowed \<longleftrightarrow>
     \<not> apd_HumanGated (evaluateActionPolicy H newID now input) \<and>
     (api_RecoveryAttempt input \<longrightarrow>
        TaskRecoveryCheckpointUsable (api_TaskID input) (api_Checkpoint input)
        \<and> (taskHasIrreversibleAction (api_TaskDefinition input) \<longrightarrow>
           recoveryForwardResumeSafe (api_TaskID input) (api_TaskDefinition input) (api_Checkpoint input)))"
  unfolding decision_iff by simp

definition recovery_input :: "TaskRecord \<Rightarrow> string \<Rightarrow> CheckpointPayload option \<Rightarrow> actionPolicyInput" where
  "recovery_input task newRuntime cp = \<lparr>api_TenantID = t_TenantID task, api_TaskID = t_TaskID task,
     api_RuntimeID = newRuntime, api_TaskDefinition = t_TaskDefinition task,
     api_AgentIdentity = t_AgentIdentity task, api_RequiredCaps = t_RequiredCapabilities task,
     api_Checkpoint = cp, api_RecoveryAttempt = True\<rparr>"

lemma handoff_allowed:
  assumes "fst (RecoveryHandoffAllowed task cpo target decision)"
  shows "apd_Decision decision = ActionDecisionAllowed
    \<and> (apd_Irreversible decision \<longrightarrow> recoveryForwardResumeSafe (t_TaskID task) (t_TaskDefinition task) cpo)"
  using assms by (auto simp: RecoveryHandoffAllowed_def split: if_splits)


definition graph_definition :: "json list \<Rightarrow> json" where
  "graph_definition nodes = JObj [(''type'', JStr ''execution_graph''), (''graph'', JObj [(''nodes'', JArr nodes)])]"

definition tool_node :: "string \<Rightarrow> json" where
  "tool_node name = JObj [(''kind'', JStr ''tool''), (''tool_name'', JStr name)]"



section \<open>Human gates and bound contracts\<close>

lemma metadata_approval:
  assumes "graph_nodes node_metadata def = Some ms" and "m \<in> set ms" and "approval_flag m"
  shows "taskRequiresHumanApproval def"
  using assms by (auto simp: taskRequiresHumanApproval_def Let_def list_ex_iff)


definition submit_input :: "raw \<Rightarrow> actionPolicyInput" where
  "submit_input def = \<lparr>api_TenantID = ''acme'', api_TaskID = 5, api_RuntimeID = ''rt'',
     api_TaskDefinition = def, api_AgentIdentity = empty_identity, api_RequiredCaps = [],
     api_Checkpoint = None, api_RecoveryAttempt = False\<rparr>"



text \<open>C20: A task without a usable checkpoint is never handed to another runtime: the policy denies the
  recovery, so the branch of the handoff check that would allow a first redispatch without a checkpoint
  cannot be taken.\<close>

theorem recovery_without_checkpoint_denied:
  "RecoveryHandoffAllowed task None target
     (evaluateActionPolicy H newID now (recovery_input task target None))
   = (False, apd_PolicyReason (evaluateActionPolicy H newID now (recovery_input task target None)))
   \<and> apd_Decision (evaluateActionPolicy H newID now (recovery_input task target None)) = ActionDecisionDenied"
proof -
  have "apd_Decision (evaluateActionPolicy H newID now (recovery_input task target None)) = ActionDecisionDenied"
    unfolding decision_iff by (simp add: recovery_input_def TaskRecoveryCheckpointUsable_def)
  then show ?thesis by (simp add: RecoveryHandoffAllowed_def)
qed

end
