(* ===== verification/Task_Store.thy ===== *)
theory Task_Store
  imports Action_Policy
begin

text \<open>
  The durable store (\<^verbatim>\<open>coordinator/checkpoint_store.go\<close> and the Save and Mark operations of
  \<^verbatim>\<open>coordinator/execution_governance.go\<close>): the PostgreSQL tables as lists of rows, every SQL
  statement as a function on them with the keys and checks of the migrations, and the store
  operations as the sequences of statements they run.

  A statement may fail. Failures are an input: \<open>db_faults\<close> holds the outcome of each statement to
  come. A failed statement has no effect; a failed commit rolls the transaction back (\<open>Fails\<close>) or
  has taken effect although an error is reported (\<open>Lost\<close>). A transaction that is rolled back restores
  the tables. The clock \<open>db_now\<close> and the identifiers \<open>uuid.New\<close> returns
  (\<open>db_uuid\<close>) are inputs as well. The production driver is assumed, so \<^verbatim>\<open>isSQLMockDB\<close> is false.
\<close>

section \<open>Tables\<close>

record task_row =
  tr_task_id :: uuid
  tr_tenant_id :: string
  tr_status :: TaskRecordStatus
  tr_runtime_id :: "string option"
  tr_runtime_endpoint :: "string option"
  tr_task_definition :: raw
  tr_last_checkpoint :: "StoredCheckpoint option"
  tr_execution_envelope :: "raw option"
  tr_execution_receipt :: "raw option"
  tr_proof_execution_id :: "string option"
  tr_proof_expected_hash :: "string option"
  tr_proof_stored_hash :: "string option"
  tr_proof_signature :: "string option"
  tr_proof_status :: "string option"
  tr_proof_checked_at :: "gotime option"
  tr_proof_verified :: "bool option"
  tr_proof_hash_valid :: "bool option"
  tr_proof_signature_matches :: "bool option"
  tr_proof_runtime_key_found :: "bool option"
  tr_proof_chain_link_valid :: "bool option"
  tr_proof_verification_reason :: "string option"
  tr_proof_verified_at :: "gotime option"
  tr_idempotency_key :: string
  tr_failure_reason :: "string option"
  tr_failure_details :: "TaskFailureDetails option"
  tr_deadline_at :: "gotime option"
  tr_dispatched_at :: "gotime option"
  tr_completed_at :: "gotime option"
  tr_canceled_at :: "gotime option"
  tr_created_at :: gotime
  tr_executed_target :: "string option"
  tr_fallback_reason :: "string option"
  tr_registered_agent_id :: "uuid option"
  tr_registered_agent_name :: string
  tr_latest_policy_decision_id :: "uuid option"
  tr_checkpoint_portability :: string

record wal_row =
  wr_checkpoint_id :: uuid
  wr_task_id :: uuid
  wr_step_index :: nat
  wr_checkpoint_digest :: "byte list"
  wr_wal_entries :: StoredCheckpoint

record bound_run_row =
  br_task_id :: uuid
  br_tenant_id :: string
  br_bound :: BoundActionRunIdentity

record binding_row =
  bi_id :: uuid
  bi_tenant_id :: string
  bi_contract_hash :: string
  bi_target_action_id :: uuid
  bi_target_version_hash :: string
  bi_idempotency_required :: bool

record reconciliation_row =
  rc_tenant_id :: string
  rc_task_id :: uuid
  rc_binding_id :: uuid
  rc_actor_id :: string
  rc_reference_value :: string
  rc_target_host :: string
  rc_source_status_code :: int

record approval_row =
  ap_decision_id :: uuid
  ap_tenant_id :: string
  ap_task_id :: uuid
  ap_status :: string
  ap_requested_reason :: string
  ap_decided_by :: "string option"
  ap_decided_at :: "gotime option"
  ap_decision_reason :: "string option"

record boundary_row =
  bo_tenant_id :: string
  bo_task_id :: uuid
  bo_runtime_id :: string
  bo_policy_decision_id :: uuid
  bo_boundary :: boundaryDefaults

record RecoveryEvent =
  re_EventID :: uuid
  re_TenantID :: string
  re_TaskID :: uuid
  re_EventType :: string
  re_SourceRuntimeID :: string
  re_TargetRuntimeID :: string
  re_CheckpointDigest :: string
  re_LastCommittedStep :: "nat option"
  re_ReplayAllowed :: "bool option"
  re_Reason :: string

record RuntimeHandoffEvent =
  he_EventID :: uuid
  he_TenantID :: string
  he_TaskID :: uuid
  he_SourceRuntimeID :: string
  he_TargetRuntimeID :: string
  he_CheckpointDigest :: string
  he_CheckpointPortability :: string
  he_Decision :: string
  he_Reason :: string

record permission_audit_row =
  pa_task_id :: uuid
  pa_envelope :: TaskPermissionEnvelope
  pa_persisted_at :: gotime

record capability_audit_row =
  ca_envelope_id :: string
  ca_task_id :: uuid
  ca_tenant_id :: string
  ca_runtime_id :: string
  ca_decision :: CapabilityDecision
  ca_credential_ref_ids :: "string list"

record credential_audit_row =
  cx_envelope_id :: string
  cx_task_id :: uuid
  cx_tenant_id :: string
  cx_ref :: CredentialReference
  cx_revoked_at :: "gotime option"

record ExecutionInputRef =
  ir_ID :: uuid
  ir_TenantID :: string
  ir_TaskID :: uuid
  ir_ActionID :: "uuid option"
  ir_Purpose :: string
  ir_Ciphertext :: "byte list"
  ir_Nonce :: "byte list"
  ir_AAD :: raw
  ir_DigestSHA256 :: string
  ir_PlaintextBytes :: nat
  ir_ContentType :: string
  ir_RedactionPolicyVersion :: string
  ir_KeyVersion :: string
  ir_ExpiresAt :: "gotime option"
  ir_RevokedAt :: "gotime option"
  ir_LastDecryptedAt :: "gotime option"

record ExecutionInputRefAuditEvent =
  ia_TenantID :: string
  ia_TaskID :: uuid
  ia_ActionID :: "uuid option"
  ia_InputRefID :: uuid
  ia_Purpose :: string
  ia_KeyVersion :: string
  ia_ActorType :: string
  ia_EventType :: string
  ia_Reason :: string
  ia_Success :: bool
  ia_FailureCode :: string

record runtime_row =
  ru_runtime_id :: string
  ru_tenant_id :: string
  ru_endpoint :: "string option"
  ru_is_healthy :: bool
  ru_status :: string
  ru_last_heartbeat :: gotime

record lineage_row =
  li_execution_id :: string
  li_tenant_id :: string
  li_stored_hash :: string
  li_signature :: string

datatype fault = Succeeds | Fails | Lost

record db =
  db_tasks :: "task_row list"
  db_wal :: "wal_row list"
  db_bound_runs :: "bound_run_row list"
  db_bindings :: "binding_row list"
  db_reconciliations :: "reconciliation_row list"
  db_decisions :: "ActionPolicyDecision list"
  db_approvals :: "approval_row list"
  db_boundaries :: "boundary_row list"
  db_recovery_events :: "RecoveryEvent list"
  db_handoffs :: "RuntimeHandoffEvent list"
  db_permissions :: "permission_audit_row list"
  db_capability_audit :: "capability_audit_row list"
  db_credentials :: "credential_audit_row list"
  db_input_refs :: "ExecutionInputRef list"
  db_input_audit :: "ExecutionInputRefAuditEvent list"
  db_runtimes :: "runtime_row list"
  db_lineage :: "lineage_row list"
  db_policies :: policy_db
  db_faults :: "fault list"
  db_now :: gotime
  db_uuid :: "nat \<Rightarrow> uuid"
  db_uuid_count :: nat

datatype store_error =
    ErrTaskTransitionRejected
  | ErrNoRows
  | ErrDriver
  | ErrInvalidCumulativeCheckpoint cumulative_error
  | ErrIncompleteBoundAction

section \<open>Statements\<close>

definition stmt :: "db \<Rightarrow> bool \<times> db" where
  \<comment> \<open>whether the next statement fails\<close>
  "stmt db = (case db_faults db of [] \<Rightarrow> (False, db) | f # fs \<Rightarrow> (f \<noteq> Succeeds, db\<lparr>db_faults := fs\<rparr>))"

definition rollback :: "db \<Rightarrow> db \<Rightarrow> db" where
  \<comment> \<open>the tables before the transaction; used-up faults and identifiers stay used up\<close>
  "rollback db0 db = db0\<lparr>db_faults := db_faults db, db_uuid_count := db_uuid_count db\<rparr>"

definition commit :: "db \<Rightarrow> db \<Rightarrow> bool \<times> db" where
  \<comment> \<open>whether \<^verbatim>\<open>tx.Commit\<close> reports an error, and the database afterwards\<close>
  "commit db0 db = (case db_faults db of [] \<Rightarrow> (False, db)
     | f # fs \<Rightarrow> (let db1 = db\<lparr>db_faults := fs\<rparr> in
         case f of Succeeds \<Rightarrow> (False, db1) | Fails \<Rightarrow> (True, rollback db0 db1) | Lost \<Rightarrow> (True, db1)))"

definition uuid_New :: "db \<Rightarrow> uuid \<times> db" where
  "uuid_New db = (db_uuid db (db_uuid_count db), db\<lparr>db_uuid_count := Suc (db_uuid_count db)\<rparr>)"

definition update_tasks :: "(task_row \<Rightarrow> bool) \<Rightarrow> (task_row \<Rightarrow> task_row) \<Rightarrow> db \<Rightarrow> nat option \<times> db" where
  \<comment> \<open>\<open>UPDATE task_records\<close>: the number of rows, \<open>None\<close> on a driver error\<close>
  "update_tasks P f db =
     (case stmt db of (fault, db1) \<Rightarrow>
        if fault then (None, db1)
        else (case sql_update P f (db_tasks db1) of (rows, n) \<Rightarrow> (Some n, db1\<lparr>db_tasks := rows\<rparr>)))"

definition taskTransitionResult :: "nat option \<Rightarrow> store_error option" where
  "taskTransitionResult result = (case result of
       None \<Rightarrow> Some ErrDriver
     | Some 0 \<Rightarrow> Some ErrTaskTransitionRejected
     | Some (Suc _) \<Rightarrow> None)"

definition exec_result :: "nat option \<Rightarrow> store_error option" where
  \<comment> \<open>the error of an \<open>Exec\<close> whose row count is not looked at\<close>
  "exec_result result = (if result = None then Some ErrDriver else None)"

definition transition :: "(task_row \<Rightarrow> bool) \<Rightarrow> (task_row \<Rightarrow> task_row) \<Rightarrow> db \<Rightarrow> store_error option \<times> db" where
  "transition P f db = (case update_tasks P f db of (n, db1) \<Rightarrow> (taskTransitionResult n, db1))"

definition over_int32 :: "nat \<Rightarrow> bool" where
  \<comment> \<open>too large for a signed 32-bit column\<close>
  [simp, code del]: "over_int32 k \<longleftrightarrow> k \<ge> 2 ^ 31"

lemma over_int32_code [code]: "over_int32 k \<longleftrightarrow> 2147483648 \<le> int k"
  by simp

section \<open>Transitions of a task\<close>

definition MarkDispatched :: "uuid \<Rightarrow> string \<Rightarrow> string \<Rightarrow> db \<Rightarrow> store_error option \<times> db" where
  "MarkDispatched taskID runtimeID runtimeEndpoint db =
     transition (\<lambda>r. tr_task_id r = taskID \<and> tr_status r \<in> {TaskStatusPending, TaskStatusRecovering})
       (\<lambda>r. r\<lparr>tr_status := TaskStatusDispatched, tr_runtime_id := Some runtimeID,
              tr_runtime_endpoint := Some runtimeEndpoint, tr_dispatched_at := Some (db_now db)\<rparr>) db"

definition MarkCompleted :: "uuid \<Rightarrow> db \<Rightarrow> store_error option \<times> db" where
  "MarkCompleted taskID db =
     transition (\<lambda>r. tr_task_id r = taskID
         \<and> tr_status r \<in> {TaskStatusDispatched, TaskStatusCheckpointed, TaskStatusRecovering})
       (\<lambda>r. r\<lparr>tr_status := TaskStatusCompleted, tr_completed_at := Some (db_now db)\<rparr>) db"

definition markFailedRecord :: "uuid \<Rightarrow> string \<Rightarrow> TaskFailureDetails option \<Rightarrow> db \<Rightarrow> store_error option \<times> db" where
  "markFailedRecord taskID reason details =
     transition (\<lambda>r. tr_task_id r = taskID
         \<and> tr_status r \<in> {TaskStatusDispatched, TaskStatusCheckpointed, TaskStatusRecovering})
       (\<lambda>r. r\<lparr>tr_status := TaskStatusFailed, tr_failure_reason := Some reason,
              tr_failure_details := details\<rparr>)"

definition MarkCanceled :: "uuid \<Rightarrow> db \<Rightarrow> store_error option \<times> db" where
  "MarkCanceled taskID db =
     transition (\<lambda>r. tr_task_id r = taskID
         \<and> tr_status r \<in> {TaskStatusPending, TaskStatusDispatched, TaskStatusCheckpointed, TaskStatusRecovering})
       (\<lambda>r. r\<lparr>tr_status := TaskStatusCanceled, tr_canceled_at := Some (db_now db)\<rparr>) db"

definition MarkApprovalRequired :: "uuid \<Rightarrow> string \<Rightarrow> db \<Rightarrow> store_error option \<times> db" where
  "MarkApprovalRequired taskID reason =
     transition (\<lambda>r. tr_task_id r = taskID \<and> tr_status r \<in> {TaskStatusPending, TaskStatusRecovering})
       (\<lambda>r. r\<lparr>tr_status := TaskStatusApprovalRequired, tr_failure_reason := Some reason\<rparr>)"

definition MarkApprovedDispatched :: "uuid \<Rightarrow> string \<Rightarrow> string \<Rightarrow> string \<Rightarrow> string \<Rightarrow> db \<Rightarrow> store_error option \<times> db" where
  "MarkApprovedDispatched taskID tenantID runtimeID runtimeEndpoint approvedBy db =
     transition (\<lambda>r. tr_task_id r = taskID \<and> tr_tenant_id r = tenantID \<and> tr_status r = TaskStatusApprovalRequired)
       (\<lambda>r. r\<lparr>tr_status := TaskStatusDispatched, tr_runtime_id := Some runtimeID,
              tr_runtime_endpoint := Some runtimeEndpoint, tr_dispatched_at := Some (db_now db),
              tr_failure_reason := None\<rparr>) db"

definition MarkApprovalRejected :: "uuid \<Rightarrow> string \<Rightarrow> string \<Rightarrow> TaskFailureDetails option \<Rightarrow> db \<Rightarrow>
    store_error option \<times> db" where
  "MarkApprovalRejected taskID tenantID reason details =
     transition (\<lambda>r. tr_task_id r = taskID \<and> tr_tenant_id r = tenantID \<and> tr_status r = TaskStatusApprovalRequired)
       (\<lambda>r. r\<lparr>tr_status := TaskStatusFailed, tr_failure_reason := Some reason,
              tr_failure_details := details\<rparr>)"

definition MarkRecovering :: "string \<Rightarrow> db \<Rightarrow> (store_error + uuid list) \<times> db" where
  \<comment> \<open>\<open>UPDATE ... RETURNING task_id\<close>\<close>
  "MarkRecovering runtimeID db =
     (let P = (\<lambda>r. tr_runtime_id r = Some runtimeID
                 \<and> tr_status r \<in> {TaskStatusDispatched, TaskStatusCheckpointed})
      in case update_tasks P (\<lambda>r. r\<lparr>tr_status := TaskStatusRecovering\<rparr>) db of
           (None, db1) \<Rightarrow> (Inl ErrDriver, db1)
         | (Some n, db1) \<Rightarrow> (Inr (map tr_task_id (filter P (db_tasks db))), db1))"

section \<open>Failure with details\<close>

definition reconciliation_rows :: "uuid \<Rightarrow> TaskFailureDetails \<Rightarrow> db \<Rightarrow> reconciliation_row list" where
  \<comment> \<open>the SELECT of the INSERT: the bound run of the task, joined with a binding that requires an
     idempotency identity and with the task's own row\<close>
  "reconciliation_rows taskID d db =
     concat (map (\<lambda>r. if br_task_id r \<noteq> taskID then [] else
       concat (map (\<lambda>b. if bi_id b = ba_BindingID (br_bound r) \<and> bi_tenant_id b = br_tenant_id r
             \<and> bi_contract_hash b = ba_ContractHash (br_bound r)
             \<and> bi_target_action_id b = ba_TargetActionID (br_bound r)
             \<and> bi_target_version_hash b = ba_TargetVersionHash (br_bound r)
             \<and> bi_idempotency_required b
           then map (\<lambda>t. \<lparr>rc_tenant_id = br_tenant_id r, rc_task_id = br_task_id r,
                  rc_binding_id = ba_BindingID (br_bound r),
                  rc_actor_id = (case tr_runtime_id t of None \<Rightarrow> ''runtime:unknown''
                    | Some i \<Rightarrow> if i = [] then ''runtime:unknown'' else i),
                  rc_reference_value = fd_TargetResponseDigest d,
                  rc_target_host = TrimSpace (fd_TargetHost d),
                  rc_source_status_code = fd_StatusCode d\<rparr>)
                (filter (\<lambda>t. tr_task_id t = br_task_id r \<and> tr_tenant_id t = br_tenant_id r) (db_tasks db))
           else []) (db_bindings db))) (db_bound_runs db))"

definition insert_reconciliation :: "uuid \<Rightarrow> TaskFailureDetails \<Rightarrow> db \<Rightarrow> store_error option \<times> db" where
  \<comment> \<open>\<open>ON CONFLICT DO NOTHING\<close>: a second observation of a task is dropped\<close>
  "insert_reconciliation taskID d db =
     (case stmt db of (fault, db1) \<Rightarrow>
        if fault then (Some ErrDriver, db1)
        else (None, db1\<lparr>db_reconciliations := db_reconciliations db1 @
               filter (\<lambda>n. \<not> list_ex (\<lambda>old. rc_task_id old = rc_task_id n) (db_reconciliations db1))
                 (reconciliation_rows taskID d db1)\<rparr>))"

definition ensureTaskFailedRecord :: "uuid \<Rightarrow> string \<Rightarrow> TaskFailureDetails option \<Rightarrow> db \<Rightarrow> store_error option \<times> db" where
  "ensureTaskFailedRecord taskID reason details db =
     (case markFailedRecord taskID reason details db of (err, db1) \<Rightarrow>
        if err \<noteq> Some ErrTaskTransitionRejected then (err, db1)
        else (case stmt db1 of (fault, db2) \<Rightarrow>
          if \<not> fault \<and> (case find (\<lambda>r. tr_task_id r = taskID) (db_tasks db2) of
                None \<Rightarrow> False | Some r \<Rightarrow> tr_status r = TaskStatusFailed)
          then (None, db2) else (err, db2)))"

definition MarkFailedWithDetails :: "uuid \<Rightarrow> string \<Rightarrow> TaskFailureDetails option \<Rightarrow> db \<Rightarrow> store_error option \<times> db" where
  "MarkFailedWithDetails taskID reason details db =
     (if IsTypedReconciliationFailure details then
        (case stmt db of (beginFault, db1) \<Rightarrow>
           if beginFault then markFailedRecord taskID reason details db1
           else (case markFailedRecord taskID reason details db1 of
               (Some err, db2) \<Rightarrow> (Some err, rollback db1 db2)
             | (None, db2) \<Rightarrow>
                 (case insert_reconciliation taskID (the details) db2 of
                    (Some err, db3) \<Rightarrow> markFailedRecord taskID reason details (rollback db1 db3)
                  | (None, db3) \<Rightarrow>
                      (case commit db1 db3 of (commitFault, db4) \<Rightarrow>
                         if commitFault then ensureTaskFailedRecord taskID reason details db4
                         else (None, db4)))))
      else markFailedRecord taskID reason details db)"

definition MarkFailed :: "uuid \<Rightarrow> string \<Rightarrow> db \<Rightarrow> store_error option \<times> db" where
  "MarkFailed taskID reason = MarkFailedWithDetails taskID reason None"

section \<open>Checkpoints\<close>

definition insert_wal :: "CheckpointPayload \<Rightarrow> db \<Rightarrow> store_error option \<times> db" where
  \<comment> \<open>the column \<open>step_index\<close> is a signed 32-bit integer\<close>
  "insert_wal cp db =
     (case uuid_New db of (cid, db0) \<Rightarrow> (case stmt db0 of (fault, db1) \<Rightarrow>
        if fault \<or> over_int32 (unat (cp_last cp)) then (Some ErrDriver, db1)
        else (None, db1\<lparr>db_wal := db_wal db1 @ [\<lparr>wr_checkpoint_id = cid, wr_task_id = cp_TaskID cp,
               wr_step_index = unat (cp_last cp),
               wr_checkpoint_digest =
                 (case hex_DecodeString (rt_CheckpointDigest (cp_ResumeToken cp)) of None \<Rightarrow> [] | Some b \<Rightarrow> b),
               wr_wal_entries = marshalCheckpoint cp\<rparr>]\<rparr>)))"

definition SaveCheckpoint :: "CheckpointPayload \<Rightarrow> db \<Rightarrow> store_error option \<times> db" where
  "SaveCheckpoint cp db =
     (if \<not> TaskCheckpointWatermarkConsistent (Some cp) \<or> \<not> TaskCheckpointEntriesBelongToTask (Some cp)
         \<or> \<not> TaskCheckpointEntriesHaveStableIDs (Some cp)
      then (Some ErrTaskTransitionRejected, db)
      else (case stmt db of (beginFault, db1) \<Rightarrow>
        if beginFault then (Some ErrDriver, db1)
        else (case stmt db1 of (selectFault, db2) \<Rightarrow>
          if selectFault then (Some ErrDriver, rollback db1 db2)
          else (case find (\<lambda>r. tr_task_id r = cp_TaskID cp) (db_tasks db2) of
              None \<Rightarrow> (Some ErrTaskTransitionRejected, rollback db1 db2)
            | Some row \<Rightarrow>
                if (case decodeCheckpointPayload (tr_last_checkpoint row) of None \<Rightarrow> False
                    | Some current \<Rightarrow> \<not> TaskCheckpointAdvances (Some current) (Some cp))
                then (Some ErrTaskTransitionRejected, rollback db1 db2)
                else (case transition (\<lambda>r. tr_task_id r = cp_TaskID cp
                        \<and> tr_status r \<in> {TaskStatusDispatched, TaskStatusCheckpointed, TaskStatusRecovering})
                      (\<lambda>r. r\<lparr>tr_status := TaskStatusCheckpointed, tr_last_checkpoint := Some (marshalCheckpoint cp)\<rparr>) db2 of
                    (Some err, db3) \<Rightarrow> (Some err, rollback db1 db3)
                  | (None, db3) \<Rightarrow>
                      (case insert_wal cp db3 of
                         (Some err, db4) \<Rightarrow> (Some err, rollback db1 db4)
                       | (None, db4) \<Rightarrow> (case commit db1 db4 of (commitFault, db5) \<Rightarrow>
                           (if commitFault then Some ErrDriver else None, db5))))))))"

section \<open>Creating a task\<close>

definition new_task_row :: "TaskRecord \<Rightarrow> gotime \<Rightarrow> task_row" where
  "new_task_row task now = \<lparr>tr_task_id = t_TaskID task, tr_tenant_id = t_TenantID task,
     tr_status = TaskStatusPending, tr_runtime_id = None, tr_runtime_endpoint = None,
     tr_task_definition = jsonb_column (t_TaskDefinition task), tr_last_checkpoint = None,
     tr_execution_envelope = None, tr_execution_receipt = None, tr_proof_execution_id = None,
     tr_proof_expected_hash = None, tr_proof_stored_hash = None, tr_proof_signature = None,
     tr_proof_status = None, tr_proof_checked_at = None, tr_proof_verified = None,
     tr_proof_hash_valid = None, tr_proof_signature_matches = None, tr_proof_runtime_key_found = None,
     tr_proof_chain_link_valid = None, tr_proof_verification_reason = None, tr_proof_verified_at = None,
     tr_idempotency_key = t_IdempotencyKey task, tr_failure_reason = None, tr_failure_details = None,
     tr_deadline_at = t_DeadlineAt task, tr_dispatched_at = None, tr_completed_at = None,
     tr_canceled_at = None, tr_created_at = now, tr_executed_target = None, tr_fallback_reason = None,
     tr_registered_agent_id = (if t_RegisteredAgentID task = Some uuid_Nil then None
                               else t_RegisteredAgentID task),
     tr_registered_agent_name = t_RegisteredAgentName task, tr_latest_policy_decision_id = None,
     tr_checkpoint_portability = CheckpointPortabilitySameRuntime\<rparr>"

definition insert_task :: "TaskRecord \<Rightarrow> db \<Rightarrow> nat option \<times> db" where
  \<comment> \<open>\<open>INSERT INTO task_records ... ON CONFLICT (tenant_id, idempotency_key) DO NOTHING\<close>; another
     row with the same primary key is an error\<close>
  "insert_task task db =
     (case stmt db of (fault, db1) \<Rightarrow>
        if fault then (None, db1)
        else if list_ex (\<lambda>r. tr_tenant_id r = t_TenantID task \<and> tr_idempotency_key r = t_IdempotencyKey task)
               (db_tasks db1) then (Some 0, db1)
        else if list_ex (\<lambda>r. tr_task_id r = t_TaskID task) (db_tasks db1) then (None, db1)
        else (Some 1, db1\<lparr>db_tasks := db_tasks db1 @ [new_task_row task (db_now db1)]\<rparr>))"

definition boundIncomplete :: "BoundActionRunIdentity \<Rightarrow> bool" where
  "boundIncomplete b \<longleftrightarrow> ba_BindingID b = uuid_Nil \<or> ba_TargetActionID b = uuid_Nil
     \<or> TrimSpace (ba_ContractHash b) = [] \<or> TrimSpace (ba_TargetVersionHash b) = []
     \<or> TrimSpace (ba_BusinessIdempotencyKey b) = [] \<or> TrimSpace (ba_RequestFingerprint b) = []"

definition insertBoundActionRun :: "TaskRecord \<Rightarrow> db \<Rightarrow> store_error option \<times> db" where
  \<comment> \<open>the row needs its binding (a foreign key) and is unique per task\<close>
  "insertBoundActionRun task db = (case t_BoundAction task of None \<Rightarrow> (None, db)
     | Some b \<Rightarrow>
         if boundIncomplete b then (Some ErrIncompleteBoundAction, db)
         else (case stmt db of (fault, db1) \<Rightarrow>
           if fault \<or> list_ex (\<lambda>r. br_task_id r = t_TaskID task) (db_bound_runs db1)
              \<or> \<not> list_ex (\<lambda>x. bi_id x = ba_BindingID b \<and> bi_tenant_id x = t_TenantID task
                     \<and> bi_contract_hash x = ba_ContractHash b
                     \<and> bi_target_action_id x = ba_TargetActionID b
                     \<and> bi_target_version_hash x = ba_TargetVersionHash b) (db_bindings db1)
           then (Some ErrDriver, db1)
           else (None, db1\<lparr>db_bound_runs := db_bound_runs db1 @
                  [\<lparr>br_task_id = t_TaskID task, br_tenant_id = t_TenantID task, br_bound = b\<rparr>]\<rparr>)))"

definition CreateTask :: "TaskRecord \<Rightarrow> db \<Rightarrow> (store_error + bool) \<times> db" where
  "CreateTask task db =
     (if t_BoundAction task \<noteq> None then
        (case stmt db of (beginFault, db1) \<Rightarrow>
           if beginFault then (Inl ErrDriver, db1)
           else (case insert_task task db1 of
               (None, db2) \<Rightarrow> (Inl ErrDriver, rollback db1 db2)
             | (Some 0, db2) \<Rightarrow> (case commit db1 db2 of (f, db3) \<Rightarrow>
                   (if f then Inl ErrDriver else Inr False, db3))
             | (Some (Suc _), db2) \<Rightarrow>
                 (case insertBoundActionRun task db2 of
                    (Some err, db3) \<Rightarrow> (Inl err, rollback db1 db3)
                  | (None, db3) \<Rightarrow> (case commit db1 db3 of (f, db4) \<Rightarrow>
                      (if f then Inl ErrDriver else Inr True, db4)))))
      else (case insert_task task db of
          (None, db1) \<Rightarrow> (Inl ErrDriver, db1)
        | (Some n, db1) \<Rightarrow> (Inr (n = 1), db1)))"

definition insertExecutionInputRef :: "ExecutionInputRef \<Rightarrow> db \<Rightarrow> store_error option \<times> db" where
  "insertExecutionInputRef ref db =
     (case stmt db of (fault, db1) \<Rightarrow>
        if fault then (Some ErrDriver, db1)
        else if list_ex (\<lambda>r. ir_ID r = ir_ID ref) (db_input_refs db1) then (None, db1)
        else (None, db1\<lparr>db_input_refs := db_input_refs db1 @
               [ref\<lparr>ir_AAD := jsonb_column (ir_AAD ref), ir_LastDecryptedAt := None\<rparr>]\<rparr>))"

definition insertExecutionInputRefAudit :: "ExecutionInputRefAuditEvent \<Rightarrow> db \<Rightarrow> store_error option \<times> db" where
  "insertExecutionInputRefAudit event db =
     (let event' = (if ia_ActorType event = [] then event\<lparr>ia_ActorType := ''system''\<rparr> else event)
      in case stmt db of (fault, db1) \<Rightarrow>
        if fault then (Some ErrDriver, db1)
        else (None, db1\<lparr>db_input_audit := db_input_audit db1 @ [event']\<rparr>))"

definition created_event :: "ExecutionInputRef \<Rightarrow> ExecutionInputRefAuditEvent" where
  "created_event ref = \<lparr>ia_TenantID = ir_TenantID ref, ia_TaskID = ir_TaskID ref,
     ia_ActionID = ir_ActionID ref, ia_InputRefID = ir_ID ref, ia_Purpose = ir_Purpose ref,
     ia_KeyVersion = ir_KeyVersion ref, ia_ActorType = ''system'', ia_EventType = ''input_ref_created'',
     ia_Reason = ''task submission stored encrypted execution input reference'', ia_Success = True,
     ia_FailureCode = []\<rparr>"

fun insert_refs :: "ExecutionInputRef list \<Rightarrow> db \<Rightarrow> store_error option \<times> db" where
  "insert_refs [] db = (None, db)"
| "insert_refs (ref # refs) db =
     (case insertExecutionInputRef ref db of
        (Some err, db1) \<Rightarrow> (Some err, db1)
      | (None, db1) \<Rightarrow> (case insertExecutionInputRefAudit (created_event ref) db1 of
          (Some err, db2) \<Rightarrow> (Some err, db2)
        | (None, db2) \<Rightarrow> insert_refs refs db2))"

definition CreateTaskWithExecutionInputRefs :: "TaskRecord \<Rightarrow> ExecutionInputRef list \<Rightarrow> db \<Rightarrow>
    (store_error + bool) \<times> db" where
  "CreateTaskWithExecutionInputRefs task refs db =
     (if refs = [] then CreateTask task db
      else (case stmt db of (beginFault, db1) \<Rightarrow>
        if beginFault then (Inl ErrDriver, db1)
        else (case insert_task task db1 of
            (None, db2) \<Rightarrow> (Inl ErrDriver, rollback db1 db2)
          | (Some 0, db2) \<Rightarrow> (case commit db1 db2 of (f, db3) \<Rightarrow>
                (if f then Inl ErrDriver else Inr False, db3))
          | (Some (Suc _), db2) \<Rightarrow>
              (case insert_refs refs db2 of
                 (Some err, db3) \<Rightarrow> (Inl err, rollback db1 db3)
               | (None, db3) \<Rightarrow> (case insertBoundActionRun task db3 of
                   (Some err, db4) \<Rightarrow> (Inl err, rollback db1 db4)
                 | (None, db4) \<Rightarrow> (case commit db1 db4 of (f, db5) \<Rightarrow>
                     (if f then Inl ErrDriver else Inr True, db5)))))))"

section \<open>Reading tasks\<close>

text \<open>A query is one statement; \<open>Inl ErrNoRows\<close> is \<^verbatim>\<open>sql.ErrNoRows\<close>.\<close>

definition query :: "(db \<Rightarrow> store_error + 'a) \<Rightarrow> db \<Rightarrow> (store_error + 'a) \<times> db" where
  "query f db = (case stmt db of (fault, db1) \<Rightarrow> (if fault then Inl ErrDriver else f db1, db1))"

definition one_row :: "'a option \<Rightarrow> store_error + 'a" where
  "one_row r = (case r of None \<Rightarrow> Inl ErrNoRows | Some x \<Rightarrow> Inr x)"

definition str_or_empty :: "string option \<Rightarrow> string" where
  "str_or_empty s = (case s of None \<Rightarrow> [] | Some x \<Rightarrow> x)"

definition nonempty :: "string option \<Rightarrow> string option" where
  "nonempty s = (case s of Some x \<Rightarrow> if x \<noteq> [] then Some x else None | None \<Rightarrow> None)"

definition nullString :: "string \<Rightarrow> string option" where
  "nullString s = (if s = [] then None else Some s)"

definition scan_proof :: "task_row \<Rightarrow> TaskProofState option" where
  "scan_proof r =
     (if tr_proof_execution_id r \<noteq> None \<or> tr_proof_expected_hash r \<noteq> None \<or> tr_proof_stored_hash r \<noteq> None
         \<or> tr_proof_signature r \<noteq> None \<or> tr_proof_status r \<noteq> None \<or> tr_proof_checked_at r \<noteq> None
         \<or> tr_proof_verified r \<noteq> None \<or> tr_proof_hash_valid r \<noteq> None \<or> tr_proof_signature_matches r \<noteq> None
         \<or> tr_proof_runtime_key_found r \<noteq> None \<or> tr_proof_chain_link_valid r \<noteq> None
         \<or> tr_proof_verification_reason r \<noteq> None \<or> tr_proof_verified_at r \<noteq> None
      then Some \<lparr>ps_ExecutionID = str_or_empty (tr_proof_execution_id r),
             ps_ExpectedHash = str_or_empty (tr_proof_expected_hash r),
             ps_StoredHash = str_or_empty (tr_proof_stored_hash r),
             ps_Signature = str_or_empty (tr_proof_signature r),
             ps_Status = str_or_empty (tr_proof_status r), ps_CheckedAt = tr_proof_checked_at r,
             ps_Verified = tr_proof_verified r, ps_HashValid = tr_proof_hash_valid r,
             ps_SignatureMatches = tr_proof_signature_matches r,
             ps_RuntimeKeyFound = tr_proof_runtime_key_found r,
             ps_ChainLinkValid = tr_proof_chain_link_valid r,
             ps_VerificationReason = str_or_empty (tr_proof_verification_reason r),
             ps_VerifiedAt = tr_proof_verified_at r\<rparr>
      else None)"

definition scanTaskRecord :: "task_row \<Rightarrow> TaskRecord" where
  "scanTaskRecord r =
     (let governance = extractTaskGovernanceFromDefinition (tr_task_definition r)
      in \<lparr>t_TaskID = tr_task_id r, t_TenantID = tr_tenant_id r, t_Status = tr_status r,
          t_RuntimeID = tr_runtime_id r, t_RuntimeEndpoint = tr_runtime_endpoint r,
          t_TaskDefinition = tr_task_definition r,
          t_LastCheckpoint = decodeCheckpointPayload (tr_last_checkpoint r),
          t_ExecutionEnvelope = tr_execution_envelope r, t_ExecutionReceipt = tr_execution_receipt r,
          t_Proof = scan_proof r, t_AgentIdentity = tg_AgentIdentity governance,
          t_RequiredCapabilities = tg_RequiredCapabilities governance,
          t_CredentialRequests = tg_CredentialRequests governance, t_PermissionEnvelope = None,
          t_IdempotencyKey = tr_idempotency_key r, t_FailureReason = tr_failure_reason r,
          t_FailureDetails = tr_failure_details r, t_DeadlineAt = tr_deadline_at r,
          t_DispatchedAt = tr_dispatched_at r, t_CompletedAt = tr_completed_at r,
          t_CanceledAt = tr_canceled_at r, t_CreatedAt = tr_created_at r,
          t_ExecutedTarget = nonempty (tr_executed_target r),
          t_FallbackReason = nonempty (tr_fallback_reason r),
          t_RegisteredAgentID = tr_registered_agent_id r,
          t_RegisteredAgentName = tr_registered_agent_name r, t_BoundAction = None\<rparr>)"

definition GetTask :: "uuid \<Rightarrow> string \<Rightarrow> db \<Rightarrow> (store_error + TaskRecord) \<times> db" where
  "GetTask taskID tenantID = query (\<lambda>db. one_row (map_option scanTaskRecord
     (find (\<lambda>r. tr_task_id r = taskID \<and> tr_tenant_id r = tenantID) (db_tasks db))))"

definition GetTaskByIdempotencyKey :: "string \<Rightarrow> string \<Rightarrow> db \<Rightarrow> (store_error + TaskRecord) \<times> db" where
  "GetTaskByIdempotencyKey tenantID key = query (\<lambda>db. one_row (map_option scanTaskRecord
     (find (\<lambda>r. tr_tenant_id r = tenantID \<and> tr_idempotency_key r = key) (db_tasks db))))"

definition newest_first :: "task_row list \<Rightarrow> task_row list" where
  "newest_first rs = rev (sort_key tr_created_at rs)"

text \<open>\<open>LIMIT\<close> with a negative argument is an error of the database.\<close>

definition GetTasksByTenant :: "string \<Rightarrow> int \<Rightarrow> db \<Rightarrow> (store_error + TaskRecord list) \<times> db" where
  "GetTasksByTenant tenantID limit = query (\<lambda>db. if limit < 0 then Inl ErrDriver
     else Inr (map scanTaskRecord (take (nat limit)
       (newest_first (filter (\<lambda>r. tr_tenant_id r = tenantID) (db_tasks db))))))"

definition GetTasksByTenantAndAgent :: "string \<Rightarrow> uuid \<Rightarrow> int \<Rightarrow> db \<Rightarrow> (store_error + TaskRecord list) \<times> db" where
  "GetTasksByTenantAndAgent tenantID agentID limit = query (\<lambda>db. if limit < 0 then Inl ErrDriver
     else Inr (map scanTaskRecord (take (nat limit)
       (newest_first (filter (\<lambda>r. tr_tenant_id r = tenantID \<and> tr_registered_agent_id r = Some agentID)
         (db_tasks db))))))"

definition GetRecoveringTasks :: "db \<Rightarrow> (store_error + TaskRecord list) \<times> db" where
  "GetRecoveringTasks = query (\<lambda>db. Inr (map scanTaskRecord
     (sort_key tr_created_at (filter (\<lambda>r. tr_status r = TaskStatusRecovering) (db_tasks db)))))"

definition GetBoundActionRunByIdempotency :: "string \<Rightarrow> string \<Rightarrow> db \<Rightarrow> (store_error + BoundActionRunIdentity) \<times> db" where
  "GetBoundActionRunByIdempotency tenantID key = query (\<lambda>db. one_row (map_option br_bound
     (find (\<lambda>r. br_tenant_id r = tenantID \<and> ba_BusinessIdempotencyKey (br_bound r) = key) (db_bound_runs db))))"

definition GetBoundActionRun :: "uuid \<Rightarrow> string \<Rightarrow> db \<Rightarrow> (store_error + BoundActionRunIdentity) \<times> db" where
  "GetBoundActionRun taskID tenantID = query (\<lambda>db. one_row (map_option br_bound
     (find (\<lambda>r. br_task_id r = taskID \<and> br_tenant_id r = tenantID) (db_bound_runs db))))"

section \<open>Reading checkpoints\<close>

definition task_wal :: "uuid \<Rightarrow> db \<Rightarrow> wal_row list" where
  "task_wal taskID db = sort_key wr_step_index (filter (\<lambda>w. wr_task_id w = taskID) (db_wal db))"

fun decode_all :: "wal_row list \<Rightarrow> CheckpointPayload list option" where
  "decode_all [] = Some []"
| "decode_all (w # ws) = (case decodeCheckpointPayload (Some (wr_wal_entries w)) of None \<Rightarrow> None
     | Some cp \<Rightarrow> (case decode_all ws of None \<Rightarrow> None | Some cps \<Rightarrow> Some (cp # cps)))"

definition GetAllCheckpoints :: "uuid \<Rightarrow> db \<Rightarrow> (store_error + CheckpointPayload list) \<times> db" where
  "GetAllCheckpoints taskID = query (\<lambda>db. case decode_all (task_wal taskID db) of
     None \<Rightarrow> Inl ErrDriver | Some cps \<Rightarrow> Inr cps)"

definition GetLastCheckpoint :: "uuid \<Rightarrow> db \<Rightarrow> (store_error + CheckpointPayload option) \<times> db" where
  "GetLastCheckpoint taskID = query (\<lambda>db. case rev (task_wal taskID db) of
     [] \<Rightarrow> Inr None
   | w # _ \<Rightarrow> (case decodeCheckpointPayload (Some (wr_wal_entries w)) of
       None \<Rightarrow> Inl ErrDriver | Some cp \<Rightarrow> Inr (Some cp)))"

definition GetAllTaskSteps :: "uuid \<Rightarrow> db \<Rightarrow> (store_error + WalEntry list) \<times> db" where
  "GetAllTaskSteps taskID = query (\<lambda>db. case decode_all (task_wal taskID db) of
     None \<Rightarrow> Inl ErrDriver | Some cps \<Rightarrow> Inr (taskStepsOf cps))"

definition GetCumulativeRecoveryCheckpoint :: "uuid \<Rightarrow> db \<Rightarrow> (store_error + CheckpointPayload option) \<times> db" where
  "GetCumulativeRecoveryCheckpoint taskID db = (case GetAllCheckpoints taskID db of
       (Inl err, db1) \<Rightarrow> (Inl err, db1)
     | (Inr cps, db1) \<Rightarrow> (case BuildCumulativeRecoveryCheckpoint taskID (map Some cps) of
         Inl e \<Rightarrow> (Inl (ErrInvalidCumulativeCheckpoint e), db1)
       | Inr cp \<Rightarrow> (Inr cp, db1)))"

section \<open>Governance records\<close>

definition insert_row :: "(db \<Rightarrow> db) \<Rightarrow> db \<Rightarrow> store_error option \<times> db" where
  \<comment> \<open>an \<open>INSERT\<close> outside a transaction\<close>
  "insert_row f db = (case stmt db of (fault, db1) \<Rightarrow> if fault then (Some ErrDriver, db1) else (None, f db1))"

definition decision_checks :: "ActionPolicyDecision \<Rightarrow> bool" where
  \<comment> \<open>the CHECK constraints of \<open>action_policy_decisions\<close>\<close>
  "decision_checks d \<longleftrightarrow>
     apd_RiskLevel d \<in> {''low'', ''medium'', ''high'', ''critical''}
     \<and> apd_Decision d \<in> {ActionDecisionAllowed, ActionDecisionDenied, ActionDecisionApprovalRequired}
     \<and> apd_ReplayClass d \<in> {ReplayClassRetryable, ReplayClassNonRetryable}
     \<and> apd_CheckpointPortability d \<in> {CheckpointPortabilitySameRuntime,
         CheckpointPortabilityCompatibleRuntime, CheckpointPortabilityAnyRuntime}"

definition SaveActionPolicyDecision :: "ActionPolicyDecision \<Rightarrow> db \<Rightarrow> store_error option \<times> db" where
  "SaveActionPolicyDecision decision db =
     (if apd_DecisionID decision = uuid_Nil then (None, db)
      else (case stmt db of (fault, db1) \<Rightarrow>
        if fault \<or> \<not> decision_checks decision then (Some ErrDriver, db1)
        else if list_ex (\<lambda>d. apd_DecisionID d = apd_DecisionID decision) (db_decisions db1) then (None, db1)
        else (None, db1\<lparr>db_decisions := db_decisions db1 @ [decision]\<rparr>)))"

definition SaveApprovalRequest :: "ActionPolicyDecision \<Rightarrow> db \<Rightarrow> store_error option \<times> db" where
  \<comment> \<open>a foreign key ties the request to a stored decision\<close>
  "SaveApprovalRequest decision db =
     (if apd_Decision decision \<noteq> ActionDecisionApprovalRequired then (None, db)
      else (case stmt db of (fault, db1) \<Rightarrow>
        if fault \<or> \<not> list_ex (\<lambda>d. apd_DecisionID d = apd_DecisionID decision) (db_decisions db1)
        then (Some ErrDriver, db1)
        else (None, db1\<lparr>db_approvals := db_approvals db1 @
          [\<lparr>ap_decision_id = apd_DecisionID decision, ap_tenant_id = apd_TenantID decision,
            ap_task_id = apd_TaskID decision, ap_status = ''pending'',
            ap_requested_reason = apd_PolicyReason decision, ap_decided_by = None,
            ap_decided_at = None, ap_decision_reason = None\<rparr>]\<rparr>)))"

definition ResolveApprovalRequest :: "uuid \<Rightarrow> string \<Rightarrow> string \<Rightarrow> string \<Rightarrow> string \<Rightarrow> db \<Rightarrow> store_error option \<times> db" where
  "ResolveApprovalRequest taskID tenantID status decidedBy reason db =
     insert_row (\<lambda>db1. db1\<lparr>db_approvals := fst (sql_update
       (\<lambda>a. ap_tenant_id a = tenantID \<and> ap_task_id a = taskID \<and> ap_status a = ''pending'')
       (\<lambda>a. a\<lparr>ap_status := status, ap_decided_by := nullString decidedBy,
              ap_decided_at := Some (db_now db1), ap_decision_reason := nullString reason\<rparr>)
       (db_approvals db1))\<rparr>) db"

definition SetLatestPolicyDecision :: "uuid \<Rightarrow> ActionPolicyDecision \<Rightarrow> db \<Rightarrow> store_error option \<times> db" where
  "SetLatestPolicyDecision taskID decision db =
     (if apd_DecisionID decision = uuid_Nil then (None, db)
      else (case update_tasks (\<lambda>r. tr_task_id r = taskID)
              (\<lambda>r. r\<lparr>tr_latest_policy_decision_id := Some (apd_DecisionID decision),
                     tr_checkpoint_portability := apd_CheckpointPortability decision\<rparr>) db of
          (n, db1) \<Rightarrow> (exec_result n, db1)))"

definition SaveExecutionBoundary :: "(string \<Rightarrow> byte list) \<Rightarrow> ActionPolicyDecision \<Rightarrow> raw \<Rightarrow> string list \<Rightarrow> db \<Rightarrow>
    store_error option \<times> db" where
  "SaveExecutionBoundary H decision def caps =
     insert_row (\<lambda>db1. db1\<lparr>db_boundaries := db_boundaries db1 @
       [\<lparr>bo_tenant_id = apd_TenantID decision, bo_task_id = apd_TaskID decision,
         bo_runtime_id = apd_RuntimeID decision, bo_policy_decision_id = apd_DecisionID decision,
         bo_boundary = defaultExecutionBoundary H def caps\<rparr>]\<rparr>)"

definition SaveRecoveryEvent :: "RecoveryEvent \<Rightarrow> db \<Rightarrow> store_error option \<times> db" where
  \<comment> \<open>\<open>last_committed_step\<close> is a signed 32-bit column\<close>
  "SaveRecoveryEvent event db =
     (if re_TaskID event = uuid_Nil then (None, db)
      else (case (if re_EventID event = uuid_Nil then uuid_New db else (re_EventID event, db)) of (eid, db0) \<Rightarrow>
        (case stmt db0 of (fault, db1) \<Rightarrow>
          if fault \<or> (case re_LastCommittedStep event of None \<Rightarrow> False | Some k \<Rightarrow> over_int32 k)
          then (Some ErrDriver, db1)
          else (None, db1\<lparr>db_recovery_events := db_recovery_events db1 @ [event\<lparr>re_EventID := eid\<rparr>]\<rparr>))))"

definition SaveRuntimeHandoffEvent :: "RuntimeHandoffEvent \<Rightarrow> db \<Rightarrow> store_error option \<times> db" where
  "SaveRuntimeHandoffEvent event db =
     (if he_TaskID event = uuid_Nil then (None, db)
      else (case (if he_EventID event = uuid_Nil then uuid_New db else (he_EventID event, db)) of (eid, db0) \<Rightarrow>
        insert_row (\<lambda>db1. db1\<lparr>db_handoffs := db_handoffs db1 @ [event\<lparr>he_EventID := eid\<rparr>]\<rparr>) db0))"

definition StampExecutedTarget :: "uuid \<Rightarrow> string \<Rightarrow> string \<Rightarrow> db \<Rightarrow> store_error option \<times> db" where
  "StampExecutedTarget taskID tenantID executedTarget db =
     (case update_tasks (\<lambda>r. tr_task_id r = taskID \<and> tr_tenant_id r = tenantID)
        (\<lambda>r. r\<lparr>tr_executed_target := Some executedTarget\<rparr>) db of (n, db1) \<Rightarrow> (exec_result n, db1))"

definition LatestActionPolicyDecision :: "string \<Rightarrow> uuid \<Rightarrow> db \<Rightarrow> (store_error + ActionPolicyDecision) \<times> db" where
  "LatestActionPolicyDecision tenantID taskID = query (\<lambda>db. case rev (sort_key apd_CreatedAt
       (filter (\<lambda>d. apd_TenantID d = tenantID \<and> apd_TaskID d = taskID) (db_decisions db))) of
     [] \<Rightarrow> Inl ErrNoRows | d # _ \<Rightarrow> Inr d)"

definition ListRecoveryEvents :: "string \<Rightarrow> uuid \<Rightarrow> db \<Rightarrow> (store_error + RecoveryEvent list) \<times> db" where
  \<comment> \<open>the table is in order of creation\<close>
  "ListRecoveryEvents tenantID taskID = query (\<lambda>db. Inr
     (filter (\<lambda>e. re_TenantID e = tenantID \<and> re_TaskID e = taskID) (db_recovery_events db)))"

definition LatestRuntimeHandoffEvent :: "string \<Rightarrow> uuid \<Rightarrow> db \<Rightarrow> (store_error + RuntimeHandoffEvent) \<times> db" where
  "LatestRuntimeHandoffEvent tenantID taskID = query (\<lambda>db. case rev
       (filter (\<lambda>e. he_TenantID e = tenantID \<and> he_TaskID e = taskID) (db_handoffs db)) of
     [] \<Rightarrow> Inl ErrNoRows | e # _ \<Rightarrow> Inr e)"

section \<open>Permission envelopes and credential references\<close>

definition refs_for_capability :: "TaskPermissionEnvelope \<Rightarrow> string \<Rightarrow> string list" where
  "refs_for_capability e c = map cf_ReferenceID (filter (\<lambda>r. cf_Capability r \<noteq> []
     \<and> cf_ReferenceID r \<noteq> [] \<and> cf_Capability r = c) (pe_CredentialRefs e))"

definition upsert :: "('r \<Rightarrow> bool) \<Rightarrow> ('r \<Rightarrow> 'r) \<Rightarrow> 'r \<Rightarrow> 'r list \<Rightarrow> 'r list" where
  \<comment> \<open>\<open>INSERT ... ON CONFLICT DO UPDATE\<close>\<close>
  "upsert P f new rs = (if list_ex P rs then fst (sql_update P f rs) else rs @ [new])"

fun save_decisions :: "uuid \<Rightarrow> TaskPermissionEnvelope \<Rightarrow> CapabilityDecision list \<Rightarrow> db \<Rightarrow> store_error option \<times> db" where
  "save_decisions taskID e [] db = (None, db)"
| "save_decisions taskID e (d # ds) db =
     (let new = \<lparr>ca_envelope_id = pe_EnvelopeID e, ca_task_id = taskID, ca_tenant_id = pe_TenantID e,
                 ca_runtime_id = str_or_empty (pe_RuntimeID e), ca_decision = d,
                 ca_credential_ref_ids = refs_for_capability e (cd_Capability d)\<rparr>
      in case insert_row (\<lambda>db1. db1\<lparr>db_capability_audit := upsert
             (\<lambda>r. ca_envelope_id r = pe_EnvelopeID e \<and> cd_Capability (ca_decision r) = cd_Capability d)
             (\<lambda>r. r\<lparr>ca_runtime_id := ca_runtime_id new, ca_decision := d,
                    ca_credential_ref_ids := ca_credential_ref_ids new\<rparr>) new (db_capability_audit db1)\<rparr>) db of
           (Some err, db1) \<Rightarrow> (Some err, db1)
         | (None, db1) \<Rightarrow> save_decisions taskID e ds db1)"

fun save_credentials :: "uuid \<Rightarrow> TaskPermissionEnvelope \<Rightarrow> CredentialReference list \<Rightarrow> db \<Rightarrow> store_error option \<times> db" where
  "save_credentials taskID e [] db = (None, db)"
| "save_credentials taskID e (c # cs) db =
     (if cf_ReferenceID c = [] then save_credentials taskID e cs db
      else
        let new = \<lparr>cx_envelope_id = pe_EnvelopeID e, cx_task_id = taskID, cx_tenant_id = pe_TenantID e,
                   cx_ref = c, cx_revoked_at = None\<rparr>
        in case insert_row (\<lambda>db1. db1\<lparr>db_credentials := upsert
               (\<lambda>r. cf_ReferenceID (cx_ref r) = cf_ReferenceID c)
               (\<lambda>r. r\<lparr>cx_envelope_id := pe_EnvelopeID e, cx_ref := (cx_ref r)\<lparr>cf_Tool := cf_Tool c,
                        cf_Capability := cf_Capability c, cf_Scope := cf_Scope c,
                        cf_ExpiresAtUnixMs := cf_ExpiresAtUnixMs c, cf_Revocable := cf_Revocable c\<rparr>\<rparr>)
               new (db_credentials db1)\<rparr>) db of
             (Some err, db1) \<Rightarrow> (Some err, db1)
           | (None, db1) \<Rightarrow> save_credentials taskID e cs db1)"

definition SaveTaskPermissionEnvelope :: "uuid \<Rightarrow> TaskPermissionEnvelope option \<Rightarrow> db \<Rightarrow> store_error option \<times> db" where
  "SaveTaskPermissionEnvelope taskID envelope db = (case envelope of
       None \<Rightarrow> (None, db)
     | Some e \<Rightarrow>
         if pe_EnvelopeID e = [] then (None, db)
         else (case stmt db of (beginFault, db1) \<Rightarrow>
           if beginFault then (Some ErrDriver, db1)
           else (case insert_row (\<lambda>d. d\<lparr>db_permissions := upsert
                   (\<lambda>r. pe_EnvelopeID (pa_envelope r) = pe_EnvelopeID e)
                   (\<lambda>r. r\<lparr>pa_envelope := e, pa_persisted_at := db_now d\<rparr>)
                   \<lparr>pa_task_id = taskID, pa_envelope = e, pa_persisted_at = db_now d\<rparr> (db_permissions d)\<rparr>) db1 of
               (Some err, db2) \<Rightarrow> (Some err, rollback db1 db2)
             | (None, db2) \<Rightarrow> (case save_decisions taskID e (pe_Decisions e) db2 of
                 (Some err, db3) \<Rightarrow> (Some err, rollback db1 db3)
               | (None, db3) \<Rightarrow> (case save_credentials taskID e (pe_CredentialRefs e) db3 of
                   (Some err, db4) \<Rightarrow> (Some err, rollback db1 db4)
                 | (None, db4) \<Rightarrow> (case commit db1 db4 of (f, db5) \<Rightarrow>
                     (if f then Some ErrDriver else None, db5)))))))"

definition LoadLatestTaskPermissionEnvelope :: "uuid \<Rightarrow> db \<Rightarrow> (store_error + TaskPermissionEnvelope) \<times> db" where
  "LoadLatestTaskPermissionEnvelope taskID = query (\<lambda>db. case rev (sort_key (pe_IssuedAtUnixMs \<circ> pa_envelope)
       (sort_key pa_persisted_at (filter (\<lambda>r. pa_task_id r = taskID) (db_permissions db)))) of
     [] \<Rightarrow> Inl ErrNoRows | r # _ \<Rightarrow> Inr (pa_envelope r))"

definition HydrateTaskPermissionEnvelope :: "bool \<Rightarrow> TaskRecord \<Rightarrow> db \<Rightarrow> (store_error + TaskRecord) \<times> db" where
  "HydrateTaskPermissionEnvelope keyed task db =
     (if t_PermissionEnvelope task \<noteq> None \<or> \<not> keyed then (Inr task, db)
      else if t_RequiredCapabilities task = []
           \<and> deriveRequiredCapabilitiesFromTaskDefinition (t_TaskDefinition task) = [] then (Inr task, db)
      else (case LoadLatestTaskPermissionEnvelope (t_TaskID task) db of
          (Inl ErrNoRows, db1) \<Rightarrow> (Inr task, db1)
        | (Inl err, db1) \<Rightarrow> (Inl err, db1)
        | (Inr e, db1) \<Rightarrow>
            let t1 = task\<lparr>t_PermissionEnvelope := Some e\<rparr>;
                t2 = (if t_RequiredCapabilities t1 = [] \<and> pe_RequiredCapabilities e \<noteq> []
                      then t1\<lparr>t_RequiredCapabilities := pe_RequiredCapabilities e\<rparr> else t1);
                t3 = (if agentIdentityEmpty (t_AgentIdentity t2) \<and> \<not> agentIdentityEmpty (pe_AgentIdentity e)
                      then t2\<lparr>t_AgentIdentity := pe_AgentIdentity e\<rparr> else t2)
            in (Inr t3, db1)))"

datatype revoke_error = RevokeStore store_error | ErrCredentialReferenceRevoked string

definition RevokeAICredentialReference :: "string \<Rightarrow> string \<Rightarrow> db \<Rightarrow> (revoke_error + credential_audit_row) \<times> db" where
  "RevokeAICredentialReference tenantID referenceID db =
     (let mine = (\<lambda>r. cx_tenant_id r = tenantID \<and> cf_ReferenceID (cx_ref r) = referenceID \<and> cf_Revocable (cx_ref r));
          open_ref = (\<lambda>r. mine r \<and> cx_revoked_at r = None)
      in case stmt db of (fault, db1) \<Rightarrow>
        if fault then (Inl (RevokeStore ErrDriver), db1)
        else (case find open_ref (db_credentials db1) of
            Some r \<Rightarrow> (Inr (r\<lparr>cx_revoked_at := Some (db_now db1)\<rparr>),
              db1\<lparr>db_credentials := fst (sql_update open_ref
                 (\<lambda>r. r\<lparr>cx_revoked_at := Some (db_now db1)\<rparr>) (db_credentials db1))\<rparr>)
          | None \<Rightarrow> (case stmt db1 of (fault2, db2) \<Rightarrow>
              if fault2 then (Inl (RevokeStore ErrDriver), db2)
              else (case find mine (db_credentials db2) of
                  None \<Rightarrow> (Inl (RevokeStore ErrNoRows), db2)
                | Some r \<Rightarrow> if cx_revoked_at r \<noteq> None then (Inl (ErrCredentialReferenceRevoked referenceID), db2)
                           else (Inl (RevokeStore ErrNoRows), db2)))))"

section \<open>Proof state\<close>

abbreviation seconds :: "int \<Rightarrow> int" where "seconds n \<equiv> n * 1000000000"

definition TaskProofNeedsRefresh :: "TaskProofState option \<Rightarrow> gotime \<Rightarrow> bool" where
  "TaskProofNeedsRefresh proof now = (case proof of None \<Rightarrow> False
     | Some p \<Rightarrow> (case ps_CheckedAt p of None \<Rightarrow> True
         | Some checked \<Rightarrow>
             let age = now - checked; s = ps_Status p in
             if s = [] \<or> s = ''pending'' then age \<ge> seconds 30
             else if s = ''missing'' then age \<ge> seconds 120
             else if s = ''present'' then age \<ge> seconds 600
             else if s = ''mismatch'' then age \<ge> seconds 300
             else if s = ''verified'' then age \<ge> seconds 1800
             else age \<ge> seconds 120))"

definition TaskProofNeedsReadReconciliation :: "TaskProofState option \<Rightarrow> gotime \<Rightarrow> bool" where
  "TaskProofNeedsReadReconciliation proof now = (case proof of None \<Rightarrow> False
     | Some p \<Rightarrow> if ps_Status p = [] \<or> ps_Status p = ''pending'' \<or> ps_Status p = ''missing''
                then TaskProofNeedsRefresh proof now else False)"

definition empty_proof :: TaskProofState where
  "empty_proof = \<lparr>ps_ExecutionID = [], ps_ExpectedHash = [], ps_StoredHash = [], ps_Signature = [],
     ps_Status = [], ps_CheckedAt = None, ps_Verified = None, ps_HashValid = None,
     ps_SignatureMatches = None, ps_RuntimeKeyFound = None, ps_ChainLinkValid = None,
     ps_VerificationReason = [], ps_VerifiedAt = None\<rparr>"

definition buildTaskProofState :: "string \<Rightarrow> string \<Rightarrow> string \<Rightarrow> string \<Rightarrow> bool \<Rightarrow> gotime \<Rightarrow> TaskProofState" where
  "buildTaskProofState executionID expectedHash storedHash signature proofFound checkedAt =
     (let s0 = empty_proof\<lparr>ps_ExecutionID := executionID, ps_ExpectedHash := expectedHash,
                 ps_CheckedAt := Some checkedAt\<rparr>
      in if \<not> proofFound then s0\<lparr>ps_Status := ''missing''\<rparr>
         else s0\<lparr>ps_StoredHash := storedHash, ps_Signature := signature,
                 ps_Status := (if expectedHash \<noteq> [] \<and> storedHash = expectedHash then ''verified''
                               else if expectedHash \<noteq> [] then ''mismatch'' else ''present'')\<rparr>)"

definition updateTaskProofState :: "uuid \<Rightarrow> TaskProofState \<Rightarrow> db \<Rightarrow> store_error option \<times> db" where
  "updateTaskProofState taskID p db =
     (case update_tasks (\<lambda>r. tr_task_id r = taskID)
        (\<lambda>r. r\<lparr>tr_proof_execution_id := nullString (ps_ExecutionID p),
               tr_proof_expected_hash := nullString (ps_ExpectedHash p),
               tr_proof_stored_hash := nullString (ps_StoredHash p),
               tr_proof_signature := nullString (ps_Signature p),
               tr_proof_status := nullString (ps_Status p), tr_proof_checked_at := ps_CheckedAt p\<rparr>) db of
       (n, db1) \<Rightarrow> (exec_result n, db1))"

definition SyncTaskProofState :: "uuid \<Rightarrow> string \<Rightarrow> db \<Rightarrow> (store_error + TaskProofState option) \<times> db" where
  "SyncTaskProofState taskID tenantID db =
     (case query (\<lambda>d. one_row (find (\<lambda>r. tr_task_id r = taskID \<and> tr_tenant_id r = tenantID) (db_tasks d))) db of
        (Inl err, db1) \<Rightarrow> (Inl err, db1)
      | (Inr r, db1) \<Rightarrow>
          if str_or_empty (tr_proof_execution_id r) = [] then (Inr None, db1)
          else
            let executionID = str_or_empty (tr_proof_execution_id r);
                expectedHash = str_or_empty (tr_proof_expected_hash r);
                now = db_now db1;
                save = (\<lambda>state db2. case updateTaskProofState taskID state db2 of
                    (Some err, db3) \<Rightarrow> (Inl err, db3) | (None, db3) \<Rightarrow> (Inr (Some state), db3))
            in (case query (\<lambda>d. one_row (find (\<lambda>l. li_execution_id l = executionID \<and> li_tenant_id l = tenantID)
                    (db_lineage d))) db1 of
                  (Inl ErrNoRows, db2) \<Rightarrow> save (buildTaskProofState executionID expectedHash [] [] False now) db2
                | (Inl err, db2) \<Rightarrow> (Inl err, db2)
                | (Inr l, db2) \<Rightarrow> save (buildTaskProofState executionID expectedHash (li_stored_hash l)
                    (li_signature l) True now) db2))"

definition UpdateTaskProofStateByExecutionID :: "string \<Rightarrow> string \<Rightarrow> string \<Rightarrow> string \<Rightarrow> string \<Rightarrow> db \<Rightarrow>
    store_error option \<times> db" where
  "UpdateTaskProofStateByExecutionID tenantID executionID expectedHash storedHash signature db =
     (if executionID = [] then (None, db)
      else
        let state = buildTaskProofState executionID expectedHash storedHash signature True (db_now db)
        in case update_tasks (\<lambda>r. tr_tenant_id r = tenantID \<and> tr_proof_execution_id r = Some executionID)
             (\<lambda>r. r\<lparr>tr_proof_expected_hash := (if expectedHash = [] then tr_proof_expected_hash r else Some expectedHash),
                    tr_proof_stored_hash := Some storedHash, tr_proof_signature := Some signature,
                    tr_proof_status := Some (ps_Status state), tr_proof_checked_at := ps_CheckedAt state\<rparr>) db of
             (n, db1) \<Rightarrow> (exec_result n, db1))"

definition PersistTaskProofVerification :: "uuid \<Rightarrow> string \<Rightarrow> TaskProofVerificationSummary \<Rightarrow> db \<Rightarrow>
    store_error option \<times> db" where
  "PersistTaskProofVerification taskID tenantID summary db =
     (case update_tasks (\<lambda>r. tr_task_id r = taskID \<and> tr_tenant_id r = tenantID)
        (\<lambda>r. r\<lparr>tr_proof_verified := Some (pv_Verified summary), tr_proof_hash_valid := Some (pv_HashValid summary),
               tr_proof_signature_matches := Some (pv_SignatureMatches summary),
               tr_proof_runtime_key_found := Some (pv_RuntimeKeyFound summary),
               tr_proof_chain_link_valid := (if pv_ChainChecked summary then Some (pv_ChainLinkValid summary) else None),
               tr_proof_verification_reason := nullString (pv_Reason summary),
               tr_proof_verified_at := Some (db_now db)\<rparr>) db of (n, db1) \<Rightarrow> (exec_result n, db1))"

fun sync_all :: "string \<Rightarrow> uuid list \<Rightarrow> db \<Rightarrow> store_error option \<times> db" where
  "sync_all tenantID [] db = (None, db)"
| "sync_all tenantID (taskID # ids) db = (case SyncTaskProofState taskID tenantID db of
       (Inl ErrNoRows, db1) \<Rightarrow> sync_all tenantID ids db1
     | (Inl err, db1) \<Rightarrow> (Some err, db1)
     | (Inr _, db1) \<Rightarrow> sync_all tenantID ids db1)"

definition RefreshPendingProofStates :: "string \<Rightarrow> int \<Rightarrow> db \<Rightarrow> store_error option \<times> db" where
  "RefreshPendingProofStates tenantID limit db =
     (let limit' = (if limit \<le> 0 then 20 else limit)
      in case query (\<lambda>d. Inr (take (nat limit') (rev (sort_key
             (\<lambda>r. case tr_completed_at r of None \<Rightarrow> tr_created_at r | Some c \<Rightarrow> c)
             (filter (\<lambda>r. tr_tenant_id r = tenantID \<and> tr_proof_execution_id r \<noteq> None
                \<and> str_or_empty (tr_proof_status r) \<in> {[], ''pending'', ''missing''}) (db_tasks d)))))) db of
           (Inl err, db1) \<Rightarrow> (Some err, db1)
         | (Inr rows, db1) \<Rightarrow>
             sync_all tenantID (map tr_task_id (filter (\<lambda>r. TaskProofNeedsReadReconciliation
               (if tr_proof_status r \<noteq> None \<or> tr_proof_checked_at r \<noteq> None
                then Some (empty_proof\<lparr>ps_Status := str_or_empty (tr_proof_status r),
                       ps_CheckedAt := tr_proof_checked_at r\<rparr>) else None) (db_now db1)) rows)) db1)"

definition extractProofRefs :: "raw option \<Rightarrow> string \<times> string \<times> bool" where
  "extractProofRefs receipt = (case receipt of None \<Rightarrow> ([], [], False)
     | Some rw \<Rightarrow> (case (case raw_value rw of None \<Rightarrow> None | Some j \<Rightarrow> unm_object j) of
         None \<Rightarrow> ([], [], False)
       | Some kvs \<Rightarrow>
           (let field = (\<lambda>k. case struct_get kvs k of None \<Rightarrow> Some [] | Some j \<Rightarrow> unm_string j)
            in case (field ''execution_id'', field ''receipt_hash'', field ''hash'') of
                 (Some executionID, Some receiptHash, Some hash) \<Rightarrow>
                   if executionID = [] then ([], [], False)
                   else if receiptHash \<noteq> [] then (executionID, receiptHash, True)
                   else (executionID, hash, True)
               | _ \<Rightarrow> ([], [], False))))"

end
