(* ===== verification/Url_Model.thy ===== *)
theory Url_Model
  imports Byte_Encoding
begin

text \<open>
  Package \<^verbatim>\<open>net/url\<close> as the control plane uses it: parsing of an absolute or relative reference,
  percent-encoding by position, printing, and on top of it the validation of a runtime's base URL
  (\<^verbatim>\<open>internal/runtime_endpoint.go\<close>).
\<close>

section \<open>Percent-encoding\<close>

datatype url_mode = encodePath | encodeUserPassword | encodeHost | encodeZone | encodeFragment

definition ascii :: "char \<Rightarrow> nat" where "ascii c = of_char c"

definition alnum :: "char \<Rightarrow> bool" where
  "alnum c \<longleftrightarrow> 48 \<le> ascii c \<and> ascii c \<le> 57 \<or> 65 \<le> ascii c \<and> ascii c \<le> 90 \<or> 97 \<le> ascii c \<and> ascii c \<le> 122"

lemma alnum_code [code]:
  "alnum (Char b0 b1 b2 b3 b4 b5 b6 b7) \<longleftrightarrow> \<not> b7 \<and>
     (if b6 then (b0 \<or> b1 \<or> b2 \<or> b3 \<or> b4) \<and> \<not> (b4 \<and> b3 \<and> (b2 \<or> b1 \<and> b0)) else b5 \<and> b4 \<and> \<not> (b3 \<and> (b2 \<or> b1)))"
  by (cases b0; cases b1; cases b2; cases b3; cases b4; cases b5; cases b6; cases b7) (simp_all add: alnum_def ascii_def)

definition shouldEscape :: "char \<Rightarrow> url_mode \<Rightarrow> bool" where
  "shouldEscape c mode =
     (if alnum c then False
      else if mode \<in> {encodeHost, encodeZone} \<and> c \<in> set ''!$&()*+,;=:[]<>'' \<union> {CHR 0x27, CHR 0x22} then False
      else if c \<in> set ''-_.~'' then False
      else if c \<in> set ''$&+,/:;=?@'' \<and> mode \<in> {encodePath, encodeUserPassword, encodeFragment} then
        (if mode = encodePath then c = CHR ''?''
         else if mode = encodeUserPassword then c \<in> set ''@/?:'' else False)
      else if mode = encodeFragment \<and> c \<in> set ''!()*'' then False
      else True)"

definition upper_hex :: "nat \<Rightarrow> char" where
  "upper_hex d = (if d < 10 then char_of (48 + d) else char_of (55 + d))"

definition url_escape :: "url_mode \<Rightarrow> string \<Rightarrow> string" where
  "url_escape mode s = concat (map (\<lambda>c. if shouldEscape c mode
     then [CHR ''%'', upper_hex (ascii c div 16), upper_hex (ascii c mod 16)] else [c]) s)"

fun url_unescape :: "url_mode \<Rightarrow> string \<Rightarrow> string option" where
  "url_unescape mode [] = Some []"
| "url_unescape mode (c # s) =
     (if c = CHR ''%'' then
        (case s of a # b # t \<Rightarrow>
            (case (hex_val a, hex_val b) of
               (Some x, Some y) \<Rightarrow>
                 if mode = encodeHost \<and> x < 8 \<and> (x, y) \<noteq> (2, 5)
                    \<or> mode = encodeZone \<and> (x, y) \<noteq> (2, 5) \<and> 16 * x + y \<noteq> 32
                        \<and> shouldEscape (char_of (16 * x + y)) encodeHost
                 then None else map_option ((#) (char_of (16 * x + y))) (url_unescape mode t)
             | _ \<Rightarrow> None)
          | _ \<Rightarrow> None)
      else if mode \<in> {encodeHost, encodeZone} \<and> ascii c < 128 \<and> shouldEscape c mode then None
      else map_option ((#) c) (url_unescape mode s))"

definition validEncoded :: "string \<Rightarrow> url_mode \<Rightarrow> bool" where
  "validEncoded s mode \<longleftrightarrow> list_all (\<lambda>c. c \<in> set ''!$&()*+,;=:@[]%'' \<union> {CHR 0x27} \<or> \<not> shouldEscape c mode) s"

section \<open>Parsing\<close>

record URL =
  u_Scheme :: string
  u_Opaque :: string
  u_User :: "(string \<times> string option) option"
  u_Host :: string
  u_Path :: string
  u_RawPath :: string
  u_OmitHost :: bool
  u_ForceQuery :: bool
  u_RawQuery :: string
  u_Fragment :: string
  u_RawFragment :: string

definition Cut :: "string \<Rightarrow> char \<Rightarrow> string \<times> string" where
  "Cut s c = (takeWhile (\<lambda>x. x \<noteq> c) s, drop 1 (dropWhile (\<lambda>x. x \<noteq> c) s))"

definition LastCut :: "string \<Rightarrow> char \<Rightarrow> (string \<times> string) option" where
  \<comment> \<open>what comes before the last occurrence, and the rest from that occurrence on\<close>
  "LastCut s c = (if c \<in> set s
     then Some (rev (drop 1 (dropWhile (\<lambda>x. x \<noteq> c) (rev s))), c # rev (takeWhile (\<lambda>x. x \<noteq> c) (rev s)))
     else None)"

fun scheme_loop :: "string \<Rightarrow> string \<Rightarrow> (string \<times> string) option option" where
  \<comment> \<open>\<open>Some (Some (scheme, rest))\<close>; \<open>Some None\<close> when there is no scheme; \<open>None\<close> is the error\<close>
  "scheme_loop acc [] = Some None"
| "scheme_loop acc (c # s) =
     (if 65 \<le> ascii c \<and> ascii c \<le> 90 \<or> 97 \<le> ascii c \<and> ascii c \<le> 122 then scheme_loop (c # acc) s
      else if 48 \<le> ascii c \<and> ascii c \<le> 57 \<or> c \<in> set ''+-.'' then
        (if acc = [] then Some None else scheme_loop (c # acc) s)
      else if c = CHR '':'' then (if acc = [] then None else Some (Some (rev acc, s)))
      else Some None)"

definition getScheme :: "string \<Rightarrow> (string \<times> string) option" where
  "getScheme rawURL = (case scheme_loop [] rawURL of
     None \<Rightarrow> None | Some None \<Rightarrow> Some ([], rawURL) | Some (Some r) \<Rightarrow> Some r)"

definition validOptionalPort :: "string \<Rightarrow> bool" where
  "validOptionalPort port = (case port of [] \<Rightarrow> True
     | c # s \<Rightarrow> c = CHR '':'' \<and> list_all (\<lambda>d. 48 \<le> ascii d \<and> ascii d \<le> 57) s)"

definition validUserinfo :: "string \<Rightarrow> bool" where
  "validUserinfo s \<longleftrightarrow> list_all (\<lambda>c. alnum c \<or> c \<in> set ''-._:~!$&()*+,;=%@'' \<union> {CHR 0x27}) s"

fun zone_index :: "string \<Rightarrow> string \<Rightarrow> (string \<times> string) option" where
  \<comment> \<open>the first \<open>%25\<close>: what comes before it, and the rest from it on\<close>
  "zone_index acc s = (if prefix ''%25'' s then Some (rev acc, s)
     else (case s of [] \<Rightarrow> None | c # t \<Rightarrow> zone_index (c # acc) t))"

definition parseHost :: "string \<Rightarrow> string option" where
  "parseHost host =
     (if prefix ''['' host then
        (case LastCut host (CHR '']'') of
           None \<Rightarrow> None
         | Some (hostpart, tailpart) \<Rightarrow>
             if \<not> validOptionalPort (drop 1 tailpart) then None
             else (case zone_index [] hostpart of
                 Some (h1, h2) \<Rightarrow>
                   (case (url_unescape encodeHost h1, url_unescape encodeZone h2, url_unescape encodeHost tailpart) of
                      (Some a, Some b, Some c) \<Rightarrow> Some (a @ b @ c) | _ \<Rightarrow> None)
               | None \<Rightarrow> url_unescape encodeHost host))
      else (case LastCut host (CHR '':'') of
          Some (_, colonPort) \<Rightarrow> if \<not> validOptionalPort colonPort then None else url_unescape encodeHost host
        | None \<Rightarrow> url_unescape encodeHost host))"

definition parseAuthority :: "string \<Rightarrow> ((string \<times> string option) option \<times> string) option" where
  "parseAuthority authority =
     (case LastCut authority (CHR ''@'') of
        None \<Rightarrow> map_option (\<lambda>h. (None, h)) (parseHost authority)
      | Some (userinfo, rest) \<Rightarrow>
          (case parseHost (drop 1 rest) of None \<Rightarrow> None
           | Some h \<Rightarrow>
               if \<not> validUserinfo userinfo then None
               else if CHR '':'' \<notin> set userinfo then
                 map_option (\<lambda>u. (Some (u, None), h)) (url_unescape encodeUserPassword userinfo)
               else (case Cut userinfo (CHR '':'') of (user, password) \<Rightarrow>
                 (case (url_unescape encodeUserPassword user, url_unescape encodeUserPassword password) of
                    (Some u, Some p) \<Rightarrow> Some (Some (u, Some p), h) | _ \<Rightarrow> None))))"

definition empty_URL :: URL where
  "empty_URL = \<lparr>u_Scheme = [], u_Opaque = [], u_User = None, u_Host = [], u_Path = [], u_RawPath = [],
     u_OmitHost = False, u_ForceQuery = False, u_RawQuery = [], u_Fragment = [], u_RawFragment = []\<rparr>"

definition setPath :: "string \<Rightarrow> URL \<Rightarrow> URL option" where
  "setPath p u = map_option (\<lambda>path. u\<lparr>u_Path := path,
     u_RawPath := (if p = url_escape encodePath path then [] else p)\<rparr>) (url_unescape encodePath p)"

definition setFragment :: "string \<Rightarrow> URL \<Rightarrow> URL option" where
  "setFragment f u = map_option (\<lambda>frag. u\<lparr>u_Fragment := frag,
     u_RawFragment := (if f = url_escape encodeFragment frag then [] else f)\<rparr>) (url_unescape encodeFragment f)"

definition url_parse_rest :: "string \<Rightarrow> URL \<Rightarrow> URL option" where
  \<comment> \<open>the part of \<open>parse\<close> after the scheme and the query are split off\<close>
  "url_parse_rest rest u =
     (if \<not> prefix ''/'' rest \<and> u_Scheme u \<noteq> [] then Some (u\<lparr>u_Opaque := rest\<rparr>)
      else if \<not> prefix ''/'' rest \<and> CHR '':'' \<in> set (fst (Cut rest (CHR ''/''))) then None
      else if (u_Scheme u \<noteq> [] \<or> \<not> prefix ''///'' rest) \<and> prefix ''//'' rest then
        (let authority = takeWhile (\<lambda>x. x \<noteq> CHR ''/'') (drop 2 rest);
             rest' = dropWhile (\<lambda>x. x \<noteq> CHR ''/'') (drop 2 rest)
         in case parseAuthority authority of None \<Rightarrow> None
            | Some (user, host) \<Rightarrow> setPath rest' (u\<lparr>u_User := user, u_Host := host\<rparr>))
      else setPath rest (u\<lparr>u_OmitHost := (u_Scheme u \<noteq> [] \<and> prefix ''/'' rest)\<rparr>))"

definition url_parse :: "string \<Rightarrow> URL option" where
  "url_parse rawURL =
     (if list_ex (\<lambda>c. ascii c < 32 \<or> ascii c = 127) rawURL then None
      else if rawURL = ''*'' then Some (empty_URL\<lparr>u_Path := ''*''\<rparr>)
      else (case getScheme rawURL of None \<Rightarrow> None
        | Some (scheme, rest) \<Rightarrow>
            let u = empty_URL\<lparr>u_Scheme := ToLower scheme\<rparr>
            in if suffix ''?'' rest \<and> CHR ''?'' \<notin> set (butlast rest)
               then url_parse_rest (butlast rest) (u\<lparr>u_ForceQuery := True\<rparr>)
               else (case Cut rest (CHR ''?'') of (path, q) \<Rightarrow> url_parse_rest path (u\<lparr>u_RawQuery := q\<rparr>))))"

definition url_Parse :: "string \<Rightarrow> URL option" where
  "url_Parse rawURL = (case Cut rawURL (CHR ''#'') of (u, frag) \<Rightarrow>
     (case url_parse u of None \<Rightarrow> None
      | Some url \<Rightarrow> if frag = [] then Some url else setFragment frag url))"

section \<open>Printing\<close>

definition EscapedPath :: "URL \<Rightarrow> string" where
  "EscapedPath u =
     (if u_RawPath u \<noteq> [] \<and> validEncoded (u_RawPath u) encodePath
         \<and> url_unescape encodePath (u_RawPath u) = Some (u_Path u) then u_RawPath u
      else if u_Path u = ''*'' then ''*'' else url_escape encodePath (u_Path u))"

definition EscapedFragment :: "URL \<Rightarrow> string" where
  "EscapedFragment u =
     (if u_RawFragment u \<noteq> [] \<and> validEncoded (u_RawFragment u) encodeFragment
         \<and> url_unescape encodeFragment (u_RawFragment u) = Some (u_Fragment u) then u_RawFragment u
      else url_escape encodeFragment (u_Fragment u))"

definition Userinfo_String :: "string \<times> string option \<Rightarrow> string" where
  "Userinfo_String user = url_escape encodeUserPassword (fst user) @
     (case snd user of None \<Rightarrow> [] | Some p \<Rightarrow> '':'' @ url_escape encodeUserPassword p)"

definition URL_String :: "URL \<Rightarrow> string" where
  "URL_String u =
     (let scheme = (if u_Scheme u = [] then [] else u_Scheme u @ '':'');
          authority =
            (if u_Scheme u = [] \<and> u_Host u = [] \<and> u_User u = None
                \<or> u_OmitHost u \<and> u_Host u = [] \<and> u_User u = None then []
             else (if u_Host u \<noteq> [] \<or> u_Path u \<noteq> [] \<or> u_User u \<noteq> None then ''//'' else [])
               @ (case u_User u of None \<Rightarrow> [] | Some ui \<Rightarrow> Userinfo_String ui @ ''@'')
               @ url_escape encodeHost (u_Host u));
          path = EscapedPath u;
          slash = (if path \<noteq> [] \<and> \<not> prefix ''/'' path \<and> u_Host u \<noteq> [] then ''/'' else []);
          dot = (if scheme @ authority @ slash = [] \<and> CHR '':'' \<in> set (fst (Cut path (CHR ''/''))) then ''./'' else []);
          rest = (if u_Opaque u \<noteq> [] then scheme @ u_Opaque u else scheme @ authority @ slash @ dot @ path);
          query = (if u_ForceQuery u \<or> u_RawQuery u \<noteq> [] then ''?'' @ u_RawQuery u else []);
          frag = (if u_Fragment u \<noteq> [] then ''#'' @ EscapedFragment u else [])
      in rest @ query @ frag)"

definition Hostname :: "URL \<Rightarrow> string" where
  "Hostname u =
     (let host = (case LastCut (u_Host u) (CHR '':'') of
            Some (h, port) \<Rightarrow> if validOptionalPort port then h else u_Host u | None \<Rightarrow> u_Host u)
      in if prefix ''['' host \<and> suffix '']'' host then butlast (drop 1 host) else host)"

section \<open>The endpoint of a runtime\<close>

definition TrimRightSlash :: "string \<Rightarrow> string" where
  "TrimRightSlash s = rev (dropWhile (\<lambda>c. c = CHR ''/'') (rev s))"

definition NormalizeHTTPRuntimeEndpoint :: "string \<Rightarrow> string option" where
  "NormalizeHTTPRuntimeEndpoint raw =
     (let endpoint = TrimSpace raw
      in if endpoint = [] then None
         else (case url_Parse endpoint of None \<Rightarrow> None
           | Some u0 \<Rightarrow>
               let u = u0\<lparr>u_Scheme := ToLower (u_Scheme u0)\<rparr>
               in if u_Scheme u \<noteq> ''http'' \<and> u_Scheme u \<noteq> ''https'' then None
                  else if u_Host u = [] \<or> u_User u \<noteq> None \<or> u_RawQuery u \<noteq> [] \<or> u_Fragment u \<noteq> [] then None
                  else Some (URL_String (u\<lparr>u_Path := TrimRightSlash (u_Path u)\<rparr>))))"

definition IsRoutableHTTPRuntimeEndpoint :: "string \<Rightarrow> bool" where
  "IsRoutableHTTPRuntimeEndpoint raw \<longleftrightarrow> NormalizeHTTPRuntimeEndpoint raw \<noteq> None"

section \<open>What a normalised endpoint looks like\<close>

lemma upper_hex_alnum:
  assumes "d < 16"
  shows "upper_hex d \<in> set ''0123456789ABCDEF''"
proof -
  have "list_all (\<lambda>d. upper_hex d \<in> set ''0123456789ABCDEF'') [0..<16]" by code_simp
  with assms show ?thesis by (simp add: list_all_iff)
qed

lemma escape_chars:
  assumes "c \<in> set (url_escape m s)"
  shows "\<not> shouldEscape c m \<or> c \<in> set ''%0123456789ABCDEF''"
proof -
  from assms obtain x where x: "c \<in> set (if shouldEscape x m
      then [CHR ''%'', upper_hex (ascii x div 16), upper_hex (ascii x mod 16)] else [x])"
    unfolding url_escape_def set_concat set_map by blast
  have "ascii x < 256" by (simp add: ascii_def)
  then have "ascii x div 16 < 16" by simp
  with x show ?thesis using upper_hex_alnum [of "ascii x div 16"] upper_hex_alnum [of "ascii x mod 16"]
    by (auto split: if_splits)
qed

lemma host_clean: "c \<in> set ''/?#@ '' \<Longrightarrow> c \<notin> set (url_escape encodeHost s)"
  using escape_chars [of c encodeHost s] by (auto simp: shouldEscape_def alnum_def ascii_def)

lemma path_clean:
  assumes "c \<in> set ''?# ''"
  shows "c \<notin> set (EscapedPath u)"
proof -
  have "list_all (\<lambda>c. shouldEscape c encodePath \<and> c \<notin> set ''!$&()*+,;=:@[]%'' \<union> {CHR 0x27}
    \<and> c \<notin> set ''%0123456789ABCDEF'' \<and> c \<notin> set ''*'') ''?# ''" by code_simp
  with assms have c: "shouldEscape c encodePath" "c \<notin> set ''!$&()*+,;=:@[]%'' \<union> {CHR 0x27}"
    "c \<notin> set ''%0123456789ABCDEF''" "c \<notin> set ''*''" by (simp_all only: list_all_iff) blast+
  have "validEncoded r encodePath \<Longrightarrow> c \<notin> set r" for r
    using c(1,2) unfolding validEncoded_def list_all_iff by blast
  with c(4) escape_chars [of c encodePath "u_Path u"] c(1,3) show ?thesis
    unfolding EscapedPath_def by (auto split: if_split)
qed

lemma rest_host_opaque: "url_parse_rest r v = Some u \<Longrightarrow> u_Opaque v = [] \<Longrightarrow> u_Host v = [] \<Longrightarrow> u_Host u = [] \<or> u_Opaque u = []"
  by (auto simp: url_parse_rest_def setPath_def Let_def split: if_splits option.splits prod.splits)

lemma parse_host_opaque:
  assumes "url_Parse s = Some u"
  shows "u_Host u = [] \<or> u_Opaque u = []"
proof -
  have *: "u_Host v = [] \<or> u_Opaque v = []" if p: "url_parse r = Some v" for r v
  proof -
    consider "v = empty_URL\<lparr>u_Path := ''*''\<rparr>"
      | x w where "url_parse_rest x w = Some v" "u_Host w = []" "u_Opaque w = []"
      using p unfolding url_parse_def
      by (auto simp: Let_def empty_URL_def split: if_split_asm option.split_asm prod.split_asm)
    then show ?thesis by cases (auto simp: empty_URL_def dest: rest_host_opaque)
  qed
  from assms obtain v where v: "url_parse (fst (Cut s (CHR ''#''))) = Some v"
    and u: "u_Host u = u_Host v" "u_Opaque u = u_Opaque v"
    unfolding url_Parse_def setFragment_def by (auto split: if_split_asm option.split_asm prod.split_asm)
  show ?thesis unfolding u by (rule * [OF v])
qed

lemma normalize_shape:
  assumes "NormalizeHTTPRuntimeEndpoint raw = Some e"
  obtains u where "u_Scheme u \<in> {''http'', ''https''}" "u_Host u \<noteq> []"
    "e = u_Scheme u @ ''://'' @ url_escape encodeHost (u_Host u)
       @ (if EscapedPath u \<noteq> [] \<and> \<not> prefix ''/'' (EscapedPath u) then ''/'' else []) @ EscapedPath u
       @ (if u_ForceQuery u then ''?'' else [])"
proof -
  let ?s = "TrimSpace raw"
  from assms obtain u0 where u0: "url_Parse ?s = Some u0" and ok: "ToLower (u_Scheme u0) \<in> {''http'', ''https''}"
    "u_Host u0 \<noteq> []" "u_User u0 = None" "u_RawQuery u0 = []" "u_Fragment u0 = []"
    and e: "e = URL_String (u0\<lparr>u_Scheme := ToLower (u_Scheme u0), u_Path := TrimRightSlash (u_Path u0)\<rparr>)"
    by (cases "url_Parse ?s"; simp add: NormalizeHTTPRuntimeEndpoint_def Let_def del: not_None_eq split: if_split_asm)
  have "u_Opaque u0 = []" using parse_host_opaque [OF u0] ok by simp
  then show thesis using ok
    by (intro that [of "u0\<lparr>u_Scheme := ToLower (u_Scheme u0), u_Path := TrimRightSlash (u_Path u0)\<rparr>"])
      (auto simp: e URL_String_def Let_def)
qed

lemma escape_empty [simp]: "url_escape m s = [] \<longleftrightarrow> s = []"
  by (cases s) (simp_all add: url_escape_def)

text \<open>C35: a runtime endpoint that the control plane accepts is an absolute \<open>http\<close> or \<open>https\<close> URL whose
  authority is a plain host: it is never empty and holds no credentials, path, query or fragment
  character. What follows it is empty or starts a path or the (possible) empty query, and holds no
  fragment and no query text.\<close>
theorem normalized_endpoint_shape:
  "case NormalizeHTTPRuntimeEndpoint raw of None \<Rightarrow> True
   | Some e \<Rightarrow> \<exists>scheme host path query. e = scheme @ ''://'' @ host @ path @ query
       \<and> scheme \<in> {''http'', ''https''} \<and> host \<noteq> [] \<and> set host \<inter> set ''/?#@ '' = {}
       \<and> (path = [] \<or> hd path = CHR ''/'') \<and> set path \<inter> set ''?# '' = {} \<and> query \<in> {[], ''?''}"
proof (cases "NormalizeHTTPRuntimeEndpoint raw")
  case (Some e)
  then obtain u where u: "u_Scheme u \<in> {''http'', ''https''}" "u_Host u \<noteq> []"
    "e = u_Scheme u @ ''://'' @ url_escape encodeHost (u_Host u)
       @ (if EscapedPath u \<noteq> [] \<and> \<not> prefix ''/'' (EscapedPath u) then ''/'' else []) @ EscapedPath u
       @ (if u_ForceQuery u then ''?'' else [])" by (rule normalize_shape)
  let ?p = "(if EscapedPath u \<noteq> [] \<and> \<not> prefix ''/'' (EscapedPath u) then ''/'' else []) @ EscapedPath u"
  let ?q = "if u_ForceQuery u then ''?'' else []"
  have "e = u_Scheme u @ ''://'' @ url_escape encodeHost (u_Host u) @ ?p @ ?q"
    using u(3) unfolding append_assoc .
  moreover have "?p = [] \<or> hd ?p = CHR ''/''" by (cases "EscapedPath u") simp_all
  moreover have "set ?p \<inter> set ''?# '' = {}" using path_clean [of _ u] by auto
  moreover have "set (url_escape encodeHost (u_Host u)) \<inter> set ''/?#@ '' = {}" using host_clean by blast
  moreover have "?q \<in> {[], ''?''}" by simp
  ultimately show ?thesis unfolding Some option.case using u(1,2) escape_empty by blast
qed simp


end
