(* ===== verification/Input_Protection.thy ===== *)
theory Input_Protection
  imports Task_Store Url_Model
begin

text \<open>
  Protection of the inputs of a task before they are stored (\<^verbatim>\<open>coordinator/input_redaction.go\<close>,
  \<^verbatim>\<open>coordinator/input_ref_transform.go\<close>, the metadata functions of
  \<^verbatim>\<open>coordinator/execution_input_refs.go\<close>) and the keyring (\<^verbatim>\<open>coordinator/input_ref_crypto.go\<close>).

  A task definition is decoded into untyped Go values: objects become maps, in which the last of two
  equal keys wins, and numbers become \<^verbatim>\<open>float64\<close>. Encoding writes the keys of a map in order. A loop
  over a map visits the members in the order of the list that stands for it; Go leaves that order
  open, and as the members of an input may stand in any order, a fact about all inputs covers all of
  them. SHA-256, AES-GCM, the identifiers of \<^verbatim>\<open>google/uuid\<close>, and the printing of the
  \<^verbatim>\<open>float64\<close> nearest to a number literal are arguments, collected in \<open>input_env\<close> together with the
  environment variables of the process. A run-time panic is the error \<open>InputPanic\<close>.
\<close>

section \<open>Untyped values\<close>

record input_env =
  in_H :: "string \<Rightarrow> byte list"
  in_seal :: "byte list \<Rightarrow> byte list \<Rightarrow> string \<Rightarrow> string \<Rightarrow> byte list"
  in_open :: "byte list \<Rightarrow> byte list \<Rightarrow> byte list \<Rightarrow> string \<Rightarrow> string option"
  in_uuid_string :: "uuid \<Rightarrow> string"
  in_uuid_parse :: "string \<Rightarrow> uuid option"
  in_float :: "jnum \<Rightarrow> jnum"
  in_KEYS :: string
  in_ACTIVE_KEY_VERSION :: string
  in_KEY :: string
  in_KEY_VERSION :: string

fun last_wins :: "(string \<times> 'a) list \<Rightarrow> (string \<times> 'a) list" where
  "last_wins [] = []"
| "last_wins ((k, v) # kvs) = (if k \<in> set (map fst kvs) then last_wins kvs else (k, v) # last_wins kvs)"

fun any_value :: "(jnum \<Rightarrow> jnum) \<Rightarrow> json \<Rightarrow> json" where
  \<comment> \<open>\<open>json.Unmarshal\<close> into an \<open>interface{}\<close>\<close>
  "any_value F (JNum n) = JNum (F n)"
| "any_value F (JArr xs) = JArr (map (any_value F) xs)"
| "any_value F (JObj kvs) = JObj (last_wins (map (\<lambda>(k, v). (k, any_value F v)) kvs))"
| "any_value F j = j"

fun sorted_json :: "json \<Rightarrow> json" where
  \<comment> \<open>\<open>json.Marshal\<close> of an untyped value\<close>
  "sorted_json (JArr xs) = JArr (map sorted_json xs)"
| "sorted_json (JObj kvs) = JObj (go_map (map (\<lambda>(k, v). (k, sorted_json v)) kvs))"
| "sorted_json j = j"

fun valueToInputString :: "json \<Rightarrow> string" where
  "valueToInputString (JStr s) = s"
| "valueToInputString j = json_text Compact (sorted_json j)"

definition map_index :: "(string \<times> json) list \<Rightarrow> string \<Rightarrow> json" where
  \<comment> \<open>\<open>m[k]\<close>, nil when the key is absent\<close>
  "map_index kvs k = (case obj_get kvs k of None \<Rightarrow> JNull | Some v \<Rightarrow> v)"

section \<open>Which inputs are sensitive\<close>

abbreviation maxSafeInputStringLength :: nat where "maxSafeInputStringLength \<equiv> 512"

definition sensitiveInputKeyPatterns :: "string list" where
  "sensitiveInputKeyPatterns = [''authorization'', ''cookie'', ''set_cookie'', ''set-cookie'', ''token'', ''secret'',
     ''password'', ''api_key'', ''apikey'', ''access_key'', ''refresh_token'', ''private_key'', ''credential'',
     ''body'', ''raw_body'', ''response_body'', ''request_body'', ''payload'', ''content'', ''file_content'',
     ''file_contents'', ''full_text'', ''file_path'', ''absolute_path'', ''full_absolute_path'']"

definition safeInputMetadataKeys :: "string list" where
  "safeInputMetadataKeys = [''content_redacted'', ''content_digest'', ''content_digest_sha256'', ''content_bytes'',
     ''content_type'', ''input_redacted'', ''input_digest_sha256'', ''input_bytes'', ''input_content_type'',
     ''encrypted_input_ref'', ''encrypted_input_ref_id'', ''purpose'', ''key_version'', ''created_at'',
     ''expires_at'', ''safe_summary'', ''sensitive_fields_redacted'', ''redaction_policy_version'']"

definition normalizeInputKey :: "string \<Rightarrow> string" where
  "normalizeInputKey key = ReplaceChar (ToLower (TrimSpace key)) (CHR ''-'') (CHR ''_'')"

definition inputKeySensitive :: "string \<Rightarrow> bool" where
  "inputKeySensitive normalized \<longleftrightarrow>
     list_ex (\<lambda>pattern. Contains normalized (normalizeInputKey pattern)) sensitiveInputKeyPatterns"

definition inputKeySafe :: "string \<Rightarrow> bool" where
  "inputKeySafe normalized \<longleftrightarrow> normalized \<in> set safeInputMetadataKeys"

definition looksLikePrivatePath :: "string \<Rightarrow> bool" where
  "looksLikePrivatePath value =
     (let trimmed = TrimSpace value
      in HasPrefix trimmed ''/'' \<or> HasPrefix trimmed ''~/'' \<or> HasPrefix trimmed [CHR 0x5C, CHR 0x5C]
         \<or> length trimmed \<ge> 3 \<and> trimmed ! 1 = CHR '':'' \<and> (trimmed ! 2 = CHR 0x5C \<or> trimmed ! 2 = CHR ''/''))"

function redactInlineInputAuth :: "string \<Rightarrow> string" where
  "redactInlineInputAuth s =
     (if prefix ''Bearer '' s then ''[redacted-auth] '' @ redactInlineInputAuth (drop 7 s)
      else if prefix ''Basic '' s then ''[redacted-auth] '' @ redactInlineInputAuth (drop 6 s)
      else (case s of [] \<Rightarrow> [] | c # t \<Rightarrow> c # redactInlineInputAuth t))"
  by pat_completeness auto
termination by (relation "measure length") (auto dest: prefix_length_le)

declare redactInlineInputAuth.simps [simp del]

definition safeURLContainsSensitiveMaterial :: "string \<Rightarrow> bool" where
  "safeURLContainsSensitiveMaterial raw = (case url_Parse (TrimSpace raw) of None \<Rightarrow> False
     | Some parsed \<Rightarrow> u_Scheme parsed \<noteq> [] \<and> u_Host parsed \<noteq> []
         \<and> (u_RawQuery parsed \<noteq> [] \<or> u_User parsed \<noteq> None))"

definition purposeForSensitiveInputKey :: "string \<Rightarrow> string" where
  "purposeForSensitiveInputKey key =
     (let n = normalizeInputKey key in
      if n \<in> {''body'', ''raw_body'', ''request_body'', ''payload'', ''content'', ''file_content'', ''file_contents'',
               ''full_text''} then ''execution_payload''
      else if n \<in> {''path'', ''file_path'', ''absolute_path'', ''full_absolute_path'', ''private_path''}
        then ''private_path''
      else if n = ''url'' then ''signed_url''
      else if n \<in> {''headers'', ''authorization'', ''cookie'', ''set_cookie'', ''set-cookie'', ''token'', ''secret'',
               ''password'', ''api_key'', ''apikey'', ''private_key'', ''credential''} then ''sensitive_header''
      else ''sensitive_input'')"

definition allowlistedHeader :: "string \<Rightarrow> bool" where
  "allowlistedHeader normalized \<longleftrightarrow> normalized \<in> {''content_type'', ''content_length'', ''etag'', ''last_modified'',
     ''cache_control'', ''x_request_id'', ''x_correlation_id''}"

fun containsSensitiveInput :: "json \<Rightarrow> bool" and contains_members :: "(string \<times> json) list \<Rightarrow> bool"
  and contains_items :: "json list \<Rightarrow> bool" where
  "containsSensitiveInput (JObj kvs) = contains_members kvs"
| "containsSensitiveInput (JArr xs) = contains_items xs"
| "containsSensitiveInput (JStr s) \<longleftrightarrow> looksLikePrivatePath s \<or> length s > maxSafeInputStringLength"
| "containsSensitiveInput _ = False"
| "contains_members [] = False"
| "contains_members ((key, child) # kvs) =
     (let normalized = normalizeInputKey key in
      inputKeySensitive normalized
      \<or> normalized = ''path'' \<and> looksLikePrivatePath (valueToInputString child)
      \<or> normalized = ''url'' \<and> safeURLContainsSensitiveMaterial (valueToInputString child)
      \<or> containsSensitiveInput child \<or> contains_members kvs)"
| "contains_items [] = False"
| "contains_items (x # xs) \<longleftrightarrow> containsSensitiveInput x \<or> contains_items xs"

section \<open>Redaction without a key\<close>

abbreviation inputRedactionPolicyVersion :: string where
  "inputRedactionPolicyVersion \<equiv> ''overture-input-redaction-v1''"

abbreviation inputReferenceRedactionPolicyVersion :: string where
  "inputReferenceRedactionPolicyVersion \<equiv> ''input-reference-redaction-v1''"

definition sha256InputBytes :: "input_env \<Rightarrow> string \<Rightarrow> string" where
  "sha256InputBytes ie value = hex_EncodeToString (in_H ie value)"

definition nat_json :: "nat \<Rightarrow> json" where
  "nat_json n = JNum (JInt False n)"

definition redaction_envelope :: "input_env \<Rightarrow> string \<Rightarrow> string \<Rightarrow> string list \<Rightarrow> (string \<times> json) list" where
  "redaction_envelope ie raw reason redacted =
     [(''input_redacted'', JBool True), (''safe_summary'', JStr reason),
      (''input_digest_sha256'', JStr (sha256InputBytes ie raw)), (''input_bytes'', nat_json (length raw)),
      (''sensitive_fields_redacted'', JArr (map JStr redacted)),
      (''redaction_policy_version'', JStr inputRedactionPolicyVersion)]"

definition inputRedactedJSON :: "input_env \<Rightarrow> string \<Rightarrow> string \<Rightarrow> raw" where
  "inputRedactedJSON ie reason raw =
     marshal (sorted_json (JObj (redaction_envelope ie raw reason [''task_definition''])))"

definition inputRedactedEnvelope :: "input_env \<Rightarrow> json \<Rightarrow> string \<Rightarrow> json" where
  "inputRedactedEnvelope ie value reason =
     JObj (redaction_envelope ie (valueToInputString value) reason [reason])"

definition safePathEnvelope :: "input_env \<Rightarrow> string \<Rightarrow> json" where
  "safePathEnvelope ie path =
     (let trimmed = TrimSpace path
      in JObj (redaction_envelope ie trimmed ''private_path'' [''private_path'']
           @ [(''safe_path_digest'', JStr (sha256InputBytes ie trimmed))]))"

definition safeURLForPersistence :: "input_env \<Rightarrow> string \<Rightarrow> json" where
  "safeURLForPersistence ie raw =
     (let trimmed = TrimSpace raw in
      if trimmed = [] then JStr []
      else (case url_Parse trimmed of
          None \<Rightarrow> JStr (redactInlineInputAuth trimmed)
        | Some parsed \<Rightarrow>
            if u_Scheme parsed = [] \<or> u_Host parsed = [] then JStr (redactInlineInputAuth trimmed)
            else JObj ([(''safe_url'', JStr (u_Scheme parsed @ ''://'' @ u_Host parsed @ EscapedPath parsed)),
                (''safe_host'', JStr (Hostname parsed)),
                (''redaction_policy_version'', JStr inputRedactionPolicyVersion)]
              @ (if u_RawQuery parsed \<noteq> [] \<or> u_User parsed \<noteq> None
                 then [(''input_redacted'', JBool True), (''input_digest_sha256'', JStr (sha256InputBytes ie trimmed)),
                    (''input_bytes'', nat_json (length trimmed)),
                    (''sensitive_fields_redacted'', JArr [JStr ''url_query_or_credentials''])]
                 else []))))"

definition header_base :: "string \<Rightarrow> (string \<times> json) list" where
  "header_base version = go_map [(''input_redacted'', JBool True), (''sensitive_fields_redacted'', JArr []),
     (''redaction_policy_version'', JStr version)]"

definition append_redacted :: "string \<Rightarrow> (string \<times> json) list \<Rightarrow> (string \<times> json) list option" where
  \<comment> \<open>\<open>append(out["sensitive_fields_redacted"].([]string), key)\<close>: the type assertion panics when a header
     of that name has replaced the list\<close>
  "append_redacted key out = (case map_of out ''sensitive_fields_redacted'' of
       Some (JArr xs) \<Rightarrow> Some (map_put ''sensitive_fields_redacted'' (JArr (xs @ [JStr key])) out)
     | _ \<Rightarrow> None)"

fun sanitizeInputValue :: "input_env \<Rightarrow> json \<Rightarrow> json option"
  and sanitize_members :: "input_env \<Rightarrow> (string \<times> json) list \<Rightarrow> (string \<times> json) list option"
  and sanitize_items :: "input_env \<Rightarrow> json list \<Rightarrow> json list option"
  and safeHeaderMetadata :: "input_env \<Rightarrow> json \<Rightarrow> json option"
  and sanitize_headers :: "input_env \<Rightarrow> (string \<times> json) list \<Rightarrow> (string \<times> json) list \<Rightarrow> (string \<times> json) list option"
where
  "sanitizeInputValue ie (JObj kvs) = map_option JObj (sanitize_members ie kvs)"
| "sanitizeInputValue ie (JArr xs) = map_option JArr (sanitize_items ie xs)"
| "sanitizeInputValue ie (JStr s) = Some
     (if looksLikePrivatePath s then safePathEnvelope ie s
      else if length s > maxSafeInputStringLength then inputRedactedEnvelope ie (JStr s) ''large_string''
      else JStr (redactInlineInputAuth s))"
| "sanitizeInputValue ie j = Some j"
| "sanitize_members ie [] = Some []"
| "sanitize_members ie ((key, child) # kvs) =
     (let normalized = normalizeInputKey key in
      case (if inputKeySafe normalized then sanitizeInputValue ie child
            else if inputKeySensitive normalized then Some (inputRedactedEnvelope ie child ''sensitive_input'')
            else if normalized = ''path'' \<and> looksLikePrivatePath (valueToInputString child)
              then Some (safePathEnvelope ie (valueToInputString child))
            else if normalized = ''url'' then Some (safeURLForPersistence ie (valueToInputString child))
            else if normalized = ''headers'' then safeHeaderMetadata ie child
            else sanitizeInputValue ie child) of
        None \<Rightarrow> None
      | Some v \<Rightarrow> map_option ((#) (key, v)) (sanitize_members ie kvs))"
| "sanitize_items ie [] = Some []"
| "sanitize_items ie (x # xs) = (case sanitizeInputValue ie x of None \<Rightarrow> None
     | Some v \<Rightarrow> map_option ((#) v) (sanitize_items ie xs))"
| "safeHeaderMetadata ie (JObj headers) =
     map_option JObj (sanitize_headers ie headers (header_base inputRedactionPolicyVersion))"
| "safeHeaderMetadata ie v = Some (inputRedactedEnvelope ie v ''headers'')"
| "sanitize_headers ie [] out = Some out"
| "sanitize_headers ie ((key, child) # headers) out =
     (let normalized = normalizeInputKey key in
      if inputKeySensitive normalized then
        (case append_redacted key (map_put key (inputRedactedEnvelope ie child ''sensitive_header'') out) of
           None \<Rightarrow> None | Some out' \<Rightarrow> sanitize_headers ie headers out')
      else if allowlistedHeader normalized then
        (case sanitizeInputValue ie child of None \<Rightarrow> None
         | Some v \<Rightarrow> sanitize_headers ie headers (map_put key v out))
      else sanitize_headers ie headers (map_put key (inputRedactedEnvelope ie child ''non_allowlisted_header'') out))"

definition sanitizeTaskDefinitionForPersistence :: "input_env \<Rightarrow> raw \<Rightarrow> raw option" where
  "sanitizeTaskDefinitionForPersistence ie raw =
     (if raw_text raw = [] then Some raw
      else (case raw_value raw of
          None \<Rightarrow> Some (inputRedactedJSON ie ''invalid_json'' (raw_text raw))
        | Some j \<Rightarrow> map_option (\<lambda>v. marshal (sorted_json v)) (sanitizeInputValue ie (any_value (in_float ie) j))))"

section \<open>The keyring\<close>

record executionInputCipher =
  ic_keyVersion :: string
  ic_keyFingerprint :: string
  ic_key :: "byte list"

record executionInputKeyring =
  kr_activeKeyVersion :: string
  kr_ciphers :: "(string \<times> executionInputCipher) list"

datatype input_error =
    ErrExecutionInputRefKeyMissing
  | ErrExecutionInputRefKeyVersionMissing
  | ErrExecutionInputRefDecrypt
  | ErrInputKeyLength
  | ErrKeyringConfig string
  | ErrInvalidRefMetadata
  | ErrExecutionInputRefNotFound
  | ErrExecutionInputRefRevoked
  | ErrExecutionInputRefExpired
  | ErrExecutionInputRefScope
  | ErrInputStore store_error
  | ErrInputJSON
  | InputPanic

definition bytes_of :: "string \<Rightarrow> byte list" where
  "bytes_of s = map of_char s"

fun first_key :: "byte list option list \<Rightarrow> byte list option" where
  "first_key [] = None"
| "first_key (d # ds) = (case d of Some key \<Rightarrow> if length key = 32 then Some key else first_key ds | None \<Rightarrow> first_key ds)"

definition base64_decodings :: "string \<Rightarrow> byte list option list" where
  "base64_decodings s = map (\<lambda>e. b64_DecodeString e s) [StdEncoding, RawStdEncoding, URLEncoding, RawURLEncoding]"

definition decodeExecutionInputKey :: "string \<Rightarrow> input_error + byte list" where
  "decodeExecutionInputKey raw =
     (let rawKey = TrimSpace raw in
      if rawKey = [] then Inl ErrExecutionInputRefKeyMissing
      else (case first_key (base64_decodings rawKey @ [hex_DecodeString rawKey]) of
          Some key \<Rightarrow> Inr key
        | None \<Rightarrow> if length rawKey = 32 then Inr (bytes_of rawKey) else Inl ErrInputKeyLength))"

definition decodeExecutionInputKeyringKey :: "string \<Rightarrow> input_error + byte list" where
  "decodeExecutionInputKeyringKey raw =
     (let rawKey = TrimSpace raw in
      if rawKey = [] then Inl ErrExecutionInputRefKeyMissing
      else (case first_key (base64_decodings rawKey) of Some key \<Rightarrow> Inr key | None \<Rightarrow> Inl ErrInputKeyLength))"

definition string_of_bytes :: "byte list \<Rightarrow> string" where
  "string_of_bytes bs = map (\<lambda>b. char_of (unat b)) bs"

definition newExecutionInputCipherFromKeyBytes :: "input_env \<Rightarrow> byte list \<Rightarrow> string \<Rightarrow> input_error + executionInputCipher" where
  "newExecutionInputCipherFromKeyBytes ie key keyVersion =
     (if length key \<noteq> 32 then Inl ErrInputKeyLength
      else let v = TrimSpace keyVersion
        in Inr \<lparr>ic_keyVersion = (if v = [] then ''env:v1'' else v),
                ic_keyFingerprint = hex_EncodeToString (in_H ie (string_of_bytes key)), ic_key = key\<rparr>)"

definition newExecutionInputCipher :: "input_env \<Rightarrow> string \<Rightarrow> string \<Rightarrow> input_error + executionInputCipher" where
  "newExecutionInputCipher ie rawKey keyVersion = (case decodeExecutionInputKey rawKey of
     Inl e \<Rightarrow> Inl e | Inr key \<Rightarrow> newExecutionInputCipherFromKeyBytes ie key keyVersion)"

fun keyring_entries :: "input_env \<Rightarrow> string list \<Rightarrow> (string \<times> executionInputCipher) list \<Rightarrow>
    input_error + (string \<times> executionInputCipher) list" where
  "keyring_entries ie [] ciphers = Inr ciphers"
| "keyring_entries ie (e # es) ciphers =
     (let entry = TrimSpace e;
          version = TrimSpace (fst (Cut entry (CHR '':'')));
          keyPart = TrimSpace (snd (Cut entry (CHR '':'')))
      in if entry = [] then Inl (ErrKeyringConfig ''empty keyring entry'')
         else if CHR '':'' \<notin> set entry \<or> version = [] \<or> keyPart = []
           then Inl (ErrKeyringConfig ''malformed keyring entry'')
         else if map_of ciphers version \<noteq> None then Inl (ErrKeyringConfig ''duplicate key version'')
         else (case decodeExecutionInputKeyringKey keyPart of
             Inl _ \<Rightarrow> Inl (ErrKeyringConfig (''invalid key for version '' @ version))
           | Inr key \<Rightarrow> (case newExecutionInputCipherFromKeyBytes ie key version of
               Inl _ \<Rightarrow> Inl (ErrKeyringConfig (''invalid key for version '' @ version))
             | Inr c \<Rightarrow> keyring_entries ie es (map_put version c ciphers))))"

definition parseExecutionInputKeyring :: "input_env \<Rightarrow> string \<Rightarrow> string \<Rightarrow> input_error + executionInputKeyring" where
  "parseExecutionInputKeyring ie raw activeVersionRaw =
     (let activeVersion = TrimSpace activeVersionRaw in
      if activeVersion = [] then Inl (ErrKeyringConfig ''active key version is empty'')
      else (case keyring_entries ie (Split raw (CHR '','')) [] of
          Inl e \<Rightarrow> Inl e
        | Inr ciphers \<Rightarrow>
            if ciphers = [] then Inl (ErrKeyringConfig ''keyring is empty'')
            else if map_of ciphers activeVersion = None
              then Inl (ErrKeyringConfig ''active key version not present in keyring'')
            else Inr \<lparr>kr_activeKeyVersion = activeVersion, kr_ciphers = ciphers\<rparr>))"

definition ensureLegacyKeyConsistent :: "input_env \<Rightarrow> executionInputKeyring \<Rightarrow> string \<Rightarrow> string \<Rightarrow> input_error option" where
  "ensureLegacyKeyConsistent ie ring legacyKeyRaw legacyVersionRaw =
     (case newExecutionInputCipher ie legacyKeyRaw legacyVersionRaw of
        Inl _ \<Rightarrow> Some (ErrKeyringConfig ''legacy single key invalid'')
      | Inr legacy \<Rightarrow> (case map_of (kr_ciphers ring) (ic_keyVersion legacy) of
          None \<Rightarrow> Some (ErrKeyringConfig ''legacy single key version not present in keyring'')
        | Some existing \<Rightarrow>
            if ic_keyFingerprint existing \<noteq> ic_keyFingerprint legacy
            then Some (ErrKeyringConfig ''legacy single key disagrees with keyring entry'') else None))"

definition buildExecutionInputKeyring :: "input_env \<Rightarrow> string \<Rightarrow> string \<Rightarrow> string \<Rightarrow> string \<Rightarrow>
    input_error + executionInputKeyring" where
  "buildExecutionInputKeyring ie keyringRaw0 activeVersionRaw legacyKeyRaw0 legacyVersionRaw =
     (let keyringRaw = TrimSpace keyringRaw0; legacyKeyRaw = TrimSpace legacyKeyRaw0 in
      if keyringRaw \<noteq> [] then
        (case parseExecutionInputKeyring ie keyringRaw activeVersionRaw of
           Inl e \<Rightarrow> Inl e
         | Inr ring \<Rightarrow>
             if legacyKeyRaw = [] then Inr ring
             else (case ensureLegacyKeyConsistent ie ring legacyKeyRaw legacyVersionRaw of
                 Some e \<Rightarrow> Inl e | None \<Rightarrow> Inr ring))
      else if legacyKeyRaw \<noteq> [] then
        (case newExecutionInputCipher ie legacyKeyRaw legacyVersionRaw of
           Inl e \<Rightarrow> Inl e
         | Inr c \<Rightarrow>
             if TrimSpace activeVersionRaw \<noteq> [] \<and> TrimSpace activeVersionRaw \<noteq> ic_keyVersion c
             then Inl (ErrKeyringConfig ''active key version does not match configured single key version'')
             else Inr \<lparr>kr_activeKeyVersion = ic_keyVersion c, kr_ciphers = [(ic_keyVersion c, c)]\<rparr>)
      else Inl ErrExecutionInputRefKeyMissing)"

definition newExecutionInputKeyringFromEnv :: "input_env \<Rightarrow> input_error + executionInputKeyring" where
  "newExecutionInputKeyringFromEnv ie =
     buildExecutionInputKeyring ie (in_KEYS ie) (in_ACTIVE_KEY_VERSION ie) (in_KEY ie) (in_KEY_VERSION ie)"

definition keyring_active :: "executionInputKeyring \<Rightarrow> input_error + executionInputCipher" where
  "keyring_active k = (case map_of (kr_ciphers k) (kr_activeKeyVersion k) of
     None \<Rightarrow> Inl ErrExecutionInputRefKeyMissing | Some c \<Rightarrow> Inr c)"

definition keyring_forVersion :: "executionInputKeyring \<Rightarrow> string \<Rightarrow> input_error + executionInputCipher" where
  "keyring_forVersion k keyVersion0 =
     (let keyVersion = TrimSpace keyVersion0 in
      if keyVersion = [] then Inl ErrExecutionInputRefKeyVersionMissing
      else (case map_of (kr_ciphers k) keyVersion of
          None \<Rightarrow> Inl ErrExecutionInputRefKeyVersionMissing | Some c \<Rightarrow> Inr c))"

definition newExecutionInputCipherFromEnv :: "input_env \<Rightarrow> input_error + executionInputCipher" where
  "newExecutionInputCipherFromEnv ie = (case newExecutionInputKeyringFromEnv ie of
     Inl e \<Rightarrow> Inl e | Inr ring \<Rightarrow> keyring_active ring)"

definition cipher_encrypt :: "input_env \<Rightarrow> executionInputCipher \<Rightarrow> byte list \<Rightarrow> string \<Rightarrow> string \<Rightarrow> byte list" where
  \<comment> \<open>the nonce is drawn by the caller of the model\<close>
  "cipher_encrypt ie c nonce plaintext aad = in_seal ie (ic_key c) nonce plaintext aad"

definition cipher_decrypt :: "input_env \<Rightarrow> executionInputCipher \<Rightarrow> byte list \<Rightarrow> byte list \<Rightarrow> string \<Rightarrow> input_error + string" where
  "cipher_decrypt ie c ciphertext nonce aad = (case in_open ie (ic_key c) nonce ciphertext aad of
     None \<Rightarrow> Inl ErrExecutionInputRefDecrypt | Some plaintext \<Rightarrow> Inr plaintext)"

section \<open>Encrypted references\<close>

definition executionInputAssociatedData :: "input_env \<Rightarrow> string \<Rightarrow> uuid \<Rightarrow> uuid \<Rightarrow> string \<Rightarrow> string \<Rightarrow> raw" where
  "executionInputAssociatedData ie tenantID taskID refID purpose keyVersion = marshal (JObj
     [(''tenant_id'', JStr tenantID), (''task_id'', JStr (in_uuid_string ie taskID)),
      (''input_ref_id'', JStr (in_uuid_string ie refID)), (''purpose'', JStr purpose),
      (''key_version'', JStr keyVersion)])"

record protection =
  pt_tenantID :: string
  pt_taskID :: uuid
  pt_cipher :: executionInputCipher
  pt_ids :: "nat \<Rightarrow> uuid"
  pt_nonces :: "nat \<Rightarrow> byte list"

definition buildRef :: "input_env \<Rightarrow> protection \<Rightarrow> json \<Rightarrow> string \<Rightarrow> ExecutionInputRef list \<Rightarrow> ExecutionInputRef" where
  \<comment> \<open>the next reference of a state that holds the given ones\<close>
  "buildRef ie pt value purpose refs =
     (let refID = pt_ids pt (length refs);
          nonce = pt_nonces pt (length refs);
          plaintext = valueToInputString value;
          aad = executionInputAssociatedData ie (pt_tenantID pt) (pt_taskID pt) refID purpose (ic_keyVersion (pt_cipher pt))
      in \<lparr>ir_ID = refID, ir_TenantID = pt_tenantID pt, ir_TaskID = pt_taskID pt, ir_ActionID = None,
          ir_Purpose = purpose, ir_Ciphertext = cipher_encrypt ie (pt_cipher pt) nonce plaintext (raw_text aad),
          ir_Nonce = nonce, ir_AAD = aad, ir_DigestSHA256 = sha256InputBytes ie plaintext,
          ir_PlaintextBytes = length plaintext, ir_ContentType = [],
          ir_RedactionPolicyVersion = inputReferenceRedactionPolicyVersion,
          ir_KeyVersion = ic_keyVersion (pt_cipher pt), ir_ExpiresAt = None, ir_RevokedAt = None,
          ir_LastDecryptedAt = None\<rparr>)"

definition encryptedInputRefMetadata :: "input_env \<Rightarrow> ExecutionInputRef \<Rightarrow> string \<Rightarrow> (string \<times> json) list" where
  "encryptedInputRefMetadata ie ref summary =
     [(''input_redacted'', JBool True), (''encrypted_input_ref'', JBool True),
      (''encrypted_input_ref_id'', JStr (in_uuid_string ie (ir_ID ref))), (''purpose'', JStr (ir_Purpose ref)),
      (''input_digest_sha256'', JStr (ir_DigestSHA256 ref)), (''input_bytes'', nat_json (ir_PlaintextBytes ref)),
      (''input_content_type'', JStr (ir_ContentType ref)), (''safe_summary'', JStr summary),
      (''sensitive_fields_redacted'', JArr [JStr (ir_Purpose ref)]), (''key_version'', JStr (ir_KeyVersion ref)),
      (''redaction_policy_version'', JStr inputReferenceRedactionPolicyVersion)]"

definition inputRefMetadata :: "input_env \<Rightarrow> (string \<times> json) list \<Rightarrow> (uuid \<times> string) option" where
  "inputRefMetadata ie value =
     (if map_index value ''encrypted_input_ref'' \<noteq> JBool True then None
      else (case in_uuid_parse ie (valueToInputString (map_index value ''encrypted_input_ref_id'')) of
          None \<Rightarrow> None
        | Some refID \<Rightarrow>
            let purpose = TrimSpace (valueToInputString (map_index value ''purpose''))
            in if purpose = [] then None else Some (refID, purpose)))"

definition seal_input :: "input_env \<Rightarrow> protection \<Rightarrow> json \<Rightarrow> string \<Rightarrow> string \<Rightarrow> ExecutionInputRef list \<Rightarrow>
    json \<times> ExecutionInputRef list" where
  "seal_input ie pt value purpose summary refs =
     (let ref = buildRef ie pt value purpose refs
      in (JObj (encryptedInputRefMetadata ie ref (summary @ '' redacted; encrypted input ref available for authorized recovery'')),
          refs @ [ref]))"

fun protect_headers :: "input_env \<Rightarrow> protection \<Rightarrow> (string \<times> json) list \<Rightarrow> (string \<times> json) list \<Rightarrow>
    ExecutionInputRef list \<Rightarrow> input_error + (string \<times> json) list \<times> ExecutionInputRef list" where
  "protect_headers ie pt [] out refs = Inr (out, refs)"
| "protect_headers ie pt ((key, child) # headers) out refs =
     (let normalized = normalizeInputKey key in
      if inputKeySensitive normalized then
        (case seal_input ie pt child ''sensitive_header'' ''sensitive header'' refs of (v, refs1) \<Rightarrow>
           (case append_redacted key (map_put key v out) of
              None \<Rightarrow> Inl InputPanic
            | Some out1 \<Rightarrow> protect_headers ie pt headers out1 refs1))
      else if allowlistedHeader normalized then protect_headers ie pt headers (map_put key child out) refs
      else (case seal_input ie pt child ''sensitive_header'' ''non-allowlisted header'' refs of (v, refs1) \<Rightarrow>
        protect_headers ie pt headers (map_put key v out) refs1))"

fun protectHeaders :: "input_env \<Rightarrow> protection \<Rightarrow> json \<Rightarrow> ExecutionInputRef list \<Rightarrow>
    input_error + json \<times> ExecutionInputRef list" where
  "protectHeaders ie pt (JObj headers) refs =
     (case protect_headers ie pt headers (header_base inputReferenceRedactionPolicyVersion) refs of
        Inl e \<Rightarrow> Inl e | Inr (out, refs1) \<Rightarrow> Inr (JObj out, refs1))"
| "protectHeaders ie pt v refs = Inr (seal_input ie pt v ''sensitive_header'' ''headers'' refs)"

fun protect :: "input_env \<Rightarrow> protection \<Rightarrow> string \<Rightarrow> json \<Rightarrow> ExecutionInputRef list \<Rightarrow>
    input_error + json \<times> ExecutionInputRef list"
  and protect_members :: "input_env \<Rightarrow> protection \<Rightarrow> (string \<times> json) list \<Rightarrow> ExecutionInputRef list \<Rightarrow>
    input_error + (string \<times> json) list \<times> ExecutionInputRef list"
  and protect_items :: "input_env \<Rightarrow> protection \<Rightarrow> string \<Rightarrow> json list \<Rightarrow> ExecutionInputRef list \<Rightarrow>
    input_error + json list \<times> ExecutionInputRef list"
where
  "protect ie pt parentKey (JObj kvs) refs =
     (case inputRefMetadata ie kvs of
        Some (refID, purpose) \<Rightarrow>
          if refID = uuid_Nil \<or> TrimSpace purpose = [] then Inl ErrInvalidRefMetadata else Inr (JObj kvs, refs)
      | None \<Rightarrow> (case protect_members ie pt kvs refs of
          Inl e \<Rightarrow> Inl e | Inr (out, refs1) \<Rightarrow> Inr (JObj out, refs1)))"
| "protect ie pt parentKey (JArr xs) refs =
     (case protect_items ie pt parentKey xs refs of Inl e \<Rightarrow> Inl e | Inr (out, refs1) \<Rightarrow> Inr (JArr out, refs1))"
| "protect ie pt parentKey (JStr s) refs = Inr
     (if looksLikePrivatePath s then seal_input ie pt (JStr s) ''private_path'' ''private path'' refs
      else if length s > maxSafeInputStringLength \<or> inputKeySensitive parentKey
        then seal_input ie pt (JStr s) (purposeForSensitiveInputKey parentKey) ''sensitive string'' refs
      else (JStr (redactInlineInputAuth s), refs))"
| "protect ie pt parentKey v refs = Inr (v, refs)"
| "protect_members ie pt [] refs = Inr ([], refs)"
| "protect_members ie pt ((key, child) # kvs) refs =
     (let normalized = normalizeInputKey key in
      case (if inputKeySafe normalized then Inr (child, refs)
            else if normalized = ''headers'' then protectHeaders ie pt child refs
            else if normalized = ''url'' \<and> safeURLContainsSensitiveMaterial (valueToInputString child)
              then Inr (seal_input ie pt child ''signed_url'' ''signed URL'' refs)
            else if inputKeySensitive normalized
              then Inr (seal_input ie pt child (purposeForSensitiveInputKey normalized) ''sensitive input'' refs)
            else if normalized = ''path'' \<and> looksLikePrivatePath (valueToInputString child)
              then Inr (seal_input ie pt child ''private_path'' ''private path'' refs)
            else protect ie pt normalized child refs) of
        Inl e \<Rightarrow> Inl e
      | Inr (v, refs1) \<Rightarrow> (case protect_members ie pt kvs refs1 of
          Inl e \<Rightarrow> Inl e | Inr (out, refs2) \<Rightarrow> Inr ((key, v) # out, refs2)))"
| "protect_items ie pt parentKey [] refs = Inr ([], refs)"
| "protect_items ie pt parentKey (x # xs) refs =
     (case protect ie pt parentKey x refs of
        Inl e \<Rightarrow> Inl e
      | Inr (v, refs1) \<Rightarrow> (case protect_items ie pt parentKey xs refs1 of
          Inl e \<Rightarrow> Inl e | Inr (out, refs2) \<Rightarrow> Inr (v # out, refs2)))"

definition protectTaskDefinitionInputs :: "input_env \<Rightarrow> (nat \<Rightarrow> uuid) \<Rightarrow> (nat \<Rightarrow> byte list) \<Rightarrow> raw \<Rightarrow> string \<Rightarrow> uuid \<Rightarrow>
    input_error + raw \<times> ExecutionInputRef list" where
  "protectTaskDefinitionInputs ie ids nonces raw tenantID taskID =
     (if raw_text raw = [] then Inr (raw, [])
      else (case raw_value raw of
          None \<Rightarrow> Inl ErrInputJSON
        | Some j \<Rightarrow>
            let value = any_value (in_float ie) j in
            (case newExecutionInputCipherFromEnv ie of
               Inl err \<Rightarrow>
                 if containsSensitiveInput value then Inl err
                 else (case sanitizeTaskDefinitionForPersistence ie raw of
                     None \<Rightarrow> Inl InputPanic | Some def \<Rightarrow> Inr (def, []))
             | Inr cipher \<Rightarrow>
                 (case protect ie \<lparr>pt_tenantID = tenantID, pt_taskID = taskID, pt_cipher = cipher, pt_ids = ids,
                         pt_nonces = nonces\<rparr> [] value [] of
                    Inl e \<Rightarrow> Inl e
                  | Inr (v, refs) \<Rightarrow> Inr (marshal (sorted_json v), refs)))))"

section \<open>Putting the inputs back\<close>

fun rehydrateInputRefValue :: "input_env \<Rightarrow> (uuid \<Rightarrow> string \<Rightarrow> 's \<Rightarrow> (input_error + string) \<times> 's) \<Rightarrow> json \<Rightarrow> 's \<Rightarrow>
    (input_error + json) \<times> 's"
  and rehydrate_members :: "input_env \<Rightarrow> (uuid \<Rightarrow> string \<Rightarrow> 's \<Rightarrow> (input_error + string) \<times> 's) \<Rightarrow> (string \<times> json) list \<Rightarrow> 's \<Rightarrow>
    (input_error + (string \<times> json) list) \<times> 's"
  and rehydrate_items :: "input_env \<Rightarrow> (uuid \<Rightarrow> string \<Rightarrow> 's \<Rightarrow> (input_error + string) \<times> 's) \<Rightarrow> json list \<Rightarrow> 's \<Rightarrow>
    (input_error + json list) \<times> 's"
where
  "rehydrateInputRefValue ie resolver (JObj kvs) st =
     (case inputRefMetadata ie kvs of
        Some (refID, purpose) \<Rightarrow> (case resolver refID purpose st of
            (Inl e, st1) \<Rightarrow> (Inl e, st1) | (Inr plaintext, st1) \<Rightarrow> (Inr (JStr plaintext), st1))
      | None \<Rightarrow> (case rehydrate_members ie resolver kvs st of
            (Inl e, st1) \<Rightarrow> (Inl e, st1) | (Inr out, st1) \<Rightarrow> (Inr (JObj out), st1)))"
| "rehydrateInputRefValue ie resolver (JArr xs) st = (case rehydrate_items ie resolver xs st of
     (Inl e, st1) \<Rightarrow> (Inl e, st1) | (Inr out, st1) \<Rightarrow> (Inr (JArr out), st1))"
| "rehydrateInputRefValue ie resolver v st = (Inr v, st)"
| "rehydrate_members ie resolver [] st = (Inr [], st)"
| "rehydrate_members ie resolver ((key, child) # kvs) st =
     (case rehydrateInputRefValue ie resolver child st of
        (Inl e, st1) \<Rightarrow> (Inl e, st1)
      | (Inr v, st1) \<Rightarrow> (case rehydrate_members ie resolver kvs st1 of
          (Inl e, st2) \<Rightarrow> (Inl e, st2) | (Inr out, st2) \<Rightarrow> (Inr ((key, v) # out), st2)))"
| "rehydrate_items ie resolver [] st = (Inr [], st)"
| "rehydrate_items ie resolver (x # xs) st =
     (case rehydrateInputRefValue ie resolver x st of
        (Inl e, st1) \<Rightarrow> (Inl e, st1)
      | (Inr v, st1) \<Rightarrow> (case rehydrate_items ie resolver xs st1 of
          (Inl e, st2) \<Rightarrow> (Inl e, st2) | (Inr out, st2) \<Rightarrow> (Inr (v # out), st2)))"

definition rehydrateTaskDefinitionInputRefs :: "input_env \<Rightarrow> (uuid \<Rightarrow> string \<Rightarrow> 's \<Rightarrow> (input_error + string) \<times> 's) \<Rightarrow> raw \<Rightarrow> 's \<Rightarrow>
    (input_error + raw) \<times> 's" where
  "rehydrateTaskDefinitionInputRefs ie resolver raw st =
     (if raw_text raw = [] then (Inr raw, st)
      else (case raw_value raw of
          None \<Rightarrow> (Inl ErrInputJSON, st)
        | Some j \<Rightarrow> (case rehydrateInputRefValue ie resolver (any_value (in_float ie) j) st of
            (Inl e, st1) \<Rightarrow> (Inl e, st1)
          | (Inr v, st1) \<Rightarrow> (Inr (marshal (sorted_json v)), st1))))"

end
