(* ===== verification/Task_Lifecycle.thy ===== *)
theory Task_Lifecycle
  imports Task_Store
begin

text \<open>
  The lifecycle of a task in the store: the status machine as a step relation, the contract of a
  guarded transition (compare-and-set on the status), and the proof that every operation of the
  store lets the tasks evolve along that machine only, keeps identities and uniqueness, and never
  lowers a checkpoint watermark.
\<close>

named_theorems evolve \<open>each operation of the store lets the tasks evolve\<close>

section \<open>The status machine\<close>

inductive status_step :: "TaskRecordStatus \<Rightarrow> TaskRecordStatus \<Rightarrow> bool" where
  dispatch: "TaskAllowsDispatch s \<Longrightarrow> status_step s TaskStatusDispatched"
| gate: "TaskAllowsDispatch s \<Longrightarrow> status_step s TaskStatusApprovalRequired"
| approve: "status_step TaskStatusApprovalRequired TaskStatusDispatched"
| reject: "status_step TaskStatusApprovalRequired TaskStatusFailed"
| checkpoint: "TaskAllowsRuntimeMutation s \<Longrightarrow> status_step s TaskStatusCheckpointed"
| complete: "TaskAllowsRuntimeMutation s \<Longrightarrow> status_step s TaskStatusCompleted"
| fail: "TaskAllowsRuntimeMutation s \<Longrightarrow> status_step s TaskStatusFailed"
| cancel: "TaskAllowsCancellation s \<Longrightarrow> status_step s TaskStatusCanceled"
| recover: "s \<in> {TaskStatusDispatched, TaskStatusCheckpointed} \<Longrightarrow> status_step s TaskStatusRecovering"

inductive_cases status_stepE: "status_step s s'"

definition terminal :: "TaskRecordStatus \<Rightarrow> bool" where
  "terminal s \<longleftrightarrow> s \<in> {TaskStatusCompleted, TaskStatusFailed, TaskStatusCanceled}"

lemma terminal_no_step: "terminal s \<Longrightarrow> \<not> status_step s s'"
  by (auto simp: terminal_def elim!: status_stepE)

lemma terminal_stays: "status_step\<^sup>*\<^sup>* s s' \<Longrightarrow> terminal s \<Longrightarrow> s' = s"
  by (induction rule: converse_rtranclp_induct) (auto dest: terminal_no_step)

lemma nothing_back_to_pending: "status_step\<^sup>*\<^sup>* s s' \<Longrightarrow> s' = TaskStatusPending \<Longrightarrow> s = TaskStatusPending"
  by (induction rule: rtranclp_induct) (auto elim!: status_stepE)

section \<open>Evolution of the task table\<close>

definition watermark :: "task_row \<Rightarrow> nat" where
  \<comment> \<open>zero without a checkpoint, else one more than its last committed step\<close>
  "watermark r = (case tr_last_checkpoint r of None \<Rightarrow> 0
     | Some sc \<Rightarrow> Suc (unat (rt_LastCommittedStep (sc_ResumeToken sc))))"

definition row_evolves :: "task_row \<Rightarrow> task_row \<Rightarrow> bool" where
  "row_evolves r r' \<longleftrightarrow> tr_task_id r' = tr_task_id r \<and> tr_tenant_id r' = tr_tenant_id r
     \<and> tr_idempotency_key r' = tr_idempotency_key r \<and> tr_task_definition r' = tr_task_definition r
     \<and> tr_deadline_at r' = tr_deadline_at r \<and> tr_created_at r' = tr_created_at r
     \<and> status_step\<^sup>*\<^sup>* (tr_status r) (tr_status r') \<and> watermark r \<le> watermark r'"

definition db_ok :: "db \<Rightarrow> bool" where
  "db_ok db \<longleftrightarrow> distinct (map tr_task_id (db_tasks db))
     \<and> distinct (map (\<lambda>r. (tr_tenant_id r, tr_idempotency_key r)) (db_tasks db))
     \<and> (\<forall>r\<in>set (db_tasks db). \<forall>sc. tr_last_checkpoint r = Some sc \<longrightarrow>
          (\<exists>cp. sc = marshalCheckpoint cp \<and> cp_TaskID cp = tr_task_id r))"

definition evolves :: "db \<Rightarrow> db \<Rightarrow> bool" where
  "evolves db db' \<longleftrightarrow> (db_ok db \<longrightarrow> db_ok db' \<and>
     (\<exists>old new. db_tasks db' = old @ new \<and> list_all2 row_evolves (db_tasks db) old))"

lemma row_evolves_refl [simp]: "row_evolves r r"
  by (simp add: row_evolves_def)

lemma row_evolves_trans: "row_evolves r s \<Longrightarrow> row_evolves s t \<Longrightarrow> row_evolves r t"
  by (auto simp: row_evolves_def)

lemma evolves_same: "db_tasks db' = db_tasks db \<Longrightarrow> evolves db db'"
  unfolding evolves_def by (rule impI, rule conjI, simp add: db_ok_def,
      rule exI [of _ "db_tasks db"], rule exI [of _ "[]"]) (simp add: list_all2_refl)

lemma evolves_refl [simp]: "evolves db db"
  by (rule evolves_same) simp

lemma evolves_trans: "evolves a b \<Longrightarrow> evolves b c \<Longrightarrow> evolves a c"
proof -
  assume ab: "evolves a b" and bc: "evolves b c"
  show "evolves a c" unfolding evolves_def
  proof
    assume "db_ok a"
    with ab bc obtain o1 n1 o2 n2 where b: "db_ok b" "db_tasks b = o1 @ n1" "list_all2 row_evolves (db_tasks a) o1"
      and c: "db_ok c" "db_tasks c = o2 @ n2" "list_all2 row_evolves (db_tasks b) o2"
      unfolding evolves_def by blast
    from c(3) obtain u v where uv: "o2 = u @ v" "list_all2 row_evolves o1 u" "list_all2 row_evolves n1 v"
      unfolding b(2) list_all2_append1 by blast
    have "list_all2 row_evolves (db_tasks a) u"
      by (rule list_all2_trans [OF row_evolves_trans b(3) uv(2)])
    with c uv(1) show "db_ok c \<and> (\<exists>old new. db_tasks c = old @ new \<and> list_all2 row_evolves (db_tasks a) old)"
      by auto
  qed
qed

lemma stmt_tasks [simp]: "stmt db = (f, db1) \<Longrightarrow> db_tasks db1 = db_tasks db"
  by (auto simp: stmt_def split: list.splits)

lemma rollback_tasks [simp]: "db_tasks (rollback a b) = db_tasks a"
  by (simp add: rollback_def)

lemma commit_tasks: "commit a db = (f, db1) \<Longrightarrow> db_tasks db1 = db_tasks db \<or> db_tasks db1 = db_tasks a"
  by (auto simp: commit_def Let_def split: list.splits fault.splits)

lemma uuid_New_tasks [simp]: "uuid_New db = (i, db1) \<Longrightarrow> db_tasks db1 = db_tasks db"
  by (auto simp: uuid_New_def)

lemma update_tasks_result:
  assumes "update_tasks P f db = (n, db1)"
  shows "(n = None \<and> db_tasks db1 = db_tasks db)
    \<or> (n = Some (length (filter P (db_tasks db))) \<and> db_tasks db1 = map (\<lambda>r. if P r then f r else r) (db_tasks db))"
  using assms by (auto simp: update_tasks_def sql_update_def split: prod.splits if_splits)

text \<open>The rows an update may touch keep their identity and move along the status machine; the
  checkpoint stays, or is one of the same task that is further.\<close>

lemma evolves_update:
  assumes upd: "update_tasks P f db = (n, db1)"
    and row: "\<And>r. db_ok db \<Longrightarrow> r \<in> set (db_tasks db) \<Longrightarrow> P r \<Longrightarrow> row_evolves r (f r)"
    and cp: "\<And>r. P r \<Longrightarrow> tr_last_checkpoint (f r) = tr_last_checkpoint r
      \<or> (\<exists>cp. tr_last_checkpoint (f r) = Some (marshalCheckpoint cp) \<and> cp_TaskID cp = tr_task_id r)"
  shows "evolves db db1"
proof (cases "n = None")
  case False
  let ?g = "\<lambda>r. if P r then f r else r"
  have t: "db_tasks db1 = map ?g (db_tasks db)" using update_tasks_result [OF upd] False by auto
  show ?thesis unfolding evolves_def
  proof (intro impI conjI)
    assume ok: "db_ok db"
    have re: "\<forall>r\<in>set (db_tasks db). row_evolves r (?g r)" using row [OF ok] by auto
    have keys: "map tr_task_id (map ?g (db_tasks db)) = map tr_task_id (db_tasks db)"
      "map (\<lambda>r. (tr_tenant_id r, tr_idempotency_key r)) (map ?g (db_tasks db))
        = map (\<lambda>r. (tr_tenant_id r, tr_idempotency_key r)) (db_tasks db)"
      using re by (auto simp: row_evolves_def)
    have "\<exists>cp. sc = marshalCheckpoint cp \<and> cp_TaskID cp = tr_task_id r'"
      if "r' \<in> set (map ?g (db_tasks db))" "tr_last_checkpoint r' = Some sc" for r' sc
    proof -
      from that(1) obtain r where r: "r \<in> set (db_tasks db)" "r' = ?g r" by auto
      have "tr_task_id (?g r) = tr_task_id r" using re r(1) unfolding row_evolves_def by blast
      then show ?thesis using ok that(2) r cp [of r] by (auto simp: db_ok_def split: if_splits)
    qed
    then show "db_ok db1" using ok unfolding db_ok_def t keys by blast
    show "\<exists>old new. db_tasks db1 = old @ new \<and> list_all2 row_evolves (db_tasks db) old"
      using re by (intro exI [of _ "map ?g (db_tasks db)"] exI [of _ "[]"])
        (auto simp: t list_all2_conv_all_nth)
  qed
next
  case True
  with update_tasks_result [OF upd] show ?thesis by (auto intro: evolves_same)
qed

lemma evolves_transition:
  assumes "transition P f db = (e, db1)"
    and "\<And>r. P r \<Longrightarrow> status_step (tr_status r) (tr_status (f r))"
    and "\<And>r. tr_task_id (f r) = tr_task_id r \<and> tr_tenant_id (f r) = tr_tenant_id r
      \<and> tr_idempotency_key (f r) = tr_idempotency_key r \<and> tr_task_definition (f r) = tr_task_definition r
      \<and> tr_deadline_at (f r) = tr_deadline_at r \<and> tr_created_at (f r) = tr_created_at r
      \<and> tr_last_checkpoint (f r) = tr_last_checkpoint r"
  shows "evolves db db1"
proof -
  from assms(1) obtain n where n: "update_tasks P f db = (n, db1)" by (auto simp: transition_def split: prod.splits)
  show ?thesis
    by (rule evolves_update [OF n]) (use assms(2,3) in \<open>auto simp: row_evolves_def watermark_def\<close>)
qed

section \<open>Every operation of the store evolves the tasks\<close>

text \<open>The rules are in the form that chains backwards through the statements of an operation.\<close>

lemma evolves_cong: "db_tasks b = db_tasks c \<Longrightarrow> evolves a b \<longleftrightarrow> evolves a c"
  by (simp add: evolves_def db_ok_def)

lemma ev_same: "db_tasks db1 = db_tasks db \<Longrightarrow> evolves d db \<Longrightarrow> evolves d db1"
  using evolves_cong by blast

lemma ev_stmt [evolve]: "stmt db = (f, db1) \<Longrightarrow> evolves d db \<Longrightarrow> evolves d db1"
  by (rule ev_same) simp_all

lemma ev_uuid [evolve]: "uuid_New db = (i, db1) \<Longrightarrow> evolves d db \<Longrightarrow> evolves d db1"
  by (rule ev_same) simp_all

lemma ev_rollback [evolve]: "evolves d a \<Longrightarrow> evolves d (rollback a b)"
  by (rule ev_same) simp_all

lemma ev_commit [evolve]: "commit a db = (f, db1) \<Longrightarrow> evolves d a \<Longrightarrow> evolves d db \<Longrightarrow> evolves d db1"
  using commit_tasks ev_same by metis

lemma ev_query [evolve]: "query q db = (r, db1) \<Longrightarrow> evolves d db \<Longrightarrow> evolves d db1"
  by (auto simp: query_def split: prod.splits intro: ev_stmt)

lemma ev_update_meta:
  assumes "update_tasks P f db = (n, db1)" and "evolves d db"
    and "\<And>r. tr_task_id (f r) = tr_task_id r \<and> tr_tenant_id (f r) = tr_tenant_id r
      \<and> tr_idempotency_key (f r) = tr_idempotency_key r \<and> tr_task_definition (f r) = tr_task_definition r
      \<and> tr_deadline_at (f r) = tr_deadline_at r \<and> tr_created_at (f r) = tr_created_at r
      \<and> tr_last_checkpoint (f r) = tr_last_checkpoint r \<and> tr_status (f r) = tr_status r"
  shows "evolves d db1"
proof (rule evolves_trans [OF assms(2)])
  show "evolves db db1"
    by (rule evolves_update [OF assms(1)]) (use assms(3) in \<open>auto simp: row_evolves_def watermark_def\<close>)
qed

lemma ev_transition:
  assumes "transition P f db = (e, db1)" and "evolves d db"
    and "\<And>r. P r \<Longrightarrow> status_step (tr_status r) (tr_status (f r))"
    and "\<And>r. tr_task_id (f r) = tr_task_id r \<and> tr_tenant_id (f r) = tr_tenant_id r
      \<and> tr_idempotency_key (f r) = tr_idempotency_key r \<and> tr_task_definition (f r) = tr_task_definition r
      \<and> tr_deadline_at (f r) = tr_deadline_at r \<and> tr_created_at (f r) = tr_created_at r
      \<and> tr_last_checkpoint (f r) = tr_last_checkpoint r"
  shows "evolves d db1"
  using evolves_trans [OF assms(2) evolves_transition [OF assms(1,3,4)]] .

lemma ev_MarkDispatched [evolve]: "MarkDispatched t r p db = (e, db1) \<Longrightarrow> evolves d db \<Longrightarrow> evolves d db1"
  unfolding MarkDispatched_def
  by (erule ev_transition, assumption) (auto intro: status_step.intros)

lemma ev_MarkCompleted [evolve]: "MarkCompleted t db = (e, db1) \<Longrightarrow> evolves d db \<Longrightarrow> evolves d db1"
  unfolding MarkCompleted_def
  by (erule ev_transition, assumption) (auto intro: status_step.intros)

lemma ev_markFailedRecord [evolve]: "markFailedRecord t r x db = (e, db1) \<Longrightarrow> evolves d db \<Longrightarrow> evolves d db1"
  unfolding markFailedRecord_def
  by (erule ev_transition, assumption) (auto intro: status_step.intros)

lemma ev_MarkCanceled [evolve]: "MarkCanceled t db = (e, db1) \<Longrightarrow> evolves d db \<Longrightarrow> evolves d db1"
  unfolding MarkCanceled_def
  by (erule ev_transition, assumption) (auto intro: status_step.intros)

lemma ev_MarkApprovalRequired [evolve]: "MarkApprovalRequired t r db = (e, db1) \<Longrightarrow> evolves d db \<Longrightarrow> evolves d db1"
  unfolding MarkApprovalRequired_def
  by (erule ev_transition, assumption) (auto intro: status_step.intros)

lemma ev_MarkApprovedDispatched [evolve]:
  "MarkApprovedDispatched t n r p a db = (e, db1) \<Longrightarrow> evolves d db \<Longrightarrow> evolves d db1"
  unfolding MarkApprovedDispatched_def
  by (erule ev_transition, assumption) (auto intro: status_step.intros)

lemma ev_MarkApprovalRejected [evolve]:
  "MarkApprovalRejected t n r x db = (e, db1) \<Longrightarrow> evolves d db \<Longrightarrow> evolves d db1"
  unfolding MarkApprovalRejected_def
  by (erule ev_transition, assumption) (auto intro: status_step.intros)

lemma ev_MarkRecovering [evolve]: "MarkRecovering r db = (x, db1) \<Longrightarrow> evolves d db \<Longrightarrow> evolves d db1"
proof -
  let ?P = "\<lambda>row. tr_runtime_id row = Some r \<and> tr_status row \<in> {TaskStatusDispatched, TaskStatusCheckpointed}"
  assume m: "MarkRecovering r db = (x, db1)" and d: "evolves d db"
  from m obtain n where n: "update_tasks ?P (\<lambda>r. r\<lparr>tr_status := TaskStatusRecovering\<rparr>) db = (n, db1)"
    by (auto simp: MarkRecovering_def Let_def split: prod.splits option.splits)
  have "evolves db db1"
    by (rule evolves_update [OF n])
      (auto simp: row_evolves_def watermark_def intro!: r_into_rtranclp status_step.recover)
  with d show ?thesis by (rule evolves_trans)
qed

lemma ev_insert_reconciliation [evolve]:
  "insert_reconciliation t x db = (e, db1) \<Longrightarrow> evolves d db \<Longrightarrow> evolves d db1"
  by (erule ev_same [rotated]) (auto simp: insert_reconciliation_def split: prod.splits if_splits)

lemma ev_ensure [evolve]: "ensureTaskFailedRecord t r x db = (e, db1) \<Longrightarrow> evolves d db \<Longrightarrow> evolves d db1"
  by (auto simp: ensureTaskFailedRecord_def split: prod.splits if_splits intro: evolve)

lemma ev_MarkFailedWithDetails [evolve]:
  "MarkFailedWithDetails t r x db = (e, db1) \<Longrightarrow> evolves d db \<Longrightarrow> evolves d db1"
  by (auto simp: MarkFailedWithDetails_def split: prod.splits if_splits option.splits intro: evolve; meson evolve)

lemma ev_MarkFailed [evolve]: "MarkFailed t r db = (e, db1) \<Longrightarrow> evolves d db \<Longrightarrow> evolves d db1"
  unfolding MarkFailed_def by (rule ev_MarkFailedWithDetails)

lemma ev_insert_wal [evolve]: "insert_wal cp db = (e, db1) \<Longrightarrow> evolves d db \<Longrightarrow> evolves d db1"
  by (erule ev_same [rotated]) (auto simp: insert_wal_def split: prod.splits if_splits)

lemma distinct_map_find:
  "distinct (map f xs) \<Longrightarrow> find (\<lambda>x. f x = k) xs = Some x \<Longrightarrow> y \<in> set xs \<Longrightarrow> f y = k \<Longrightarrow> y = x"
  using find_Some_in [of "\<lambda>x. f x = k" xs x] by (auto simp: distinct_map dest: inj_onD)

lemma checkpoint_advances_row:
  assumes "db_ok db" "find (\<lambda>r. tr_task_id r = cp_TaskID cp) (db_tasks db) = Some row"
    and "\<not> (case decodeCheckpointPayload (tr_last_checkpoint row) of None \<Rightarrow> False
           | Some current \<Rightarrow> \<not> TaskCheckpointAdvances (Some current) (Some cp))"
    and "r \<in> set (db_tasks db)" "tr_task_id r = cp_TaskID cp"
  shows "watermark r \<le> unat (cp_last cp)"
proof (cases "tr_last_checkpoint r")
  case (Some sc)
  have r: "r = row" using distinct_map_find [OF _ assms(2,4,5)] assms(1) by (simp add: db_ok_def)
  from assms(1,4) Some obtain cp0 where "sc = marshalCheckpoint cp0" unfolding db_ok_def by blast
  with decode_marshal [of cp0] obtain c where
    c: "decodeCheckpointPayload (Some sc) = Some c" "cp_ResumeToken c = cp_ResumeToken cp0"
      "sc_ResumeToken sc = cp_ResumeToken cp0" by auto
  with assms(3) r Some have "cp_last c < cp_last cp" by (simp add: TaskCheckpointAdvances_def)
  with c Some show ?thesis by (simp add: watermark_def word_less_nat_alt Suc_le_eq)
qed (simp add: watermark_def)

lemma evolves_checkpoint_update:
  assumes "transition (\<lambda>r. tr_task_id r = cp_TaskID cp
        \<and> tr_status r \<in> {TaskStatusDispatched, TaskStatusCheckpointed, TaskStatusRecovering})
      (\<lambda>r. r\<lparr>tr_status := TaskStatusCheckpointed, tr_last_checkpoint := Some (marshalCheckpoint cp)\<rparr>) db = (e, db1)"
    and "find (\<lambda>r. tr_task_id r = cp_TaskID cp) (db_tasks db) = Some row"
    and "\<not> (case decodeCheckpointPayload (tr_last_checkpoint row) of None \<Rightarrow> False
           | Some current \<Rightarrow> \<not> TaskCheckpointAdvances (Some current) (Some cp))"
  shows "evolves db db1"
proof -
  from assms(1) obtain n where n: "update_tasks (\<lambda>r. tr_task_id r = cp_TaskID cp
        \<and> tr_status r \<in> {TaskStatusDispatched, TaskStatusCheckpointed, TaskStatusRecovering})
      (\<lambda>r. r\<lparr>tr_status := TaskStatusCheckpointed, tr_last_checkpoint := Some (marshalCheckpoint cp)\<rparr>) db = (n, db1)"
    by (auto simp: transition_def split: prod.splits)
  show ?thesis
  proof (rule evolves_update [OF n], goal_cases)
    case (1 r)
    then have "watermark r \<le> unat (cp_last cp)" using checkpoint_advances_row [OF _ assms(2,3)] by blast
    with 1 show ?case
      by (auto simp: row_evolves_def watermark_def intro!: r_into_rtranclp status_step.checkpoint)
  qed auto
qed

lemma ev_SaveCheckpoint [evolve]:
  assumes s: "SaveCheckpoint cp db = (e, db')" and d: "evolves d db"
  shows "evolves d db'"
proof -
  define stale where "stale row = (case decodeCheckpointPayload (tr_last_checkpoint row) of None \<Rightarrow> False
    | Some current \<Rightarrow> \<not> TaskCheckpointAdvances (Some current) (Some cp))" for row :: task_row
  define P where "P r \<longleftrightarrow> tr_task_id r = cp_TaskID cp
    \<and> tr_status r \<in> {TaskStatusDispatched, TaskStatusCheckpointed, TaskStatusRecovering}" for r :: task_row
  define f where "f r = r\<lparr>tr_status := TaskStatusCheckpointed,
    tr_last_checkpoint := Some (marshalCheckpoint cp)\<rparr>" for r :: task_row
  have upd: "evolves db2 db3" if "transition P f db2 = (e3, db3)" "\<not> stale row"
    "find (\<lambda>r. tr_task_id r = cp_TaskID cp) (db_tasks db2) = Some row" for db2 e3 db3 row
    using evolves_checkpoint_update [of cp db2 e3 db3 row] that unfolding P_def f_def stale_def by blast
  have fin: "evolves d b" if s: "stmt db = (f1, db1)" "stmt db1 = (f2, db2)" and t: "transition P f db2 = (e3, db3)"
    and w: "insert_wal cp db3 = (e4, db4)" and c: "commit db1 db4 = (f5, b)"
    and x: "find (\<lambda>r. tr_task_id r = cp_TaskID cp) (db_tasks db) = Some row" "\<not> stale row"
    for f1 f2 db1 db2 e3 db3 e4 db4 f5 row b
  proof -
    have "evolves d db1" "evolves d db2" using d s by (simp_all add: ev_stmt)
    moreover have "evolves db2 db3" by (rule upd [OF t x(2)]) (use s x in simp)
    ultimately show ?thesis using ev_commit [OF c] ev_insert_wal [OF w] evolves_trans by blast
  qed
  from s d show ?thesis
    unfolding SaveCheckpoint_def stale_def [symmetric] P_def [symmetric] f_def [symmetric]
    by (auto split: prod.splits if_splits option.splits intro: evolve)
      (rule fin, assumption+)+
qed

subsection \<open>Creating tasks\<close>

lemma insert_task_cases:
  assumes "insert_task task db = (n, db1)"
  shows "(n \<in> {None, Some 0} \<and> db_tasks db1 = db_tasks db) \<or> (n = Some 1
    \<and> db_tasks db1 = db_tasks db @ [new_task_row task (db_now db)]
    \<and> (\<forall>r\<in>set (db_tasks db). tr_task_id r \<noteq> t_TaskID task)
    \<and> (\<forall>r\<in>set (db_tasks db). \<not> (tr_tenant_id r = t_TenantID task \<and> tr_idempotency_key r = t_IdempotencyKey task)))"
proof -
  obtain f d where s: "stmt db = (f, d)" by (cases "stmt db")
  then have "db_now d = db_now db" "db_tasks d = db_tasks db"
    by (auto simp: stmt_def simp del: stmt_tasks split: list.splits)
  with assms show ?thesis
    unfolding insert_task_def s prod.case list_ex_iff
    by (auto split: if_split_asm simp del: stmt_tasks uuid_New_tasks)
qed

lemma evolves_insert_task: "insert_task task db = (n, db1) \<Longrightarrow> evolves db db1"
proof (drule insert_task_cases, elim disjE conjE)
  assume t: "db_tasks db1 = db_tasks db @ [new_task_row task (db_now db)]"
    and fresh: "\<forall>r\<in>set (db_tasks db). tr_task_id r \<noteq> t_TaskID task"
      "\<forall>r\<in>set (db_tasks db). \<not> (tr_tenant_id r = t_TenantID task \<and> tr_idempotency_key r = t_IdempotencyKey task)"
  have new: "tr_task_id (new_task_row task now) = t_TaskID task" "tr_tenant_id (new_task_row task now) = t_TenantID task"
    "tr_idempotency_key (new_task_row task now) = t_IdempotencyKey task"
    "tr_last_checkpoint (new_task_row task now) = None" for now by (simp_all add: new_task_row_def)
  have "db_ok db1" if ok: "db_ok db"
  proof -
    have "t_TaskID task \<notin> tr_task_id ` set (db_tasks db)" using fresh(1) by auto
    moreover have "(t_TenantID task, t_IdempotencyKey task)
        \<notin> (\<lambda>r. (tr_tenant_id r, tr_idempotency_key r)) ` set (db_tasks db)"
      unfolding image_iff prod.inject using fresh(2) by metis
    ultimately have "distinct (map tr_task_id (db_tasks db1))"
      "distinct (map (\<lambda>r. (tr_tenant_id r, tr_idempotency_key r)) (db_tasks db1))"
      using ok unfolding t db_ok_def by (simp_all add: new)
    with ok t show ?thesis unfolding db_ok_def by (simp add: ball_Un new)
  qed
  moreover have "list_all2 row_evolves (db_tasks db) (db_tasks db)" by (simp add: list_all2_refl)
  ultimately show ?thesis unfolding evolves_def using t by blast
qed (rule evolves_same)

lemma ev_insert_task [evolve]: "insert_task task db = (n, db1) \<Longrightarrow> evolves d db \<Longrightarrow> evolves d db1"
  using evolves_insert_task evolves_trans by blast

lemma ev_insert_row:
  "insert_row f db = (e, db1) \<Longrightarrow> (\<And>x. db_tasks (f x) = db_tasks x) \<Longrightarrow> evolves d db \<Longrightarrow> evolves d db1"
  by (erule ev_same [rotated]) (auto simp: insert_row_def split: prod.splits if_splits)

lemma ev_insert_rows [evolve]:
  "insert_row (\<lambda>x. x\<lparr>db_permissions := f1 x\<rparr>) db = (e, db1) \<Longrightarrow> evolves d db \<Longrightarrow> evolves d db1"
  "insert_row (\<lambda>x. x\<lparr>db_capability_audit := f2 x\<rparr>) db = (e, db1) \<Longrightarrow> evolves d db \<Longrightarrow> evolves d db1"
  "insert_row (\<lambda>x. x\<lparr>db_credentials := f3 x\<rparr>) db = (e, db1) \<Longrightarrow> evolves d db \<Longrightarrow> evolves d db1"
  "insert_row (\<lambda>x. x\<lparr>db_approvals := f4 x\<rparr>) db = (e, db1) \<Longrightarrow> evolves d db \<Longrightarrow> evolves d db1"
  "insert_row (\<lambda>x. x\<lparr>db_boundaries := f5 x\<rparr>) db = (e, db1) \<Longrightarrow> evolves d db \<Longrightarrow> evolves d db1"
  by (erule ev_insert_row; simp)+

lemma ev_insertBoundActionRun [evolve]:
  "insertBoundActionRun task db = (e, db1) \<Longrightarrow> evolves d db \<Longrightarrow> evolves d db1"
  by (erule ev_same [rotated]) (auto simp: insertBoundActionRun_def split: prod.splits if_splits option.splits)

lemma ev_insertExecutionInputRef [evolve]:
  "insertExecutionInputRef ref db = (e, db1) \<Longrightarrow> evolves d db \<Longrightarrow> evolves d db1"
  by (erule ev_same [rotated]) (auto simp: insertExecutionInputRef_def split: prod.splits if_splits)

lemma ev_insertExecutionInputRefAudit [evolve]:
  "insertExecutionInputRefAudit event db = (e, db1) \<Longrightarrow> evolves d db \<Longrightarrow> evolves d db1"
  by (erule ev_same [rotated])
    (auto simp: insertExecutionInputRefAudit_def Let_def split: prod.splits if_splits)

lemma ev_insert_refs [evolve]: "insert_refs refs db = (e, db1) \<Longrightarrow> evolves d db \<Longrightarrow> evolves d db1"
  by (induction refs db rule: insert_refs.induct)
    (auto split: prod.splits option.splits dest: ev_insertExecutionInputRef ev_insertExecutionInputRefAudit)

lemma ev_CreateTask [evolve]: "CreateTask task db = (r, db1) \<Longrightarrow> evolves d db \<Longrightarrow> evolves d db1"
  unfolding CreateTask_def
  by (clarsimp split: if_split_asm prod.split_asm option.split_asm nat.split_asm;
      (erule evolve | rule ev_rollback | assumption)+)

lemma ev_CreateTaskWithExecutionInputRefs [evolve]:
  "CreateTaskWithExecutionInputRefs task refs db = (r, db1) \<Longrightarrow> evolves d db \<Longrightarrow> evolves d db1"
  unfolding CreateTaskWithExecutionInputRefs_def
  by (clarsimp split: if_split_asm prod.split_asm option.split_asm nat.split_asm;
      (erule evolve | rule ev_rollback | assumption)+)

subsection \<open>Reads and records\<close>

lemma ev_reads [evolve]:
  "GetTask t n db = (r1, db1) \<Longrightarrow> evolves d db \<Longrightarrow> evolves d db1"
  "GetTaskByIdempotencyKey n k db = (r2, db1) \<Longrightarrow> evolves d db \<Longrightarrow> evolves d db1"
  "GetAllCheckpoints t db = (r3, db1) \<Longrightarrow> evolves d db \<Longrightarrow> evolves d db1"
  "GetLastCheckpoint t db = (r4, db1) \<Longrightarrow> evolves d db \<Longrightarrow> evolves d db1"
  "GetAllTaskSteps t db = (r5, db1) \<Longrightarrow> evolves d db \<Longrightarrow> evolves d db1"
  "GetBoundActionRun t n db = (r6, db1) \<Longrightarrow> evolves d db \<Longrightarrow> evolves d db1"
  "GetBoundActionRunByIdempotency n k db = (r6, db1) \<Longrightarrow> evolves d db \<Longrightarrow> evolves d db1"
  "LoadLatestTaskPermissionEnvelope t db = (r7, db1) \<Longrightarrow> evolves d db \<Longrightarrow> evolves d db1"
  by (simp_all add: GetTask_def GetTaskByIdempotencyKey_def GetAllCheckpoints_def GetLastCheckpoint_def
      GetAllTaskSteps_def GetBoundActionRun_def GetBoundActionRunByIdempotency_def
      LoadLatestTaskPermissionEnvelope_def ev_query)

lemma ev_GetCumulative [evolve]:
  "GetCumulativeRecoveryCheckpoint t db = (r, db1) \<Longrightarrow> evolves d db \<Longrightarrow> evolves d db1"
  by (auto simp: GetCumulativeRecoveryCheckpoint_def split: prod.splits sum.splits intro: evolve)

lemma ev_Hydrate [evolve]:
  "HydrateTaskPermissionEnvelope keyed task db = (r, db1) \<Longrightarrow> evolves d db \<Longrightarrow> evolves d db1"
  by (auto simp: HydrateTaskPermissionEnvelope_def Let_def
      split: prod.splits sum.splits if_splits store_error.splits intro: evolve)

lemma ev_SaveActionPolicyDecision [evolve]:
  "SaveActionPolicyDecision x db = (e, db1) \<Longrightarrow> evolves d db \<Longrightarrow> evolves d db1"
  by (erule ev_same [rotated]) (auto simp: SaveActionPolicyDecision_def split: prod.splits if_splits)

lemma ev_SaveApprovalRequest [evolve]:
  "SaveApprovalRequest x db = (e, db1) \<Longrightarrow> evolves d db \<Longrightarrow> evolves d db1"
  by (erule ev_same [rotated]) (auto simp: SaveApprovalRequest_def split: prod.splits if_splits)

lemma ev_ResolveApprovalRequest [evolve]:
  "ResolveApprovalRequest t n s b r db = (e, db1) \<Longrightarrow> evolves d db \<Longrightarrow> evolves d db1"
  unfolding ResolveApprovalRequest_def by (erule ev_insert_row) simp_all

lemma ev_SetLatestPolicyDecision [evolve]:
  "SetLatestPolicyDecision t x db = (e, db1) \<Longrightarrow> evolves d db \<Longrightarrow> evolves d db1"
  unfolding SetLatestPolicyDecision_def
  by (auto split: prod.splits if_splits elim!: ev_update_meta)

lemma ev_SaveExecutionBoundary [evolve]:
  "SaveExecutionBoundary H x df caps db = (e, db1) \<Longrightarrow> evolves d db \<Longrightarrow> evolves d db1"
  unfolding SaveExecutionBoundary_def by (erule ev_insert_row) simp_all

lemma new_id_tasks: "(if c then uuid_New db else (i, db)) = (eid, db0) \<Longrightarrow> db_tasks db0 = db_tasks db"
  by (simp split: if_splits)

lemma ev_SaveRecoveryEvent [evolve]:
  "SaveRecoveryEvent x db = (e, db1) \<Longrightarrow> evolves d db \<Longrightarrow> evolves d db1"
proof (erule ev_same [rotated])
  assume "SaveRecoveryEvent x db = (e, db1)"
  then show "db_tasks db1 = db_tasks db" unfolding SaveRecoveryEvent_def
    by (auto split: prod.splits if_split_asm dest!: new_id_tasks)
qed

lemma ev_SaveRuntimeHandoffEvent [evolve]:
  "SaveRuntimeHandoffEvent x db = (e, db1) \<Longrightarrow> evolves d db \<Longrightarrow> evolves d db1"
proof (erule ev_same [rotated])
  assume "SaveRuntimeHandoffEvent x db = (e, db1)"
  then show "db_tasks db1 = db_tasks db" unfolding SaveRuntimeHandoffEvent_def insert_row_def
    by (auto split: prod.splits if_split_asm dest!: new_id_tasks)
qed

lemma ev_StampExecutedTarget [evolve]:
  "StampExecutedTarget t n x db = (e, db1) \<Longrightarrow> evolves d db \<Longrightarrow> evolves d db1"
  unfolding StampExecutedTarget_def by (auto split: prod.splits elim!: ev_update_meta)

lemma ev_save_decisions [evolve]: "save_decisions t en ds db = (e, db1) \<Longrightarrow> evolves d db \<Longrightarrow> evolves d db1"
proof (induction ds arbitrary: db)
  case (Cons c ds)
  from Cons.prems show ?case
    by - (clarsimp simp: Let_def split: prod.split_asm option.split_asm;
        (erule evolve Cons.IH | assumption)+)
qed simp

lemma ev_save_credentials [evolve]: "save_credentials t en cs db = (e, db1) \<Longrightarrow> evolves d db \<Longrightarrow> evolves d db1"
proof (induction cs arbitrary: db)
  case (Cons c cs)
  from Cons.prems show ?case
    by - (clarsimp simp: Let_def split: prod.split_asm option.split_asm if_split_asm;
        (erule evolve Cons.IH | assumption)+)
qed simp

lemma ev_SaveTaskPermissionEnvelope [evolve]:
  "SaveTaskPermissionEnvelope t en db = (e, db1) \<Longrightarrow> evolves d db \<Longrightarrow> evolves d db1"
  unfolding SaveTaskPermissionEnvelope_def
  by (clarsimp split: if_split_asm prod.split_asm option.split_asm;
      (erule evolve | rule ev_rollback | assumption)+)

lemma ev_RevokeAICredentialReference [evolve]:
  "RevokeAICredentialReference n i db = (r, db1) \<Longrightarrow> evolves d db \<Longrightarrow> evolves d db1"
  by (erule ev_same [rotated])
    (auto simp: RevokeAICredentialReference_def Let_def split: prod.splits if_splits option.splits)

lemma ev_updateTaskProofState [evolve]:
  "updateTaskProofState t p db = (e, db1) \<Longrightarrow> evolves d db \<Longrightarrow> evolves d db1"
  unfolding updateTaskProofState_def by (auto split: prod.splits elim!: ev_update_meta)

lemma ev_UpdateByExecutionID [evolve]:
  "UpdateTaskProofStateByExecutionID n i h s g db = (e, db1) \<Longrightarrow> evolves d db \<Longrightarrow> evolves d db1"
  unfolding UpdateTaskProofStateByExecutionID_def
  by (auto simp: Let_def split: prod.splits if_splits elim!: ev_update_meta)

lemma ev_PersistTaskProofVerification [evolve]:
  "PersistTaskProofVerification t n s db = (e, db1) \<Longrightarrow> evolves d db \<Longrightarrow> evolves d db1"
  unfolding PersistTaskProofVerification_def by (auto split: prod.splits elim!: ev_update_meta)

lemma ev_SyncTaskProofState [evolve]:
  "SyncTaskProofState t n db = (r, db1) \<Longrightarrow> evolves d db \<Longrightarrow> evolves d db1"
  unfolding SyncTaskProofState_def
  by (clarsimp simp: Let_def split: prod.split_asm sum.split_asm if_split_asm option.split_asm store_error.split_asm;
      (erule evolve | assumption)+)

lemma ev_sync_all [evolve]: "sync_all n ids db = (e, db1) \<Longrightarrow> evolves d db \<Longrightarrow> evolves d db1"
proof (induction ids arbitrary: db)
  case (Cons i ids)
  from Cons.prems show ?case
    by - (clarsimp split: prod.split_asm sum.split_asm store_error.split_asm;
        (erule evolve Cons.IH | assumption)+)
qed simp

lemma ev_RefreshPendingProofStates [evolve]:
  "RefreshPendingProofStates n l db = (e, db1) \<Longrightarrow> evolves d db \<Longrightarrow> evolves d db1"
  unfolding RefreshPendingProofStates_def
  by (clarsimp simp: Let_def split: prod.split_asm sum.split_asm; (erule evolve | assumption)+)

end
