(* ===== verification/Guarded_Transitions.thy ===== *)
theory Guarded_Transitions
  imports Task_Lifecycle
begin

text \<open>
  The contract of a guarded transition: an \<open>UPDATE\<close> of \<open>task_records\<close> whose \<open>WHERE\<close> clause names the
  task and the statuses it may be in, with the number of rows as the verdict. The contract is a
  locale; every transition of \<^verbatim>\<open>coordinator/checkpoint_store.go\<close> and
  \<^verbatim>\<open>coordinator/execution_governance.go\<close> interprets it. From it follow what a success and a rejection
  say about the task, that other tasks are untouched, and that of several rival decisions on one
  task only one can win.
\<close>

section \<open>The contract\<close>

lemma filter_guarded_map:
  "(\<And>r. G r \<Longrightarrow> \<not> Q r \<and> \<not> Q (f r)) \<Longrightarrow> filter Q (map (\<lambda>r. if G r then f r else r) rs) = filter Q rs"
  by (induction rs) auto

locale guarded_transition =
  fixes move :: "db \<Rightarrow> store_error option \<times> db"
    and guard :: "task_row \<Rightarrow> bool"
    and eff :: "gotime \<Rightarrow> task_row \<Rightarrow> task_row"
    and taskID :: uuid
    and tgt :: TaskRecordStatus
  assumes success: "move db = (None, db') \<Longrightarrow> (\<exists>r\<in>set (db_tasks db). guard r)
      \<and> db_tasks db' = map (\<lambda>r. if guard r then eff (db_now db) r else r) (db_tasks db)"
    and failure: "move db = (Some e, db') \<Longrightarrow> db_tasks db' = db_tasks db \<and> e \<in> {ErrDriver, ErrTaskTransitionRejected}"
    and rejection: "move db = (Some ErrTaskTransitionRejected, db') \<Longrightarrow> r \<in> set (db_tasks db) \<Longrightarrow> \<not> guard r"
    and quiet: "db_faults db = [] \<Longrightarrow> fst (move db) \<noteq> Some ErrDriver \<and> db_faults (snd (move db)) = []"
    and guard_task: "guard r \<Longrightarrow> tr_task_id r = taskID"
    and eff_status: "tr_status (eff now r) = tgt"
    and eff_task: "tr_task_id (eff now r) = tr_task_id r"
begin

lemma others_unchanged:
  assumes "move db = (e, db')"
  shows "filter (\<lambda>r. tr_task_id r \<noteq> taskID) (db_tasks db') = filter (\<lambda>r. tr_task_id r \<noteq> taskID) (db_tasks db)"
proof (cases e)
  case None
  then have "db_tasks db' = map (\<lambda>r. if guard r then eff (db_now db) r else r) (db_tasks db)"
    using success assms by blast
  then show ?thesis using filter_guarded_map [of guard "\<lambda>r. tr_task_id r \<noteq> taskID" "eff (db_now db)"]
    by (simp add: eff_task guard_task)
next
  case (Some x)
  then show ?thesis using failure assms by simp
qed

lemma accepted_iff:
  assumes "db_faults db = []"
  shows "fst (move db) = None \<longleftrightarrow> (\<exists>r\<in>set (db_tasks db). guard r)"
proof (cases "fst (move db)")
  case None
  then show ?thesis using success [of db "snd (move db)"] by (metis prod.collapse)
next
  case (Some e)
  then have "move db = (Some e, snd (move db))" by (metis prod.collapse)
  moreover from this have "e = ErrTaskTransitionRejected" using failure quiet [OF assms] Some by blast
  ultimately show ?thesis using rejection Some by (metis option.distinct(1))
qed

lemma success_status:
  assumes "move db = (None, db')"
  shows "\<exists>r r'. r \<in> set (db_tasks db) \<and> guard r \<and> r' \<in> set (db_tasks db') \<and> r' = eff (db_now db) r
    \<and> tr_status r' = tgt \<and> tr_task_id r' = taskID"
  using success [OF assms] by (auto simp: eff_status eff_task guard_task)

end

text \<open>Two transitions of which each undoes the other's guard: the decisions of a race.\<close>

locale rival_transitions =
  a: guarded_transition ta ga ea taskID tgta + b: guarded_transition tb gb eb taskID tgtb
  for ta ga ea taskID tgta tb gb eb tgtb +
  assumes same_guard: "gb r \<Longrightarrow> ga r"
    and beaten: "ga r \<Longrightarrow> \<not> gb (ea now r)"
begin

lemma loser_rejected:
  assumes "ta db = (None, db')"
  shows "fst (tb db') \<noteq> None \<and> (db_faults db' = [] \<longrightarrow> fst (tb db') = Some ErrTaskTransitionRejected)"
proof -
  have "\<not> gb r" if "r \<in> set (db_tasks db')" for r
    using that a.success [OF assms] same_guard beaten by (auto split: if_splits)
  then have no: "fst (tb db') \<noteq> None" using b.success [of db' "snd (tb db')"] by (metis prod.collapse)
  then obtain e where e: "tb db' = (Some e, snd (tb db'))" by (metis not_None_eq prod.collapse)
  with no b.failure [OF e] b.quiet [of db'] show ?thesis by (metis fst_conv insertE singletonD)
qed

end

section \<open>The transitions of the store\<close>

lemma transition_laws:
  assumes "transition P f db = (e, db')"
  shows "e = None \<Longrightarrow> (\<exists>r\<in>set (db_tasks db). P r)
      \<and> db_tasks db' = map (\<lambda>r. if P r then f r else r) (db_tasks db)"
    and "e = Some x \<Longrightarrow> db_tasks db' = db_tasks db \<and> x \<in> {ErrDriver, ErrTaskTransitionRejected}"
    and "e = Some ErrTaskTransitionRejected \<Longrightarrow> r \<in> set (db_tasks db) \<Longrightarrow> \<not> P r"
    and "db_faults db = [] \<Longrightarrow> e \<noteq> Some ErrDriver \<and> db_faults db' = []"
proof -
  obtain n where n: "update_tasks P f db = (n, db')" "e = taskTransitionResult n"
    using assms by (auto simp: transition_def split: prod.splits)
  have none: "filter P rs = [] \<Longrightarrow> map (\<lambda>r. if P r then f r else r) rs = rs" for rs
    by (induction rs) (auto split: if_splits)
  note u = update_tasks_result [OF n(1)]
  show "e = None \<Longrightarrow> (\<exists>r\<in>set (db_tasks db). P r)
      \<and> db_tasks db' = map (\<lambda>r. if P r then f r else r) (db_tasks db)"
    using u n(2) filter_empty_conv [of P "db_tasks db"]
    by (auto simp: taskTransitionResult_def split: nat.splits option.splits)
  show "e = Some x \<Longrightarrow> db_tasks db' = db_tasks db \<and> x \<in> {ErrDriver, ErrTaskTransitionRejected}"
    using u n(2) none by (auto simp: taskTransitionResult_def split: nat.splits option.splits)
  show "e = Some ErrTaskTransitionRejected \<Longrightarrow> r \<in> set (db_tasks db) \<Longrightarrow> \<not> P r"
    using u n(2) by (auto simp: taskTransitionResult_def filter_empty_conv split: nat.splits option.splits)
  show "db_faults db = [] \<Longrightarrow> e \<noteq> Some ErrDriver \<and> db_faults db' = []"
    using n by (auto simp: update_tasks_def stmt_def taskTransitionResult_def simp del: stmt_tasks
        split: nat.splits prod.splits)
qed

lemma transition_guarded:
  assumes t: "\<And>db. move db = transition guard (eff (db_now db)) db"
    and "\<And>r. guard r \<Longrightarrow> tr_task_id r = taskID"
    and "\<And>now r. tr_status (eff now r) = tgt \<and> tr_task_id (eff now r) = tr_task_id r"
  shows "guarded_transition move guard eff taskID tgt"
proof
  show "db_faults db = [] \<Longrightarrow> fst (move db) \<noteq> Some ErrDriver \<and> db_faults (snd (move db)) = []" for db
    using transition_laws(4) [of guard "eff (db_now db)" db] by (metis prod.collapse t)
  show "move db = (Some ErrTaskTransitionRejected, db') \<Longrightarrow> r \<in> set (db_tasks db) \<Longrightarrow> \<not> guard r" for db db' r
    unfolding t by (erule transition_laws(3)) simp_all
  show "move db = (None, db') \<Longrightarrow> (\<exists>r\<in>set (db_tasks db). guard r)
      \<and> db_tasks db' = map (\<lambda>r. if guard r then eff (db_now db) r else r) (db_tasks db)" for db db'
    unfolding t by (erule transition_laws(1)) simp
  show "move db = (Some e, db') \<Longrightarrow> db_tasks db' = db_tasks db \<and> e \<in> {ErrDriver, ErrTaskTransitionRejected}"
    for db e db' unfolding t by (erule transition_laws(2)) simp
qed (use assms(2,3) in auto)

interpretation dispatched: guarded_transition "MarkDispatched t r p"
    "\<lambda>row. tr_task_id row = t \<and> tr_status row \<in> {TaskStatusPending, TaskStatusRecovering}"
    "\<lambda>now row. row\<lparr>tr_status := TaskStatusDispatched, tr_runtime_id := Some r,
       tr_runtime_endpoint := Some p, tr_dispatched_at := Some now\<rparr>" t TaskStatusDispatched for t r p
  by (rule transition_guarded) (simp_all add: MarkDispatched_def)

interpretation completed: guarded_transition "MarkCompleted t"
    "\<lambda>row. tr_task_id row = t
       \<and> tr_status row \<in> {TaskStatusDispatched, TaskStatusCheckpointed, TaskStatusRecovering}"
    "\<lambda>now row. row\<lparr>tr_status := TaskStatusCompleted, tr_completed_at := Some now\<rparr>" t TaskStatusCompleted for t
  by (rule transition_guarded) (simp_all add: MarkCompleted_def)

interpretation failed: guarded_transition "markFailedRecord t reason details"
    "\<lambda>row. tr_task_id row = t
       \<and> tr_status row \<in> {TaskStatusDispatched, TaskStatusCheckpointed, TaskStatusRecovering}"
    "\<lambda>now row. row\<lparr>tr_status := TaskStatusFailed, tr_failure_reason := Some reason,
       tr_failure_details := details\<rparr>" t TaskStatusFailed for t reason details
  by (rule transition_guarded) (simp_all add: markFailedRecord_def)

interpretation canceled: guarded_transition "MarkCanceled t"
    "\<lambda>row. tr_task_id row = t \<and> tr_status row
       \<in> {TaskStatusPending, TaskStatusDispatched, TaskStatusCheckpointed, TaskStatusRecovering}"
    "\<lambda>now row. row\<lparr>tr_status := TaskStatusCanceled, tr_canceled_at := Some now\<rparr>" t TaskStatusCanceled for t
  by (rule transition_guarded) (simp_all add: MarkCanceled_def)

interpretation gated: guarded_transition "MarkApprovalRequired t reason"
    "\<lambda>row. tr_task_id row = t \<and> tr_status row \<in> {TaskStatusPending, TaskStatusRecovering}"
    "\<lambda>now row. row\<lparr>tr_status := TaskStatusApprovalRequired, tr_failure_reason := Some reason\<rparr>"
    t TaskStatusApprovalRequired for t reason
  by (rule transition_guarded) (simp_all add: MarkApprovalRequired_def)

interpretation approved: guarded_transition "MarkApprovedDispatched t n r p a"
    "\<lambda>row. tr_task_id row = t \<and> tr_tenant_id row = n \<and> tr_status row = TaskStatusApprovalRequired"
    "\<lambda>now row. row\<lparr>tr_status := TaskStatusDispatched, tr_runtime_id := Some r,
       tr_runtime_endpoint := Some p, tr_dispatched_at := Some now, tr_failure_reason := None\<rparr>"
    t TaskStatusDispatched for t n r p a
  by (rule transition_guarded) (simp_all add: MarkApprovedDispatched_def)

interpretation rejected: guarded_transition "MarkApprovalRejected t n reason details"
    "\<lambda>row. tr_task_id row = t \<and> tr_tenant_id row = n \<and> tr_status row = TaskStatusApprovalRequired"
    "\<lambda>now row. row\<lparr>tr_status := TaskStatusFailed, tr_failure_reason := Some reason,
       tr_failure_details := details\<rparr>" t TaskStatusFailed for t n reason details
  by (rule transition_guarded) (simp_all add: MarkApprovalRejected_def)

section \<open>One-shot operations\<close>

text \<open>Calls made one after the other, each with the state the one before left.\<close>

fun run_all :: "('a \<Rightarrow> 's \<Rightarrow> 'r \<times> 's) \<Rightarrow> 'a list \<Rightarrow> 's \<Rightarrow> 'r list \<times> 's" where
  "run_all call [] s = ([], s)"
| "run_all call (a # as) s = (case call a s of (r, s1) \<Rightarrow> (case run_all call as s1 of (rs, s2) \<Rightarrow> (r # rs, s2)))"

lemma run_all_Cons:
  assumes "run_all call (a # as) s = (rs, s')"
  obtains r s1 rs1 where "call a s = (r, s1)" "run_all call as s1 = (rs1, s')" "rs = r # rs1"
  using assms by (auto split: prod.splits)

text \<open>An operation is one-shot if a win closes the state and nobody wins in a closed state, which
  stays closed.\<close>

locale one_shot =
  fixes call :: "'a \<Rightarrow> 's \<Rightarrow> 'r \<times> 's"
    and win :: "'r \<Rightarrow> bool"
    and closed :: "'s \<Rightarrow> bool"
  assumes win_closes: "call a s = (r, s') \<Longrightarrow> win r \<Longrightarrow> closed s'"
    and closed_loses: "closed s \<Longrightarrow> call a s = (r, s') \<Longrightarrow> \<not> win r \<and> closed s'"
begin

lemma closed_all_lose: "closed s \<Longrightarrow> run_all call as s = (rs, s') \<Longrightarrow> \<not> list_ex win rs \<and> closed s'"
proof (induction as arbitrary: s rs)
  case (Cons a as)
  from Cons.prems(2) obtain r s1 rs1 where r: "call a s = (r, s1)" "run_all call as s1 = (rs1, s')" "rs = r # rs1"
    by (rule run_all_Cons)
  show ?case using closed_loses [OF Cons.prems(1) r(1)] Cons.IH [OF _ r(2)] r(3) by simp
qed simp

lemma at_most_one: "run_all call as s = (rs, s') \<Longrightarrow> length (filter win rs) \<le> 1"
proof (induction as arbitrary: s rs)
  case (Cons a as)
  from Cons.prems obtain r s1 rs1 where r: "call a s = (r, s1)" "run_all call as s1 = (rs1, s')" "rs = r # rs1"
    by (rule run_all_Cons)
  show ?case
  proof (cases "win r")
    case True
    then have "filter win rs1 = []"
      using closed_all_lose [OF win_closes [OF r(1)] r(2)] by (simp add: filter_empty_conv list_ex_iff)
    with r(3) show ?thesis by simp
  qed (use Cons.IH [OF r(2)] r(3) in simp)
qed simp

end

section \<open>Deciding an approval\<close>

text \<open>The two decisions a reviewer can take on a task that awaits approval, and a sequence of them
  (two reviewers, or a retried request).\<close>

datatype approval_decision =
    Approve (ad_runtime: string) (ad_endpoint: string) (ad_by: string)
  | Reject (ad_reason: string) (ad_details: "TaskFailureDetails option")

fun decide :: "uuid \<Rightarrow> string \<Rightarrow> approval_decision \<Rightarrow> db \<Rightarrow> store_error option \<times> db" where
  "decide t n (Approve r p a) db = MarkApprovedDispatched t n r p a db"
| "decide t n (Reject reason details) db = MarkApprovalRejected t n reason details db"

definition awaiting :: "uuid \<Rightarrow> string \<Rightarrow> task_row \<Rightarrow> bool" where
  "awaiting t n row \<longleftrightarrow> tr_task_id row = t \<and> tr_tenant_id row = n \<and> tr_status row = TaskStatusApprovalRequired"

fun decided :: "approval_decision \<Rightarrow> gotime \<Rightarrow> task_row \<Rightarrow> task_row" where
  "decided (Approve r p a) now row = row\<lparr>tr_status := TaskStatusDispatched, tr_runtime_id := Some r,
     tr_runtime_endpoint := Some p, tr_dispatched_at := Some now, tr_failure_reason := None\<rparr>"
| "decided (Reject reason details) now row = row\<lparr>tr_status := TaskStatusFailed,
     tr_failure_reason := Some reason, tr_failure_details := details\<rparr>"

fun decided_status :: "approval_decision \<Rightarrow> TaskRecordStatus" where
  "decided_status (Approve _ _ _) = TaskStatusDispatched"
| "decided_status (Reject _ _) = TaskStatusFailed"

lemma decided_fun:
  "decided (Approve r p a) now = (\<lambda>row. row\<lparr>tr_status := TaskStatusDispatched, tr_runtime_id := Some r,
     tr_runtime_endpoint := Some p, tr_dispatched_at := Some now, tr_failure_reason := None\<rparr>)"
  "decided (Reject reason details) now = (\<lambda>row. row\<lparr>tr_status := TaskStatusFailed,
     tr_failure_reason := Some reason, tr_failure_details := details\<rparr>)"
  by (rule ext, simp)+

lemma decide_transition: "decide t n d db = transition (awaiting t n) (decided d (db_now db)) db"
  by (cases d) (simp_all add: MarkApprovedDispatched_def MarkApprovalRejected_def awaiting_def [abs_def]
      decided_fun)

lemma decide_guarded: "guarded_transition (decide t n d) (awaiting t n) (decided d) t (decided_status d)"
  by (rule transition_guarded, rule decide_transition) (cases d; simp add: awaiting_def)+

interpretation deciding: guarded_transition "decide t n d" "awaiting t n" "decided d" t "decided_status d" for t n d
  by (rule decide_guarded)

interpretation rivals: rival_transitions "decide t n d" "awaiting t n" "decided d" t "decided_status d"
    "decide t n d'" "awaiting t n" "decided d'" "decided_status d'" for t n d d'
proof
  show "awaiting t n r \<Longrightarrow> \<not> awaiting t n (decided d now r)" for now r
    by (cases d) (simp_all add: awaiting_def)
qed

lemma winner_ends_wait:
  assumes "decide t n d db = (None, db1)"
  shows "\<not> list_ex (awaiting t n) (db_tasks db1)"
  using deciding.success [OF assms] rivals.beaten by (auto simp: list_ex_iff split: if_splits)

lemma none_awaiting_none_wins:
  assumes "\<not> list_ex (awaiting t n) (db_tasks db)" "decide t n d db = (e, db')"
  shows "e \<noteq> None \<and> db_tasks db' = db_tasks db"
proof
  show none: "e \<noteq> None"
    using deciding.success [of t n d db db'] assms by (auto simp: list_ex_iff)
  then show "db_tasks db' = db_tasks db" using deciding.failure assms(2) by (metis not_None_eq)
qed

interpretation race: one_shot "decide t n" "\<lambda>e. e = None" "\<lambda>db. \<not> list_ex (awaiting t n) (db_tasks db)" for t n
  by unfold_locales (use winner_ends_wait in blast, use none_awaiting_none_wins in metis)

lemma all_rejected:
  "db_faults db = [] \<Longrightarrow> \<not> list_ex (awaiting t n) (db_tasks db) \<Longrightarrow> run_all (decide t n) ds db = (es, db') \<Longrightarrow>
     es = replicate (length ds) (Some ErrTaskTransitionRejected) \<and> db_tasks db' = db_tasks db"
proof (induction ds arbitrary: db es)
  case (Cons d ds)
  from Cons.prems(3) obtain e db1 es1 where
    d: "decide t n d db = (e, db1)" "run_all (decide t n) ds db1 = (es1, db')" "es = e # es1" by (rule run_all_Cons)
  then have "db_tasks db1 = db_tasks db" "e = Some ErrTaskTransitionRejected" "db_faults db1 = []"
    using none_awaiting_none_wins [OF Cons.prems(2) d(1)] deciding.failure [of t n d db _ db1]
      deciding.quiet [OF Cons.prems(1), of t n d] by auto
  then show ?case using Cons.IH [OF _ _ d(2)] Cons.prems(2) d(3) by simp
qed simp

lemma first_wins:
  assumes all: "run_all (decide t n) ds db = (es, db')" and quiet: "db_faults db = []"
    and wait: "list_ex (awaiting t n) (db_tasks db)" and some: "ds \<noteq> []"
  shows "es = None # replicate (length ds - 1) (Some ErrTaskTransitionRejected)
    \<and> db_tasks db' = map (\<lambda>r. if awaiting t n r then decided (hd ds) (db_now db) r else r) (db_tasks db)"
proof -
  obtain d ds1 where ds: "ds = d # ds1" using some by (cases ds) auto
  obtain db1 where d: "decide t n d db = (None, db1)"
    using deciding.accepted_iff [OF quiet] wait by (metis list_ex_iff prod.collapse)
  obtain es1 where es: "run_all (decide t n) ds1 db1 = (es1, db')" "es = None # es1"
    using all d unfolding ds by (auto split: prod.splits)
  have "db_faults db1 = []" using deciding.quiet [OF quiet] d by (metis snd_conv)
  then have "es1 = replicate (length ds1) (Some ErrTaskTransitionRejected)" "db_tasks db' = db_tasks db1"
    using all_rejected [OF _ winner_ends_wait [OF d] es(1)] by simp_all
  then show ?thesis using es(2) deciding.success [OF d] ds by simp
qed

text \<open>C25: One approval has one outcome. Whatever sequence of approvals and rejections is tried on a
  task, and whichever statements fail, at most one of them succeeds. Without failures, if the task
  awaits approval, the first one wins, all later ones are rejected, and the tasks end in the state the
  first decision gives them.\<close>

theorem approval_single_winner:
  "let (es, db') = run_all (decide t n) ds db in
     length (filter (\<lambda>e. e = None) es) \<le> 1
     \<and> (if db_faults db = [] \<and> list_ex (awaiting t n) (db_tasks db) \<and> ds \<noteq> []
        then es = None # replicate (length ds - 1) (Some ErrTaskTransitionRejected)
         \<and> db_tasks db' = map (\<lambda>r. if awaiting t n r then decided (hd ds) (db_now db) r else r) (db_tasks db)
        else True)"
proof (cases "run_all (decide t n) ds db")
  case (Pair es db')
  show ?thesis unfolding Pair Let_def prod.case
    using race.at_most_one [OF Pair] first_wins [OF Pair] by (simp only: if_split) blast
qed

end
