(* ===== verification/Store_Properties.thy ===== *)
theory Store_Properties
  imports Guarded_Transitions
begin

text \<open>
  What the operations of the store guarantee, beyond the lifecycle: a saved checkpoint strictly
  advances the task and is logged, a task is created once per idempotency key, a revoked credential
  stays revoked, a failure that is reported is recorded, a reconciliation is recorded once, and a
  read returns the caller's own tasks only.
\<close>

section \<open>Frames\<close>

lemma stmt_same:
  assumes "stmt db = (f, db1)"
  shows "db_wal db1 = db_wal db" "db_now db1 = db_now db" "db_credentials db1 = db_credentials db"
    "db_reconciliations db1 = db_reconciliations db" "db_bound_runs db1 = db_bound_runs db"
    "db_bindings db1 = db_bindings db" "db_tasks db1 = db_tasks db"
  using assms by (auto simp: stmt_def simp del: stmt_tasks split: list.splits)

lemma commit_ok:
  assumes "commit a db = (False, db1)"
  shows "db_wal db1 = db_wal db" "db_tasks db1 = db_tasks db"
    "db_reconciliations db1 = db_reconciliations db" "db_bound_runs db1 = db_bound_runs db"
  using assms by (auto simp: commit_def Let_def split: list.splits fault.splits)

lemma commit_either:
  assumes "commit a db = (f, db1)"
  shows "(db_wal db1 = db_wal db \<and> db_tasks db1 = db_tasks db) \<or> (f \<and> db_wal db1 = db_wal a \<and> db_tasks db1 = db_tasks a)"
  using assms by (auto simp: commit_def rollback_def Let_def split: list.splits fault.splits)

lemma uuid_New_same:
  assumes "uuid_New db = (i, db1)"
  shows "db_wal db1 = db_wal db" "db_tasks db1 = db_tasks db" "db_faults db1 = db_faults db"
  using assms by (auto simp: uuid_New_def simp del: uuid_New_tasks)

lemma stmt_quiet [simp]: "db_faults db = [] \<Longrightarrow> stmt db = (False, db)"
  by (simp add: stmt_def)

lemma commit_quiet [simp]: "db_faults db = [] \<Longrightarrow> commit a db = (False, db)"
  by (simp add: commit_def)

section \<open>Checkpoints\<close>

lemma insert_wal_ok:
  assumes "insert_wal cp db = (None, db1)"
  shows "unat (cp_last cp) < 2 ^ 31 \<and> db_tasks db1 = db_tasks db
    \<and> (\<exists>w. db_wal db1 = db_wal db @ [w] \<and> wr_task_id w = cp_TaskID cp
         \<and> wr_step_index w = unat (cp_last cp) \<and> wr_wal_entries w = marshalCheckpoint cp)"
proof -
  obtain i d where u: "uuid_New db = (i, d)" by (cases "uuid_New db")
  obtain f d1 where s: "stmt d = (f, d1)" by (cases "stmt d")
  show ?thesis using assms u s uuid_New_same [OF u] stmt_same [OF s]
    by (auto simp: insert_wal_def simp del: stmt_tasks uuid_New_tasks split: if_splits)
qed

text \<open>A call either changes nothing and reports an error, or has the whole effect, even if the
  acknowledgement of the commit is lost.\<close>

lemma SaveCheckpoint_cases:
  assumes "SaveCheckpoint cp db = (e, db')"
  shows "(e \<noteq> None \<and> db_tasks db' = db_tasks db \<and> db_wal db' = db_wal db) \<or> (\<exists>row. find (\<lambda>r. tr_task_id r = cp_TaskID cp) (db_tasks db) = Some row
    \<and> \<not> (case decodeCheckpointPayload (tr_last_checkpoint row) of None \<Rightarrow> False
           | Some current \<Rightarrow> \<not> TaskCheckpointAdvances (Some current) (Some cp))
    \<and> (\<exists>r\<in>set (db_tasks db). tr_task_id r = cp_TaskID cp
         \<and> tr_status r \<in> {TaskStatusDispatched, TaskStatusCheckpointed, TaskStatusRecovering})
    \<and> db_tasks db' = map (\<lambda>r. if tr_task_id r = cp_TaskID cp
         \<and> tr_status r \<in> {TaskStatusDispatched, TaskStatusCheckpointed, TaskStatusRecovering}
         then r\<lparr>tr_status := TaskStatusCheckpointed, tr_last_checkpoint := Some (marshalCheckpoint cp)\<rparr> else r)
         (db_tasks db)
    \<and> unat (cp_last cp) < 2 ^ 31
    \<and> (\<exists>w. db_wal db' = db_wal db @ [w] \<and> wr_task_id w = cp_TaskID cp
         \<and> wr_step_index w = unat (cp_last cp) \<and> wr_wal_entries w = marshalCheckpoint cp))"
proof (cases "e \<noteq> None \<and> db_tasks db' = db_tasks db \<and> db_wal db' = db_wal db")
  case False
  define stale where "stale row = (case decodeCheckpointPayload (tr_last_checkpoint row) of None \<Rightarrow> False
    | Some current \<Rightarrow> \<not> TaskCheckpointAdvances (Some current) (Some cp))" for row :: task_row
  define P where "P r \<longleftrightarrow> tr_task_id r = cp_TaskID cp
    \<and> tr_status r \<in> {TaskStatusDispatched, TaskStatusCheckpointed, TaskStatusRecovering}" for r :: task_row
  define f where "f r = r\<lparr>tr_status := TaskStatusCheckpointed,
    tr_last_checkpoint := Some (marshalCheckpoint cp)\<rparr>" for r :: task_row
  obtain b1 db1 where 1: "stmt db = (b1, db1)" by (cases "stmt db")
  obtain b2 db2 where 2: "stmt db1 = (b2, db2)" by (cases "stmt db1")
  obtain e3 db3 where 3: "transition P f db2 = (e3, db3)" by (cases "transition P f db2")
  obtain e4 db4 where 4: "insert_wal cp db3 = (e4, db4)" by (cases "insert_wal cp db3")
  obtain b5 db5 where 5: "commit db1 db4 = (b5, db5)" by (cases "commit db1 db4")
  note same = stmt_same [OF 1] stmt_same [OF 2]
  obtain row where row: "find (\<lambda>r. tr_task_id r = cp_TaskID cp) (db_tasks db) = Some row" "\<not> stale row"
    and ok: "e3 = None" "e4 = None" "db' = db5" "e = (if b5 then Some ErrDriver else None)"
    using assms False same unfolding SaveCheckpoint_def stale_def [symmetric] P_def [symmetric] f_def [symmetric]
    by (auto simp: 1 2 3 4 5 rollback_def simp del: stmt_tasks split: if_split_asm option.split_asm)
  have "db_wal db3 = db_wal db2"
    using 3 by (auto simp: transition_def update_tasks_def stmt_same split: prod.splits if_splits)
  moreover have "db_wal db5 = db_wal db4 \<and> db_tasks db5 = db_tasks db4"
    using commit_either [OF 5] ok(3,4) False same by auto
  ultimately show ?thesis
    using row ok transition_laws(1) [OF 3 ok(1)] insert_wal_ok [of cp db3 db4] 4 same
    unfolding stale_def P_def f_def by (intro disjI2 exI [of _ row]) simp
qed simp

text \<open>C26: A checkpoint that is accepted strictly advances its task. The task was in a status that a
  runtime may change and is now checkpointed with exactly this checkpoint; its watermark was
  strictly lower; one row for this task, step and payload was appended to the log; no other task
  changed.\<close>

theorem checkpoint_strictly_advances:
  assumes "db_ok db" and "SaveCheckpoint cp db = (None, db')"
  shows "\<exists>r. r \<in> set (db_tasks db) \<and> tr_task_id r = cp_TaskID cp \<and> TaskAllowsRuntimeMutation (tr_status r)
    \<and> watermark r < Suc (unat (cp_last cp))
    \<and> r\<lparr>tr_status := TaskStatusCheckpointed, tr_last_checkpoint := Some (marshalCheckpoint cp)\<rparr> \<in> set (db_tasks db')
    \<and> watermark (r\<lparr>tr_status := TaskStatusCheckpointed, tr_last_checkpoint := Some (marshalCheckpoint cp)\<rparr>)
        = Suc (unat (cp_last cp))
    \<and> filter (\<lambda>x. tr_task_id x \<noteq> cp_TaskID cp) (db_tasks db') = filter (\<lambda>x. tr_task_id x \<noteq> cp_TaskID cp) (db_tasks db)
    \<and> (\<exists>w. db_wal db' = db_wal db @ [w] \<and> wr_task_id w = cp_TaskID cp
         \<and> wr_step_index w = unat (cp_last cp) \<and> wr_wal_entries w = marshalCheckpoint cp)"
proof -
  obtain row r where row: "find (\<lambda>r. tr_task_id r = cp_TaskID cp) (db_tasks db) = Some row"
    "\<not> (case decodeCheckpointPayload (tr_last_checkpoint row) of None \<Rightarrow> False
           | Some current \<Rightarrow> \<not> TaskCheckpointAdvances (Some current) (Some cp))"
    and r: "r \<in> set (db_tasks db)" "tr_task_id r = cp_TaskID cp"
      "tr_status r \<in> {TaskStatusDispatched, TaskStatusCheckpointed, TaskStatusRecovering}"
    and t: "db_tasks db' = map (\<lambda>r. if tr_task_id r = cp_TaskID cp
         \<and> tr_status r \<in> {TaskStatusDispatched, TaskStatusCheckpointed, TaskStatusRecovering}
         then r\<lparr>tr_status := TaskStatusCheckpointed, tr_last_checkpoint := Some (marshalCheckpoint cp)\<rparr> else r)
         (db_tasks db)"
    and w: "\<exists>w. db_wal db' = db_wal db @ [w] \<and> wr_task_id w = cp_TaskID cp
         \<and> wr_step_index w = unat (cp_last cp) \<and> wr_wal_entries w = marshalCheckpoint cp"
    using SaveCheckpoint_cases [OF assms(2)] by blast
  have le: "watermark r \<le> unat (cp_last cp)" by (rule checkpoint_advances_row [OF assms(1) row r(1,2)])
  have others: "filter (\<lambda>x. tr_task_id x \<noteq> cp_TaskID cp) (db_tasks db')
      = filter (\<lambda>x. tr_task_id x \<noteq> cp_TaskID cp) (db_tasks db)"
    unfolding t by (rule filter_guarded_map) auto
  have in': "r\<lparr>tr_status := TaskStatusCheckpointed, tr_last_checkpoint := Some (marshalCheckpoint cp)\<rparr> \<in> set (db_tasks db')"
    unfolding t set_map using r by (intro image_eqI [of _ _ r]) simp_all
  have "TaskAllowsRuntimeMutation (tr_status r)" using r(3) by auto
  then show ?thesis
    by (intro exI [of _ r]) (use r le others in' w in \<open>simp add: watermark_def marshalCheckpoint_def\<close>)
qed

text \<open>A database with the given tasks and nothing else, for concrete runs.\<close>

definition sample_row :: "TaskRecordStatus \<Rightarrow> task_row" where
  "sample_row s = (new_task_row (sample_task (marshal (JObj []))) 0)\<lparr>tr_status := s, tr_runtime_id := Some ''rt''\<rparr>"

definition sample_db :: "task_row list \<Rightarrow> db" where
  "sample_db rows = \<lparr>db_tasks = rows, db_wal = [], db_bound_runs = [], db_bindings = [],
     db_reconciliations = [], db_decisions = [], db_approvals = [], db_boundaries = [],
     db_recovery_events = [], db_handoffs = [], db_permissions = [], db_capability_audit = [],
     db_credentials = [], db_input_refs = [], db_input_audit = [], db_runtimes = [], db_lineage = [],
     db_policies = \<lparr>pdb_settings = [], pdb_tenants = [], pdb_fault = False\<rparr>, db_faults = [], db_now = 0,
     db_uuid = of_nat, db_uuid_count = 1\<rparr>"

lemma sample_row_simps [simp]:
  "tr_task_id (sample_row s) = 5" "tr_tenant_id (sample_row s) = ''acme''" "tr_status (sample_row s) = s"
  "tr_last_checkpoint (sample_row s) = None" "tr_runtime_id (sample_row s) = Some ''rt''"
  "tr_idempotency_key (sample_row s) = ''k1''"
  by (simp_all add: sample_row_def new_task_row_def sample_task_def)

lemma sample_db_ok: "db_ok (sample_db [sample_row s])"
  by (simp add: db_ok_def sample_db_def)

lemma sample_checkpoint_saved:
  "SaveCheckpoint (sample_checkpoint 0) (sample_db [sample_row TaskStatusDispatched])
     = (None, snd (SaveCheckpoint (sample_checkpoint 0) (sample_db [sample_row TaskStatusDispatched])))"
proof -
  have "decodeCheckpointPayload None = None" by (simp add: decodeCheckpointPayload_def)
  then have "fst (SaveCheckpoint (sample_checkpoint 0) (sample_db [sample_row TaskStatusDispatched])) = None"
    by (simp add: SaveCheckpoint_def sample_db_def stmt_def transition_def update_tasks_def sql_update_def
        taskTransitionResult_def insert_wal_def uuid_New_def commit_def watermark_iff
        TaskCheckpointEntriesBelongToTask_def TaskCheckpointEntriesHaveStableIDs_def
        sample_checkpoint_def sample_entry_def del: stmt_tasks uuid_New_tasks)
  then show ?thesis by (metis prod.collapse)
qed

theorem checkpoint_strictly_advances_witness:
  "SaveCheckpoint (sample_checkpoint 0) (sample_db [sample_row TaskStatusDispatched])
     = (None, snd (SaveCheckpoint (sample_checkpoint 0) (sample_db [sample_row TaskStatusDispatched])))
   \<and> (\<exists>w. db_wal (snd (SaveCheckpoint (sample_checkpoint 0) (sample_db [sample_row TaskStatusDispatched]))) = [w]
        \<and> wr_step_index w = 0)"
proof -
  have "db_wal (sample_db rows) = []" "unat (cp_last (sample_checkpoint 0)) = 0" for rows
    by (simp_all add: sample_db_def sample_checkpoint_def)
  then show ?thesis
    using checkpoint_strictly_advances [OF sample_db_ok sample_checkpoint_saved] sample_checkpoint_saved by auto
qed

text \<open>C31: The step column is narrower than the step counter. A checkpoint whose last committed step
  does not fit a signed 32-bit integer is never accepted, in whatever state the task is and whatever
  the database does, and neither the tasks nor the log change, although the counter is an unsigned
  32-bit number.\<close>

theorem checkpoint_step_bound:
  assumes "2 ^ 31 \<le> unat (cp_last cp)"
  shows "fst (SaveCheckpoint cp db) \<noteq> None
    \<and> db_tasks (snd (SaveCheckpoint cp db)) = db_tasks db \<and> db_wal (snd (SaveCheckpoint cp db)) = db_wal db"
  using SaveCheckpoint_cases [of cp db "fst (SaveCheckpoint cp db)" "snd (SaveCheckpoint cp db)"] assms by auto

theorem checkpoint_step_bound_witness:
  "TaskCheckpointWatermarkConsistent (Some (sample_checkpoint 2147483648))
   \<and> fst (SaveCheckpoint (sample_checkpoint 2147483648) (sample_db [sample_row TaskStatusDispatched])) \<noteq> None"
  using checkpoint_step_bound [of "sample_checkpoint 2147483648" "sample_db [sample_row TaskStatusDispatched]"]
  by (simp add: watermark_iff sample_checkpoint_def sample_entry_def)

section \<open>Creating a task once\<close>

definition key_taken :: "string \<Rightarrow> string \<Rightarrow> db \<Rightarrow> bool" where
  "key_taken n k db \<longleftrightarrow> list_ex (\<lambda>r. tr_tenant_id r = n \<and> tr_idempotency_key r = k) (db_tasks db)"

lemma key_taken_same: "db_tasks db' = db_tasks db \<Longrightarrow> key_taken n k db' = key_taken n k db"
  by (simp add: key_taken_def)

lemma insert_task_taken:
  assumes "insert_task task db = (m, db')" "key_taken (t_TenantID task) (t_IdempotencyKey task) db"
  shows "m \<in> {None, Some 0} \<and> db_tasks db' = db_tasks db"
  using insert_task_cases [OF assms(1)] assms(2) by (auto simp: key_taken_def list_ex_iff)

lemma insert_task_takes:
  "insert_task task db = (Some (Suc m), db') \<Longrightarrow> key_taken (t_TenantID task) (t_IdempotencyKey task) db'"
  using insert_task_cases [of task db "Some (Suc m)" db']
  by (auto simp: key_taken_def new_task_row_def)

lemma insert_refs_tasks: "insert_refs refs db = (e, db') \<Longrightarrow> db_tasks db' = db_tasks db"
proof (induction refs arbitrary: db)
  case (Cons ref refs)
  have "insertExecutionInputRef ref d = (e1, d1) \<Longrightarrow> db_tasks d1 = db_tasks d"
    "insertExecutionInputRefAudit ev d = (e1, d1) \<Longrightarrow> db_tasks d1 = db_tasks d" for d d1 e1 ev
    by (auto simp: insertExecutionInputRef_def insertExecutionInputRefAudit_def Let_def split: prod.splits if_splits)
  with Cons show ?case by (auto split: prod.splits option.splits; metis)
qed simp

lemma insertBoundActionRun_tasks: "insertBoundActionRun task db = (e, db') \<Longrightarrow> db_tasks db' = db_tasks db"
  by (auto simp: insertBoundActionRun_def split: prod.splits if_splits option.splits)

lemma create_closed:
  assumes "key_taken (t_TenantID task) (t_IdempotencyKey task) db"
    and "CreateTaskWithExecutionInputRefs task refs db = (r, db')"
  shows "r \<noteq> Inr True \<and> db_tasks db' = db_tasks db"
proof -
  obtain f d1 where 1: "stmt db = (f, d1)" by (cases "stmt db")
  obtain m d2 where 2: "insert_task task d1 = (m, d2)" by (cases "insert_task task d1")
  obtain g d3 where 3: "commit d1 d2 = (g, d3)" by (cases "commit d1 d2")
  obtain m' d' where 4: "insert_task task db = (m', d')" by (cases "insert_task task db")
  have t1: "db_tasks d1 = db_tasks db" by (rule stmt_same(7) [OF 1])
  then have m: "m = None \<or> m = Some 0" and t2: "db_tasks d2 = db_tasks db"
    using insert_task_taken [OF 2] assms(1) by (auto simp: key_taken_def)
  have t3: "db_tasks d3 = db_tasks db" using commit_tasks [OF 3] t1 t2 by auto
  have m': "m' = None \<or> m' = Some 0" and t': "db_tasks d' = db_tasks db"
    using insert_task_taken [OF 4 assms(1)] by auto
  note facts = 1 2 3 4 rollback_tasks
  have "CreateTask task db = (r, db') \<Longrightarrow> r \<noteq> Inr True \<and> db_tasks db' = db_tasks db"
    using m m' t1 t2 t3 t' unfolding CreateTask_def by (auto simp: facts simp del: stmt_tasks split: if_split_asm)
  then show ?thesis
    using m assms(2) t1 t2 t3 unfolding CreateTaskWithExecutionInputRefs_def
    by (auto simp: facts simp del: stmt_tasks split: if_split_asm)
qed

lemma insert_task_answers:
  "insert_task task db = (Some m, db') \<Longrightarrow> key_taken (t_TenantID task) (t_IdempotencyKey task) db'"
proof (cases m)
  case 0
  moreover assume "insert_task task db = (Some m, db')"
  ultimately show ?thesis
    by (auto simp: insert_task_def key_taken_def split: prod.splits if_splits)
qed (use insert_task_takes in simp)

lemma create_answers:
  assumes "CreateTaskWithExecutionInputRefs task refs db = (Inr b, db')"
  shows "key_taken (t_TenantID task) (t_IdempotencyKey task) db'"
proof -
  have c: "commit d d1 = (False, d2) \<Longrightarrow> key_taken n k d1 \<Longrightarrow> key_taken n k d2" for d d1 d2 n k
    using commit_ok(2) key_taken_same by metis
  have k: "insertBoundActionRun task d = (e, d1) \<Longrightarrow> key_taken n k d \<Longrightarrow> key_taken n k d1"
    "insert_refs refs d = (e, d1) \<Longrightarrow> key_taken n k d \<Longrightarrow> key_taken n k d1" for d e d1 n k
    using insertBoundActionRun_tasks insert_refs_tasks key_taken_same by metis+
  have "CreateTask task db = (Inr b, db') \<Longrightarrow> ?thesis" unfolding CreateTask_def
    by (clarsimp split: if_split_asm prod.split_asm option.split_asm nat.split_asm;
        (erule c k insert_task_answers | assumption)+)
  then show ?thesis using assms unfolding CreateTaskWithExecutionInputRefs_def
    by - (clarsimp split: if_split_asm prod.split_asm option.split_asm nat.split_asm;
        (erule c k insert_task_answers | assumption)+)
qed

text \<open>A submission of one idempotency key of one tenant: the record and its encrypted inputs.\<close>

definition create_for :: "string \<Rightarrow> string \<Rightarrow> TaskRecord \<times> ExecutionInputRef list \<Rightarrow> db \<Rightarrow> (store_error + bool) \<times> db" where
  "create_for n k req = CreateTaskWithExecutionInputRefs
     ((fst req)\<lparr>t_TenantID := n, t_IdempotencyKey := k\<rparr>) (snd req)"

lemma create_for_answers: "create_for n k a s = (Inr b, s') \<Longrightarrow> key_taken n k s'"
  unfolding create_for_def by (drule create_answers) simp

lemma create_for_closed: "key_taken n k s \<Longrightarrow> create_for n k a s = (r, s') \<Longrightarrow> r \<noteq> Inr True \<and> key_taken n k s'"
  unfolding create_for_def by (drule create_closed [rotated]) (simp_all add: key_taken_def)

interpretation creation: one_shot "create_for n k" "\<lambda>r. r = Inr True" "key_taken n k" for n k
  by unfold_locales (use create_for_answers in blast, use create_for_closed in blast)

lemma run_all_rel:
  assumes "\<And>a s r s'. call a s = (r, s') \<Longrightarrow> R s s'" and "\<And>s. R s s" and "\<And>a b c. R a b \<Longrightarrow> R b c \<Longrightarrow> R a c"
  shows "run_all call as s = (rs, s') \<Longrightarrow> R s s'"
proof (induction as arbitrary: s rs)
  case (Cons a as)
  from Cons.prems obtain r s1 rs1 where "call a s = (r, s1)" "run_all call as s1 = (rs1, s')" by (rule run_all_Cons)
  then show ?case using Cons.IH assms by blast
qed (simp add: assms)

lemma keys_once:
  "distinct (map f xs) \<Longrightarrow> length (filter (\<lambda>x. f x = k) xs) \<le> 1"
  by (induction xs) (auto simp: filter_empty_conv image_iff)

lemma answered_taken:
  "run_all (create_for n k) reqs db = (rs, db') \<Longrightarrow> Inr b \<in> set rs \<Longrightarrow> key_taken n k db'"
proof (induction reqs arbitrary: db rs)
  case (Cons a as)
  from Cons.prems(1) obtain r db1 rs1 where
    r: "create_for n k a db = (r, db1)" "run_all (create_for n k) as db1 = (rs1, db')" "rs = r # rs1" by (rule run_all_Cons)
  show ?case
  proof (cases "Inr b \<in> set rs1")
    case False
    then have "key_taken n k db1" using Cons.prems(2) r(1,3) create_for_answers by fastforce
    then show ?thesis using creation.closed_all_lose r(2) by blast
  qed (rule Cons.IH [OF r(2)])
qed simp

text \<open>C27: A submission is idempotent. However often a key of a tenant is submitted, with whatever
  records and inputs and whichever statements fail or whichever commit acknowledgements are lost, at
  most one call reports that it created the task, there is at most one row for the key, and if any
  call was answered without an error, the row is there.\<close>

theorem task_created_once:
  assumes "db_ok db" and "run_all (create_for n k) reqs db = (rs, db')"
  shows "length (filter (\<lambda>r. r = Inr True) rs) \<le> 1
    \<and> length (filter (\<lambda>r. (tr_tenant_id r, tr_idempotency_key r) = (n, k)) (db_tasks db')) \<le> 1
    \<and> (\<forall>b. Inr b \<in> set rs \<longrightarrow> key_taken n k db')"
proof -
  have "evolves db db'"
    by (rule run_all_rel [OF _ evolves_refl evolves_trans assms(2)])
      (auto simp: create_for_def intro: ev_CreateTaskWithExecutionInputRefs)
  then have "distinct (map (\<lambda>r. (tr_tenant_id r, tr_idempotency_key r)) (db_tasks db'))"
    using assms(1) by (simp add: evolves_def db_ok_def)
  then show ?thesis
    by (intro conjI creation.at_most_one [OF assms(2)] keys_once) (use answered_taken [OF assms(2)] in blast)+
qed

theorem task_created_once_witness:
  "let req = (sample_task (marshal (JObj [])), []); db = sample_db []; (rs, db') = run_all (create_for ''acme'' ''k1'') [req, req] db
   in db_ok db \<and> rs = [Inr True, Inr False] \<and> length (filter (\<lambda>r. r = Inr True) rs) \<le> 1"
proof -
  let ?req = "(sample_task (marshal (JObj [])), [])"
  have ok: "db_ok (sample_db [])" by (simp add: db_ok_def sample_db_def)
  obtain rs db' where r: "run_all (create_for ''acme'' ''k1'') [?req, ?req] (sample_db []) = (rs, db')"
    by (cases "run_all (create_for ''acme'' ''k1'') [?req, ?req] (sample_db [])")
  have "rs = [Inr True, Inr False]"
    using r by (auto simp: create_for_def CreateTaskWithExecutionInputRefs_def CreateTask_def insert_task_def
        stmt_def sample_db_def sample_task_def new_task_row_def simp del: stmt_tasks)
  then show ?thesis using task_created_once [OF ok r] ok r by (simp only: Let_def prod.case)
qed

section \<open>Revoking a credential\<close>

definition revocable_open :: "string \<Rightarrow> string \<Rightarrow> credential_audit_row \<Rightarrow> bool" where
  "revocable_open n i r \<longleftrightarrow> cx_tenant_id r = n \<and> cf_ReferenceID (cx_ref r) = i \<and> cf_Revocable (cx_ref r)
     \<and> cx_revoked_at r = None"

lemma revoke_cases:
  assumes "RevokeAICredentialReference n i db = (r, db')"
  shows "(\<exists>x. r = Inr x \<and> list_ex (revocable_open n i) (db_credentials db) \<and> cx_tenant_id x = n \<and> cf_ReferenceID (cx_ref x) = i \<and> cx_revoked_at x = Some (db_now db)
      \<and> db_credentials db' = map (\<lambda>c. if revocable_open n i c then c\<lparr>cx_revoked_at := Some (db_now db)\<rparr> else c) (db_credentials db))
    \<or> ((\<exists>e. r = Inl e) \<and> db_credentials db' = db_credentials db)"
proof -
  have o: "revocable_open n i = (\<lambda>r. (cx_tenant_id r = n \<and> cf_ReferenceID (cx_ref r) = i \<and> cf_Revocable (cx_ref r))
      \<and> cx_revoked_at r = None)" by (auto simp: revocable_open_def)
  obtain f db1 where 1: "stmt db = (f, db1)" by (cases "stmt db")
  obtain g db2 where 2: "stmt db1 = (g, db2)" by (cases "stmt db1")
  note same = stmt_same(3) [OF 1] stmt_same(2) [OF 1] stmt_same(3) [OF 2]
  note revoke = assms [unfolded RevokeAICredentialReference_def Let_def o [symmetric] 1 prod.case]
  show ?thesis
  proof (cases "find (revocable_open n i) (db_credentials db1)")
    case None
    then show ?thesis using revoke same
      by (auto simp: 2 simp del: stmt_tasks split: if_split_asm option.split_asm)
  next
    case (Some x)
    then have x: "x \<in> set (db_credentials db)" "revocable_open n i x" using find_Some_in same by metis+
    then have "list_ex (revocable_open n i) (db_credentials db)" by (auto simp: list_ex_iff)
    with x(2) Some show ?thesis using revoke same
      by (auto simp: sql_update_def revocable_open_def [of n i x] simp del: stmt_tasks split: if_split_asm)
  qed
qed

lemma revoke_closes:
  "RevokeAICredentialReference n i db = (Inr x, db') \<Longrightarrow> \<not> list_ex (revocable_open n i) (db_credentials db')"
  using revoke_cases [of n i db "Inr x" db']
  by (auto simp: list_ex_iff revocable_open_def simp del: not_None_eq split: if_splits)

lemma revoke_closed:
  assumes "\<not> list_ex (revocable_open n i) (db_credentials db)" "RevokeAICredentialReference n i db = (r, db')"
  shows "\<not> (\<exists>x. r = Inr x) \<and> \<not> list_ex (revocable_open n i) (db_credentials db')"
  using revoke_cases [OF assms(2)] assms(1) by (elim disjE exE conjE; simp)

interpretation revocation: one_shot "\<lambda>_. RevokeAICredentialReference n i" "\<lambda>r. \<exists>x. r = Inr x"
    "\<lambda>db. \<not> list_ex (revocable_open n i) (db_credentials db)" for n i
  by unfold_locales (use revoke_closes in blast, use revoke_closed in blast)

text \<open>A stored reference keeps its key and, once revoked, its revocation.\<close>

definition cred_evolves :: "credential_audit_row \<Rightarrow> credential_audit_row \<Rightarrow> bool" where
  "cred_evolves c c' \<longleftrightarrow> cx_tenant_id c' = cx_tenant_id c \<and> cf_ReferenceID (cx_ref c') = cf_ReferenceID (cx_ref c)
     \<and> (cx_revoked_at c \<noteq> None \<longrightarrow> cx_revoked_at c' = cx_revoked_at c)"

definition creds_evolve :: "db \<Rightarrow> db \<Rightarrow> bool" where
  "creds_evolve db db' \<longleftrightarrow> (\<exists>old new. db_credentials db' = old @ new
     \<and> list_all2 cred_evolves (db_credentials db) old)
     \<and> (distinct (map (cf_ReferenceID \<circ> cx_ref) (db_credentials db)) \<longrightarrow>
        distinct (map (cf_ReferenceID \<circ> cx_ref) (db_credentials db')))"

lemma creds_same: "db_credentials db' = db_credentials db \<Longrightarrow> creds_evolve db db'"
  unfolding creds_evolve_def
  by (intro conjI exI [of _ "db_credentials db"] exI [of _ "[]"]) (simp_all add: list_all2_refl cred_evolves_def)

lemma creds_trans: "creds_evolve a b \<Longrightarrow> creds_evolve b c \<Longrightarrow> creds_evolve a c"
proof -
  assume ab: "creds_evolve a b" and bc: "creds_evolve b c"
  from ab obtain o1 n1 where b: "db_credentials b = o1 @ n1" "list_all2 cred_evolves (db_credentials a) o1"
    unfolding creds_evolve_def by blast
  from bc obtain o2 n2 where c: "db_credentials c = o2 @ n2" "list_all2 cred_evolves (db_credentials b) o2"
    unfolding creds_evolve_def by blast
  obtain u v where uv: "o2 = u @ v" "list_all2 cred_evolves o1 u"
    using c(2) unfolding b(1) list_all2_append1 by blast
  have "list_all2 cred_evolves (db_credentials a) u"
    by (rule list_all2_trans [OF _ b(2) uv(2)]) (auto simp: cred_evolves_def)
  then show ?thesis using ab bc c(1) uv(1) unfolding creds_evolve_def by auto
qed

lemma creds_upsert:
  assumes "db_credentials db' = upsert (\<lambda>r. cf_ReferenceID (cx_ref r) = i) f new (db_credentials db)"
    and "cf_ReferenceID (cx_ref new) = i" and "\<And>c. cred_evolves c (f c)"
  shows "creds_evolve db db'"
proof (cases "list_ex (\<lambda>r. cf_ReferenceID (cx_ref r) = i) (db_credentials db)")
  case True
  let ?g = "\<lambda>c. if cf_ReferenceID (cx_ref c) = i then f c else c"
  have g: "cred_evolves c (?g c)" for c using assms(3) by (simp add: cred_evolves_def)
  have t: "db_credentials db' = map ?g (db_credentials db)"
    using assms(1) True by (simp add: upsert_def sql_update_def)
  have keys: "map (cf_ReferenceID \<circ> cx_ref) (map ?g cs) = map (cf_ReferenceID \<circ> cx_ref) cs" for cs
    using g unfolding cred_evolves_def map_map o_def by (intro map_cong) blast+
  have "list_all2 cred_evolves cs (map ?g cs)" for cs by (induction cs) (simp_all only: list.map list_all2_Cons list_all2_Nil g simp_thms)
  then have "\<exists>old new. map ?g (db_credentials db) = old @ new \<and> list_all2 cred_evolves (db_credentials db) old"
    by - (rule exI [of _ "map ?g (db_credentials db)"], rule exI [of _ "[]"], simp)
  then show ?thesis unfolding creds_evolve_def t keys by blast
next
  case False
  then have "db_credentials db' = db_credentials db @ [new]" using assms(1) by (simp add: upsert_def)
  moreover have "i \<notin> (cf_ReferenceID \<circ> cx_ref) ` set (db_credentials db)" using False by (auto simp: list_ex_iff)
  ultimately show ?thesis unfolding creds_evolve_def
    by (intro conjI exI [of _ "db_credentials db"] exI [of _ "[new]"])
      (simp_all add: list_all2_refl cred_evolves_def assms(2))
qed

lemma creds_save_credentials: "save_credentials t e cs db = (r, db') \<Longrightarrow> creds_evolve db db'"
proof (induction cs arbitrary: db)
  case (Cons c cs)
  show ?case
  proof (cases "cf_ReferenceID c = []")
    case False
    obtain f d where s: "stmt db = (f, d)" by (cases "stmt db")
    let ?new = "\<lparr>cx_envelope_id = pe_EnvelopeID e, cx_task_id = t, cx_tenant_id = pe_TenantID e,
                   cx_ref = c, cx_revoked_at = None\<rparr>"
    let ?f = "\<lambda>r. r\<lparr>cx_envelope_id := pe_EnvelopeID e, cx_ref := (cx_ref r)\<lparr>cf_Tool := cf_Tool c,
                        cf_Capability := cf_Capability c, cf_Scope := cf_Scope c,
                        cf_ExpiresAtUnixMs := cf_ExpiresAtUnixMs c, cf_Revocable := cf_Revocable c\<rparr>\<rparr>"
    let ?d = "d\<lparr>db_credentials := upsert (\<lambda>r. cf_ReferenceID (cx_ref r) = cf_ReferenceID c) ?f ?new (db_credentials d)\<rparr>"
    have d: "creds_evolve db d" by (rule creds_same) (rule stmt_same(3) [OF s])
    have "creds_evolve d ?d" by (rule creds_upsert [where i = "cf_ReferenceID c" and f = ?f and new = ?new]) (simp_all add: cred_evolves_def)
    then have d': "creds_evolve db ?d" by (rule creds_trans [OF d])
    show ?thesis
    proof (cases f)
      case True
      then show ?thesis using Cons.prems False s d by (simp add: Let_def insert_row_def)
    next
      case False
      then have "save_credentials t e cs ?d = (r, db')"
        using Cons.prems \<open>cf_ReferenceID c \<noteq> []\<close> s by (simp add: Let_def insert_row_def)
      then show ?thesis using Cons.IH d' creds_trans by blast
    qed
  qed (use Cons in simp)
qed (simp add: creds_same)

lemma creds_SaveTaskPermissionEnvelope:
  assumes "SaveTaskPermissionEnvelope t en db = (r, db')"
  shows "creds_evolve db db'"
proof -
  have row: "db_credentials d1 = db_credentials d"
    if "insert_row f d = (x, d1)" "\<And>y. db_credentials (f y) = db_credentials y" for f d x d1
    using that stmt_same(3) [of d] by (auto simp: insert_row_def split: prod.splits if_splits)
  have dec: "save_decisions t e ds d = (x, d1) \<Longrightarrow> db_credentials d1 = db_credentials d" for e ds d x d1
  proof (induction ds arbitrary: d)
    case (Cons c ds)
    from Cons.prems show ?case
      by (clarsimp simp: Let_def split: prod.split_asm option.split_asm)
        (frule row, simp, simp add: Cons.IH)+
  qed simp
  have undone: "db_credentials (rollback a b) = db_credentials a" for a b by (simp add: rollback_def)
  have fin: "db_credentials d1 = db_credentials b \<or> db_credentials d1 = db_credentials a" if "commit a b = (f, d1)" for a b f d1
    using that by (auto simp: commit_def rollback_def Let_def split: list.splits fault.splits)
  show ?thesis
  proof (cases "\<exists>e. en = Some e \<and> pe_EnvelopeID e \<noteq> []")
    case True
    then obtain e where e: "en = Some e" "pe_EnvelopeID e \<noteq> []" by blast
    obtain f db1 where 1: "stmt db = (f, db1)" by (cases "stmt db")
    let ?ins = "insert_row (\<lambda>d. d\<lparr>db_permissions := upsert
                   (\<lambda>r. pe_EnvelopeID (pa_envelope r) = pe_EnvelopeID e)
                   (\<lambda>r. r\<lparr>pa_envelope := e, pa_persisted_at := db_now d\<rparr>)
                   \<lparr>pa_task_id = t, pa_envelope = e, pa_persisted_at = db_now d\<rparr> (db_permissions d)\<rparr>) db1"
    obtain x2 db2 where 2: "?ins = (x2, db2)" by (cases ?ins)
    obtain x3 db3 where 3: "save_decisions t e (pe_Decisions e) db2 = (x3, db3)" by (cases "save_decisions t e (pe_Decisions e) db2")
    obtain x4 db4 where 4: "save_credentials t e (pe_CredentialRefs e) db3 = (x4, db4)"
      by (cases "save_credentials t e (pe_CredentialRefs e) db3")
    obtain x5 db5 where 5: "commit db1 db4 = (x5, db5)" by (cases "commit db1 db4")
    have c1: "db_credentials db1 = db_credentials db" by (rule stmt_same(3) [OF 1])
    have c3: "db_credentials db3 = db_credentials db" using row [OF 2] dec [OF 3] c1 by simp
    have "creds_evolve db db4" using creds_trans [OF creds_same [OF c3] creds_save_credentials [OF 4]] .
    then have "creds_evolve db db5"
      using fin [OF 5] c1 unfolding creds_evolve_def by (metis append_Nil2 creds_evolve_def creds_same)
    moreover have "db_credentials db' = db_credentials db \<or> db' = db5"
      using assms c1 by (auto simp: SaveTaskPermissionEnvelope_def e 1 2 3 4 5 undone simp del: stmt_tasks
          split: if_split_asm option.split_asm)
    ultimately show ?thesis using creds_same by blast
  next
    case False
    then have "db' = db" using assms by (auto simp: SaveTaskPermissionEnvelope_def split: option.split_asm)
    then show ?thesis by (simp add: creds_same)
  qed
qed

lemma creds_revoke: "RevokeAICredentialReference n i db = (r, db') \<Longrightarrow> creds_evolve db db'"
proof (drule revoke_cases, elim disjE exE conjE)
  let ?g = "\<lambda>c. if revocable_open n i c then c\<lparr>cx_revoked_at := Some (db_now db)\<rparr> else c"
  assume t: "db_credentials db' = map ?g (db_credentials db)"
  have g: "cred_evolves c (?g c)" for c by (simp add: cred_evolves_def revocable_open_def)
  have keys: "map (cf_ReferenceID \<circ> cx_ref) (map ?g cs) = map (cf_ReferenceID \<circ> cx_ref) cs" for cs by simp
  have "list_all2 cred_evolves cs (map ?g cs)" for cs
    by (induction cs) (simp_all only: list.map list_all2_Cons list_all2_Nil g simp_thms)
  then have "\<exists>old new. map ?g (db_credentials db) = old @ new \<and> list_all2 cred_evolves (db_credentials db) old"
    by - (rule exI [of _ "map ?g (db_credentials db)"], rule exI [of _ "[]"], simp)
  then show ?thesis unfolding creds_evolve_def t keys by blast
qed (rule creds_same)

lemma creds_evolve_in:
  assumes "creds_evolve db db'" "c \<in> set (db_credentials db)"
  shows "\<exists>c'\<in>set (db_credentials db'). cred_evolves c c'"
  using assms unfolding creds_evolve_def list_all2_conv_all_nth
  by (metis in_set_conv_nth nth_append nth_mem length_append trans_less_add1)

definition revoked :: "string \<Rightarrow> string \<Rightarrow> db \<Rightarrow> bool" where
  "revoked n i db \<longleftrightarrow> list_ex (\<lambda>c. cx_tenant_id c = n \<and> cf_ReferenceID (cx_ref c) = i \<and> cx_revoked_at c \<noteq> None)
     (db_credentials db)"

lemma revoked_stays: "creds_evolve db db' \<Longrightarrow> revoked n i db \<Longrightarrow> revoked n i db'"
proof -
  assume e: "creds_evolve db db'" and "revoked n i db"
  then obtain c where c: "c \<in> set (db_credentials db)" "cx_tenant_id c = n" "cf_ReferenceID (cx_ref c) = i"
    "cx_revoked_at c \<noteq> None" by (auto simp: revoked_def list_ex_iff simp del: not_None_eq)
  obtain c' where c': "c' \<in> set (db_credentials db')" "cred_evolves c c'" using creds_evolve_in [OF e c(1)] by blast
  then show ?thesis using c unfolding revoked_def list_ex_iff cred_evolves_def by (intro bexI [of _ c']) simp_all
qed

lemma revoke_revokes:
  "RevokeAICredentialReference n i db = (Inr x, db') \<Longrightarrow> revoked n i db'"
proof (drule revoke_cases, elim disjE exE conjE)
  assume "list_ex (revocable_open n i) (db_credentials db)"
    and t: "db_credentials db' = map (\<lambda>c. if revocable_open n i c then c\<lparr>cx_revoked_at := Some (db_now db)\<rparr> else c)
      (db_credentials db)"
  then obtain c where c: "c \<in> set (db_credentials db)" "revocable_open n i c" by (auto simp: list_ex_iff)
  then have "c\<lparr>cx_revoked_at := Some (db_now db)\<rparr> \<in> set (db_credentials db')"
    unfolding t set_map by (intro image_eqI [of _ _ c]) simp_all
  with c(2) show ?thesis unfolding revoked_def list_ex_iff
    by (intro bexI [of _ "c\<lparr>cx_revoked_at := Some (db_now db)\<rparr>"]) (simp_all add: revocable_open_def)
qed simp

lemma answered_revoked:
  "run_all (\<lambda>_. RevokeAICredentialReference n i) us db = (rs, db') \<Longrightarrow> Inr x \<in> set rs \<Longrightarrow> revoked n i db'"
proof (induction us arbitrary: db rs)
  case (Cons u us)
  from Cons.prems(1) obtain r db1 rs1 where r: "RevokeAICredentialReference n i db = (r, db1)"
    "run_all (\<lambda>_. RevokeAICredentialReference n i) us db1 = (rs1, db')" "rs = r # rs1" by (rule run_all_Cons)
  have "creds_evolve db1 db'"
    by (rule run_all_rel [OF _ creds_same creds_trans r(2)]) (auto intro: creds_revoke)
  then have "r = Inr x \<Longrightarrow> ?case" using revoke_revokes r(1) revoked_stays by blast
  then show ?case using Cons.IH [OF r(2)] Cons.prems(2) r(3) by auto
qed simp

lemma revoked_not_open:
  assumes "distinct (map (cf_ReferenceID \<circ> cx_ref) (db_credentials db))" "revoked n i db"
  shows "\<not> list_ex (revocable_open n i) (db_credentials db)"
  using assms unfolding revoked_def list_ex_iff revocable_open_def distinct_map inj_on_def by (metis comp_apply)

text \<open>C28: A revocation is final. However often a credential reference is revoked, at most one call
  reports success. Once one has, the reference stays revoked whatever permission envelope is stored
  afterwards, even one that carries the same reference again, and cannot be revoked a second time.\<close>

theorem revocation_is_final:
  assumes "distinct (map (cf_ReferenceID \<circ> cx_ref) (db_credentials db))"
    and "run_all (\<lambda>_. RevokeAICredentialReference n i) us db = (rs, db1)"
    and "SaveTaskPermissionEnvelope t en db1 = (e, db2)"
  shows "length (filter (\<lambda>r. \<exists>x. r = Inr x) rs) \<le> 1
    \<and> (\<forall>x. Inr x \<in> set rs \<longrightarrow> revoked n i db2 \<and> \<not> (\<exists>y. fst (RevokeAICredentialReference n i db2) = Inr y))"
proof (intro conjI allI impI revocation.at_most_one [OF assms(2)])
  have e1: "creds_evolve db db1"
    by (rule run_all_rel [OF _ creds_same creds_trans assms(2)]) (auto intro: creds_revoke)
  have e2: "creds_evolve db1 db2" by (rule creds_SaveTaskPermissionEnvelope [OF assms(3)])
  fix x assume "Inr x \<in> set rs"
  then show r: "revoked n i db2" using answered_revoked [OF assms(2)] revoked_stays [OF e2] by blast
  have "distinct (map (cf_ReferenceID \<circ> cx_ref) (db_credentials db2))"
    using assms(1) e1 e2 unfolding creds_evolve_def by blast
  then show "\<not> (\<exists>y. fst (RevokeAICredentialReference n i db2) = Inr y)"
    using revoke_closed [OF revoked_not_open [OF _ r]] by (metis prod.collapse)
qed

definition sample_credential :: credential_audit_row where
  "sample_credential = \<lparr>cx_envelope_id = ''e'', cx_task_id = 5, cx_tenant_id = ''acme'',
     cx_ref = \<lparr>cf_ReferenceID = ''r1'', cf_TenantID = ''acme'', cf_TaskID = ''5'', cf_Tool = ''t'', cf_Capability = ''c'', cf_Scope = [],
       cf_ExpiresAtUnixMs = 0, cf_Revocable = True\<rparr>, cx_revoked_at = None\<rparr>"

theorem revocation_is_final_witness:
  "let (rs, db1) = run_all (\<lambda>_. RevokeAICredentialReference ''acme'' ''r1'') [()]
         ((sample_db [])\<lparr>db_credentials := [sample_credential]\<rparr>);
       (e, db2) = SaveTaskPermissionEnvelope 5 (Some sample_envelope) db1
   in (\<exists>x. rs = [Inr x]) \<and> revoked ''acme'' ''r1'' db2"
proof -
  let ?db = "(sample_db [])\<lparr>db_credentials := [sample_credential]\<rparr>"
  let ?run = "run_all (\<lambda>_. RevokeAICredentialReference ''acme'' ''r1'') [()] ?db"
  obtain rs db1 where r: "?run = (rs, db1)" by (cases ?run)
  obtain e db2 where s: "SaveTaskPermissionEnvelope 5 (Some sample_envelope) db1 = (e, db2)"
    by (cases "SaveTaskPermissionEnvelope 5 (Some sample_envelope) db1")
  have "fst (RevokeAICredentialReference ''acme'' ''r1'' ?db) = Inr (sample_credential\<lparr>cx_revoked_at := Some 0\<rparr>)"
    by (simp add: RevokeAICredentialReference_def sample_db_def sample_credential_def)
  with r obtain x where x: "rs = [Inr x]" by (auto split: prod.splits)
  have d: "distinct (map (cf_ReferenceID \<circ> cx_ref) (db_credentials ?db))" by simp
  have "revoked ''acme'' ''r1'' db2" using revocation_is_final [OF d r s] x by simp
  then show ?thesis using r s x by simp
qed

section \<open>Failures\<close>

definition has_failed :: "uuid \<Rightarrow> db \<Rightarrow> bool" where
  "has_failed t db \<longleftrightarrow> list_ex (\<lambda>r. tr_task_id r = t \<and> tr_status r = TaskStatusFailed) (db_tasks db)"

lemma markFailedRecord_ok: "markFailedRecord t reason details db = (None, db') \<Longrightarrow> has_failed t db'"
  using failed.success_status [of t reason details db db'] unfolding has_failed_def list_ex_iff by blast

lemma ensure_failed_ok: "ensureTaskFailedRecord t reason details db = (None, db') \<Longrightarrow> has_failed t db'"
  unfolding ensureTaskFailedRecord_def
  by (auto simp: has_failed_def list_ex_iff split: prod.split_asm if_split_asm option.split_asm
      dest!: find_Some_in dest: markFailedRecord_ok [unfolded has_failed_def list_ex_iff])

lemma insert_reconciliation_tasks: "insert_reconciliation t d db = (e, db') \<Longrightarrow> db_tasks db' = db_tasks db"
  by (auto simp: insert_reconciliation_def split: prod.splits if_splits)

lemma has_failed_same: "db_tasks db' = db_tasks db \<Longrightarrow> has_failed t db' = has_failed t db"
  by (simp add: has_failed_def)

lemma failure_recorded_facts:
  assumes "MarkFailedWithDetails t reason details db = (None, db')"
  shows "has_failed t db'"
proof (cases "IsTypedReconciliationFailure details")
  case True
  have c: "commit d d1 = (False, d2) \<Longrightarrow> has_failed t d1 \<Longrightarrow> has_failed t d2"
    "insert_reconciliation t x d = (None, d1) \<Longrightarrow> has_failed t d \<Longrightarrow> has_failed t d1" for d d1 d2 x
    using commit_ok(2) insert_reconciliation_tasks has_failed_same by metis+
  from assms True show ?thesis unfolding MarkFailedWithDetails_def
    by - (clarsimp split: prod.split_asm if_split_asm option.split_asm;
        (erule c markFailedRecord_ok ensure_failed_ok | assumption)+)
next
  case False
  then show ?thesis using assms markFailedRecord_ok by (simp add: MarkFailedWithDetails_def)
qed

lemma concat_once:
  assumes "distinct (map f xs)" and "\<And>x. P x \<Longrightarrow> f x = k" and "\<And>x. length (g x) \<le> 1"
  shows "length (concat (map (\<lambda>x. if P x then g x else []) xs)) \<le> 1"
  using assms(1)
proof (induction xs)
  case (Cons x xs)
  show ?case
  proof (cases "P x")
    case True
    then have "\<not> P y" if "y \<in> set xs" for y using that Cons.prems assms(2) by (metis distinct.simps(2) image_eqI list.set_map list.simps(9))
    then have "concat (map (\<lambda>x. if P x then g x else []) xs) = []" by auto
    with True assms(3) [of x] show ?thesis by (simp del: concat_eq_Nil_conv)
  qed (use Cons in simp)
qed simp

lemma reconciliation_rows_once:
  assumes "distinct (map br_task_id (db_bound_runs db))" "distinct (map bi_id (db_bindings db))" "db_ok db"
  shows "length (reconciliation_rows t d db) \<le> 1 \<and> (\<forall>n\<in>set (reconciliation_rows t d db). rc_task_id n = t)"
proof
  have tasks: "length (map h (filter (\<lambda>x. tr_task_id x = i \<and> tr_tenant_id x = n) (db_tasks db))) \<le> 1" for h i n
  proof -
    have "length (filter (\<lambda>x. tr_task_id x = i \<and> tr_tenant_id x = n) (db_tasks db))
        = length (filter (\<lambda>x. tr_tenant_id x = n) (filter (\<lambda>x. tr_task_id x = i) (db_tasks db)))"
      by (simp add: conj_commute)
    also have "\<dots> \<le> length (filter (\<lambda>x. tr_task_id x = i) (db_tasks db))" by (rule length_filter_le)
    also have "\<dots> \<le> 1" using keys_once assms(3) by (auto simp: db_ok_def)
    finally show ?thesis by simp
  qed
  have flip: "(if br_task_id r \<noteq> t then [] else xs) = (if br_task_id r = t then xs else [])" for r :: bound_run_row and xs by simp
  show "length (reconciliation_rows t d db) \<le> 1"
    unfolding reconciliation_rows_def flip
    by (rule concat_once [OF assms(1), where k = t], assumption, rule concat_once [OF assms(2)], blast, rule tasks)
  show "\<forall>n\<in>set (reconciliation_rows t d db). rc_task_id n = t"
    by (auto simp: reconciliation_rows_def split: if_splits)
qed

lemma insert_reconciliation_once:
  assumes "insert_reconciliation t d db = (e, db')" and "distinct (map rc_task_id (db_reconciliations db))"
    and "distinct (map br_task_id (db_bound_runs db))" "distinct (map bi_id (db_bindings db))" "db_ok db"
  shows "distinct (map rc_task_id (db_reconciliations db'))"
proof -
  obtain f d1 where s: "stmt db = (f, d1)" by (cases "stmt db")
  note same = stmt_same [OF s]
  have ok: "db_ok d1" using assms(5) same by (simp add: db_ok_def)
  let ?new = "filter (\<lambda>n. \<not> list_ex (\<lambda>old. rc_task_id old = rc_task_id n) (db_reconciliations d1)) (reconciliation_rows t d d1)"
  have "length (reconciliation_rows t d d1) \<le> 1"
    using reconciliation_rows_once [of d1 t d] assms(3,4) same ok by simp
  then have "length ?new \<le> 1" by (rule le_trans [OF length_filter_le])
  moreover have "length xs \<le> 1 \<Longrightarrow> distinct (map rc_task_id xs)" for xs :: "reconciliation_row list" by (cases xs) simp_all
  ultimately have "distinct (map rc_task_id ?new)" by blast
  moreover have "rc_task_id ` set (db_reconciliations d1) \<inter> rc_task_id ` set ?new = {}"
    unfolding list_ex_iff by fastforce
  moreover have old: "distinct (map rc_task_id (db_reconciliations d1))" using assms(2) unfolding same(4) .
  ultimately have "distinct (map rc_task_id (db_reconciliations d1 @ ?new))"
    unfolding map_append distinct_append set_map by blast
  moreover have "db_reconciliations db' = db_reconciliations d1 \<or> db_reconciliations db' = db_reconciliations d1 @ ?new"
    using assms(1) unfolding insert_reconciliation_def s prod.case by (cases f) auto
  ultimately show ?thesis using old by (elim disjE) (simp_all only:)
qed

definition reconciled_once :: "db \<Rightarrow> bool" where
  "reconciled_once db \<longleftrightarrow> distinct (map rc_task_id (db_reconciliations db))
     \<and> distinct (map br_task_id (db_bound_runs db)) \<and> distinct (map bi_id (db_bindings db)) \<and> db_ok db"

lemma reconciled_frame:
  "reconciled_once db \<Longrightarrow> db_reconciliations db' = db_reconciliations db \<Longrightarrow> db_bound_runs db' = db_bound_runs db \<Longrightarrow>
     db_bindings db' = db_bindings db \<Longrightarrow> evolves db db' \<Longrightarrow> reconciled_once db'"
  by (simp add: reconciled_once_def evolves_def)

lemma reconciled_stmt: "stmt db = (f, db') \<Longrightarrow> reconciled_once db \<Longrightarrow> reconciled_once db'"
  using reconciled_frame [of db db'] stmt_same [of db f db'] evolves_same by blast

lemma reconciled_markFailed:
  "markFailedRecord t reason details db = (e, db') \<Longrightarrow> reconciled_once db \<Longrightarrow> reconciled_once db'"
proof (erule reconciled_frame)
  assume m: "markFailedRecord t reason details db = (e, db')"
  then show "evolves db db'" by (rule ev_markFailedRecord) simp
  obtain f d where s: "stmt db = (f, d)" by (cases "stmt db")
  have "db' = d \<or> (\<exists>rows. db' = d\<lparr>db_tasks := rows\<rparr>)"
    using m unfolding markFailedRecord_def transition_def update_tasks_def s prod.case
    by (cases f) (auto split: prod.splits)
  then show "db_reconciliations db' = db_reconciliations db" "db_bound_runs db' = db_bound_runs db"
    "db_bindings db' = db_bindings db" using stmt_same [OF s] by (auto simp del: stmt_tasks)
qed

lemma reconciled_rollback: "reconciled_once a \<Longrightarrow> reconciled_once (rollback a b)"
  by (erule reconciled_frame) (simp_all add: rollback_def evolves_same)

lemma reconciled_commit: "commit a db = (f, db') \<Longrightarrow> reconciled_once a \<Longrightarrow> reconciled_once db \<Longrightarrow> reconciled_once db'"
proof -
  assume c: "commit a db = (f, db')" and ab: "reconciled_once a" "reconciled_once db"
  have "db' = db\<lparr>db_faults := db_faults db'\<rparr> \<or> db' = rollback a (db\<lparr>db_faults := db_faults db'\<rparr>)"
    using c by (auto simp: commit_def rollback_def Let_def split: list.splits fault.splits)
  then show ?thesis
  proof
    assume e: "db' = db\<lparr>db_faults := db_faults db'\<rparr>"
    have "reconciled_once (db\<lparr>db_faults := x\<rparr>)" for x
      by (rule reconciled_frame [OF ab(2)]) (simp_all add: evolves_same)
    then show ?thesis using e by metis
  qed (use reconciled_rollback [OF ab(1)] in metis)
qed

lemma reconciled_insert: "insert_reconciliation t d db = (e, db') \<Longrightarrow> reconciled_once db \<Longrightarrow> reconciled_once db'"
proof -
  assume i: "insert_reconciliation t d db = (e, db')" and r: "reconciled_once db"
  obtain f d1 where s: "stmt db = (f, d1)" by (cases "stmt db")
  have "db' = d1 \<or> (\<exists>x. db' = d1\<lparr>db_reconciliations := x\<rparr>)"
    using i unfolding insert_reconciliation_def s prod.case by (cases f) auto
  then have "db_bound_runs db' = db_bound_runs db" "db_bindings db' = db_bindings db"
    using stmt_same [OF s] by (auto simp del: stmt_tasks)
  moreover have "db_ok db'" using ev_insert_reconciliation [OF i evolves_refl] r
    by (simp add: evolves_def reconciled_once_def)
  ultimately show ?thesis using insert_reconciliation_once [OF i] r unfolding reconciled_once_def by simp
qed

lemmas reconciled = reconciled_stmt reconciled_markFailed reconciled_commit reconciled_insert

lemma reconciled_ensure:
  "ensureTaskFailedRecord t reason details db = (e, db') \<Longrightarrow> reconciled_once db \<Longrightarrow> reconciled_once db'"
  unfolding ensureTaskFailedRecord_def
  by (clarsimp split: prod.split_asm if_split_asm; (erule reconciled | assumption)+)



section \<open>Tenants\<close>

lemma query_fst: "fst (query f db) = Inl ErrDriver \<or> (\<exists>d. db_tasks d = db_tasks db \<and> fst (query f db) = f d)"
proof -
  obtain b d where s: "stmt db = (b, d)" by (cases "stmt db")
  show ?thesis using stmt_same(7) [OF s] by (cases b) (auto simp: query_def s simp del: stmt_tasks)
qed

lemma one_row_scan:
  assumes "fst (query (\<lambda>d. one_row (map_option scanTaskRecord (find P (db_tasks d)))) db) = Inr r"
  shows "\<exists>x. x \<in> set (db_tasks db) \<and> P x \<and> r = scanTaskRecord x"
proof -
  have "one_row (map_option scanTaskRecord (find P (db_tasks db))) = Inr r"
    using assms query_fst [of "\<lambda>d. one_row (map_option scanTaskRecord (find P (db_tasks d)))" db] by auto
  then obtain x where "find P (db_tasks db) = Some x" "r = scanTaskRecord x"
    by (auto simp: one_row_def split: option.splits)
  then show ?thesis using find_Some_in by metis
qed

lemma scan_fields [simp]: "t_TenantID (scanTaskRecord x) = tr_tenant_id x" "t_TaskID (scanTaskRecord x) = tr_task_id x"
  "t_IdempotencyKey (scanTaskRecord x) = tr_idempotency_key x" "t_Status (scanTaskRecord x) = tr_status x"
  "t_CreatedAt (scanTaskRecord x) = tr_created_at x" "t_TaskDefinition (scanTaskRecord x) = tr_task_definition x"
  "t_RegisteredAgentID (scanTaskRecord x) = tr_registered_agent_id x" "t_RuntimeID (scanTaskRecord x) = tr_runtime_id x"
  by (simp_all add: scanTaskRecord_def Let_def)

lemma list_scan:
  assumes "fst (query (\<lambda>d. if l < 0 then Inl ErrDriver else Inr (map scanTaskRecord (take (nat l)
      (newest_first (filter P (db_tasks d)))))) db) = Inr rs"
  shows "(\<forall>r\<in>set rs. \<exists>x. P x \<and> r = scanTaskRecord x) \<and> length rs \<le> nat l \<and> sorted (rev (map t_CreatedAt rs))"
proof -
  let ?rows = "newest_first (filter P (db_tasks db))"
  have rs: "rs = map scanTaskRecord (take (nat l) ?rows)"
    using assms query_fst [of "\<lambda>d. if l < 0 then Inl ErrDriver else Inr (map scanTaskRecord (take (nat l)
      (newest_first (filter P (db_tasks d)))))" db] by (auto split: if_splits)
  have in_rows: "set ?rows = set (filter P (db_tasks db))" by (simp add: newest_first_def)
  have "sorted (rev (map tr_created_at ?rows))" by (simp add: newest_first_def rev_map)
  then have "sorted (rev (map tr_created_at (take (nat l) ?rows)))"
    unfolding take_map [symmetric] rev_take by (rule sorted_wrt_drop)
  then show ?thesis unfolding rs using in_rows by (auto dest!: in_set_takeD simp: o_def)
qed

lemma update_keeps_others:
  assumes "\<And>r. P r \<Longrightarrow> tr_tenant_id r = n \<and> tr_tenant_id (f r) = n"
  shows "filter (\<lambda>r. tr_tenant_id r \<noteq> n) (db_tasks (snd (update_tasks P f db))) = filter (\<lambda>r. tr_tenant_id r \<noteq> n) (db_tasks db)"
proof -
  obtain m d where "update_tasks P f db = (m, d)" by (cases "update_tasks P f db")
  then show ?thesis using update_tasks_result [of P f db m d] filter_guarded_map [of P "\<lambda>r. tr_tenant_id r \<noteq> n" f] assms
    by auto
qed

text \<open>C30: Tenants are isolated in the store. Every read that is given a tenant returns records of that
  tenant only: the one asked for by identifier or by key, or a list that is no longer than the limit
  and newest first. Every write that is given a tenant leaves the rows of all other tenants as they
  are.\<close>

theorem tenant_isolation:
  "(case fst (GetTask t n db) of Inl _ \<Rightarrow> True | Inr r \<Rightarrow> t_TenantID r = n \<and> t_TaskID r = t)
   \<and> (case fst (GetTaskByIdempotencyKey n k db) of Inl _ \<Rightarrow> True | Inr r \<Rightarrow> t_TenantID r = n \<and> t_IdempotencyKey r = k)
   \<and> (case fst (GetTasksByTenant n l db) of Inl _ \<Rightarrow> True
      | Inr rs \<Rightarrow> list_all (\<lambda>r. t_TenantID r = n) rs \<and> length rs \<le> nat l \<and> sorted (rev (map t_CreatedAt rs)))
   \<and> (case fst (GetTasksByTenantAndAgent n a l db) of Inl _ \<Rightarrow> True
      | Inr rs \<Rightarrow> list_all (\<lambda>r. t_TenantID r = n \<and> t_RegisteredAgentID r = Some a) rs \<and> length rs \<le> nat l)
   \<and> filter (\<lambda>r. tr_tenant_id r \<noteq> n) (db_tasks (snd (decide t n d db))) = filter (\<lambda>r. tr_tenant_id r \<noteq> n) (db_tasks db)
   \<and> filter (\<lambda>r. tr_tenant_id r \<noteq> n) (db_tasks (snd (StampExecutedTarget t n x db))) = filter (\<lambda>r. tr_tenant_id r \<noteq> n) (db_tasks db)
   \<and> filter (\<lambda>r. tr_tenant_id r \<noteq> n) (db_tasks (snd (PersistTaskProofVerification t n s db))) = filter (\<lambda>r. tr_tenant_id r \<noteq> n) (db_tasks db)
   \<and> filter (\<lambda>r. tr_tenant_id r \<noteq> n) (db_tasks (snd (UpdateTaskProofStateByExecutionID n i h1 h2 sg db)))
       = filter (\<lambda>r. tr_tenant_id r \<noteq> n) (db_tasks db)"
proof (intro conjI)
  show "filter (\<lambda>r. tr_tenant_id r \<noteq> n) (db_tasks (snd (decide t n d db))) = filter (\<lambda>r. tr_tenant_id r \<noteq> n) (db_tasks db)"
    unfolding decide_transition transition_def
    using update_keeps_others [of "awaiting t n" n "decided d (db_now db)" db]
    by (cases d) (auto simp: awaiting_def split: prod.splits)
  show "case fst (GetTask t n db) of Inl _ \<Rightarrow> True | Inr r \<Rightarrow> t_TenantID r = n \<and> t_TaskID r = t"
    unfolding GetTask_def by (auto dest!: one_row_scan split: sum.split)
  show "case fst (GetTaskByIdempotencyKey n k db) of Inl _ \<Rightarrow> True | Inr r \<Rightarrow> t_TenantID r = n \<and> t_IdempotencyKey r = k"
    unfolding GetTaskByIdempotencyKey_def by (auto dest!: one_row_scan split: sum.split)
  show "case fst (GetTasksByTenant n l db) of Inl _ \<Rightarrow> True
      | Inr rs \<Rightarrow> list_all (\<lambda>r. t_TenantID r = n) rs \<and> length rs \<le> nat l \<and> sorted (rev (map t_CreatedAt rs))"
    unfolding GetTasksByTenant_def list_all_iff by (split sum.split) (fastforce dest: list_scan)
  show "case fst (GetTasksByTenantAndAgent n a l db) of Inl _ \<Rightarrow> True
      | Inr rs \<Rightarrow> list_all (\<lambda>r. t_TenantID r = n \<and> t_RegisteredAgentID r = Some a) rs \<and> length rs \<le> nat l"
    unfolding GetTasksByTenantAndAgent_def list_all_iff by (split sum.split) (fastforce dest: list_scan)
  show "filter (\<lambda>r. tr_tenant_id r \<noteq> n) (db_tasks (snd (StampExecutedTarget t n x db))) = filter (\<lambda>r. tr_tenant_id r \<noteq> n) (db_tasks db)"
    unfolding StampExecutedTarget_def case_prod_beta snd_conv by (rule update_keeps_others) simp
  show "filter (\<lambda>r. tr_tenant_id r \<noteq> n) (db_tasks (snd (PersistTaskProofVerification t n s db))) = filter (\<lambda>r. tr_tenant_id r \<noteq> n) (db_tasks db)"
    unfolding PersistTaskProofVerification_def case_prod_beta snd_conv by (rule update_keeps_others) simp
  show "filter (\<lambda>r. tr_tenant_id r \<noteq> n) (db_tasks (snd (UpdateTaskProofStateByExecutionID n i h1 h2 sg db)))
       = filter (\<lambda>r. tr_tenant_id r \<noteq> n) (db_tasks db)"
    unfolding UpdateTaskProofStateByExecutionID_def Let_def case_prod_beta
    by (cases "i = []") (simp, simp only: if_False snd_conv, rule update_keeps_others, simp)
qed

end
