(* ===== verification/Input_Refs.thy ===== *)
theory Input_Refs
  imports Input_Protection Store_Properties
begin

text \<open>
  The store of encrypted inputs (\<^verbatim>\<open>coordinator/execution_input_refs.go\<close>): saving, loading, decrypting
  and revoking a reference, each with the audit row it writes, and what guards a decryption.
\<close>

section \<open>Operations\<close>

definition SaveExecutionInputRefAudit :: "ExecutionInputRefAuditEvent \<Rightarrow> db \<Rightarrow> store_error option \<times> db" where
  "SaveExecutionInputRefAudit event db = insertExecutionInputRefAudit event db"

definition SaveExecutionInputRef :: "ExecutionInputRef \<Rightarrow> db \<Rightarrow> store_error option \<times> db" where
  "SaveExecutionInputRef ref db = (if ir_ID ref = uuid_Nil then (None, db) else insertExecutionInputRef ref db)"

definition ref_in_scope :: "string \<Rightarrow> uuid \<Rightarrow> uuid \<Rightarrow> string \<Rightarrow> ExecutionInputRef \<Rightarrow> bool" where
  \<comment> \<open>the WHERE clause; the zero identifier is stored as NULL\<close>
  "ref_in_scope tenantID taskID refID purpose r \<longleftrightarrow> ir_ID r = refID \<and> ir_TenantID r = tenantID
     \<and> (ir_TaskID r = taskID \<and> taskID \<noteq> uuid_Nil \<or> ir_TaskID r = uuid_Nil) \<and> ir_Purpose r = purpose"

definition LoadExecutionInputRef :: "string \<Rightarrow> uuid \<Rightarrow> uuid \<Rightarrow> string \<Rightarrow> db \<Rightarrow> (input_error + ExecutionInputRef) \<times> db" where
  "LoadExecutionInputRef tenantID taskID refID purpose db =
     (case stmt db of (fault, db1) \<Rightarrow>
        (if fault then Inl (ErrInputStore ErrDriver)
         else (case find (ref_in_scope tenantID taskID refID purpose) (db_input_refs db1) of
             None \<Rightarrow> Inl ErrExecutionInputRefNotFound
           | Some ref \<Rightarrow>
               if ir_TaskID ref \<noteq> uuid_Nil \<and> ir_TaskID ref \<noteq> taskID then Inl ErrExecutionInputRefScope
               else if ir_RevokedAt ref \<noteq> None then Inl ErrExecutionInputRefRevoked
               else if (case ir_ExpiresAt ref of None \<Rightarrow> False | Some e \<Rightarrow> db_now db1 > e)
                 then Inl ErrExecutionInputRefExpired
               else Inr ref), db1))"

definition jsonValuesEqual :: "input_env \<Rightarrow> raw \<Rightarrow> raw \<Rightarrow> bool" where
  "jsonValuesEqual ie a b = (case (raw_value a, raw_value b) of
       (Some x, Some y) \<Rightarrow> sorted_json (any_value (in_float ie) x) = sorted_json (any_value (in_float ie) y)
     | _ \<Rightarrow> False)"

fun safeInputRefFailureCode :: "input_error \<Rightarrow> string" where
  "safeInputRefFailureCode ErrExecutionInputRefNotFound = ''not_found''"
| "safeInputRefFailureCode ErrExecutionInputRefRevoked = ''revoked''"
| "safeInputRefFailureCode ErrExecutionInputRefExpired = ''expired''"
| "safeInputRefFailureCode ErrExecutionInputRefScope = ''scope_mismatch''"
| "safeInputRefFailureCode ErrExecutionInputRefDecrypt = ''auth_failed''"
| "safeInputRefFailureCode ErrExecutionInputRefKeyVersionMissing = ''missing_key_version''"
| "safeInputRefFailureCode ErrExecutionInputRefKeyMissing = ''key_unavailable''"
| "safeInputRefFailureCode _ = ''internal_error''"

definition safeInputRefError :: "input_error \<Rightarrow> string" where
  "safeInputRefError err = ''encrypted input ref unavailable: '' @ safeInputRefFailureCode err"

definition MarkExecutionInputRefDecrypted :: "uuid \<Rightarrow> db \<Rightarrow> store_error option \<times> db" where
  "MarkExecutionInputRefDecrypted refID db =
     (if refID = uuid_Nil then (None, db)
      else insert_row (\<lambda>d. d\<lparr>db_input_refs := fst (sql_update (\<lambda>r. ir_ID r = refID)
             (\<lambda>r. r\<lparr>ir_LastDecryptedAt := Some (db_now d)\<rparr>) (db_input_refs d))\<rparr>) db)"

definition decrypt_event :: "string \<Rightarrow> uuid \<Rightarrow> uuid \<Rightarrow> string \<Rightarrow> string \<Rightarrow> string \<Rightarrow> string \<Rightarrow> bool \<Rightarrow> string \<Rightarrow>
    ExecutionInputRefAuditEvent" where
  "decrypt_event tenantID taskID refID purpose keyVersion eventType reason success failureCode =
     \<lparr>ia_TenantID = tenantID, ia_TaskID = taskID, ia_ActionID = None, ia_InputRefID = refID, ia_Purpose = purpose,
      ia_KeyVersion = keyVersion, ia_ActorType = ''system'', ia_EventType = eventType, ia_Reason = reason,
      ia_Success = success, ia_FailureCode = failureCode\<rparr>"

definition DecryptExecutionInputRef :: "input_env \<Rightarrow> string \<Rightarrow> uuid \<Rightarrow> string \<Rightarrow> uuid \<Rightarrow> string \<Rightarrow> db \<Rightarrow>
    (input_error + string) \<times> db" where
  "DecryptExecutionInputRef ie tenantID taskID reason refID purpose db =
     (let denied = (\<lambda>keyVersion code err d. (Inl err, snd (SaveExecutionInputRefAudit
            (decrypt_event tenantID taskID refID purpose keyVersion ''input_ref_decrypt_denied'' reason False code) d)))
      in case LoadExecutionInputRef tenantID taskID refID purpose db of
        (Inl err, db1) \<Rightarrow> denied [] (safeInputRefFailureCode err) err db1
      | (Inr ref, db1) \<Rightarrow>
          (case newExecutionInputKeyringFromEnv ie of
             Inl err \<Rightarrow> denied (ir_KeyVersion ref) ''key_unavailable'' err db1
           | Inr ring \<Rightarrow> (case keyring_forVersion ring (ir_KeyVersion ref) of
               Inl err \<Rightarrow> denied (ir_KeyVersion ref) ''missing_key_version'' err db1
             | Inr c \<Rightarrow>
                 let expectedAAD = executionInputAssociatedData ie tenantID taskID refID purpose (ir_KeyVersion ref) in
                 if \<not> jsonValuesEqual ie expectedAAD (ir_AAD ref)
                 then denied (ir_KeyVersion ref) ''aad_mismatch'' ErrExecutionInputRefScope db1
                 else (case cipher_decrypt ie c (ir_Ciphertext ref) (ir_Nonce ref) (raw_text expectedAAD) of
                     Inl err \<Rightarrow> denied (ir_KeyVersion ref) ''auth_failed'' err db1
                   | Inr plaintext \<Rightarrow>
                       if sha256InputBytes ie plaintext \<noteq> ir_DigestSHA256 ref
                          \<or> length plaintext \<noteq> ir_PlaintextBytes ref
                       then denied (ir_KeyVersion ref) ''digest_mismatch'' ErrExecutionInputRefDecrypt db1
                       else (case MarkExecutionInputRefDecrypted refID db1 of (_, db2) \<Rightarrow>
                         (Inr plaintext, snd (SaveExecutionInputRefAudit (decrypt_event tenantID taskID refID purpose
                            (ir_KeyVersion ref) ''input_ref_decrypted_for_recovery'' reason True []) db2)))))))"

definition RevokeExecutionInputRef :: "string \<Rightarrow> uuid \<Rightarrow> uuid \<Rightarrow> string \<Rightarrow> string \<Rightarrow> db \<Rightarrow> input_error option \<times> db" where
  "RevokeExecutionInputRef tenantID taskID refID purpose reason db =
     (if refID = uuid_Nil then (None, db)
      else let event = decrypt_event tenantID taskID refID purpose [] ''input_ref_revoked'' reason in
        (case stmt db of (fault, db1) \<Rightarrow>
          if fault then (Some (ErrInputStore ErrDriver), snd (SaveExecutionInputRefAudit (event False ''revoke_failed'') db1))
          else (case sql_update (ref_in_scope tenantID taskID refID purpose)
                  (\<lambda>r. r\<lparr>ir_RevokedAt := (case ir_RevokedAt r of None \<Rightarrow> Some (db_now db1) | Some t \<Rightarrow> Some t)\<rparr>)
                  (db_input_refs db1) of (rows, affected) \<Rightarrow>
              let db2 = db1\<lparr>db_input_refs := rows\<rparr> in
              if affected = 0 then (Some ErrExecutionInputRefNotFound,
                snd (SaveExecutionInputRefAudit (event False ''not_found'') db2))
              else (case SaveExecutionInputRefAudit (event True []) db2 of (e, db3) \<Rightarrow>
                (map_option ErrInputStore e, db3)))))"

lemmas input_ref_defs = SaveExecutionInputRefAudit_def insertExecutionInputRefAudit_def
  MarkExecutionInputRefDecrypted_def insert_row_def

section \<open>What these operations leave alone\<close>

lemma stmt_shape:
  assumes "stmt db = (f, db1)"
  obtains fs where "db1 = db\<lparr>db_faults := fs\<rparr>"
proof (cases "db_faults db")
  case Nil
  with assms have "db1 = db\<lparr>db_faults := []\<rparr>" by (simp add: stmt_def)
  then show ?thesis by (rule that)
qed (use assms in \<open>auto simp: stmt_def intro: that\<close>)

lemma audit_same: "SaveExecutionInputRefAudit e db = (r, db1) \<Longrightarrow>
    db_tasks db1 = db_tasks db \<and> db_input_refs db1 = db_input_refs db"
  by (auto simp: input_ref_defs Let_def split: prod.splits if_splits elim!: stmt_shape)

lemma ev_audit [evolve]: "SaveExecutionInputRefAudit e db = (r, db1) \<Longrightarrow> evolves d db \<Longrightarrow> evolves d db1"
  using audit_same ev_same by blast

lemma ev_snd_audit [evolve]: "evolves d db \<Longrightarrow> evolves d (snd (SaveExecutionInputRefAudit e db))"
  by (cases "SaveExecutionInputRefAudit e db") (auto intro: ev_audit)

lemma ev_LoadExecutionInputRef [evolve]:
  "LoadExecutionInputRef n t i p db = (r, db1) \<Longrightarrow> evolves d db \<Longrightarrow> evolves d db1"
  by (auto simp: LoadExecutionInputRef_def split: prod.splits intro: ev_stmt)

lemma ev_MarkDecrypted [evolve]:
  "MarkExecutionInputRefDecrypted i db = (r, db1) \<Longrightarrow> evolves d db \<Longrightarrow> evolves d db1"
  by (erule ev_same [rotated])
    (auto simp: MarkExecutionInputRefDecrypted_def insert_row_def split: prod.splits if_splits)

lemma ev_DecryptExecutionInputRef [evolve]:
  "DecryptExecutionInputRef ie n t why i p db = (r, db1) \<Longrightarrow> evolves d db \<Longrightarrow> evolves d db1"
  unfolding DecryptExecutionInputRef_def Let_def
  by (clarsimp split: prod.split_asm sum.split_asm if_split_asm; (rule ev_snd_audit | erule evolve | assumption)+)

lemma ev_RevokeExecutionInputRef [evolve]:
  assumes "RevokeExecutionInputRef n t i p why db = (r, db1)" and "evolves d db"
  shows "evolves d db1"
proof -
  have "db_tasks db1 = db_tasks db" using assms(1) unfolding RevokeExecutionInputRef_def Let_def
    by (auto split: prod.splits if_splits dest!: audit_same dest: stmt_same
        simp: snd_def)
  then show ?thesis using assms(2) ev_same by blast
qed

section \<open>Decryption\<close>

lemma Load_ok:
  assumes "LoadExecutionInputRef n t i p db = (Inr ref, db1)"
  shows "ref \<in> set (db_input_refs db) \<and> ref_in_scope n t i p ref \<and> ir_RevokedAt ref = None
    \<and> (case ir_ExpiresAt ref of None \<Rightarrow> True | Some e \<Rightarrow> db_now db \<le> e) \<and> db_input_refs db1 = db_input_refs db"
  using assms unfolding LoadExecutionInputRef_def
  by (auto split: prod.splits if_splits option.splits dest!: find_Some_in elim!: stmt_shape)

end
