(* ===== verification/Input_Recovery.thy ===== *)
theory Input_Recovery
  imports Input_Refs
begin

text \<open>
  What protection and rehydration do together: the inputs a submission replaced by encrypted
  references come back when the task is dispatched again, and where they do not.
\<close>

section \<open>Decoding and encoding untyped values\<close>

lemma last_wins_id: "distinct (map fst kvs) \<Longrightarrow> last_wins kvs = kvs"
  by (induction kvs rule: last_wins.induct) auto

lemma keys_last_wins [simp]: "set (map fst (last_wins kvs)) = set (map fst kvs)"
  by (induction kvs rule: last_wins.induct) auto

lemma distinct_last_wins: "distinct (map fst (last_wins kvs))"
proof (induction kvs rule: last_wins.induct)
  case (2 k v kvs)
  then show ?case using keys_last_wins [of kvs] by auto
qed simp

lemma last_wins_map: "last_wins (map (\<lambda>(k, v). (k, f v)) kvs) = map (\<lambda>(k, v). (k, f v)) (last_wins kvs)"
  by (induction kvs rule: last_wins.induct) (auto simp: comp_def case_prod_beta)

lemma set_last_wins: "set (last_wins kvs) \<subseteq> set kvs"
  by (induction kvs rule: last_wins.induct) auto

lemma map_put_map: "map_put k (f v) (map (\<lambda>(k, v). (k, f v)) m) = map (\<lambda>(k, v). (k, f v)) (map_put k v m)"
  by (induction k v m rule: map_put.induct) auto

lemma fold_put_map:
  "fold (\<lambda>(k, v). map_put k v) (map (\<lambda>(k, v). (k, f v)) kvs) (map (\<lambda>(k, v). (k, f v)) m)
   = map (\<lambda>(k, v). (k, f v)) (fold (\<lambda>(k, v). map_put k v) kvs m)"
  by (induction kvs arbitrary: m) (auto simp: map_put_map)

lemma go_map_map: "go_map (map (\<lambda>(k, v). (k, f v)) kvs) = map (\<lambda>(k, v). (k, f v)) (go_map kvs)"
  using fold_put_map [of f kvs "[]"] by (simp add: go_map_def)

lemma set_map_put: "set (map_put k v m) \<subseteq> insert (k, v) (set m)"
  by (induction k v m rule: map_put.induct) auto

lemma set_go_map: "set (go_map kvs) \<subseteq> set kvs"
proof -
  have "set (fold (\<lambda>(k, v). map_put k v) kvs m) \<subseteq> set kvs \<union> set m" for m
    by (induction kvs arbitrary: m) (use set_map_put in fastforce)+
  then show ?thesis unfolding go_map_def by fastforce
qed

definition decoded :: "(jnum \<Rightarrow> jnum) \<Rightarrow> json \<Rightarrow> bool" where
  "decoded F v \<longleftrightarrow> any_value F v = v"

lemma decoded_any:
  assumes idem: "\<And>n. F (F n) = F n"
  shows "decoded F (any_value F j)"
  unfolding decoded_def
proof (induction j)
  case (JObj kvs)
  let ?f = "map (\<lambda>(k, v). (k, any_value F v))"
  have idem_f: "?f (?f (last_wins kvs)) = ?f (last_wins kvs)"
    using JObj.IH subsetD [OF set_last_wins] by (fastforce simp: snds.simps)
  have "last_wins (?f (last_wins (?f kvs))) = ?f (last_wins (last_wins (?f kvs)))" by (rule last_wins_map)
  also have "\<dots> = ?f (last_wins (?f kvs))" by (simp only: last_wins_id distinct_last_wins)
  also have "\<dots> = last_wins (?f kvs)" unfolding last_wins_map idem_f ..
  finally show ?case unfolding any_value.simps by (rule arg_cong)
qed (auto simp: idem)

lemma map_fixed: "map f xs = xs \<Longrightarrow> x \<in> set xs \<Longrightarrow> f x = x"
  by (induction xs) auto

lemma decoded_members: "decoded F (JObj kvs) \<Longrightarrow> (k, v) \<in> set kvs \<Longrightarrow> decoded F v"
proof -
  assume d: "decoded F (JObj kvs)" and kv: "(k, v) \<in> set kvs"
  have eq: "last_wins (map (\<lambda>(k, v). (k, any_value F v)) kvs) = kvs" using d by (simp add: decoded_def)
  then have dist: "distinct (map fst kvs)" by (metis distinct_last_wins)
  then have "map (\<lambda>(k, v). (k, any_value F v)) kvs = kvs"
    using eq by (simp add: last_wins_id comp_def case_prod_beta)
  then show ?thesis using kv dist unfolding decoded_def
    by (metis (mono_tags, lifting) case_prod_conv eq_key_imp_eq_value image_eqI list.set_map)
qed

lemma decoded_items: "decoded F (JArr xs) \<Longrightarrow> x \<in> set xs \<Longrightarrow> decoded F x"
  unfolding decoded_def any_value.simps json.inject by (rule map_fixed)

lemma any_sorted_obj: "any_value F (sorted_json (JObj kvs)) = JObj (go_map (map (\<lambda>(k, v). (k, any_value F (sorted_json v))) kvs))"
proof -
  let ?g = "map (\<lambda>(k, v). (k, any_value F (sorted_json v)))"
  have "map (\<lambda>(k, v). (k, any_value F v)) (go_map (map (\<lambda>(k, v). (k, sorted_json v)) kvs)) = ?g (go_map kvs)"
    unfolding go_map_map by (simp add: comp_def case_prod_beta)
  also have "\<dots> = go_map (?g kvs)" unfolding go_map_map ..
  finally show ?thesis by (simp add: last_wins_id sorted_keys_distinct)
qed

lemma any_sorted_decoded: "decoded F v \<Longrightarrow> any_value F (sorted_json v) = sorted_json v"
proof (induction v)
  case (JObj kvs)
  have "(k, v) \<in> set kvs \<Longrightarrow> any_value F (sorted_json v) = sorted_json v" for k v
    using JObj.IH [of "(k, v)" v] decoded_members [OF JObj.prems] by (auto simp: snds.simps)
  then have eq: "map (\<lambda>(k, v). (k, any_value F (sorted_json v))) kvs = map (\<lambda>(k, v). (k, sorted_json v)) kvs" by auto
  show ?case using any_sorted_obj [of F kvs] by (simp only: eq sorted_json.simps)
next
  case (JArr xs)
  then show ?case using decoded_items [OF JArr.prems] by auto
qed (auto simp: decoded_def)

section \<open>Filling in what references stand for\<close>

fun fill :: "input_env \<Rightarrow> (uuid \<Rightarrow> string \<Rightarrow> string option) \<Rightarrow> json \<Rightarrow> json option"
  and fill_members :: "input_env \<Rightarrow> (uuid \<Rightarrow> string \<Rightarrow> string option) \<Rightarrow> (string \<times> json) list \<Rightarrow> (string \<times> json) list option"
  and fill_items :: "input_env \<Rightarrow> (uuid \<Rightarrow> string \<Rightarrow> string option) \<Rightarrow> json list \<Rightarrow> json list option"
where
  "fill ie plain (JObj kvs) = (case inputRefMetadata ie kvs of
       Some (i, p) \<Rightarrow> map_option JStr (plain i p) | None \<Rightarrow> map_option JObj (fill_members ie plain kvs))"
| "fill ie plain (JArr xs) = map_option JArr (fill_items ie plain xs)"
| "fill ie plain v = Some v"
| "fill_members ie plain [] = Some []"
| "fill_members ie plain ((k, v) # kvs) = (case (fill ie plain v, fill_members ie plain kvs) of
     (Some w, Some ws) \<Rightarrow> Some ((k, w) # ws) | _ \<Rightarrow> None)"
| "fill_items ie plain [] = Some []"
| "fill_items ie plain (x # xs) = (case (fill ie plain x, fill_items ie plain xs) of
     (Some w, Some ws) \<Rightarrow> Some (w # ws) | _ \<Rightarrow> None)"

lemma fill_members_map:
  "(\<And>k v. (k, v) \<in> set kvs \<Longrightarrow> fill ie plain (f v) = Some (g v)) \<Longrightarrow>
     fill_members ie plain (map (\<lambda>(k, v). (k, f v)) kvs) = Some (map (\<lambda>(k, v). (k, g v)) kvs)"
proof (induction kvs)
  case (Cons p kvs)
  obtain k v where p: "p = (k, v)" by fastforce
  have "fill ie plain (f v) = Some (g v)" using Cons.prems [of k v] p by simp
  moreover have "fill_members ie plain (map (\<lambda>(k, v). (k, f v)) kvs) = Some (map (\<lambda>(k, v). (k, g v)) kvs)"
    by (rule Cons.IH) (metis Cons.prems list.set_intros(2))
  ultimately show ?case by (simp add: p)
qed simp

lemma fill_items_map:
  "(\<And>v. v \<in> set xs \<Longrightarrow> fill ie plain (f v) = Some (g v)) \<Longrightarrow> fill_items ie plain (map f xs) = Some (map g xs)"
  by (induction xs) auto

locale input_resolver =
  fixes ie :: input_env
    and resolver :: "uuid \<Rightarrow> string \<Rightarrow> 's \<Rightarrow> (input_error + string) \<times> 's"
    and ready :: "'s \<Rightarrow> bool"
    and plain :: "uuid \<Rightarrow> string \<Rightarrow> string option"
  assumes resolves: "ready s \<Longrightarrow> plain i p = Some x \<Longrightarrow> \<exists>s'. resolver i p s = (Inr x, s') \<and> ready s'"
begin

lemma members_fill:
  assumes "\<And>k v w s. (k, v) \<in> set kvs \<Longrightarrow> fill ie plain v = Some w \<Longrightarrow> ready s \<Longrightarrow>
      \<exists>s'. rehydrateInputRefValue ie resolver v s = (Inr w, s') \<and> ready s'"
    and "fill_members ie plain kvs = Some ws" and "ready s"
  shows "\<exists>s'. rehydrate_members ie resolver kvs s = (Inr ws, s') \<and> ready s'"
  using assms
proof (induction kvs arbitrary: ws s)
  case (Cons p kvs)
  obtain k v where p: "p = (k, v)" by fastforce
  with Cons.prems obtain w us where f: "fill ie plain v = Some w" "fill_members ie plain kvs = Some us" "ws = (k, w) # us"
    by (auto split: option.splits)
  obtain s1 where s1: "rehydrateInputRefValue ie resolver v s = (Inr w, s1)" "ready s1"
    using Cons.prems(1) [of k v, OF _ f(1) Cons.prems(3)] p by auto
  obtain s2 where "rehydrate_members ie resolver kvs s1 = (Inr us, s2)" "ready s2"
    using Cons.IH [OF _ f(2) s1(2)] Cons.prems(1) by (metis list.set_intros(2))
  then show ?case using f s1 p by simp
qed simp

lemma items_fill:
  assumes "\<And>v w s. v \<in> set xs \<Longrightarrow> fill ie plain v = Some w \<Longrightarrow> ready s \<Longrightarrow>
      \<exists>s'. rehydrateInputRefValue ie resolver v s = (Inr w, s') \<and> ready s'"
    and "fill_items ie plain xs = Some ws" and "ready s"
  shows "\<exists>s'. rehydrate_items ie resolver xs s = (Inr ws, s') \<and> ready s'"
  using assms
proof (induction xs arbitrary: ws s)
  case (Cons v xs)
  then obtain w us where f: "fill ie plain v = Some w" "fill_items ie plain xs = Some us" "ws = w # us"
    by (auto split: option.splits)
  obtain s1 where s1: "rehydrateInputRefValue ie resolver v s = (Inr w, s1)" "ready s1"
    using Cons.prems(1) [of v, OF _ f(1) Cons.prems(3)] by auto
  obtain s2 where "rehydrate_items ie resolver xs s1 = (Inr us, s2)" "ready s2"
    using Cons.IH [OF Cons.prems(1) f(2) s1(2)] by auto
  then show ?case using f s1 by simp
qed simp

lemma rehydrate_fill:
  "fill ie plain v = Some w \<Longrightarrow> ready s \<Longrightarrow> \<exists>s'. rehydrateInputRefValue ie resolver v s = (Inr w, s') \<and> ready s'"
proof (induction v arbitrary: w s)
  case (JObj kvs)
  show ?case
  proof (cases "inputRefMetadata ie kvs")
    case None
    with JObj.prems obtain ws where f: "fill_members ie plain kvs = Some ws" "w = JObj ws" by auto
    have "\<exists>s'. rehydrate_members ie resolver kvs s = (Inr ws, s') \<and> ready s'"
      by (rule members_fill [OF _ f(1) JObj.prems(2)]) (use JObj.IH in \<open>fastforce simp: snds.simps\<close>)
    then show ?thesis using None f by auto
  next
    case (Some m)
    obtain i p where m: "m = (i, p)" by fastforce
    with JObj.prems Some obtain x where "plain i p = Some x" "w = JStr x" by auto
    then show ?thesis using resolves [OF JObj.prems(2)] Some m by fastforce
  qed
next
  case (JArr xs)
  then obtain ws where f: "fill_items ie plain xs = Some ws" "w = JArr ws" by auto
  have "\<exists>s'. rehydrate_items ie resolver xs s = (Inr ws, s') \<and> ready s'"
    by (rule items_fill [OF _ f(1) JArr.prems(2)]) (use JArr.IH in blast)
  then show ?case using f by auto
qed auto

end

section \<open>Inputs that come back unchanged\<close>

definition sealed_member :: "string \<Rightarrow> json \<Rightarrow> bool" where
  \<comment> \<open>the members a protection replaces by a reference\<close>
  "sealed_member normalized child \<longleftrightarrow>
     normalized = ''url'' \<and> safeURLContainsSensitiveMaterial (valueToInputString child)
     \<or> inputKeySensitive normalized
     \<or> normalized = ''path'' \<and> looksLikePrivatePath (valueToInputString child)"

fun is_text :: "json \<Rightarrow> bool" where
  "is_text (JStr s) = True"
| "is_text _ = False"

fun no_refs :: "input_env \<Rightarrow> json \<Rightarrow> bool" where
  "no_refs ie (JObj kvs) \<longleftrightarrow> inputRefMetadata ie kvs = None \<and> list_all (\<lambda>(k, v). no_refs ie v) kvs"
| "no_refs ie (JArr xs) \<longleftrightarrow> list_all (no_refs ie) xs"
| "no_refs ie v \<longleftrightarrow> True"

fun intact :: "input_env \<Rightarrow> json \<Rightarrow> bool" where
  \<comment> \<open>no references of the submitter's own, no header objects, sensitive values are strings, and no other
     string holds an inline authorization\<close>
  "intact ie (JObj kvs) \<longleftrightarrow> inputRefMetadata ie kvs = None \<and> list_all (\<lambda>(k, v).
     let n = normalizeInputKey k in
     if inputKeySafe n then no_refs ie v
     else n \<noteq> ''headers'' \<and> (if sealed_member n v then is_text v else intact ie v)) kvs"
| "intact ie (JArr xs) \<longleftrightarrow> list_all (intact ie) xs"
| "intact ie (JStr s) \<longleftrightarrow> looksLikePrivatePath s \<or> length s > maxSafeInputStringLength \<or> redactInlineInputAuth s = s"
| "intact ie v \<longleftrightarrow> True"

definition intact_member :: "input_env \<Rightarrow> string \<Rightarrow> json \<Rightarrow> bool" where
  "intact_member ie k v \<longleftrightarrow> (let n = normalizeInputKey k in
     if inputKeySafe n then no_refs ie v
     else n \<noteq> ''headers'' \<and> (if sealed_member n v then is_text v else intact ie v))"

lemma intact_object: "intact ie (JObj kvs) \<longleftrightarrow> inputRefMetadata ie kvs = None \<and> (\<forall>(k, v) \<in> set kvs. intact_member ie k v)"
  by (simp add: list_all_iff intact_member_def)

lemma map_index_any_sorted:
  "map_index (go_map (map (\<lambda>(k, v). (k, f v)) kvs)) k = (case obj_get kvs k of None \<Rightarrow> JNull | Some v \<Rightarrow> f v)"
  unfolding map_index_def obj_get_go_map unfolding obj_get_def rev_map map_of_map by (simp split: option.split)

lemma sorted_json_idem: "sorted_json (sorted_json v) = sorted_json v"
proof (induction v)
  case (JObj kvs)
  have "map (\<lambda>(k, v). (k, sorted_json v)) (go_map (map (\<lambda>(k, v). (k, sorted_json v)) kvs))
      = go_map (map (\<lambda>(k, v). (k, sorted_json v)) kvs)"
    using JObj.IH unfolding go_map_map by (auto simp: snds.simps dest!: subsetD [OF set_go_map])
  then show ?case by (simp add: go_map_id)
qed auto

lemma value_string_any_sorted:
  "decoded F v \<Longrightarrow> valueToInputString (any_value F (sorted_json v)) = valueToInputString v"
  using sorted_json_idem [of v] unfolding any_sorted_decoded
  by (cases v; simp only: any_sorted_decoded sorted_json.simps valueToInputString.simps)

lemma sorted_json_bool: "sorted_json v = JBool b \<longleftrightarrow> v = JBool b"
  by (cases v) auto

lemma metadata_any_sorted:
  assumes "decoded F (JObj kvs)"
  shows "inputRefMetadata ie (go_map (map (\<lambda>(k, v). (k, any_value F (sorted_json v))) kvs)) = inputRefMetadata ie kvs"
proof -
  let ?m = "go_map (map (\<lambda>(k, v). (k, any_value F (sorted_json v))) kvs)"
  have d: "obj_get kvs k = Some v \<Longrightarrow> decoded F v" for k v by (meson assms decoded_members obj_get_in)
  have "valueToInputString (map_index ?m k) = valueToInputString (map_index kvs k)" for k
    unfolding map_index_any_sorted by (auto simp: map_index_def dest!: d split: option.split intro: value_string_any_sorted)
  moreover have "map_index ?m k = JBool True \<longleftrightarrow> map_index kvs k = JBool True" for k
    unfolding map_index_any_sorted
    by (cases "obj_get kvs k") (auto simp: map_index_def sorted_json_bool any_sorted_decoded d)
  ultimately show ?thesis unfolding inputRefMetadata_def by presburger
qed

lemma fill_no_refs: "no_refs ie v \<Longrightarrow> decoded F v \<Longrightarrow> fill ie plain (any_value F (sorted_json v)) = Some (sorted_json v)"
proof (induction v)
  case (JObj kvs)
  let ?f = "\<lambda>v. any_value F (sorted_json v)"
  have "fill ie plain (?f v) = Some (sorted_json v)" if "(k, v) \<in> set (go_map kvs)" for k v
    using JObj that decoded_members [OF JObj.prems(2)] subsetD [OF set_go_map that]
    by (auto simp: list_all_iff snds.simps)
  then have "fill_members ie plain (go_map (map (\<lambda>(k, v). (k, ?f v)) kvs))
      = Some (go_map (map (\<lambda>(k, v). (k, sorted_json v)) kvs))"
    unfolding go_map_map by (rule fill_members_map)
  moreover have "inputRefMetadata ie (go_map (map (\<lambda>(k, v). (k, ?f v)) kvs)) = None"
    using JObj.prems metadata_any_sorted by simp
  ultimately show ?case unfolding any_sorted_obj by simp
next
  case (JArr xs)
  have "fill_items ie plain (map (\<lambda>v. any_value F (sorted_json v)) xs) = Some (map sorted_json xs)"
    using JArr decoded_items [OF JArr.prems(2)] by (intro fill_items_map) (auto simp: list_all_iff)
  then show ?case by (simp add: comp_def)
qed (auto simp: decoded_def)

section \<open>Protection is undone by filling in\<close>

definition made_by :: "input_env \<Rightarrow> protection \<Rightarrow> ExecutionInputRef list \<Rightarrow> bool" where
  "made_by ie pt refs \<longleftrightarrow> (\<forall>r\<in>set refs. \<exists>v p rs. r = buildRef ie pt v p rs)"

definition grown :: "input_env \<Rightarrow> protection \<Rightarrow> ExecutionInputRef list \<Rightarrow> ExecutionInputRef list \<Rightarrow> bool" where
  \<comment> \<open>references are only added, each with the next identifier\<close>
  "grown ie pt refs refs1 \<longleftrightarrow> (\<exists>ext. refs1 = refs @ ext \<and> made_by ie pt ext
     \<and> map ir_ID ext = map (pt_ids pt) [length refs..<length refs1])"

lemma grown_refl [simp]: "grown ie pt refs refs"
  by (simp add: grown_def made_by_def)

lemma grown_trans: "grown ie pt a b \<Longrightarrow> grown ie pt b c \<Longrightarrow> grown ie pt a c"
proof -
  assume "grown ie pt a b" and "grown ie pt b c"
  then obtain e1 e2 where b: "b = a @ e1" "made_by ie pt e1" "map ir_ID e1 = map (pt_ids pt) [length a..<length b]"
    and c: "c = b @ e2" "made_by ie pt e2" "map ir_ID e2 = map (pt_ids pt) [length b..<length c]"
    unfolding grown_def by blast
  have "[length a..<length c] = [length a..<length b] @ [length b..<length c]"
    using b(1) c(1) upt_add_eq_append [of "length a" "length b" "length e2"] by (simp add: add.assoc)
  then show ?thesis using b c unfolding grown_def made_by_def by (intro exI [of _ "e1 @ e2"]) (auto simp: add.assoc)
qed

lemma seal_input_facts:
  "seal_input ie pt v p summary refs = (w, refs1) \<Longrightarrow> refs1 = refs @ [buildRef ie pt v p refs]"
  by (auto simp: seal_input_def Let_def)

lemma grown_seal: "seal_input ie pt v p summary refs = (w, refs1) \<Longrightarrow> grown ie pt refs refs1"
  using seal_input_facts [of ie pt v p summary refs w refs1]
  by (auto simp: grown_def made_by_def buildRef_def Let_def)

definition answers :: "input_env \<Rightarrow> protection \<Rightarrow> (uuid \<Rightarrow> string \<Rightarrow> string option) \<Rightarrow> ExecutionInputRef list \<Rightarrow> bool" where
  "answers ie pt plain refs \<longleftrightarrow> (\<forall>v p rs. buildRef ie pt v p rs \<in> set refs \<longrightarrow>
     plain (ir_ID (buildRef ie pt v p rs)) p = Some (valueToInputString v))"

lemma answers_prefix: "grown ie pt refs refs1 \<Longrightarrow> answers ie pt plain refs1 \<Longrightarrow> answers ie pt plain refs"
  by (auto simp: answers_def grown_def)

lemma fill_sealed:
  assumes "seal_input ie pt v p summary refs = (w, refs1)" and "answers ie pt plain refs1"
    and "\<And>u. in_uuid_parse ie (in_uuid_string ie u) = Some u" and "TrimSpace p = p" "p \<noteq> []"
  shows "fill ie plain (any_value F (sorted_json w)) = Some (JStr (valueToInputString v))"
proof -
  let ?r = "buildRef ie pt v p refs"
  obtain sm where w: "w = JObj (encryptedInputRefMetadata ie ?r sm)"
    using assms(1) by (auto simp: seal_input_def Let_def)
  let ?m = "go_map (map (\<lambda>(k, v). (k, any_value F (sorted_json v))) (encryptedInputRefMetadata ie ?r sm))"
  have "map_index ?m ''encrypted_input_ref'' = JBool True"
    "map_index ?m ''encrypted_input_ref_id'' = JStr (in_uuid_string ie (ir_ID ?r))" "map_index ?m ''purpose'' = JStr p"
    unfolding map_index_any_sorted
    by (simp_all add: encryptedInputRefMetadata_def obj_get_def buildRef_def Let_def)
  then have "inputRefMetadata ie ?m = Some (ir_ID ?r, p)"
    unfolding inputRefMetadata_def using assms(3-5) by (simp add: Let_def)
  moreover have "plain (ir_ID ?r) p = Some (valueToInputString v)"
    using assms(2) seal_input_facts [OF assms(1)] unfolding answers_def by simp
  ultimately show ?thesis unfolding w any_sorted_obj by simp
qed

lemma purposes_trimmed: "TrimSpace (purposeForSensitiveInputKey k) = purposeForSensitiveInputKey k"
    "purposeForSensitiveInputKey k \<noteq> []"
  unfolding purposeForSensitiveInputKey_def Let_def by (simp_all add: TrimSpace_def go_space_def)

lemma headers_extend: "protect_headers ie pt hs out refs = Inr (out1, refs1) \<Longrightarrow> grown ie pt refs refs1"
proof (induction ie pt hs out refs rule: protect_headers.induct)
  case (2 ie pt key child hs out refs)
  show ?case
  proof (cases "inputKeySensitive (normalizeInputKey key)")
    case True
    obtain v r where s: "seal_input ie pt child ''sensitive_header'' ''sensitive header'' refs = (v, r)" by fastforce
    with True "2.prems" obtain o2 where "append_redacted key (map_put key v out) = Some o2"
      "protect_headers ie pt hs o2 r = Inr (out1, refs1)" by (auto simp: Let_def split: option.splits)
    then show ?thesis using "2.IH"(1) [OF refl True s [symmetric]] grown_trans [OF grown_seal [OF s]] by auto
  next
    case False
    show ?thesis
    proof (cases "allowlistedHeader (normalizeInputKey key)")
      case True
      then show ?thesis using "2.prems" False "2.IH"(2) [OF refl False True] by (auto simp: Let_def)
    next
      case nal: False
      obtain v r where s: "seal_input ie pt child ''sensitive_header'' ''non-allowlisted header'' refs = (v, r)" by fastforce
      then show ?thesis using "2.prems" False nal "2.IH"(3) [OF refl False nal s [symmetric]] grown_trans [OF grown_seal [OF s]]
        by (auto simp: Let_def)
    qed
  qed
qed simp

lemma protectHeaders_extend: "protectHeaders ie pt v refs = Inr (w, refs1) \<Longrightarrow> grown ie pt refs refs1"
  by (cases "(ie, pt, v, refs)" rule: protectHeaders.cases)
    (auto split: sum.splits prod.splits dest: headers_extend grown_seal)

lemma protect_extend:
  "protect ie pt pk v refs = Inr (w, refs1) \<Longrightarrow> grown ie pt refs refs1"
  "protect_members ie pt kvs refs = Inr (ws, refs1) \<Longrightarrow> grown ie pt refs refs1"
  "protect_items ie pt pk xs refs = Inr (us, refs1) \<Longrightarrow> grown ie pt refs refs1"
proof (induction ie pt pk v refs and ie pt kvs refs and ie pt pk xs refs arbitrary: w refs1 and ws refs1 and us refs1
    rule: protect_protect_members_protect_items.induct)
  case (1 ie pt parentKey kvs refs)
  then show ?case by (auto split: option.splits prod.splits if_splits sum.splits)
next
  case (2 ie pt parentKey xs refs)
  then show ?case by (auto split: sum.splits)
next
  case (3 ie pt parentKey s refs)
  then show ?case by (auto split: if_splits dest: grown_seal)
next
  case (6 ie pt key child kvs refs)
  let ?n = "normalizeInputKey key"
  from "6.prems" obtain v r out where m: "(if inputKeySafe ?n then Inr (child, refs)
            else if ?n = ''headers'' then protectHeaders ie pt child refs
            else if ?n = ''url'' \<and> safeURLContainsSensitiveMaterial (valueToInputString child)
              then Inr (seal_input ie pt child ''signed_url'' ''signed URL'' refs)
            else if inputKeySensitive ?n
              then Inr (seal_input ie pt child (purposeForSensitiveInputKey ?n) ''sensitive input'' refs)
            else if ?n = ''path'' \<and> looksLikePrivatePath (valueToInputString child)
              then Inr (seal_input ie pt child ''private_path'' ''private path'' refs)
            else protect ie pt ?n child refs) = Inr (v, r)"
    and k: "protect_members ie pt kvs r = Inr (out, refs1)"
    by (auto simp: Let_def split: sum.splits)
  have "grown ie pt refs r" using m "6.IH"(1) [OF refl]
    by (auto split: if_splits dest: protectHeaders_extend grown_seal)
  moreover have "grown ie pt r refs1" using "6.IH"(2) [OF refl m refl k] .
  ultimately show ?case by (rule grown_trans)
next
  case (8 ie pt parentKey x xs refs)
  then show ?case by (fastforce split: sum.splits intro: grown_trans)
qed auto

lemma inputRefMetadata_cong:
  "(\<And>k. inputKeySafe (normalizeInputKey k) \<Longrightarrow> map_index kvs k = map_index kvs' k) \<Longrightarrow>
     inputRefMetadata ie kvs = inputRefMetadata ie kvs'"
proof -
  assume eq: "\<And>k. inputKeySafe (normalizeInputKey k) \<Longrightarrow> map_index kvs k = map_index kvs' k"
  have "list_all (\<lambda>k. inputKeySafe (normalizeInputKey k)) [''encrypted_input_ref'', ''encrypted_input_ref_id'', ''purpose'']"
    by code_simp
  then have "map_index kvs ''encrypted_input_ref'' = map_index kvs' ''encrypted_input_ref''"
    "map_index kvs ''encrypted_input_ref_id'' = map_index kvs' ''encrypted_input_ref_id''"
    "map_index kvs ''purpose'' = map_index kvs' ''purpose''"
    using eq unfolding list.pred_inject by blast+
  then show ?thesis unfolding inputRefMetadata_def by (simp only:)
qed

definition member_ok :: "input_env \<Rightarrow> (uuid \<Rightarrow> string \<Rightarrow> string option) \<Rightarrow> (jnum \<Rightarrow> jnum) \<Rightarrow> string \<Rightarrow> json \<Rightarrow> json \<Rightarrow> bool" where
  "member_ok ie plain F k v w \<longleftrightarrow> fill ie plain (any_value F (sorted_json w)) = Some (sorted_json v)
     \<and> (inputKeySafe (normalizeInputKey k) \<longrightarrow> w = v)"

lemma obj_get_triples:
  "(\<And>v w. (k, v, w) \<in> set ts \<Longrightarrow> w = v) \<Longrightarrow>
     obj_get (map (\<lambda>(k, v, w). (k, w)) ts) k = obj_get (map (\<lambda>(k, v, w). (k, v)) ts) k"
proof (induction ts rule: rev_induct)
  case (snoc t ts)
  obtain k' v w where "t = (k', v, w)" by (cases t)
  with snoc show ?case by (auto simp: obj_get_def)
qed (simp add: obj_get_def)

lemma fill_object:
  assumes ts: "kvs = map (\<lambda>(k, v, w). (k, v)) ts" "out = map (\<lambda>(k, v, w). (k, w)) ts"
    and ok: "\<And>k v w. (k, v, w) \<in> set ts \<Longrightarrow> member_ok ie plain F k v w"
    and "inputRefMetadata ie kvs = None" "decoded F (JObj kvs)"
  shows "fill ie plain (any_value F (sorted_json (JObj out))) = Some (sorted_json (JObj kvs))"
proof -
  let ?f = "\<lambda>v. any_value F (sorted_json v)" and ?t = "map (\<lambda>(k, v, w). (k, (v, w))) ts"
  have o: "map (\<lambda>(k, v). (k, ?f v)) out = map (\<lambda>(k, vw). (k, ?f (snd vw))) ?t"
    and k: "map (\<lambda>(k, v). (k, sorted_json v)) kvs = map (\<lambda>(k, vw). (k, sorted_json (fst vw))) ?t"
    unfolding ts by auto
  have "fill ie plain (?f (snd vw)) = Some (sorted_json (fst vw))" if "(k, vw) \<in> set (go_map ?t)" for k vw
    using ok subsetD [OF set_go_map that] by (auto simp: member_ok_def)
  then have "fill_members ie plain (go_map (map (\<lambda>(k, v). (k, ?f v)) out))
      = Some (go_map (map (\<lambda>(k, v). (k, sorted_json v)) kvs))"
    unfolding o k go_map_map by (rule fill_members_map)
  moreover have "inputRefMetadata ie (go_map (map (\<lambda>(k, v). (k, ?f v)) out))
      = inputRefMetadata ie (go_map (map (\<lambda>(k, v). (k, ?f v)) kvs))"
  proof (rule inputRefMetadata_cong)
    fix k assume "inputKeySafe (normalizeInputKey k)"
    then have "obj_get out k = obj_get kvs k"
      unfolding ts using ok by (intro obj_get_triples) (auto simp: member_ok_def)
    then show "map_index (go_map (map (\<lambda>(k, v). (k, ?f v)) out)) k = map_index (go_map (map (\<lambda>(k, v). (k, ?f v)) kvs)) k"
      unfolding map_index_any_sorted by simp
  qed
  ultimately show ?thesis using assms(4) metadata_any_sorted [OF assms(5)] unfolding any_sorted_obj by simp
qed

lemma fill_text: "fill ie plain (any_value F (sorted_json (JStr s))) = Some (sorted_json (JStr s))"
  by simp

lemma protect_member_fill:
  assumes step: "protect_members ie pt ((key, child) # kvs) refs = Inr (out, refs1)"
    and uuid: "\<And>u. in_uuid_parse ie (in_uuid_string ie u) = Some u"
    and i: "intact_member ie key child"
    and d: "decoded F child"
    and IH: "\<And>pk refs w refs1. protect ie pt pk child refs = Inr (w, refs1) \<Longrightarrow> intact ie child \<Longrightarrow>
        answers ie pt plain refs1 \<Longrightarrow> fill ie plain (any_value F (sorted_json w)) = Some (sorted_json child)"
    and a: "answers ie pt plain refs1"
  shows "\<exists>w ws refs'. out = (key, w) # ws \<and> protect_members ie pt kvs refs' = Inr (ws, refs1)
    \<and> member_ok ie plain F key child w"
proof -
  let ?n = "normalizeInputKey key"
  from step obtain w r ws where m: "(if inputKeySafe ?n then Inr (child, refs)
            else if ?n = ''headers'' then protectHeaders ie pt child refs
            else if ?n = ''url'' \<and> safeURLContainsSensitiveMaterial (valueToInputString child)
              then Inr (seal_input ie pt child ''signed_url'' ''signed URL'' refs)
            else if inputKeySensitive ?n
              then Inr (seal_input ie pt child (purposeForSensitiveInputKey ?n) ''sensitive input'' refs)
            else if ?n = ''path'' \<and> looksLikePrivatePath (valueToInputString child)
              then Inr (seal_input ie pt child ''private_path'' ''private path'' refs)
            else protect ie pt ?n child refs) = Inr (w, r)"
    and k: "protect_members ie pt kvs r = Inr (ws, refs1)" and out: "out = (key, w) # ws"
    by (auto simp: Let_def split: sum.splits)
  have ar: "answers ie pt plain r" using answers_prefix [OF protect_extend(2) [OF k] a] .
  have "member_ok ie plain F key child w"
  proof (cases "inputKeySafe ?n")
    case True
    then show ?thesis using m i fill_no_refs [OF _ d] by (simp add: member_ok_def intact_member_def Let_def)
  next
    case False
    show ?thesis
    proof (cases "sealed_member ?n child")
      case True
      then obtain s where s: "child = JStr s" using i False by (cases child) (auto simp: intact_member_def Let_def)
      have "\<exists>p sm. seal_input ie pt child p sm refs = (w, r) \<and> TrimSpace p = p \<and> p \<noteq> []"
        using m False True i purposes_trimmed by (auto simp: sealed_member_def intact_member_def Let_def split: if_splits)
          (auto intro!: exI simp: TrimSpace_def go_space_def)
      then have "fill ie plain (any_value F (sorted_json w)) = Some (JStr (valueToInputString child))"
        using fill_sealed [OF _ ar uuid] by blast
      then show ?thesis using False s by (simp add: member_ok_def)
    next
      case ns: False
      then have "protect ie pt ?n child refs = Inr (w, r)" "intact ie child"
        using m i False by (auto simp: sealed_member_def intact_member_def Let_def split: if_splits)
      then show ?thesis using IH ar False by (simp add: member_ok_def)
    qed
  qed
  then show ?thesis using out k by blast
qed

lemma protect_members_fill:
  assumes "protect_members ie pt kvs refs = Inr (out, refs1)"
    and "\<And>u. in_uuid_parse ie (in_uuid_string ie u) = Some u"
    and "\<And>k v. (k, v) \<in> set kvs \<Longrightarrow> intact_member ie k v \<and> decoded F v"
    and "\<And>k v pk refs w refs1. (k, v) \<in> set kvs \<Longrightarrow> protect ie pt pk v refs = Inr (w, refs1) \<Longrightarrow> intact ie v \<Longrightarrow>
        answers ie pt plain refs1 \<Longrightarrow> fill ie plain (any_value F (sorted_json w)) = Some (sorted_json v)"
    and "answers ie pt plain refs1"
  shows "\<exists>ts. kvs = map (\<lambda>(k, v, w). (k, v)) ts \<and> out = map (\<lambda>(k, v, w). (k, w)) ts
    \<and> (\<forall>(k, v, w) \<in> set ts. member_ok ie plain F k v w)"
  using assms
proof (induction kvs arbitrary: refs out)
  case (Cons p kvs)
  obtain key child where p: "p = (key, child)" by fastforce
  have i: "intact_member ie key child" "decoded F child" using Cons.prems(3) [of key child] p by simp_all
  have "\<exists>w ws r. out = (key, w) # ws \<and> protect_members ie pt kvs r = Inr (ws, refs1) \<and> member_ok ie plain F key child w"
    by (rule protect_member_fill [OF Cons.prems(1) [unfolded p] Cons.prems(2) i _ Cons.prems(5)])
      (use Cons.prems(4) [of key child] p in auto)
  then obtain w ws r where o: "out = (key, w) # ws" and k: "protect_members ie pt kvs r = Inr (ws, refs1)"
    and ok: "member_ok ie plain F key child w" by blast
  have "\<exists>ts. kvs = map (\<lambda>(k, v, w). (k, v)) ts \<and> ws = map (\<lambda>(k, v, w). (k, w)) ts
      \<and> (\<forall>(k, v, w) \<in> set ts. member_ok ie plain F k v w)"
    by (rule Cons.IH [OF k Cons.prems(2) _ _ Cons.prems(5)]) (use Cons.prems(3,4) in \<open>metis list.set_intros(2)\<close>)+
  then obtain ts where "kvs = map (\<lambda>(k, v, w). (k, v)) ts" "ws = map (\<lambda>(k, v, w). (k, w)) ts"
    "\<forall>(k, v, w) \<in> set ts. member_ok ie plain F k v w" by blast
  then show ?case using o ok p by (intro exI [of _ "(key, child, w) # ts"]) auto
qed (auto intro!: exI [of _ "[]"])

lemma protect_items_fill:
  assumes "protect_items ie pt pk xs refs = Inr (out, refs1)"
    and "\<And>v refs w refs1. v \<in> set xs \<Longrightarrow> protect ie pt pk v refs = Inr (w, refs1) \<Longrightarrow>
        answers ie pt plain refs1 \<Longrightarrow> fill ie plain (any_value F (sorted_json w)) = Some (sorted_json v)"
    and "answers ie pt plain refs1"
  shows "fill_items ie plain (map (\<lambda>w. any_value F (sorted_json w)) out) = Some (map sorted_json xs)"
  using assms
proof (induction xs arbitrary: refs out)
  case (Cons x xs)
  then obtain w r ws where h: "protect ie pt pk x refs = Inr (w, r)" "protect_items ie pt pk xs r = Inr (ws, refs1)"
    "out = w # ws" by (auto split: sum.splits)
  have "answers ie pt plain r" using answers_prefix [OF protect_extend(3) [OF h(2)] Cons.prems(3)] .
  then have "fill ie plain (any_value F (sorted_json w)) = Some (sorted_json x)"
    using Cons.prems(2) [OF _ h(1)] by simp
  moreover have "fill_items ie plain (map (\<lambda>w. any_value F (sorted_json w)) ws) = Some (map sorted_json xs)"
    by (rule Cons.IH [OF h(2) _ Cons.prems(3)]) (metis Cons.prems(2) list.set_intros(2))
  ultimately show ?case by (simp add: h)
qed simp

lemma protect_fill:
  assumes "protect ie pt pk v refs = Inr (w, refs1)" and "intact ie v" and "decoded F v"
    and uuid: "\<And>u. in_uuid_parse ie (in_uuid_string ie u) = Some u" and "answers ie pt plain refs1"
  shows "fill ie plain (any_value F (sorted_json w)) = Some (sorted_json v)"
  using assms(1,2,3,5)
proof (induction v arbitrary: pk refs w refs1)
  case (JObj kvs)
  from JObj.prems(1,2) obtain out where out: "protect_members ie pt kvs refs = Inr (out, refs1)" "w = JObj out"
    by (auto split: sum.splits)
  have m: "(k, v) \<in> set kvs \<Longrightarrow> intact_member ie k v \<and> decoded F v" for k v
    using JObj.prems(2) decoded_members [OF JObj.prems(3)] unfolding intact_object by blast
  have ih: "(k, v) \<in> set kvs \<Longrightarrow> protect ie pt pk v refs = Inr (w, refs1) \<Longrightarrow> intact ie v \<Longrightarrow> answers ie pt plain refs1 \<Longrightarrow>
      fill ie plain (any_value F (sorted_json w)) = Some (sorted_json v)" for k v pk refs w refs1
    using JObj.IH [of "(k, v)" v pk refs w refs1] m by (auto simp: snds.simps)
  have "\<exists>ts. kvs = map (\<lambda>(k, v, w). (k, v)) ts \<and> out = map (\<lambda>(k, v, w). (k, w)) ts
      \<and> (\<forall>(k, v, w) \<in> set ts. member_ok ie plain F k v w)"
    by (rule protect_members_fill [OF out(1) uuid _ _ JObj.prems(4)]) (use m ih in blast)+
  then obtain ts where ts: "kvs = map (\<lambda>(k, v, w). (k, v)) ts" "out = map (\<lambda>(k, v, w). (k, w)) ts"
    "\<forall>(k, v, w) \<in> set ts. member_ok ie plain F k v w" by blast
  show ?case unfolding out(2) using ts JObj.prems(2,3) unfolding intact_object by (intro fill_object) auto
next
  case (JArr xs)
  then obtain out where out: "protect_items ie pt pk xs refs = Inr (out, refs1)" "w = JArr out"
    by (auto split: sum.splits)
  have "fill_items ie plain (map (\<lambda>w. any_value F (sorted_json w)) out) = Some (map sorted_json xs)"
    by (rule protect_items_fill [OF out(1) _ JArr.prems(4)])
      (use JArr.IH JArr.prems(2) decoded_items [OF JArr.prems(3)] in \<open>auto simp: list_all_iff\<close>)
  then show ?case by (simp add: out comp_def)
next
  case (JStr s)
  consider p sm where "seal_input ie pt (JStr s) p sm refs = (w, refs1)" "TrimSpace p = p" "p \<noteq> []"
    | "w = JStr (redactInlineInputAuth s)" "redactInlineInputAuth s = s"
    using JStr.prems(1,2) purposes_trimmed [of pk]
    by (auto split: if_splits) (auto simp: TrimSpace_def go_space_def)
  then show ?case by cases (use fill_sealed [OF _ JStr.prems(4) uuid] in auto)
qed (auto simp: decoded_def)

section \<open>The keyring\<close>

definition cipher_wf :: "string \<Rightarrow> executionInputCipher \<Rightarrow> bool" where
  "cipher_wf v c \<longleftrightarrow> ic_keyVersion c = v \<and> TrimSpace v = v \<and> v \<noteq> [] \<and> length (ic_key c) = 32"

lemma new_cipher_wf:
  "newExecutionInputCipherFromKeyBytes ie key v = Inr c \<Longrightarrow> cipher_wf (ic_keyVersion c) c \<and> (TrimSpace v \<noteq> [] \<longrightarrow> ic_keyVersion c = TrimSpace v)"
  by (auto simp: newExecutionInputCipherFromKeyBytes_def cipher_wf_def Let_def split: if_splits)
    (auto simp: TrimSpace_def go_space_def)

lemma keyring_entries_wf:
  "keyring_entries ie es cs = Inr cs' \<Longrightarrow> (\<And>v c. map_of cs v = Some c \<Longrightarrow> cipher_wf v c) \<Longrightarrow> map_of cs' v = Some c \<Longrightarrow> cipher_wf v c"
proof (induction ie es cs arbitrary: v c rule: keyring_entries.induct)
  case (2 ie e es cs)
  let ?v = "TrimSpace (fst (Cut (TrimSpace e) (CHR '':'')))"
  from "2.prems"(1) obtain key c1 where v: "?v \<noteq> []"
    and k: "decodeExecutionInputKeyringKey (TrimSpace (snd (Cut (TrimSpace e) (CHR '':'')))) = Inr key"
    and c1: "newExecutionInputCipherFromKeyBytes ie key ?v = Inr c1"
    and r: "keyring_entries ie es (map_put ?v c1 cs) = Inr cs'"
    and g: "TrimSpace e \<noteq> []" "CHR '':'' \<in> set (TrimSpace e)" "TrimSpace (snd (Cut (TrimSpace e) (CHR '':''))) \<noteq> []"
      "map_of cs ?v = None"
    by (auto simp: Let_def split: if_splits sum.splits)
  have w: "cipher_wf ?v c1" using new_cipher_wf [OF c1] v by auto
  have "map_of (map_put ?v c1 cs) u = Some d \<Longrightarrow> cipher_wf u d" for u d
    using w "2.prems"(2) by (auto split: if_splits)
  then show ?case using "2.IH" [OF refl refl refl _ _ _ k c1 r] g v "2.prems"(3) by auto
qed simp

lemma keyring_wf:
  assumes "newExecutionInputKeyringFromEnv ie = Inr ring"
  shows "(\<exists>c. map_of (kr_ciphers ring) (kr_activeKeyVersion ring) = Some c)
    \<and> (\<forall>v c. map_of (kr_ciphers ring) v = Some c \<longrightarrow> cipher_wf v c)"
proof -
  consider (ring) raw av where "parseExecutionInputKeyring ie raw av = Inr ring"
    | (legacy) raw v c where "newExecutionInputCipher ie raw v = Inr c"
        "ring = \<lparr>kr_activeKeyVersion = ic_keyVersion c, kr_ciphers = [(ic_keyVersion c, c)]\<rparr>"
    using assms unfolding newExecutionInputKeyringFromEnv_def buildExecutionInputKeyring_def Let_def
    by (auto split: if_splits sum.splits option.splits)
  then show ?thesis
  proof cases
    case ring
    then obtain cs es where cs: "keyring_entries ie es [] = Inr cs" and r: "kr_ciphers ring = cs"
      and a: "map_of cs (kr_activeKeyVersion ring) \<noteq> None"
      by (auto simp: parseExecutionInputKeyring_def Let_def split: if_splits sum.splits)
    have "map_of cs v = Some c \<Longrightarrow> cipher_wf v c" for v c by (rule keyring_entries_wf [OF cs]) simp_all
    then show ?thesis using a r by auto
  next
    case legacy
    then have "cipher_wf (ic_keyVersion c) c"
      using new_cipher_wf by (auto simp: newExecutionInputCipher_def split: sum.splits)
    then show ?thesis using legacy by simp
  qed
qed

text \<open>C34: a keyring that the configuration yields has a 32-byte key for its active version, and the active
  cipher is found again under the version recorded with what it encrypts. A version is answered with the key
  of exactly that version; one that is not configured is refused, never replaced by another.\<close>
theorem keyring_fails_closed:
  assumes "newExecutionInputKeyringFromEnv ie = Inr ring"
  shows "(\<exists>c. keyring_active ring = Inr c \<and> length (ic_key c) = 32 \<and> ic_keyVersion c = kr_activeKeyVersion ring
      \<and> keyring_forVersion ring (ic_keyVersion c) = Inr c)
    \<and> (case keyring_forVersion ring v of
         Inl e \<Rightarrow> e = ErrExecutionInputRefKeyVersionMissing \<and> map_of (kr_ciphers ring) (TrimSpace v) = None
       | Inr c \<Rightarrow> ic_keyVersion c = TrimSpace v \<and> length (ic_key c) = 32)"
proof
  obtain c where c: "map_of (kr_ciphers ring) (kr_activeKeyVersion ring) = Some c"
    and wf: "\<And>v c. map_of (kr_ciphers ring) v = Some c \<Longrightarrow> cipher_wf v c" using keyring_wf [OF assms] by blast
  show "\<exists>c. keyring_active ring = Inr c \<and> length (ic_key c) = 32 \<and> ic_keyVersion c = kr_activeKeyVersion ring
      \<and> keyring_forVersion ring (ic_keyVersion c) = Inr c"
    using c wf [OF c] by (simp add: keyring_active_def keyring_forVersion_def cipher_wf_def)
  have "map_of (kr_ciphers ring) [] = None" using wf by (cases "map_of (kr_ciphers ring) []") (auto simp: cipher_wf_def)
  then show "case keyring_forVersion ring v of
      Inl e \<Rightarrow> e = ErrExecutionInputRefKeyVersionMissing \<and> map_of (kr_ciphers ring) (TrimSpace v) = None
    | Inr c \<Rightarrow> ic_keyVersion c = TrimSpace v \<and> length (ic_key c) = 32"
    using wf unfolding keyring_forVersion_def Let_def by (auto simp: cipher_wf_def split: option.split)
qed

section \<open>The store as the resolver\<close>

text \<open>What the code relies on: AES-GCM opens what it sealed, an identifier is read back from its text, and
  printing a \<^verbatim>\<open>float64\<close> and reading it again changes nothing.\<close>

definition input_laws :: "input_env \<Rightarrow> bool" where
  "input_laws ie \<longleftrightarrow> (\<forall>key nonce plaintext aad. in_open ie key nonce (in_seal ie key nonce plaintext aad) aad = Some plaintext)
     \<and> (\<forall>u. in_uuid_parse ie (in_uuid_string ie u) = Some u) \<and> (\<forall>n. in_float ie (in_float ie n) = in_float ie n)"

definition ref_stored :: "ExecutionInputRef \<Rightarrow> db \<Rightarrow> bool" where
  "ref_stored r db \<longleftrightarrow> (\<exists>l. r\<lparr>ir_AAD := jsonb_column (ir_AAD r), ir_LastDecryptedAt := l\<rparr> \<in> set (db_input_refs db))"

definition refs_ready :: "input_env \<Rightarrow> protection \<Rightarrow> ExecutionInputRef list \<Rightarrow> db \<Rightarrow> bool" where
  "refs_ready ie pt refs db \<longleftrightarrow> input_laws ie \<and> made_by ie pt refs \<and> newExecutionInputCipherFromEnv ie = Inr (pt_cipher pt)
     \<and> db_faults db = [] \<and> distinct (map ir_ID (db_input_refs db)) \<and> (\<forall>r\<in>set refs. ref_stored r db)"

definition ref_plain :: "input_env \<Rightarrow> protection \<Rightarrow> ExecutionInputRef list \<Rightarrow> uuid \<Rightarrow> string \<Rightarrow> string option" where
  "ref_plain ie pt refs i p = (case find (\<lambda>r. ir_ID r = i \<and> ir_Purpose r = p) refs of None \<Rightarrow> None
     | Some r \<Rightarrow> in_open ie (ic_key (pt_cipher pt)) (ir_Nonce r) (ir_Ciphertext r) (raw_text (ir_AAD r)))"

lemma find_unique:
  assumes "distinct (map f xs)" "x \<in> set xs" "P x" "\<And>y. P y \<Longrightarrow> f y = f x"
  shows "find P xs = Some x"
proof (cases "find P xs")
  case None
  with assms show ?thesis by (auto simp: find_None_iff)
next
  case (Some y)
  then have "y \<in> set xs" "f y = f x" using find_Some_in [OF Some] assms(4) by auto
  then show ?thesis using Some assms(1,2) by (auto simp: distinct_map dest: inj_onD)
qed

lemma active_for_version:
  assumes "newExecutionInputCipherFromEnv ie = Inr c"
  obtains ring where "newExecutionInputKeyringFromEnv ie = Inr ring" "keyring_forVersion ring (ic_keyVersion c) = Inr c"
proof -
  obtain ring where r: "newExecutionInputKeyringFromEnv ie = Inr ring" "keyring_active ring = Inr c"
    using assms by (auto simp: newExecutionInputCipherFromEnv_def split: sum.splits)
  then have "map_of (kr_ciphers ring) (kr_activeKeyVersion ring) = Some c"
    by (auto simp: keyring_active_def split: option.splits)
  then have "keyring_forVersion ring (ic_keyVersion c) = Inr c"
    using keyring_wf [OF r(1)] by (auto simp: keyring_forVersion_def cipher_wf_def)
  then show ?thesis using r that by blast
qed

lemma mark_audit_ready:
  assumes "refs_ready ie pt refs db"
  shows "refs_ready ie pt refs (snd (SaveExecutionInputRefAudit e (snd (MarkExecutionInputRefDecrypted i db))))"
proof -
  let ?u = "\<lambda>r. if ir_ID r = i then r\<lparr>ir_LastDecryptedAt := Some (db_now db)\<rparr> else r"
  let ?db = "snd (SaveExecutionInputRefAudit e (snd (MarkExecutionInputRefDecrypted i db)))"
  have q: "db_faults db = []" using assms by (simp add: refs_ready_def)
  have f: "db_faults ?db = []" and s: "db_input_refs ?db = (if i = uuid_Nil then db_input_refs db else map ?u (db_input_refs db))"
    by (simp_all add: input_ref_defs Let_def sql_update_def q)
  have "map ir_ID (db_input_refs ?db) = map ir_ID (db_input_refs db)" unfolding s by simp
  moreover have "ref_stored r ?db" if st: "ref_stored r db" for r
  proof -
    from st obtain l where l: "r\<lparr>ir_AAD := jsonb_column (ir_AAD r), ir_LastDecryptedAt := l\<rparr> \<in> set (db_input_refs db)"
      unfolding ref_stored_def by blast
    have "?u (r\<lparr>ir_AAD := jsonb_column (ir_AAD r), ir_LastDecryptedAt := l\<rparr>)
        = r\<lparr>ir_AAD := jsonb_column (ir_AAD r), ir_LastDecryptedAt := (if ir_ID r = i then Some (db_now db) else l)\<rparr>" by simp
    then have "r\<lparr>ir_AAD := jsonb_column (ir_AAD r), ir_LastDecryptedAt := (if ir_ID r = i then Some (db_now db) else l)\<rparr>
        \<in> set (map ?u (db_input_refs db))" using imageI [OF l, of ?u] by (simp only: set_map)
    then show ?thesis using l unfolding ref_stored_def s by (cases "i = uuid_Nil") (simp_all only: if_True if_False refl, blast+)
  qed
  ultimately show ?thesis using assms f unfolding refs_ready_def by simp
qed

lemma decrypt_ready:
  assumes ready: "refs_ready ie pt refs db" and x: "ref_plain ie pt refs i p = Some x"
  shows "\<exists>db'. DecryptExecutionInputRef ie (pt_tenantID pt) (pt_taskID pt) why i p db = (Inr x, db') \<and> refs_ready ie pt refs db'"
proof -
  from x obtain r where r: "r \<in> set refs" "ir_ID r = i" "ir_Purpose r = p"
    and o: "in_open ie (ic_key (pt_cipher pt)) (ir_Nonce r) (ir_Ciphertext r) (raw_text (ir_AAD r)) = Some x"
    unfolding ref_plain_def by (auto split: option.splits dest: find_Some_in)
  obtain v rs where b: "r = buildRef ie pt v p rs"
    using ready r unfolding refs_ready_def made_by_def by (fastforce simp: buildRef_def Let_def)
  have laws: "in_open ie k n (in_seal ie k n pl a) a = Some pl" for k n pl a
    using ready by (simp add: refs_ready_def input_laws_def)
  have xv: "x = valueToInputString v" using o unfolding b by (simp add: buildRef_def Let_def cipher_encrypt_def laws)
  obtain l where l: "r\<lparr>ir_AAD := jsonb_column (ir_AAD r), ir_LastDecryptedAt := l\<rparr> \<in> set (db_input_refs db)" (is "?r \<in> _")
    using ready r unfolding refs_ready_def ref_stored_def by blast
  have "find (ref_in_scope (pt_tenantID pt) (pt_taskID pt) i p) (db_input_refs db) = Some ?r"
  proof (rule find_unique [where f = ir_ID, OF _ l])
    show "distinct (map ir_ID (db_input_refs db))" using ready by (simp add: refs_ready_def)
    show "ref_in_scope (pt_tenantID pt) (pt_taskID pt) i p ?r" using r
      by (auto simp: ref_in_scope_def b buildRef_def Let_def)
  qed (use r in \<open>simp add: ref_in_scope_def\<close>)
  then have load: "LoadExecutionInputRef (pt_tenantID pt) (pt_taskID pt) i p db = (Inr ?r, db)"
    using ready by (simp add: refs_ready_def LoadExecutionInputRef_def b buildRef_def Let_def)
  obtain ring where ring: "newExecutionInputKeyringFromEnv ie = Inr ring"
    "keyring_forVersion ring (ic_keyVersion (pt_cipher pt)) = Inr (pt_cipher pt)"
    using ready active_for_version unfolding refs_ready_def by blast
  have aad: "ir_AAD r = executionInputAssociatedData ie (pt_tenantID pt) (pt_taskID pt) i p (ic_keyVersion (pt_cipher pt))"
    and kv: "ir_KeyVersion ?r = ic_keyVersion (pt_cipher pt)"
    using r(2) unfolding b by (simp_all add: buildRef_def Let_def)
  have eq: "jsonValuesEqual ie (ir_AAD r) (ir_AAD ?r)"
    by (simp add: jsonValuesEqual_def aad executionInputAssociatedData_def)
  have dec: "cipher_decrypt ie (pt_cipher pt) (ir_Ciphertext ?r) (ir_Nonce ?r) (raw_text (ir_AAD r)) = Inr x"
    using o by (simp add: cipher_decrypt_def)
  have dig: "sha256InputBytes ie x = ir_DigestSHA256 ?r" "length x = ir_PlaintextBytes ?r"
    unfolding xv b by (simp_all add: buildRef_def Let_def)
  have "DecryptExecutionInputRef ie (pt_tenantID pt) (pt_taskID pt) why i p db =
      (Inr x, snd (SaveExecutionInputRefAudit (decrypt_event (pt_tenantID pt) (pt_taskID pt) i p
         (ic_keyVersion (pt_cipher pt)) ''input_ref_decrypted_for_recovery'' why True [])
         (snd (MarkExecutionInputRefDecrypted i db))))"
    unfolding DecryptExecutionInputRef_def Let_def load prod.case sum.case ring(1) kv ring(2) aad [symmetric] dec
    using eq dig by (simp split: prod.split)
  then show ?thesis using mark_audit_ready [OF ready] by blast
qed

interpretation store_resolver: input_resolver ie "DecryptExecutionInputRef ie (pt_tenantID pt) (pt_taskID pt) why"
    "refs_ready ie pt refs" "ref_plain ie pt refs" for ie pt refs why
  by unfold_locales (rule decrypt_ready)

lemma answers_ref_plain:
  assumes "input_laws ie" "distinct (map ir_ID refs)"
  shows "answers ie pt (ref_plain ie pt refs) refs"
  unfolding answers_def
proof (intro allI impI)
  fix v p rs assume b: "buildRef ie pt v p rs \<in> set refs"
  have "find (\<lambda>r. ir_ID r = ir_ID (buildRef ie pt v p rs) \<and> ir_Purpose r = p) refs = Some (buildRef ie pt v p rs)"
    by (rule find_unique [where f = ir_ID, OF assms(2) b]) (simp_all add: buildRef_def Let_def)
  then show "ref_plain ie pt refs (ir_ID (buildRef ie pt v p rs)) p = Some (valueToInputString v)"
    using assms(1) by (simp add: ref_plain_def buildRef_def Let_def cipher_encrypt_def input_laws_def)
qed

definition quiet_refs :: "db \<Rightarrow> db \<Rightarrow> bool" where
  "quiet_refs db db1 \<longleftrightarrow> db_faults db1 = [] \<and> db_input_refs db1 = db_input_refs db"

lemma insert_task_quiet: "db_faults db = [] \<Longrightarrow> insert_task t db = (r, db1) \<Longrightarrow> quiet_refs db db1"
  by (auto simp: insert_task_def quiet_refs_def split: if_splits)

lemma insertBoundActionRun_quiet: "db_faults db = [] \<Longrightarrow> insertBoundActionRun t db = (r, db1) \<Longrightarrow> quiet_refs db db1"
  by (auto simp: insertBoundActionRun_def quiet_refs_def split: if_splits option.splits)

lemma insert_refs_quiet:
  "db_faults db = [] \<Longrightarrow> insert_refs refs db = (r, db1) \<Longrightarrow> distinct (map ir_ID (db_input_refs db @ refs)) \<Longrightarrow>
     db_faults db1 = [] \<and> db_input_refs db1 = db_input_refs db
       @ map (\<lambda>r. r\<lparr>ir_AAD := jsonb_column (ir_AAD r), ir_LastDecryptedAt := None\<rparr>) refs"
proof (induction refs arbitrary: db)
  case (Cons ref refs)
  let ?s = "ref\<lparr>ir_AAD := jsonb_column (ir_AAD ref), ir_LastDecryptedAt := None\<rparr>"
  have "ir_ID ref \<notin> ir_ID ` set (db_input_refs db)" using Cons.prems(3) by auto
  then have "\<not> list_ex (\<lambda>r. ir_ID r = ir_ID ref) (db_input_refs db)" unfolding list_ex_iff by (metis imageI)
  then have "insertExecutionInputRef ref db = (None, db\<lparr>db_input_refs := db_input_refs db @ [?s]\<rparr>)"
    using Cons.prems(1) by (simp add: insertExecutionInputRef_def)
  moreover obtain au where "insertExecutionInputRefAudit (created_event ref) (db\<lparr>db_input_refs := db_input_refs db @ [?s]\<rparr>)
      = (None, db\<lparr>db_input_refs := db_input_refs db @ [?s], db_input_audit := au\<rparr>)"
    using Cons.prems(1) by (simp add: insertExecutionInputRefAudit_def Let_def)
  ultimately have "insert_refs refs (db\<lparr>db_input_refs := db_input_refs db @ [?s], db_input_audit := au\<rparr>) = (r, db1)"
    using Cons.prems(2) by simp
  from Cons.IH [OF _ this] Cons.prems(1,3) show ?case by simp
qed simp

lemma create_ready:
  assumes c: "CreateTaskWithExecutionInputRefs task refs db = (Inr True, db1)" and q: "db_faults db = []"
    and d: "distinct (map ir_ID (db_input_refs db @ refs))"
  shows "db_faults db1 = [] \<and> distinct (map ir_ID (db_input_refs db1)) \<and> (\<forall>r\<in>set refs. ref_stored r db1)"
proof -
  obtain m d2 where 2: "insert_task task db = (m, d2)" by fastforce
  obtain e3 d3 where 3: "insert_refs refs d2 = (e3, d3)" by fastforce
  obtain e4 d4 where 4: "insertBoundActionRun task d3 = (e4, d4)" by fastforce
  obtain e5 d5 where 5: "insertBoundActionRun task d2 = (e5, d5)" by fastforce
  have q2: "db_faults d2 = []" "db_input_refs d2 = db_input_refs db"
    using insert_task_quiet [OF q 2] by (simp_all add: quiet_refs_def)
  have q3: "db_faults d3 = []" "db_input_refs d3 = db_input_refs db
      @ map (\<lambda>r. r\<lparr>ir_AAD := jsonb_column (ir_AAD r), ir_LastDecryptedAt := None\<rparr>) refs"
    using insert_refs_quiet [OF q2(1) 3] q2(2) d by simp_all
  have q4: "db_faults d4 = []" "db_input_refs d4 = db_input_refs d3"
    using insertBoundActionRun_quiet [OF q3(1) 4] by (simp_all add: quiet_refs_def)
  have q5: "db_faults d5 = []" "db_input_refs d5 = db_input_refs db"
    using insertBoundActionRun_quiet [OF q2(1) 5] q2(2) by (simp_all add: quiet_refs_def)
  show ?thesis
  proof (cases "refs = []")
    case True
    then have "CreateTask task db = (Inr True, db1)" using c by (simp add: CreateTaskWithExecutionInputRefs_def)
    then have "db1 = d2 \<or> db1 = d5" unfolding CreateTask_def
      by (simp add: q 2 5 q2 q5 split: if_split_asm option.split_asm nat.split_asm)
    then show ?thesis using True d q2 q5 by auto
  next
    case False
    then have "db1 = d4" using c unfolding CreateTaskWithExecutionInputRefs_def
      by (simp add: q 2 3 4 q2 q3 q4 split: if_split_asm option.split_asm nat.split_asm)
    then show ?thesis using q3 q4 d by (auto simp: ref_stored_def comp_def)
  qed
qed

lemma json_text_nonempty: "json_text st j \<noteq> []"
proof -
  have "nat_dec n \<noteq> []" for n by (subst nat_dec.simps) simp
  then show ?thesis by (cases j) (auto simp: quote_json_def elim!: jnum_text.elims)
qed

lemma raw_text_nonempty: "raw_value r = Some j \<Longrightarrow> raw_text r \<noteq> []"
  by (cases r) (auto simp: json_text_nonempty)

text \<open>C32: what a submission protects, the store gives back: when a definition with its encrypted references
  has been stored, dispatching it again (on approval or on recovery) decrypts every reference and
  reassembles the submitted definition, provided its sensitive values are strings, it has no header
  object and no inline authorization elsewhere, and no statement fails.\<close>
theorem protected_inputs_recovered:
  assumes "input_laws ie" and "newExecutionInputCipherFromEnv ie = Inr c" and "inj_on ids {..<length refs}"
    and "raw_value raw = Some j" and "intact ie (any_value (in_float ie) j)"
    and "protectTaskDefinitionInputs ie ids nonces raw tenantID taskID = Inr (def, refs)"
    and "CreateTaskWithExecutionInputRefs task refs db = (Inr True, db1)"
    and "db_faults db = []" and "distinct (map ir_ID (db_input_refs db))"
    and "set (map ir_ID (db_input_refs db)) \<inter> ids ` {..<length refs} = {}"
  shows "fst (rehydrateTaskDefinitionInputRefs ie (DecryptExecutionInputRef ie tenantID taskID why) (jsonb_column def) db1)
    = Inr (marshal (sorted_json (any_value (in_float ie) j)))"
proof (cases "raw_text raw = []")
  case False
  let ?pt = "\<lparr>pt_tenantID = tenantID, pt_taskID = taskID, pt_cipher = c, pt_ids = ids, pt_nonces = nonces\<rparr>"
  let ?F = "in_float ie" and ?plain = "ref_plain ie ?pt refs"
  from assms(2,4,6) False obtain w where w: "protect ie ?pt [] (any_value ?F j) [] = Inr (w, refs)"
    and def: "def = marshal (sorted_json w)"
    by (auto simp: protectTaskDefinitionInputs_def Let_def split: sum.splits)
  have g: "made_by ie ?pt refs" "map ir_ID refs = map ids [0..<length refs]"
    using protect_extend(1) [OF w] by (auto simp: grown_def)
  have dist: "distinct (map ir_ID (db_input_refs db @ refs))"
    using assms(9,10) g(2) assms(3) by (auto simp: distinct_map atLeast0LessThan)
  have ready: "refs_ready ie ?pt refs db1"
    using create_ready [OF assms(7,8) dist] assms(1,2) g(1) by (simp add: refs_ready_def)
  have f: "fill ie ?plain (any_value ?F (sorted_json w)) = Some (sorted_json (any_value ?F j))"
  proof (rule protect_fill [OF w assms(5)])
    show "decoded ?F (any_value ?F j)" using assms(1) by (intro decoded_any) (simp add: input_laws_def)
    show "answers ie ?pt ?plain refs" using answers_ref_plain [OF assms(1)] dist by simp
  qed (use assms(1) in \<open>simp add: input_laws_def\<close>)
  obtain s where "rehydrateInputRefValue ie (DecryptExecutionInputRef ie tenantID taskID why) (any_value ?F (sorted_json w)) db1
      = (Inr (sorted_json (any_value ?F j)), s)"
    using store_resolver.rehydrate_fill [OF f ready, where why = why] by auto
  then show ?thesis
    by (simp add: rehydrateTaskDefinitionInputRefs_def def raw_text_nonempty [of _ "sorted_json w"] sorted_json_idem)
qed (use assms(4) raw_text_nonempty in blast)

definition sample_input_env :: input_env where
  "sample_input_env = \<lparr>in_H = (\<lambda>s. []), in_seal = (\<lambda>key nonce plaintext aad. bytes_of plaintext),
     in_open = (\<lambda>key nonce ciphertext aad. Some (string_of_bytes ciphertext)),
     in_uuid_string = (\<lambda>u. replicate (unat u) (CHR ''u'')), in_uuid_parse = (\<lambda>s. Some (word_of_nat (length s))),
     in_float = (\<lambda>n. n), in_KEYS = ''k1: AAAAAAAAAAAAAAAAAAAAAAAAAAAAAAAAAAAAAAAAAAA='',
     in_ACTIVE_KEY_VERSION = ''k1'', in_KEY = [], in_KEY_VERSION = []\<rparr>"

definition sample_inputs :: json where
  "sample_inputs = JObj [(''q'', JStr ''hi''), (''token'', JStr ''abc'')]"

definition sample_cipher :: executionInputCipher where
  "sample_cipher = projr (newExecutionInputCipherFromEnv sample_input_env)"

definition sample_protected :: "raw \<times> ExecutionInputRef list" where
  "sample_protected = projr (protectTaskDefinitionInputs sample_input_env (\<lambda>n. word_of_nat (Suc n)) (\<lambda>n. [])
     (marshal sample_inputs) ''acme'' 5)"

definition sample_created :: db where
  "sample_created = snd (CreateTaskWithExecutionInputRefs (sample_task (fst sample_protected)) (snd sample_protected) (sample_db []))"

lemma bytes_round_trip: "string_of_bytes (bytes_of s) = s"
proof -
  have "char_of (unat (of_char c :: byte)) = c" for c :: char
  proof -
    have w: "(of_char c :: byte) = word_of_nat (of_char c)" by (simp only: of_nat_of_char)
    have "(of_char c :: nat) < 256" by simp
    then show ?thesis by (simp only: w unat_word_of_small char_of_char)
  qed
  then show ?thesis by (simp add: string_of_bytes_def bytes_of_def comp_def)
qed

lemma sample_input_laws: "input_laws sample_input_env"
  by (simp add: input_laws_def sample_input_env_def bytes_round_trip)

lemma sample_keyring_ok:
  "newExecutionInputKeyringFromEnv sample_input_env = Inr (projr (newExecutionInputKeyringFromEnv sample_input_env))"
proof -
  have "\<not> isl (newExecutionInputKeyringFromEnv sample_input_env)" by code_simp
  then show ?thesis by simp
qed

lemma sample_cipher_ok: "newExecutionInputCipherFromEnv sample_input_env = Inr sample_cipher"
proof -
  obtain ring where r: "newExecutionInputKeyringFromEnv sample_input_env = Inr ring" using sample_keyring_ok by blast
  obtain c where "keyring_active ring = Inr c" using keyring_wf [OF r] by (auto simp: keyring_active_def)
  then show ?thesis using r by (simp add: sample_cipher_def newExecutionInputCipherFromEnv_def)
qed

lemma sample_run:
  \<comment> \<open>one evaluation of the protection, the insertion and the decryption\<close>
  "case protectTaskDefinitionInputs sample_input_env (\<lambda>n. word_of_nat (Suc n)) (\<lambda>n. []) (marshal sample_inputs) ''acme'' 5 of
     Inl e \<Rightarrow> False
   | Inr (def, refs) \<Rightarrow> length refs = 1 \<and> (case CreateTaskWithExecutionInputRefs (sample_task def) refs (sample_db []) of
       (r, db) \<Rightarrow> r = Inr True
         \<and> fst (DecryptExecutionInputRef sample_input_env ''acme'' 5 [] 1 ''sensitive_header'' db) = Inr ''abc'')"
  by code_simp

lemma sample_facts:
  "protectTaskDefinitionInputs sample_input_env (\<lambda>n. word_of_nat (Suc n)) (\<lambda>n. []) (marshal sample_inputs) ''acme'' 5
     = Inr sample_protected"
  "length (snd sample_protected) = 1"
  "fst (CreateTaskWithExecutionInputRefs (sample_task (fst sample_protected)) (snd sample_protected) (sample_db [])) = Inr True"
  "fst (DecryptExecutionInputRef sample_input_env ''acme'' 5 [] 1 ''sensitive_header'' sample_created) = Inr ''abc''"
  using sample_run by (auto simp: sample_protected_def sample_created_def split: sum.splits prod.splits)

lemma sample_intact: "intact sample_input_env (any_value (in_float sample_input_env) sample_inputs)"
  by code_simp

text \<open>C33: an input is decrypted only for the tenant, the task and the purpose its reference was made for,
  with the key of exactly the version the reference names, while it is neither revoked nor expired, and
  only when the ciphertext authenticates together with those names and the plaintext has the recorded
  digest and length.\<close>
theorem decrypt_guarded:
  assumes "DecryptExecutionInputRef ie n t why i p db = (Inr plaintext, db1)"
  shows "\<exists>ref ring c. ref \<in> set (db_input_refs db) \<and> ir_ID ref = i \<and> ir_TenantID ref = n \<and> ir_Purpose ref = p
    \<and> (ir_TaskID ref = t \<or> ir_TaskID ref = uuid_Nil) \<and> ir_RevokedAt ref = None
    \<and> (case ir_ExpiresAt ref of None \<Rightarrow> True | Some e \<Rightarrow> db_now db \<le> e)
    \<and> newExecutionInputKeyringFromEnv ie = Inr ring
    \<and> map_of (kr_ciphers ring) (TrimSpace (ir_KeyVersion ref)) = Some c
    \<and> in_open ie (ic_key c) (ir_Nonce ref) (ir_Ciphertext ref)
        (raw_text (executionInputAssociatedData ie n t i p (ir_KeyVersion ref))) = Some plaintext
    \<and> sha256InputBytes ie plaintext = ir_DigestSHA256 ref \<and> length plaintext = ir_PlaintextBytes ref"
proof -
  from assms obtain ref d ring c where l: "LoadExecutionInputRef n t i p db = (Inr ref, d)"
    and r: "newExecutionInputKeyringFromEnv ie = Inr ring" and c: "keyring_forVersion ring (ir_KeyVersion ref) = Inr c"
    and x: "cipher_decrypt ie c (ir_Ciphertext ref) (ir_Nonce ref)
        (raw_text (executionInputAssociatedData ie n t i p (ir_KeyVersion ref))) = Inr plaintext"
    and h: "sha256InputBytes ie plaintext = ir_DigestSHA256 ref" "length plaintext = ir_PlaintextBytes ref"
    unfolding DecryptExecutionInputRef_def Let_def by (auto split: prod.splits sum.splits if_splits)
  have "map_of (kr_ciphers ring) (TrimSpace (ir_KeyVersion ref)) = Some c"
    using c by (auto simp: keyring_forVersion_def Let_def split: if_splits option.splits)
  moreover have "in_open ie (ic_key c) (ir_Nonce ref) (ir_Ciphertext ref)
        (raw_text (executionInputAssociatedData ie n t i p (ir_KeyVersion ref))) = Some plaintext"
    using x by (auto simp: cipher_decrypt_def split: option.splits)
  ultimately show ?thesis using Load_ok [OF l] r h unfolding ref_in_scope_def by blast
qed

theorem decrypt_guarded_witness:
  "fst (DecryptExecutionInputRef sample_input_env ''acme'' 5 [] 1 ''sensitive_header'' sample_created) = Inr ''abc''
    \<and> (\<exists>ref \<in> set (db_input_refs sample_created). ir_ID ref = 1 \<and> ir_TenantID ref = ''acme''
      \<and> ir_RevokedAt ref = None \<and> length ''abc'' = ir_PlaintextBytes ref)"
  using decrypt_guarded [OF prod_eqI [of _ "(Inr ''abc'', snd (DecryptExecutionInputRef sample_input_env ''acme'' 5 []
      1 ''sensitive_header'' sample_created))"]] sample_facts(4) by fastforce

theorem keyring_fails_closed_witness:
  "\<exists>ring. newExecutionInputKeyringFromEnv sample_input_env = Inr ring \<and> (\<exists>c. keyring_active ring = Inr c \<and> length (ic_key c) = 32)"
  using keyring_fails_closed [OF sample_keyring_ok] sample_keyring_ok by blast

theorem protected_inputs_recovered_witness:
  "fst (rehydrateTaskDefinitionInputRefs sample_input_env (DecryptExecutionInputRef sample_input_env ''acme'' 5 [])
       (jsonb_column (fst sample_protected)) sample_created)
     = Inr (marshal (sorted_json (any_value (in_float sample_input_env) sample_inputs)))"
proof (rule protected_inputs_recovered [where task = "sample_task (fst sample_protected)" and refs = "snd sample_protected"
      and db = "sample_db []" and raw = "marshal sample_inputs"])
  show "CreateTaskWithExecutionInputRefs (sample_task (fst sample_protected)) (snd sample_protected) (sample_db [])
      = (Inr True, sample_created)"
    using sample_facts(3) by (simp add: prod_eq_iff sample_created_def)
  show "protectTaskDefinitionInputs sample_input_env (\<lambda>n. word_of_nat (Suc n)) (\<lambda>n. []) (marshal sample_inputs) ''acme'' 5
      = Inr (fst sample_protected, snd sample_protected)" using sample_facts(1) by simp
qed (use sample_input_laws sample_cipher_ok sample_intact in
    \<open>simp_all add: sample_facts(2) sample_db_def marshal_def inj_on_def\<close>)

end
