(* ===== verification/Task_Definition.thy ===== *)
theory Task_Definition
  imports Action_Policy
begin

text \<open>
  Validation and normalisation of a submitted task definition
  (\<^verbatim>\<open>coordinator/task_coordinator.go\<close>, from \<^verbatim>\<open>normalizePublicTaskDefinition\<close> on). Error messages are
  values of \<open>def_error\<close>; \<open>InItem\<close> is the prefix with the position of a step or node that the
  callers put in front of an inner message.
\<close>

section \<open>Field checks\<close>

datatype def_error =
    NotAnObject string
  | FieldRequired string
  | FieldNotString string
  | FieldEmpty string
  | FieldNotArray string
  | FieldNotNumber string
  | FieldNotPositive string
  | FieldNotBool string
  | NoItems string
  | StreamingUnsupported
  | UnsupportedTaskType string
  | UnsupportedNodeKind string
  | UnsupportedAction string
  | InItem string nat def_error

text \<open>A validator returns the first error, \<open>None\<close> is nil.\<close>

definition andThen :: "def_error option \<Rightarrow> def_error option \<Rightarrow> def_error option" where
  "andThen a b = (case a of Some e \<Rightarrow> Some e | None \<Rightarrow> b)"

lemma andThen_None [simp]: "andThen a b = None \<longleftrightarrow> a = None \<and> b = None"
  by (simp add: andThen_def split: option.split)

definition readStringField :: "(string \<times> json) list \<Rightarrow> string \<Rightarrow> def_error + string" where
  "readStringField kvs field = (case obj_get kvs field of
       None \<Rightarrow> Inl (FieldRequired field)
     | Some j \<Rightarrow> (case unm_string j of None \<Rightarrow> Inl (FieldNotString field) | Some s \<Rightarrow> Inr s))"

definition requireStringField :: "(string \<times> json) list \<Rightarrow> string \<Rightarrow> def_error option" where
  "requireStringField kvs field = (case readStringField kvs field of
       Inl e \<Rightarrow> Some e
     | Inr value \<Rightarrow> if value = [] then Some (FieldEmpty field) else None)"

definition requireArrayField :: "(string \<times> json) list \<Rightarrow> string \<Rightarrow> def_error + json list" where
  "requireArrayField kvs field = (case obj_get kvs field of
       None \<Rightarrow> Inl (FieldRequired field)
     | Some j \<Rightarrow> (case unm_array j of None \<Rightarrow> Inl (FieldNotArray field) | Some xs \<Rightarrow> Inr xs))"

text \<open>\<^verbatim>\<open>json.Number\<close> takes a number, or a string that spells one; \<^verbatim>\<open>null\<close> leaves the empty string,
  which is no number. Numbers are within the range of a \<^verbatim>\<open>float64\<close>.\<close>

definition is_digit :: "char \<Rightarrow> bool" where
  "is_digit c \<longleftrightarrow> (let n = (of_char c :: nat) in 48 \<le> n \<and> n \<le> 57)"

definition exponent_ok :: "string \<Rightarrow> bool" where
  "exponent_ok s = (case s of [] \<Rightarrow> True
     | c # r \<Rightarrow> (c = CHR ''e'' \<or> c = CHR ''E'') \<and>
         (let ds = (case r of d # ds \<Rightarrow> if d = CHR ''+'' \<or> d = CHR ''-'' then ds else r | [] \<Rightarrow> r)
          in ds \<noteq> [] \<and> list_all is_digit ds))"

definition fraction_ok :: "string \<Rightarrow> bool" where
  "fraction_ok s = (case s of
       CHR ''.'' # r \<Rightarrow> takeWhile is_digit r \<noteq> [] \<and> exponent_ok (dropWhile is_digit r)
     | _ \<Rightarrow> exponent_ok s)"

definition is_number_literal :: "string \<Rightarrow> bool" where
  "is_number_literal s =
     (let t = (case s of CHR ''-'' # r \<Rightarrow> r | _ \<Rightarrow> s) in
      case t of [] \<Rightarrow> False
      | c # r \<Rightarrow> if c = CHR ''0'' then fraction_ok r
                else is_digit c \<and> fraction_ok (dropWhile is_digit r))"

fun unm_numeric :: "json \<Rightarrow> bool" where
  "unm_numeric (JNum n) = True"
| "unm_numeric (JStr s) = is_number_literal s"
| "unm_numeric _ = False"

definition requireNumericField :: "(string \<times> json) list \<Rightarrow> string \<Rightarrow> def_error option" where
  "requireNumericField kvs field = (case obj_get kvs field of
       None \<Rightarrow> Some (FieldRequired field)
     | Some j \<Rightarrow> if unm_numeric j then None else Some (FieldNotNumber field))"

definition validateOptionalPositiveUint32Field :: "(string \<times> json) list \<Rightarrow> string \<Rightarrow> def_error option" where
  "validateOptionalPositiveUint32Field kvs field = (case obj_get kvs field of
       None \<Rightarrow> None
     | Some j \<Rightarrow> (case unm_uint 64 j of
         None \<Rightarrow> Some (FieldNotPositive field)
       | Some v \<Rightarrow> if v = 0 \<or> v > 2 ^ 32 - 1 then Some (FieldNotPositive field) else None))"

definition validateOptionalBoolField :: "(string \<times> json) list \<Rightarrow> string \<Rightarrow> def_error option" where
  "validateOptionalBoolField kvs field = (case obj_get kvs field of
       None \<Rightarrow> None
     | Some j \<Rightarrow> if unm_bool j = None then Some (FieldNotBool field) else None)"

section \<open>Steps and nodes\<close>

definition validateRoboticsActionPayload :: "(string \<times> json) list \<Rightarrow> def_error option" where
  "validateRoboticsActionPayload step = (case readStringField step ''action'' of
       Inl e \<Rightarrow> Some e
     | Inr action \<Rightarrow>
         if action = ''navigate_to_pose'' then
           (case obj_get step ''goal'' of
              None \<Rightarrow> Some (FieldRequired ''goal'')
            | Some j \<Rightarrow> (case unm_object j of
                None \<Rightarrow> Some (NotAnObject ''goal'')
              | Some goal \<Rightarrow> andThen (requireNumericField goal ''x'') (requireNumericField goal ''y'')))
         else if action = ''publish_prompt'' then requireStringField step ''prompt''
         else if action = ''publish_velocity'' then
           andThen (requireNumericField step ''linear_x'') (requireNumericField step ''angular_z'')
         else if action = ''get_navigation_status'' \<or> action = ''cancel_navigation''
           \<or> action = ''publish_zero_velocity'' then None
         else Some (UnsupportedAction action))"

definition validateRoboticsStep :: "(string \<times> json) list \<Rightarrow> def_error option" where
  "validateRoboticsStep step =
     andThen (requireNumericField step ''step_index'') (validateRoboticsActionPayload step)"

definition validateExecutionGraphSlotFields :: "(string \<times> json) list \<Rightarrow> def_error option" where
  "validateExecutionGraphSlotFields node =
     andThen
       (case obj_get node ''write_slot'' of None \<Rightarrow> None
        | Some j \<Rightarrow> if unm_string j = None \<or> unm_string j = Some [] then Some (FieldEmpty ''write_slot'') else None)
       (case obj_get node ''read_slots'' of None \<Rightarrow> None
        | Some j \<Rightarrow> (case unm_strings j of None \<Rightarrow> Some (FieldNotArray ''read_slots'')
            | Some slots \<Rightarrow> if [] \<in> set slots then Some (FieldEmpty ''read_slots'') else None))"

definition validateNodeKind :: "(string \<times> json) list \<Rightarrow> string \<Rightarrow> def_error option" where
  "validateNodeKind node kind =
     (if kind = ''reason'' then
        andThen (requireStringField node ''model'')
          (case requireArrayField node ''messages'' of Inl e \<Rightarrow> Some e | Inr _ \<Rightarrow> None)
      else if kind = ''robotics'' then validateRoboticsActionPayload node
      else if kind = ''tool'' then requireStringField node ''tool_name''
      else if kind = ''behavior_tree'' then
        (if obj_get node ''tree'' = None then Some (FieldRequired ''tree'') else None)
      else if kind = ''human_approval'' then requireStringField node ''task''
      else if kind = ''memory_recall'' then requireStringField node ''query''
      else if kind = ''memory_store'' then requireStringField node ''content''
      else Some (UnsupportedNodeKind kind))"

definition validateExecutionGraphNode :: "(string \<times> json) list \<Rightarrow> def_error option" where
  "validateExecutionGraphNode node =
     andThen (requireStringField node ''node_id'')
       (andThen (validateExecutionGraphSlotFields node)
          (case readStringField node ''kind'' of Inl e \<Rightarrow> Some e | Inr kind \<Rightarrow> validateNodeKind node kind))"

text \<open>The loop over the steps or nodes of a definition.\<close>

fun validate_items :: "string \<Rightarrow> ((string \<times> json) list \<Rightarrow> def_error option) \<Rightarrow> nat \<Rightarrow> json list \<Rightarrow>
    def_error option" where
  "validate_items what check idx [] = None"
| "validate_items what check idx (x # xs) =
     (case unm_object x of
        None \<Rightarrow> Some (InItem what idx (NotAnObject []))
      | Some item \<Rightarrow> (case check item of
          Some e \<Rightarrow> Some (InItem what idx e)
        | None \<Rightarrow> validate_items what check (Suc idx) xs))"

definition validateExecutionGraph :: "(string \<times> json) list \<Rightarrow> def_error option" where
  "validateExecutionGraph kvs = (case obj_get kvs ''graph'' of
       None \<Rightarrow> Some (FieldRequired ''graph'')
     | Some g \<Rightarrow> (case unm_object g of
         None \<Rightarrow> Some (NotAnObject ''graph'')
       | Some graph \<Rightarrow> (case requireArrayField graph ''nodes'' of
           Inl e \<Rightarrow> Some e
         | Inr nodes \<Rightarrow> if nodes = [] then Some (NoItems ''nodes'')
             else validate_items ''nodes'' validateExecutionGraphNode 0 nodes)))"

definition validateAgentStep :: "(string \<times> json) list \<Rightarrow> def_error option" where
  "validateAgentStep step =
     andThen (requireNumericField step ''step_index'')
       (andThen (requireStringField step ''model'')
          (case requireArrayField step ''messages'' of Inl e \<Rightarrow> Some e | Inr _ \<Rightarrow> None))"

definition validateTaskDefinition :: "string \<Rightarrow> (string \<times> json) list \<Rightarrow> def_error option" where
  "validateTaskDefinition taskType def =
     (if taskType = ''single_inference'' then
        andThen (requireStringField def ''model'')
          (andThen (case requireArrayField def ''messages'' of Inl e \<Rightarrow> Some e | Inr _ \<Rightarrow> None)
             (case obj_get def ''stream'' of None \<Rightarrow> None
              | Some j \<Rightarrow> (case unm_bool j of None \<Rightarrow> Some (FieldNotBool ''stream'')
                  | Some stream \<Rightarrow> if stream then Some StreamingUnsupported else None)))
      else if taskType = ''agent_workflow'' then
        (case requireArrayField def ''steps'' of
           Inl e \<Rightarrow> Some e
         | Inr steps \<Rightarrow>
             andThen (validateOptionalPositiveUint32Field def ''checkpoint_after_steps'')
               (if steps = [] then Some (NoItems ''steps'')
                else validate_items ''steps'' validateAgentStep 0 steps))
      else if taskType = ''robotics_workflow'' then
        (case requireArrayField def ''steps'' of
           Inl e \<Rightarrow> Some e
         | Inr steps \<Rightarrow> if steps = [] then Some (NoItems ''steps'')
             else validate_items ''steps''
               (\<lambda>step. andThen (requireNumericField step ''step_index'') (validateRoboticsStep step)) 0 steps)
      else if taskType = ''behavior_tree'' then
        (if obj_get def ''tree'' = None then Some (FieldRequired ''tree'') else None)
      else if taskType = ''execution_graph'' then
        andThen (validateOptionalPositiveUint32Field def ''checkpoint_after_steps'')
          (andThen (validateOptionalBoolField def ''continue_after_checkpoint'') (validateExecutionGraph def))
      else Some (UnsupportedTaskType taskType))"

text \<open>The outer \<open>Inl\<close> is the error returned to the caller; an inner \<open>None\<close> stands for the panic of an
  assignment to a nil map, the decoding of \<^verbatim>\<open>null\<close>.\<close>

definition normalizePublicTaskDefinition :: "string \<Rightarrow> raw \<Rightarrow> def_error + raw option" where
  "normalizePublicTaskDefinition taskType rw =
     (case (case raw_value rw of None \<Rightarrow> None | Some j \<Rightarrow> unm_object j) of
        None \<Rightarrow> Inl (NotAnObject ''task_definition'')
      | Some def \<Rightarrow>
          (case validateTaskDefinition taskType def of
             Some e \<Rightarrow> Inl e
           | None \<Rightarrow> if raw_value rw = Some JNull then Inr None
               else Inr (Some (marshal (JObj (map_put ''type'' (JStr taskType) (go_map def)))))))"

section \<open>What an accepted definition looks like\<close>

lemma requireString_iff: "requireStringField kvs f = None \<longleftrightarrow> (\<exists>s. obj_get kvs f = Some (JStr s) \<and> s \<noteq> [])"
proof (cases "obj_get kvs f")
  case (Some j)
  then show ?thesis by (cases j) (auto simp: requireStringField_def readStringField_def)
qed (simp add: requireStringField_def readStringField_def)

lemma requireArray_iff:
  "requireArrayField kvs f = Inr xs \<longleftrightarrow>
     obj_get kvs f = Some (JArr xs) \<or> obj_get kvs f = Some JNull \<and> xs = []"
proof (cases "obj_get kvs f")
  case (Some j)
  then show ?thesis by (cases j) (auto simp: requireArrayField_def)
qed (simp add: requireArrayField_def)

lemma validate_items_iff:
  "validate_items what check idx xs = None \<longleftrightarrow>
     (\<forall>x\<in>set xs. \<exists>item. unm_object x = Some item \<and> check item = None)"
  by (induction what check idx xs rule: validate_items.induct) (auto split: option.split)

definition node_kinds :: "string set" where
  "node_kinds = {''reason'', ''robotics'', ''tool'', ''behavior_tree'', ''human_approval'',
     ''memory_recall'', ''memory_store''}"

definition well_formed_node :: "json \<Rightarrow> bool" where
  "well_formed_node x \<longleftrightarrow> (\<exists>n i k. x = JObj n \<and> obj_get n ''node_id'' = Some (JStr i) \<and> i \<noteq> []
     \<and> obj_get n ''kind'' = Some (JStr k) \<and> k \<in> node_kinds)"

lemma validateNode_well_formed:
  assumes "unm_object x = Some n" and "validateExecutionGraphNode n = None"
  shows "well_formed_node x"
proof -
  from assms(2) obtain i where i: "obj_get n ''node_id'' = Some (JStr i)" "i \<noteq> []"
    by (auto simp: validateExecutionGraphNode_def requireString_iff)
  from assms(2) obtain k where k: "readStringField n ''kind'' = Inr k" "validateNodeKind n k = None"
    by (auto simp: validateExecutionGraphNode_def split: sum.splits)
  have "k \<in> node_kinds" using k(2) by (auto simp: validateNodeKind_def node_kinds_def split: if_splits)
  moreover from this have "obj_get n ''kind'' = Some (JStr k)"
    using k(1) by (auto simp: readStringField_def node_kinds_def split: option.splits elim: unm_string.elims)
  moreover from i(1) assms(1) have "x = JObj n" by (cases x) (auto simp: obj_get_def)
  ultimately show ?thesis using i unfolding well_formed_node_def by blast
qed

lemma validateGraph_nodes:
  assumes "validateExecutionGraph kvs = None"
  obtains graph nodes where "obj_get kvs ''graph'' = Some (JObj graph)"
    "obj_get graph ''nodes'' = Some (JArr nodes)" "nodes \<noteq> []" "\<forall>x\<in>set nodes. well_formed_node x"
proof -
  from assms obtain g graph nodes where g: "obj_get kvs ''graph'' = Some g" "unm_object g = Some graph"
    and n: "requireArrayField graph ''nodes'' = Inr nodes" "nodes \<noteq> []"
    and v: "validate_items ''nodes'' validateExecutionGraphNode 0 nodes = None"
    by (auto simp: validateExecutionGraph_def split: option.splits sum.splits if_splits)
  from n have nodes: "obj_get graph ''nodes'' = Some (JArr nodes)" by (auto simp: requireArray_iff)
  from this g(2) have "g = JObj graph" by (cases g) (auto simp: obj_get_def)
  moreover have "\<forall>x\<in>set nodes. well_formed_node x"
    using v validateNode_well_formed unfolding validate_items_iff by blast
  ultimately show ?thesis using g nodes n(2) that by blast
qed

definition task_types :: "string set" where
  "task_types = {''single_inference'', ''agent_workflow'', ''robotics_workflow'', ''behavior_tree'',
     ''execution_graph''}"

lemma validate_task_type: "validateTaskDefinition tt def = None \<Longrightarrow> tt \<in> task_types \<and> def \<noteq> []"
  by (auto simp: validateTaskDefinition_def task_types_def requireString_iff obj_get_def
      requireArrayField_def validateExecutionGraph_def split: if_splits)

lemma normalize_definition_facts:
  assumes "normalizePublicTaskDefinition taskType rw = Inr r"
  shows "\<exists>kvs kvs'. raw_value rw = Some (JObj kvs) \<and> r = Some (marshal (JObj kvs'))
    \<and> validateTaskDefinition taskType kvs = None \<and> taskType \<in> task_types
    \<and> sorted_keys kvs' \<and> obj_get kvs' = (obj_get kvs)(''type'' \<mapsto> JStr taskType)"
proof -
  from assms obtain j kvs where j: "raw_value rw = Some j" "unm_object j = Some kvs"
    and v: "validateTaskDefinition taskType kvs = None"
    by (auto simp: normalizePublicTaskDefinition_def split: option.splits)
  from validate_task_type [OF v] have tt: "taskType \<in> task_types" "kvs \<noteq> []" by auto
  with j(2) have obj: "j = JObj kvs" by (cases j) auto
  have "r = Some (marshal (JObj (map_put ''type'' (JStr taskType) (go_map kvs))))"
    using assms j v obj by (simp add: normalizePublicTaskDefinition_def)
  moreover have "obj_get (map_put ''type'' (JStr taskType) (go_map kvs)) = (obj_get kvs)(''type'' \<mapsto> JStr taskType)"
    by (rule ext) simp
  moreover have "sorted_keys (map_put ''type'' (JStr taskType) (go_map kvs))"
    by (intro sorted_keys_map_put sorted_keys_go_map)
  ultimately show ?thesis using j(1) obj v tt(1) by blast
qed


definition sample_graph :: "json list \<Rightarrow> raw" where
  "sample_graph nodes = RawJSON Spaced (JObj [(''graph'', JObj [(''nodes'', JArr nodes)])])"

definition sample_node :: "(string \<times> json) list \<Rightarrow> json" where
  "sample_node extra = JObj ([(''node_id'', JStr ''n1''), (''kind'', JStr ''tool''), (''tool_name'', JStr ''search'')] @ extra)"

lemma sample_graph_accepted:
  "normalizePublicTaskDefinition ''execution_graph'' (sample_graph [sample_node []]) =
     Inr (Some (marshal (JObj [(''graph'', JObj [(''nodes'', JArr [sample_node []])]),
       (''type'', JStr ''execution_graph'')])))"
  by code_simp


section \<open>Validation and policy read the same graph\<close>

lemma le_ToLower: "(s :: string) \<le> ToLower s"
proof (induction s)
  case (Cons c s)
  have "c \<le> lower_char c" by (auto simp: less_eq_char_def lower_char_def Let_def)
  with Cons show ?case by (auto simp: ToLower_def)
qed (simp add: ToLower_def)

lemma find_append: "find P (xs @ ys) = (case find P xs of None \<Rightarrow> find P ys | Some x \<Rightarrow> Some x)"
  by (induction xs) auto

lemma struct_get_sorted:
  "sorted_keys m \<Longrightarrow> ToLower k = k \<Longrightarrow> map_of m k = Some v \<Longrightarrow> struct_get m k = Some v"
proof (induction m)
  case (Cons p ps)
  obtain a b where p: "p = (a, b)" by fastforce
  let ?f = "\<lambda>(k', v). EqualFold k' k"
  show ?case
  proof (cases "a = k")
    case True
    have "\<not> EqualFold k' k" if "(k', v') \<in> set ps" for k' v'
    proof -
      have "k < k'" using Cons.prems(1) p True that by (auto simp: image_iff)
      moreover have "k' \<le> ToLower k'" by (rule le_ToLower)
      ultimately show ?thesis using Cons.prems(2) by (auto simp: EqualFold_def)
    qed
    then have "find ?f (rev ps) = None" by (auto simp: find_None_iff)
    with Cons.prems p True show ?thesis
      by (simp add: struct_get_def find_append EqualFold_def)
  next
    case False
    then have "struct_get ps k = Some v" using Cons p by simp
    then show ?thesis by (auto simp: struct_get_def p find_append split: option.split)
  qed
qed simp

definition no_case_variant :: "(string \<times> json) list \<Rightarrow> string \<Rightarrow> bool" where
  "no_case_variant kvs k \<longleftrightarrow> list_all (\<lambda>(k', v). EqualFold k' k \<longrightarrow> k' = k) kvs"

lemma struct_get_exact: "no_case_variant kvs k \<Longrightarrow> struct_get kvs k = obj_get kvs k"
proof -
  assume nv: "no_case_variant kvs k"
  have "find (\<lambda>(k', v). EqualFold k' k) (rev kvs) = find (\<lambda>(k', v). k' = k) (rev kvs)"
    using nv by (intro find_cong) (auto simp: no_case_variant_def list_all_iff EqualFold_def)
  moreover have "map_option snd (find (\<lambda>(k', v). k' = k) ps) = map_of ps k" for ps :: "(string \<times> json) list"
    by (induction ps) auto
  ultimately show ?thesis by (simp add: struct_get_def obj_get_def)
qed




end
