(* ===== verification/Coordinator.thy ===== *)
theory Coordinator
  imports Input_Refs Task_Definition
begin

text \<open>
  The task coordinator (\<^verbatim>\<open>coordinator/task_coordinator.go\<close>, \<^verbatim>\<open>coordinator/task_approval.go\<close>):
  submission, the callbacks of a runtime, the approval loop, and the recovery of the tasks of a runtime
  that has died. Every handler takes the database and gives its result, the dispatches it starts and the
  database afterwards. A dispatch is a goroutine that runs on its own, so a handler only hands it out.

  The environment \<open>coord_env\<close> holds the signing key and the input keys of the process, and the text of an
  error value, which ends up in failure details. The store of the coordinator is never nil.
\<close>

section \<open>Requests, errors and dispatches\<close>

record TaskSubmitRequest =
  sr_TaskID :: uuid
  sr_TenantID :: string
  sr_TaskType :: string
  sr_TaskDefinition :: raw
  sr_AgentIdentity :: "AgentIdentity option"
  sr_RequiredCapabilities :: "string list"
  sr_CredentialRequests :: "CredentialRequest list"
  sr_IdempotencyKey :: string
  sr_DeadlineAt :: "gotime option"
  sr_PreferredRuntimeID :: string
  sr_RegisteredAgentID :: "uuid option"
  sr_RegisteredAgentName :: string
  sr_BoundAction :: "BoundActionRunIdentity option"

datatype runtime_error = RuntimeQueryFailed | NoRoutableRuntime

datatype coordinator_error =
    ErrInvalidTaskDefinition def_error
  | PanicNilDefinition
  | ErrExecutionInputProtectionUnavailable input_error
  | ErrCoordinatorStore store_error
  | ErrTaskIdempotencyConflict
  | ErrIdempotencyKeyInUse
  | ErrNoHealthyRuntime runtime_error
  | ErrTaskCapabilityDenied string
  | ErrPermissionEnvelope envelope_error
  | ErrTaskNotAwaitingApproval
  | ErrNoRuntimeForApproval
  | ErrExecutionInputRefUnavailable input_error

record dispatch =
  dp_task :: TaskRecord
  dp_checkpoint :: "CheckpointPayload option"

record 'key coord_env =
  ce_signing :: "'key signing_env"
  ce_input :: input_env
  ce_error_text :: "coordinator_error \<Rightarrow> string"

abbreviation ce_H :: "'key coord_env \<Rightarrow> string \<Rightarrow> byte list" where "ce_H ce \<equiv> se_H (ce_signing ce)"

definition no_details :: TaskFailureDetails where
  "no_details = \<lparr>fd_Source = [], fd_Operation = [], fd_StatusCode = 0, fd_RejectionType = [], fd_Message = [],
     fd_StepIndex = None, fd_Domain = [], fd_NodeID = [], fd_RequestedLastStep = None, fd_LocalLastStep = None,
     fd_RequestedCheckpointDigest = [], fd_LocalCheckpointDigest = [], fd_ResumeCheckpointProvided = None,
     fd_EffectState = [], fd_ReconciliationRequired = False, fd_TargetErrorCode = [], fd_TargetHost = [],
     fd_TargetResponseDigest = []\<rparr>"

definition overtureTaskFailureDetails :: "string \<Rightarrow> string \<Rightarrow> string \<Rightarrow> TaskFailureDetails option" where
  "overtureTaskFailureDetails operation rejectionType message = Some (no_details\<lparr>fd_Source := ''overture'',
     fd_Operation := operation, fd_RejectionType := rejectionType, fd_Message := message\<rparr>)"

definition mapBoolDecision :: "bool \<Rightarrow> string" where
  "mapBoolDecision allowed = (if allowed then ''allowed'' else ''denied'')"

section \<open>Choosing a runtime\<close>

record runtimeInfo =
  ri_RuntimeID :: string
  ri_Endpoint :: string

abbreviation heartbeatTimeout :: gotime where "heartbeatTimeout \<equiv> 90000000000"

definition BTRIM :: "string \<Rightarrow> string" where
  "BTRIM s = rev (dropWhile (\<lambda>c. c = CHR '' '') (rev (dropWhile (\<lambda>c. c = CHR '' '') s)))"

definition active_count :: "db \<Rightarrow> string \<Rightarrow> nat" where
  "active_count db runtimeID = length (filter (\<lambda>r. tr_runtime_id r = Some runtimeID
     \<and> tr_status r \<in> {TaskStatusDispatched, TaskStatusCheckpointed}) (db_tasks db))"

definition candidate_runtimes :: "string \<Rightarrow> string \<Rightarrow> db \<Rightarrow> runtime_row list" where
  "candidate_runtimes tenantID preferred db =
     take 10 (sort_key (\<lambda>ru. active_count db (ru_runtime_id ru))
       (filter (\<lambda>ru. ru_tenant_id ru = tenantID \<and> ru_is_healthy ru \<and> ru_status ru = ''active''
          \<and> (case ru_endpoint ru of None \<Rightarrow> False | Some e \<Rightarrow> BTRIM e \<noteq> [])
          \<and> ru_last_heartbeat ru > db_now db - heartbeatTimeout
          \<and> (preferred \<noteq> [] \<longrightarrow> ru_runtime_id ru = preferred)) (db_runtimes db)))"

fun first_routable :: "runtime_row list \<Rightarrow> runtimeInfo option" where
  "first_routable [] = None"
| "first_routable (ru # rus) = (case NormalizeHTTPRuntimeEndpoint (str_or_empty (ru_endpoint ru)) of
     None \<Rightarrow> first_routable rus
   | Some e \<Rightarrow> Some \<lparr>ri_RuntimeID = ru_runtime_id ru, ri_Endpoint = e\<rparr>)"

definition selectRuntime :: "string \<Rightarrow> string \<Rightarrow> db \<Rightarrow> (runtime_error + runtimeInfo) \<times> db" where
  "selectRuntime tenantID preferredRuntimeID db =
     (case stmt db of (fault, db1) \<Rightarrow>
        (if fault then Inl RuntimeQueryFailed
         else (case first_routable (candidate_runtimes tenantID (TrimSpace preferredRuntimeID) db1) of
             None \<Rightarrow> Inl NoRoutableRuntime | Some r \<Rightarrow> Inr r), db1))"

definition normalizeTaskRuntimeEndpoint :: "TaskRecord \<Rightarrow> string option" where
  "normalizeTaskRuntimeEndpoint task = (case t_RuntimeEndpoint task of
     None \<Rightarrow> None | Some e \<Rightarrow> NormalizeHTTPRuntimeEndpoint e)"

definition taskRuntimeID :: "TaskRecord \<Rightarrow> string" where
  "taskRuntimeID task = str_or_empty (t_RuntimeID task)"

section \<open>Submission\<close>

definition submission_record :: "TaskSubmitRequest \<Rightarrow> uuid \<Rightarrow> string \<Rightarrow> raw \<Rightarrow> taskGovernance \<Rightarrow> gotime \<Rightarrow> TaskRecord" where
  "submission_record req taskID key def governance now =
     \<lparr>t_TaskID = taskID, t_TenantID = sr_TenantID req, t_Status = TaskStatusPending, t_RuntimeID = None,
      t_RuntimeEndpoint = None, t_TaskDefinition = def, t_LastCheckpoint = None, t_ExecutionEnvelope = None,
      t_ExecutionReceipt = None, t_Proof = None, t_AgentIdentity = tg_AgentIdentity governance,
      t_RequiredCapabilities = tg_RequiredCapabilities governance,
      t_CredentialRequests = tg_CredentialRequests governance, t_PermissionEnvelope = None,
      t_IdempotencyKey = key, t_FailureReason = None, t_FailureDetails = None, t_DeadlineAt = sr_DeadlineAt req,
      t_DispatchedAt = None, t_CompletedAt = None, t_CanceledAt = None, t_CreatedAt = now,
      t_ExecutedTarget = None, t_FallbackReason = None, t_RegisteredAgentID = sr_RegisteredAgentID req,
      t_RegisteredAgentName = sr_RegisteredAgentName req, t_BoundAction = sr_BoundAction req\<rparr>"

definition prepare_submission :: "'key coord_env \<Rightarrow> (nat \<Rightarrow> byte list) \<Rightarrow> TaskSubmitRequest \<Rightarrow> db \<Rightarrow>
    (coordinator_error + raw \<times> taskGovernance \<times> TaskRecord \<times> ExecutionInputRef list) \<times> db" where
  \<comment> \<open>what both submissions do before they touch the store: the definition for the runtime, the governance,
     the record with the protected definition, and the encrypted inputs\<close>
  "prepare_submission ce nonces req db =
     (case normalizePublicTaskDefinition (sr_TaskType req) (sr_TaskDefinition req) of
        Inl e \<Rightarrow> (Inl (ErrInvalidTaskDefinition e), db)
      | Inr None \<Rightarrow> (Inl PanicNilDefinition, db)
      | Inr (Some normalized0) \<Rightarrow>
          let g0 = normalizeTaskGovernance (sr_TenantID req) (sr_AgentIdentity req) (sr_RequiredCapabilities req)
                (sr_CredentialRequests req);
              governance = g0\<lparr>tg_RequiredCapabilities := normalizeCapabilityList (tg_RequiredCapabilities g0
                @ deriveRequiredCapabilitiesFromTaskDefinition normalized0)\<rparr>
          in (case attachTaskGovernanceToDefinition normalized0 governance of
              None \<Rightarrow> (Inl PanicNilDefinition, db)
            | Some normalizedDefinition \<Rightarrow>
                (case uuid_New db of (fresh, db1) \<Rightarrow>
                   let taskID = (if sr_TaskID req \<noteq> uuid_Nil then sr_TaskID req else fresh);
                       key = (if sr_IdempotencyKey req = [] then in_uuid_string (ce_input ce) taskID
                              else sr_IdempotencyKey req)
                   in (case protectTaskDefinitionInputs (ce_input ce) (\<lambda>i. db_uuid db1 (db_uuid_count db1 + i)) nonces
                              normalizedDefinition (sr_TenantID req) taskID of
                         Inl e \<Rightarrow> (Inl (ErrExecutionInputProtectionUnavailable e), db1)
                       | Inr (def, refs) \<Rightarrow>
                           (Inr (normalizedDefinition, governance,
                              submission_record req taskID key def governance (db_now db1), refs),
                            db1\<lparr>db_uuid_count := db_uuid_count db1 + length refs\<rparr>)))))"

definition existing_task :: "string \<Rightarrow> string \<Rightarrow> db \<Rightarrow> (coordinator_error + TaskRecord) \<times> db" where
  \<comment> \<open>the answer to a submission whose idempotency key is taken\<close>
  "existing_task tenantID key db = (case GetTaskByIdempotencyKey tenantID key db of
       (Inr task, db1) \<Rightarrow> (Inr task, db1)
     | (Inl e, db1) \<Rightarrow> (Inl (if e = ErrNoRows then ErrIdempotencyKeyInUse else ErrCoordinatorStore e), db1))"

definition resubmission :: "TaskSubmitRequest \<Rightarrow> TaskRecord \<Rightarrow> db \<Rightarrow> (coordinator_error + TaskRecord) \<times> db" where
  \<comment> \<open>a contract-bound request must also be the same request\<close>
  "resubmission req task db = (case sr_BoundAction req of
       None \<Rightarrow> existing_task (sr_TenantID req) (t_IdempotencyKey task) db
     | Some bound \<Rightarrow>
         (case GetBoundActionRunByIdempotency (sr_TenantID req) (t_IdempotencyKey task) db of
            (Inl e, db1) \<Rightarrow> (Inl (if e = ErrNoRows then ErrTaskIdempotencyConflict else ErrCoordinatorStore e), db1)
          | (Inr existing, db1) \<Rightarrow>
              if ba_RequestFingerprint existing \<noteq> ba_RequestFingerprint bound then (Inl ErrTaskIdempotencyConflict, db1)
              else existing_task (sr_TenantID req) (t_IdempotencyKey task) db1))"

definition fail_submission :: "uuid \<Rightarrow> string \<Rightarrow> string \<Rightarrow> string \<Rightarrow> coordinator_error \<Rightarrow> db \<Rightarrow>
    (coordinator_error + TaskRecord) \<times> dispatch list \<times> db" where
  \<comment> \<open>the error of \<open>MarkFailedWithDetails\<close> is dropped\<close>
  "fail_submission taskID reason code message err db =
     (Inl err, [], snd (MarkFailedWithDetails taskID reason (overtureTaskFailureDetails ''submit'' code message) db))"

definition dispatch_submission :: "'key coord_env \<Rightarrow> raw \<Rightarrow> taskGovernance \<Rightarrow> TaskRecord \<Rightarrow> runtimeInfo \<Rightarrow> db \<Rightarrow>
    (coordinator_error + TaskRecord) \<times> dispatch list \<times> db" where
  "dispatch_submission ce normalizedDefinition governance task runtime db =
     (case MarkDispatched (t_TaskID task) (ri_RuntimeID runtime) (ri_Endpoint runtime) db of
        (Some e, db1) \<Rightarrow> (Inl (ErrCoordinatorStore e), [], db1)
      | (None, db1) \<Rightarrow>
          let task1 = task\<lparr>t_Status := TaskStatusDispatched, t_RuntimeID := Some (ri_RuntimeID runtime),
                t_RuntimeEndpoint := Some (ri_Endpoint runtime)\<rparr>
          in (case buildTaskPermissionEnvelope (ce_signing ce) (Some (db_policies db1)) (db_now db1) task1 governance of
              Inl e \<Rightarrow> fail_submission (t_TaskID task) ''task capability policy denied'' ''capability_policy_denied''
                (ce_error_text ce (ErrPermissionEnvelope e)) (ErrPermissionEnvelope e) db1
            | Inr envelope \<Rightarrow>
                let task2 = task1\<lparr>t_PermissionEnvelope := envelope\<rparr>
                in (case SaveTaskPermissionEnvelope (t_TaskID task) envelope db1 of
                    (Some e, db2) \<Rightarrow> fail_submission (t_TaskID task) ''task permission audit persistence failed''
                      ''permission_audit_persistence_failed'' (ce_error_text ce (ErrCoordinatorStore e)) (ErrCoordinatorStore e) db2
                  | (None, db2) \<Rightarrow> (Inr task2,
                      [\<lparr>dp_task = task2\<lparr>t_TaskDefinition := normalizedDefinition\<rparr>, dp_checkpoint = None\<rparr>], db2))))"

definition submit_input_of :: "TaskRecord \<Rightarrow> string \<Rightarrow> actionPolicyInput" where
  "submit_input_of task runtimeID = \<lparr>api_TenantID = t_TenantID task, api_TaskID = t_TaskID task,
     api_RuntimeID = runtimeID, api_TaskDefinition = t_TaskDefinition task, api_AgentIdentity = t_AgentIdentity task,
     api_RequiredCaps = t_RequiredCapabilities task, api_Checkpoint = None, api_RecoveryAttempt = False\<rparr>"

definition launch :: "'key coord_env \<Rightarrow> raw \<Rightarrow> taskGovernance \<Rightarrow> TaskRecord \<Rightarrow> string \<Rightarrow> db \<Rightarrow>
    (coordinator_error + TaskRecord) \<times> dispatch list \<times> db" where
  \<comment> \<open>what follows the insertion of a new task\<close>
  "launch ce normalizedDefinition governance task preferred db =
     (case selectRuntime (t_TenantID task) preferred db of
        (Inl e, db1) \<Rightarrow> fail_submission (t_TaskID task) ''no healthy runtime available'' ''no_runtime_available''
          ''no healthy runtime available'' (ErrNoHealthyRuntime e) db1
      | (Inr runtime, db1) \<Rightarrow>
          (case uuid_New db1 of (decisionID, db2) \<Rightarrow>
            let decision = evaluateActionPolicy (ce_H ce) decisionID (db_now db2) (submit_input_of task (ri_RuntimeID runtime))
            in (case SaveActionPolicyDecision decision db2 of
                (Some e, db3) \<Rightarrow> fail_submission (t_TaskID task) ''action policy decision persistence failed''
                  ''policy_decision_persistence_failed'' (ce_error_text ce (ErrCoordinatorStore e)) (ErrCoordinatorStore e) db3
              | (None, db3) \<Rightarrow>
                  (case SetLatestPolicyDecision (t_TaskID task) decision db3 of (_, db4) \<Rightarrow>
                  (case SaveExecutionBoundary (ce_H ce) decision (t_TaskDefinition task) (t_RequiredCapabilities task) db4 of (_, db5) \<Rightarrow>
                    if apd_Decision decision = ActionDecisionDenied then
                      fail_submission (t_TaskID task) (apd_PolicyReason decision) ''action_policy_denied''
                        (apd_PolicyReason decision) (ErrTaskCapabilityDenied (apd_PolicyReason decision)) db5
                    else if apd_Decision decision = ActionDecisionApprovalRequired then
                      (case SaveApprovalRequest decision db5 of (_, db6) \<Rightarrow>
                      (case MarkApprovalRequired (t_TaskID task) (apd_PolicyReason decision) db6 of
                         (Some e, db7) \<Rightarrow> (Inl (ErrCoordinatorStore e), [], db7)
                       | (None, db7) \<Rightarrow> (Inr (task\<lparr>t_Status := TaskStatusApprovalRequired,
                             t_RuntimeID := Some (ri_RuntimeID runtime)\<rparr>), [], db7)))
                    else dispatch_submission ce normalizedDefinition governance task runtime db5)))))"

definition Submit :: "'key coord_env \<Rightarrow> (nat \<Rightarrow> byte list) \<Rightarrow> TaskSubmitRequest \<Rightarrow> db \<Rightarrow>
    (coordinator_error + TaskRecord) \<times> dispatch list \<times> db" where
  "Submit ce nonces req db =
     (case prepare_submission ce nonces req db of
        (Inl e, db1) \<Rightarrow> (Inl e, [], db1)
      | (Inr (normalizedDefinition, governance, task, refs), db1) \<Rightarrow>
          (case CreateTaskWithExecutionInputRefs task refs db1 of
             (Inl e, db2) \<Rightarrow> (Inl (ErrCoordinatorStore e), [], db2)
           | (Inr inserted, db2) \<Rightarrow>
               if inserted then launch ce normalizedDefinition governance task (sr_PreferredRuntimeID req) db2
               else (case resubmission req task db2 of (r, db3) \<Rightarrow> (r, [], db3))))"

definition SubmitDemoSimulatedFailure :: "'key coord_env \<Rightarrow> (nat \<Rightarrow> byte list) \<Rightarrow> TaskSubmitRequest \<Rightarrow> string \<Rightarrow> db \<Rightarrow>
    (coordinator_error + TaskRecord) \<times> dispatch list \<times> db" where
  "SubmitDemoSimulatedFailure ce nonces req failureReason db =
     (case prepare_submission ce nonces req db of
        (Inl e, db1) \<Rightarrow> (Inl e, [], db1)
      | (Inr (normalizedDefinition, governance, task, refs), db1) \<Rightarrow>
          (case CreateTaskWithExecutionInputRefs task refs db1 of
             (Inl e, db2) \<Rightarrow> (Inl (ErrCoordinatorStore e), [], db2)
           | (Inr inserted, db2) \<Rightarrow>
               if inserted then
                 let reason = (if TrimSpace failureReason = [] then ''demo simulated failure'' else TrimSpace failureReason)
                 in (case MarkFailedWithDetails (t_TaskID task) reason
                            (overtureTaskFailureDetails ''submit'' ''demo_simulated_failure'' reason) db2 of
                       (Some e, db3) \<Rightarrow> (Inl (ErrCoordinatorStore e), [], db3)
                     | (None, db3) \<Rightarrow> (Inr (task\<lparr>t_Status := TaskStatusFailed, t_FailureReason := Some reason\<rparr>), [], db3))
               else (case existing_task (sr_TenantID req) (t_IdempotencyKey task) db2 of (r, db3) \<Rightarrow> (r, [], db3))))"

section \<open>Callbacks of a runtime\<close>

definition HandleCheckpoint :: "CheckpointPayload \<Rightarrow> db \<Rightarrow> store_error option \<times> db" where
  "HandleCheckpoint cp db = SaveCheckpoint cp db"

definition HandleComplete :: "uuid \<Rightarrow> db \<Rightarrow> store_error option \<times> db" where
  "HandleComplete taskID db = MarkCompleted taskID db"

definition HandleFailed :: "uuid \<Rightarrow> string \<Rightarrow> db \<Rightarrow> store_error option \<times> db" where
  "HandleFailed taskID reason db = MarkFailed taskID reason db"

definition HandleFailedWithDetails :: "uuid \<Rightarrow> string \<Rightarrow> TaskFailureDetails option \<Rightarrow> db \<Rightarrow> store_error option \<times> db" where
  "HandleFailedWithDetails taskID reason details db = MarkFailedWithDetails taskID reason details db"

definition HandleCancel :: "uuid \<Rightarrow> db \<Rightarrow> store_error option \<times> db" where
  "HandleCancel taskID db = MarkCanceled taskID db"

definition runtimeFailedRecoveryDecision :: "(string \<Rightarrow> byte list) \<Rightarrow> uuid \<Rightarrow> gotime \<Rightarrow> TaskRecord \<Rightarrow> string \<Rightarrow>
    ActionPolicyDecision \<times> string \<times> bool \<times> string \<times> bool" where
  "runtimeFailedRecoveryDecision H decisionID now task callbackRuntimeID =
     (let runtimeID = (if TrimSpace callbackRuntimeID = [] then str_or_empty (t_RuntimeID task)
                       else TrimSpace callbackRuntimeID);
          decision = evaluateActionPolicy H decisionID now (recovery_input task runtimeID (t_LastCheckpoint task))
      in if \<not> apd_Irreversible decision \<and> apd_ReplayClass decision \<noteq> ReplayClassNonRetryable
         then (decision, runtimeID, False, [], False)
         else (case RecoveryHandoffAllowed task (t_LastCheckpoint task) runtimeID decision of (allowed, reason) \<Rightarrow>
           (decision, runtimeID, allowed, reason, True)))"

definition recovery_event :: "TaskRecord \<Rightarrow> string \<Rightarrow> string \<Rightarrow> string \<Rightarrow> CheckpointPayload option \<Rightarrow> bool option \<Rightarrow> string \<Rightarrow> RecoveryEvent" where
  "recovery_event task eventType source target cp replayAllowed reason =
     \<lparr>re_EventID = uuid_Nil, re_TenantID = t_TenantID task, re_TaskID = t_TaskID task, re_EventType = eventType,
      re_SourceRuntimeID = source, re_TargetRuntimeID = target, re_CheckpointDigest = checkpointDigest cp,
      re_LastCommittedStep = checkpointLastCommittedStep cp, re_ReplayAllowed = replayAllowed, re_Reason = reason\<rparr>"

definition handoff_event :: "TaskRecord \<Rightarrow> string \<Rightarrow> string \<Rightarrow> CheckpointPayload option \<Rightarrow> ActionPolicyDecision \<Rightarrow> bool \<Rightarrow> string \<Rightarrow> RuntimeHandoffEvent" where
  "handoff_event task source target cp decision allowed reason =
     \<lparr>he_EventID = uuid_Nil, he_TenantID = t_TenantID task, he_TaskID = t_TaskID task, he_SourceRuntimeID = source,
      he_TargetRuntimeID = target, he_CheckpointDigest = checkpointDigest cp,
      he_CheckpointPortability = apd_CheckpointPortability decision, he_Decision = mapBoolDecision allowed,
      he_Reason = reason\<rparr>"

definition RecordRuntimeFailedRecoveryDecision :: "'key coord_env \<Rightarrow> TaskRecord \<Rightarrow> string \<Rightarrow> db \<Rightarrow> store_error option \<times> db" where
  "RecordRuntimeFailedRecoveryDecision ce task callbackRuntimeID db =
     (case uuid_New db of (decisionID, db1) \<Rightarrow>
     (case runtimeFailedRecoveryDecision (ce_H ce) decisionID (db_now db1) task callbackRuntimeID of
        (decision, runtimeID, allowed, reason, shouldRecord) \<Rightarrow>
          if \<not> shouldRecord then (None, db1)
          else (case SaveActionPolicyDecision decision db1 of
              (Some e, db2) \<Rightarrow> (Some e, db2)
            | (None, db2) \<Rightarrow>
                (case SetLatestPolicyDecision (t_TaskID task) decision db2 of (_, db3) \<Rightarrow>
                  if allowed then (None, db3)
                  else (case SaveRuntimeHandoffEvent (handoff_event task runtimeID runtimeID (t_LastCheckpoint task) decision False reason) db3 of (_, db4) \<Rightarrow>
                    SaveRecoveryEvent (recovery_event task ''automatic_replay_blocked'' runtimeID runtimeID (t_LastCheckpoint task)
                      (Some False) reason) db4)))))"

section \<open>The approval loop\<close>

definition TaskAwaitingApproval :: "TaskRecordStatus \<Rightarrow> bool" where
  "TaskAwaitingApproval status \<longleftrightarrow> status = TaskStatusApprovalRequired"

definition approval_error :: "store_error \<Rightarrow> coordinator_error" where
  \<comment> \<open>a lost compare-and-set is a task that no longer waits\<close>
  "approval_error e = (if e = ErrTaskTransitionRejected then ErrTaskNotAwaitingApproval else ErrCoordinatorStore e)"

definition ApproveTask :: "'key coord_env \<Rightarrow> uuid \<Rightarrow> string \<Rightarrow> string \<Rightarrow> db \<Rightarrow>
    (coordinator_error + TaskRecord) \<times> dispatch list \<times> db" where
  "ApproveTask ce taskID tenantID approvedBy db =
     (case GetTask taskID tenantID db of
        (Inl e, db1) \<Rightarrow> (Inl (ErrCoordinatorStore e), [], db1)
      | (Inr task, db1) \<Rightarrow>
          if \<not> TaskAwaitingApproval (t_Status task) then (Inl ErrTaskNotAwaitingApproval, [], db1)
          else (case selectRuntime tenantID [] db1 of
            (Inl _, db2) \<Rightarrow> (Inl ErrNoRuntimeForApproval, [], db2)
          | (Inr runtime, db2) \<Rightarrow>
              (case MarkApprovedDispatched taskID tenantID (ri_RuntimeID runtime) (ri_Endpoint runtime) approvedBy db2 of
                 (Some e, db3) \<Rightarrow> (Inl (approval_error e), [], db3)
               | (None, db3) \<Rightarrow>
                   (case ResolveApprovalRequest taskID tenantID ''approved'' approvedBy [] db3 of (_, db4) \<Rightarrow>
                     let task1 = task\<lparr>t_Status := TaskStatusDispatched, t_RuntimeID := Some (ri_RuntimeID runtime),
                           t_RuntimeEndpoint := Some (ri_Endpoint runtime), t_PermissionEnvelope := None\<rparr>
                     in (case rehydrateTaskDefinitionInputRefs (ce_input ce)
                               (DecryptExecutionInputRef (ce_input ce) (t_TenantID task1) (t_TaskID task1) ''approved action dispatch'')
                               (t_TaskDefinition task1) db4 of
                           (Inl e, db5) \<Rightarrow> (Inl (ErrExecutionInputRefUnavailable e), [],
                              snd (MarkFailedWithDetails taskID ''encrypted input unavailable for approved dispatch''
                                (overtureTaskFailureDetails ''approval'' ''encrypted_input_unavailable'' (safeInputRefError e)) db5))
                         | (Inr rehydrated, db5) \<Rightarrow> (Inr task1,
                              [\<lparr>dp_task = task1\<lparr>t_TaskDefinition := rehydrated\<rparr>, dp_checkpoint = None\<rparr>], db5))))))"

definition TaskFailureReasonApprovalRejected :: string where
  "TaskFailureReasonApprovalRejected = ''action run rejected by approver''"

definition RejectTask :: "uuid \<Rightarrow> string \<Rightarrow> string \<Rightarrow> string \<Rightarrow> db \<Rightarrow>
    (coordinator_error + TaskRecord) \<times> dispatch list \<times> db" where
  "RejectTask taskID tenantID rejectedBy reason db =
     (case GetTask taskID tenantID db of
        (Inl e, db1) \<Rightarrow> (Inl (ErrCoordinatorStore e), [], db1)
      | (Inr task, db1) \<Rightarrow>
          if \<not> TaskAwaitingApproval (t_Status task) then (Inl ErrTaskNotAwaitingApproval, [], db1)
          else
            let trimmed = TrimSpace reason;
                failureReason = (if trimmed \<noteq> [] then TaskFailureReasonApprovalRejected @ '': '' @ trimmed
                  else TaskFailureReasonApprovalRejected)
            in (case MarkApprovalRejected taskID tenantID failureReason
                       (overtureTaskFailureDetails ''approval'' ''approval_rejected'' failureReason) db1 of
                  (Some e, db2) \<Rightarrow> (Inl (approval_error e), [], db2)
                | (None, db2) \<Rightarrow>
                    (case ResolveApprovalRequest taskID tenantID ''rejected'' rejectedBy trimmed db2 of (_, db3) \<Rightarrow>
                      (Inr (task\<lparr>t_Status := TaskStatusFailed, t_FailureReason := Some failureReason\<rparr>), [], db3))))"

section \<open>Recovery of a dead runtime\<close>

definition fail_recovery :: "uuid \<Rightarrow> string \<Rightarrow> string \<Rightarrow> string \<Rightarrow> db \<Rightarrow> dispatch list \<times> db" where
  "fail_recovery taskID reason code message db =
     ([], snd (MarkFailedWithDetails taskID reason (overtureTaskFailureDetails ''recovery'' code message) db))"

definition handleRecoverySkip :: "uuid \<Rightarrow> TaskRecord \<Rightarrow> string \<Rightarrow> db \<Rightarrow> dispatch list \<times> db" where
  "handleRecoverySkip taskID task skipReason db =
     (if skipReason = ''streaming_resume_unsupported'' \<and> t_Status task = TaskStatusRecovering
      then fail_recovery taskID TaskFailureReasonStreamingResumeUnsupported ''streaming_resume_unsupported''
        TaskFailureReasonStreamingResumeUnsupported db
      else ([], db))"

definition tenant_of_task :: "uuid \<Rightarrow> db \<Rightarrow> string \<times> db" where
  \<comment> \<open>the scan error is dropped, the name is then empty\<close>
  "tenant_of_task taskID db = (case stmt db of (fault, db1) \<Rightarrow>
     (if fault then [] else (case find (\<lambda>r. tr_task_id r = taskID) (db_tasks db1) of
        None \<Rightarrow> [] | Some r \<Rightarrow> tr_tenant_id r), db1))"

definition redispatch :: "'key coord_env \<Rightarrow> string \<Rightarrow> uuid \<Rightarrow> string \<Rightarrow> CheckpointPayload option \<Rightarrow>
    runtimeInfo \<Rightarrow> ActionPolicyDecision \<Rightarrow> db \<Rightarrow> dispatch list \<times> db" where
  \<comment> \<open>after an allowed handoff\<close>
  "redispatch ce runtimeID taskID tenantID cp newRuntime decision db =
     (case MarkDispatched taskID (ri_RuntimeID newRuntime) (ri_Endpoint newRuntime) db of
        (Some _, db1) \<Rightarrow> ([], db1)
      | (None, db1) \<Rightarrow>
          (case GetTask taskID tenantID db1 of
             (Inl _, db2) \<Rightarrow> ([], db2)
           | (Inr task0, db2) \<Rightarrow>
               (case HydrateTaskPermissionEnvelope (se_key (ce_signing ce) \<noteq> None) task0 db2 of
                  (Inl _, db3) \<Rightarrow> ([], db3)
                | (Inr task1, db3) \<Rightarrow>
                    let task = task1\<lparr>t_RuntimeEndpoint := Some (ri_Endpoint newRuntime), t_PermissionEnvelope := None\<rparr>
                    in (case rehydrateTaskDefinitionInputRefs (ce_input ce)
                              (DecryptExecutionInputRef (ce_input ce) (t_TenantID task) (t_TaskID task) ''runtime recovery redispatch'')
                              (t_TaskDefinition task) db3 of
                          (Inl e, db4) \<Rightarrow> fail_recovery taskID ''encrypted input unavailable for recovery''
                            ''encrypted_input_unavailable'' (safeInputRefError e) db4
                        | (Inr rehydrated, db4) \<Rightarrow>
                            (case SaveExecutionBoundary (ce_H ce) decision (t_TaskDefinition task) (t_RequiredCapabilities task) db4 of (_, db5) \<Rightarrow>
                            (case SaveRecoveryEvent ((recovery_event task ''redispatched'' runtimeID (ri_RuntimeID newRuntime) cp
                                    (Some True) ''recovery redispatch accepted'')\<lparr>re_TaskID := taskID\<rparr>) db5 of (_, db6) \<Rightarrow>
                              ([\<lparr>dp_task = task\<lparr>t_TaskDefinition := rehydrated\<rparr>, dp_checkpoint = cp\<rparr>], db6)))))))"

definition handoff :: "'key coord_env \<Rightarrow> string \<Rightarrow> uuid \<Rightarrow> string \<Rightarrow> TaskRecord \<Rightarrow> CheckpointPayload option \<Rightarrow> db \<Rightarrow>
    dispatch list \<times> db" where
  \<comment> \<open>once the checkpoint to resume from is settled\<close>
  "handoff ce runtimeID taskID tenantID task cp db =
     (case selectRuntime tenantID [] db of
        (Inl _, db1) \<Rightarrow> fail_recovery taskID ''no runtime available for recovery'' ''no_runtime_available''
          ''no runtime available for recovery'' db1
      | (Inr newRuntime, db1) \<Rightarrow>
          (case uuid_New db1 of (decisionID, db2) \<Rightarrow>
            let decision = evaluateActionPolicy (ce_H ce) decisionID (db_now db2) (recovery_input task (ri_RuntimeID newRuntime) cp)
            in (case SaveActionPolicyDecision decision db2 of
                (Some e, db3) \<Rightarrow> fail_recovery taskID ''recovery action policy decision persistence failed''
                  ''policy_decision_persistence_failed'' (ce_error_text ce (ErrCoordinatorStore e)) db3
              | (None, db3) \<Rightarrow>
                  (case SetLatestPolicyDecision taskID decision db3 of (_, db4) \<Rightarrow>
                  (case RecoveryHandoffAllowed task cp (ri_RuntimeID newRuntime) decision of (allowed, reason) \<Rightarrow>
                  (case SaveRuntimeHandoffEvent ((handoff_event task runtimeID (ri_RuntimeID newRuntime) cp decision allowed reason)
                          \<lparr>he_TaskID := taskID\<rparr>) db4 of (_, db5) \<Rightarrow>
                  (case SaveRecoveryEvent ((recovery_event task (''handoff_'' @ mapBoolDecision allowed) runtimeID
                          (ri_RuntimeID newRuntime) cp (Some allowed) reason)\<lparr>re_TaskID := taskID\<rparr>) db5 of (_, db6) \<Rightarrow>
                    if \<not> allowed then fail_recovery taskID reason ''runtime_handoff_denied'' reason db6
                    else redispatch ce runtimeID taskID tenantID cp newRuntime decision db6)))))))"

definition invalid_checkpoint :: "uuid \<Rightarrow> db \<Rightarrow> dispatch list \<times> db" where
  "invalid_checkpoint taskID = fail_recovery taskID TaskFailureReasonInvalidRecoveryCheckpoint
     ''invalid_recovery_checkpoint'' TaskFailureReasonInvalidRecoveryCheckpoint"

definition resume_point :: "uuid \<Rightarrow> TaskRecord \<Rightarrow> store_error + CheckpointPayload option \<Rightarrow>
    bool + CheckpointPayload option" where
  \<comment> \<open>the checkpoint to resume from; \<open>Inl True\<close> fails the task, \<open>Inl False\<close> leaves it\<close>
  "resume_point taskID task stored = (case stored of
       Inl (ErrInvalidCumulativeCheckpoint _) \<Rightarrow> Inl True
     | Inl _ \<Rightarrow> Inl False
     | Inr cp \<Rightarrow>
         (case (if t_LastCheckpoint task \<noteq> None \<and> TaskCheckpointAdvances cp (t_LastCheckpoint task)
                then BuildCumulativeRecoveryCheckpoint taskID [cp, t_LastCheckpoint task] else Inr cp) of
            Inl _ \<Rightarrow> Inl True
          | Inr cp1 \<Rightarrow> if cp1 \<noteq> None \<and> \<not> TaskRecoveryCheckpointUsable taskID cp1 then Inl True else Inr cp1))"

definition recover_task :: "'key coord_env \<Rightarrow> string \<Rightarrow> uuid \<Rightarrow> db \<Rightarrow> dispatch list \<times> db" where
  \<comment> \<open>the body of the loop of \<^verbatim>\<open>recoverRuntime\<close>\<close>
  "recover_task ce runtimeID taskID db =
     (case GetCumulativeRecoveryCheckpoint taskID db of (stored, db1) \<Rightarrow>
     (case tenant_of_task taskID db1 of (tenantID, db2) \<Rightarrow>
     (case GetTask taskID tenantID db2 of
        (Inl _, db3) \<Rightarrow> ([], db3)
      | (Inr task0, db3) \<Rightarrow>
          let cp0 = (case stored of Inl _ \<Rightarrow> None | Inr cp \<Rightarrow> cp)
          in (case SaveRecoveryEvent ((recovery_event task0 ''runtime_failed'' runtimeID [] cp0 None
                 ''runtime heartbeat became stale'')\<lparr>re_TaskID := taskID\<rparr>) db3 of (_, db4) \<Rightarrow>
             (case HydrateTaskPermissionEnvelope (se_key (ce_signing ce) \<noteq> None) task0 db4 of
                (Inl _, db5) \<Rightarrow> ([], db5)
              | (Inr task, db5) \<Rightarrow>
                  if TaskRecoverySkipReason task \<noteq> [] then handleRecoverySkip taskID task (TaskRecoverySkipReason task) db5
                  else (case resume_point taskID task stored of
                      Inl failed \<Rightarrow> if failed then invalid_checkpoint taskID db5 else ([], db5)
                    | Inr cp \<Rightarrow> handoff ce runtimeID taskID tenantID task cp db5))))))"

fun recover_tasks :: "'key coord_env \<Rightarrow> string \<Rightarrow> uuid list \<Rightarrow> db \<Rightarrow> dispatch list \<times> db" where
  "recover_tasks ce runtimeID [] db = ([], db)"
| "recover_tasks ce runtimeID (taskID # ids) db =
     (case recover_task ce runtimeID taskID db of (ds, db1) \<Rightarrow>
     (case recover_tasks ce runtimeID ids db1 of (ds', db2) \<Rightarrow> (ds @ ds', db2)))"

definition retire_runtime :: "string \<Rightarrow> db \<Rightarrow> db" where
  \<comment> \<open>the error of the statement is dropped\<close>
  "retire_runtime runtimeID db = (case stmt db of (fault, db1) \<Rightarrow>
     if fault then db1 else db1\<lparr>db_runtimes := map (\<lambda>ru. if ru_runtime_id ru = runtimeID
       then ru\<lparr>ru_is_healthy := False, ru_status := ''failed''\<rparr> else ru) (db_runtimes db1)\<rparr>)"

definition recoverRuntime :: "'key coord_env \<Rightarrow> string \<Rightarrow> db \<Rightarrow> dispatch list \<times> db" where
  "recoverRuntime ce runtimeID db =
     (case MarkRecovering runtimeID (retire_runtime runtimeID db) of
        (Inl _, db1) \<Rightarrow> ([], db1)
      | (Inr ids, db1) \<Rightarrow> recover_tasks ce runtimeID ids db1)"

fun recover_runtimes :: "'key coord_env \<Rightarrow> string list \<Rightarrow> db \<Rightarrow> dispatch list \<times> db" where
  "recover_runtimes ce [] db = ([], db)"
| "recover_runtimes ce (r # rs) db = (case recoverRuntime ce r db of (ds, db1) \<Rightarrow>
     (case recover_runtimes ce rs db1 of (ds', db2) \<Rightarrow> (ds @ ds', db2)))"

definition stale_runtimes :: "db \<Rightarrow> string list" where
  "stale_runtimes db = remdups (map ru_runtime_id (filter (\<lambda>ru. ru_is_healthy ru
     \<and> ru_last_heartbeat ru < db_now db - heartbeatTimeout \<and> ru_status ru = ''active'') (db_runtimes db)))"

definition recoverFailedRuntimes :: "'key coord_env \<Rightarrow> db \<Rightarrow> dispatch list \<times> db" where
  "recoverFailedRuntimes ce db = (case stmt db of (fault, db1) \<Rightarrow>
     if fault then ([], db1) else recover_runtimes ce (stale_runtimes db1) db1)"

definition markAndRecover :: "'key coord_env \<Rightarrow> string \<Rightarrow> db \<Rightarrow> dispatch list \<times> db" where
  \<comment> \<open>without a test hook\<close>
  "markAndRecover ce runtimeID = recoverRuntime ce runtimeID"

definition handleDispatchFailure :: "'key coord_env \<Rightarrow> TaskRecord \<Rightarrow> db \<Rightarrow> dispatch list \<times> db" where
  "handleDispatchFailure ce task db = (case t_RuntimeID task of
     None \<Rightarrow> ([], db) | Some runtimeID \<Rightarrow> markAndRecover ce runtimeID db)"

end
