(* ===== verification/Coordinator_Steps.thy ===== *)
theory Coordinator_Steps
  imports Coordinator
begin

text \<open>
  Every handler of the coordinator lets the tasks of the store evolve along the status machine, whatever
  its input, whatever statements fail and whatever ran before it. A run of the coordinator is a sequence of
  handler calls; its invariants are proved by rule induction.
\<close>

section \<open>The handlers let tasks evolve\<close>

lemma ev_rehydrate_value:
  assumes "\<And>i p s r s1. f i p s = (r, s1) \<Longrightarrow> evolves d s \<Longrightarrow> evolves d s1"
  shows "rehydrateInputRefValue ie f v db = (r, db1) \<Longrightarrow> evolves d db \<Longrightarrow> evolves d db1"
    and "rehydrate_members ie f kvs db = (r', db1) \<Longrightarrow> evolves d db \<Longrightarrow> evolves d db1"
    and "rehydrate_items ie f xs db = (r'', db1) \<Longrightarrow> evolves d db \<Longrightarrow> evolves d db1"
  using assms
proof (induction ie f v db and ie f kvs db and ie f xs db arbitrary: r db1 and r' db1 and r'' db1
    rule: rehydrateInputRefValue_rehydrate_members_rehydrate_items.induct)
qed (fastforce split: option.split_asm prod.split_asm sum.split_asm)+

lemma ev_rehydrate [evolve]:
  "rehydrateTaskDefinitionInputRefs ie (DecryptExecutionInputRef ie n t why) raw db = (r, db1) \<Longrightarrow> evolves d db \<Longrightarrow> evolves d db1"
  unfolding rehydrateTaskDefinitionInputRefs_def
  by (clarsimp split: if_split_asm option.split_asm prod.split_asm sum.split_asm;
      erule ev_rehydrate_value(1) [rotated], assumption; erule ev_DecryptExecutionInputRef, assumption)

lemma ev_snd_failed [evolve]: "evolves d db \<Longrightarrow> evolves d (snd (MarkFailedWithDetails t reason x db))"
  by (cases "MarkFailedWithDetails t reason x db") (auto intro: ev_MarkFailedWithDetails)

lemma ev_selectRuntime [evolve]: "selectRuntime n p db = (r, db1) \<Longrightarrow> evolves d db \<Longrightarrow> evolves d db1"
  by (auto simp: selectRuntime_def split: prod.split_asm intro: ev_stmt)

lemma ev_prepare [evolve]: "prepare_submission ce nonces req db = (r, db1) \<Longrightarrow> evolves d db \<Longrightarrow> evolves d db1"
  by (erule ev_same [rotated])
    (auto simp: prepare_submission_def Let_def split: sum.split_asm option.split_asm prod.split_asm)

lemma ev_existing [evolve]: "existing_task n k db = (r, db1) \<Longrightarrow> evolves d db \<Longrightarrow> evolves d db1"
  by (auto simp: existing_task_def split: prod.split_asm sum.split_asm intro: ev_reads)

lemma ev_resubmission [evolve]: "resubmission req task db = (r, db1) \<Longrightarrow> evolves d db \<Longrightarrow> evolves d db1"
  unfolding resubmission_def
  by (clarsimp split: option.split_asm prod.split_asm sum.split_asm if_split_asm; (erule evolve | assumption)+)

lemma ev_fail_submission [evolve]:
  "fail_submission t a b c e db = (r, ds, db1) \<Longrightarrow> evolves d db \<Longrightarrow> evolves d db1"
  by (auto simp: fail_submission_def intro: ev_snd_failed)

lemma ev_dispatch_submission [evolve]:
  "dispatch_submission ce nd g task rt db = (r, ds, db1) \<Longrightarrow> evolves d db \<Longrightarrow> evolves d db1"
  unfolding dispatch_submission_def Let_def
  by (clarsimp split: prod.split_asm option.split_asm sum.split_asm; (erule evolve | assumption)+)

lemma ev_launch [evolve]: "launch ce nd g task p db = (r, ds, db1) \<Longrightarrow> evolves d db \<Longrightarrow> evolves d db1"
  unfolding launch_def Let_def
  by (clarsimp split: prod.split_asm option.split_asm sum.split_asm if_split_asm; (erule evolve | assumption)+)

lemma ev_Submit [evolve]: "Submit ce nonces req db = (r, ds, db1) \<Longrightarrow> evolves d db \<Longrightarrow> evolves d db1"
  unfolding Submit_def
  by (clarsimp split: prod.split_asm sum.split_asm if_split_asm; (erule evolve | assumption)+)

lemma ev_SubmitDemo [evolve]:
  "SubmitDemoSimulatedFailure ce nonces req why db = (r, ds, db1) \<Longrightarrow> evolves d db \<Longrightarrow> evolves d db1"
  unfolding SubmitDemoSimulatedFailure_def Let_def
  by (clarsimp split: prod.split_asm sum.split_asm if_split_asm option.split_asm; (erule evolve | assumption)+)

lemma ev_RecordRuntimeFailed [evolve]:
  "RecordRuntimeFailedRecoveryDecision ce task c db = (r, db1) \<Longrightarrow> evolves d db \<Longrightarrow> evolves d db1"
  unfolding RecordRuntimeFailedRecoveryDecision_def
  by (clarsimp split: prod.split_asm if_split_asm option.split_asm; (erule evolve | assumption)+)

lemma ev_ApproveTask [evolve]: "ApproveTask ce t n who db = (r, ds, db1) \<Longrightarrow> evolves d db \<Longrightarrow> evolves d db1"
  unfolding ApproveTask_def Let_def
  by (clarsimp split: prod.split_asm sum.split_asm if_split_asm option.split_asm;
      (erule evolve | rule ev_snd_failed | assumption)+)

lemma ev_RejectTask [evolve]: "RejectTask t n who why db = (r, ds, db1) \<Longrightarrow> evolves d db \<Longrightarrow> evolves d db1"
  unfolding RejectTask_def Let_def
  by (clarsimp split: prod.split_asm sum.split_asm if_split_asm option.split_asm; (erule evolve | assumption)+)

lemma ev_fail_recovery [evolve]: "fail_recovery t a b c db = (ds, db1) \<Longrightarrow> evolves d db \<Longrightarrow> evolves d db1"
  by (auto simp: fail_recovery_def intro: ev_snd_failed)

lemma ev_tenant_of_task [evolve]: "tenant_of_task t db = (n, db1) \<Longrightarrow> evolves d db \<Longrightarrow> evolves d db1"
  by (auto simp: tenant_of_task_def split: prod.split_asm intro: ev_stmt)

lemma ev_redispatch [evolve]: "redispatch ce rt t n cp ri dec db = (ds, db1) \<Longrightarrow> evolves d db \<Longrightarrow> evolves d db1"
  unfolding redispatch_def Let_def
  by (clarsimp split: prod.split_asm sum.split_asm option.split_asm; (erule evolve | assumption)+)

lemma ev_handoff [evolve]: "handoff ce rt t n task cp db = (ds, db1) \<Longrightarrow> evolves d db \<Longrightarrow> evolves d db1"
  unfolding handoff_def Let_def
  by (clarsimp split: prod.split_asm sum.split_asm if_split_asm option.split_asm; (erule evolve | assumption)+)

lemma ev_recover_task [evolve]: "recover_task ce rt t db = (ds, db1) \<Longrightarrow> evolves d db \<Longrightarrow> evolves d db1"
  unfolding recover_task_def handleRecoverySkip_def invalid_checkpoint_def Let_def
  by (clarsimp split: prod.split_asm sum.split_asm if_split_asm; (erule evolve | assumption)+)

lemma ev_recover_tasks [evolve]: "recover_tasks ce rt ids db = (ds, db1) \<Longrightarrow> evolves d db \<Longrightarrow> evolves d db1"
  by (induction ce rt ids db arbitrary: ds db1 rule: recover_tasks.induct) (auto split: prod.split_asm dest: ev_recover_task)

lemma retire_tasks [simp]: "db_tasks (retire_runtime i db) = db_tasks db"
  by (auto simp: retire_runtime_def split: prod.split)

lemma ev_recoverRuntime [evolve]: "recoverRuntime ce rt db = (ds, db1) \<Longrightarrow> evolves d db \<Longrightarrow> evolves d db1"
  unfolding recoverRuntime_def
  by (clarsimp split: prod.split_asm sum.split_asm; (erule evolve | rule ev_same [OF retire_tasks] | assumption)+)

lemma ev_recover_runtimes [evolve]: "recover_runtimes ce rs db = (ds, db1) \<Longrightarrow> evolves d db \<Longrightarrow> evolves d db1"
  by (induction ce rs db arbitrary: ds db1 rule: recover_runtimes.induct) (auto split: prod.split_asm dest: ev_recoverRuntime)

lemma ev_recoverFailedRuntimes [evolve]: "recoverFailedRuntimes ce db = (ds, db1) \<Longrightarrow> evolves d db \<Longrightarrow> evolves d db1"
  by (auto simp: recoverFailedRuntimes_def split: prod.split_asm if_split_asm dest: ev_stmt intro: ev_recover_runtimes)

lemma ev_handleDispatchFailure [evolve]: "handleDispatchFailure ce task db = (ds, db1) \<Longrightarrow> evolves d db \<Longrightarrow> evolves d db1"
  by (auto simp: handleDispatchFailure_def markAndRecover_def split: option.split_asm intro: ev_recoverRuntime)

section \<open>Runs of the coordinator\<close>

text \<open>A call of a handler, by a client, an approver, a runtime or the recovery loop, with everything its
  caller chooses.\<close>

datatype call =
    CSubmit "nat \<Rightarrow> byte list" TaskSubmitRequest
  | CDemo "nat \<Rightarrow> byte list" TaskSubmitRequest string
  | CCheckpoint CheckpointPayload
  | CComplete uuid
  | CFailed uuid string
  | CFailedDetails uuid string "TaskFailureDetails option"
  | CCancel uuid
  | CRecord TaskRecord string
  | CApprove uuid string string
  | CReject uuid string string string
  | CRecover
  | CDispatchFailure TaskRecord

fun perform :: "'key coord_env \<Rightarrow> call \<Rightarrow> db \<Rightarrow> dispatch list \<times> db" where
  "perform ce (CSubmit nonces req) db = snd (Submit ce nonces req db)"
| "perform ce (CDemo nonces req why) db = snd (SubmitDemoSimulatedFailure ce nonces req why db)"
| "perform ce (CCheckpoint cp) db = ([], snd (HandleCheckpoint cp db))"
| "perform ce (CComplete t) db = ([], snd (HandleComplete t db))"
| "perform ce (CFailed t why) db = ([], snd (HandleFailed t why db))"
| "perform ce (CFailedDetails t why x) db = ([], snd (HandleFailedWithDetails t why x db))"
| "perform ce (CCancel t) db = ([], snd (HandleCancel t db))"
| "perform ce (CRecord task c) db = ([], snd (RecordRuntimeFailedRecoveryDecision ce task c db))"
| "perform ce (CApprove t n who) db = snd (ApproveTask ce t n who db)"
| "perform ce (CReject t n who why) db = snd (RejectTask t n who why db)"
| "perform ce CRecover db = recoverFailedRuntimes ce db"
| "perform ce (CDispatchFailure task) db = handleDispatchFailure ce task db"

inductive runs :: "'key coord_env \<Rightarrow> db \<Rightarrow> (call \<times> dispatch list) list \<Rightarrow> db \<Rightarrow> bool" for ce where
  start: "runs ce db [] db"
| next_call: "runs ce db tr db1 \<Longrightarrow> perform ce c db1 = (ds, db2) \<Longrightarrow> runs ce db (tr @ [(c, ds)]) db2"

inductive_cases runs_snocE: "runs ce db (tr @ [x]) db'"

lemma ev_snd: "(\<And>r db1. f db = (r, db1) \<Longrightarrow> evolves d db1) \<Longrightarrow> evolves d (snd (f db))"
  by (cases "f db") auto

lemma ev_perform [evolve]: "perform ce c db = (ds, db1) \<Longrightarrow> evolves d db \<Longrightarrow> evolves d db1"
  by (cases c) (auto simp: HandleCheckpoint_def HandleComplete_def HandleFailed_def HandleFailedWithDetails_def
      HandleCancel_def snd_def split: prod.split_asm
      intro: ev_Submit ev_SubmitDemo ev_SaveCheckpoint ev_MarkCompleted ev_MarkFailed ev_MarkFailedWithDetails ev_MarkCanceled
        ev_RecordRuntimeFailed ev_ApproveTask ev_RejectTask ev_recoverFailedRuntimes ev_handleDispatchFailure)

lemma runs_evolve: "runs ce db tr db' \<Longrightarrow> evolves db db'"
  by (induction rule: runs.induct) (auto intro: ev_perform)

lemma evolves_row: "evolves db db' \<Longrightarrow> db_ok db \<Longrightarrow> r \<in> set (db_tasks db) \<Longrightarrow> \<exists>r' \<in> set (db_tasks db'). row_evolves r r'"
  unfolding evolves_def list_all2_conv_all_nth in_set_conv_nth by (metis in_set_conv_nth set_append Un_iff)

lemma evolves_row_of:
  assumes "evolves db db'" "db_ok db" "r \<in> set (db_tasks db)" "r' \<in> set (db_tasks db')" "tr_task_id r' = tr_task_id r"
  shows "row_evolves r r'"
proof -
  obtain x where x: "x \<in> set (db_tasks db')" "row_evolves r x" using evolves_row [OF assms(1-3)] by blast
  have "inj_on tr_task_id (set (db_tasks db'))" using assms(1,2) by (auto simp: evolves_def db_ok_def distinct_map)
  then have "x = r'" using x assms(4,5) by (auto simp: row_evolves_def inj_on_def)
  then show ?thesis using x(2) by simp
qed

lemma evolves_ok: "evolves db db' \<Longrightarrow> db_ok db \<Longrightarrow> db_ok db'"
  by (simp add: evolves_def)

text \<open>C4: whatever handlers are called in whatever order and whatever statements fail, from a database with
  unique task identifiers and unique idempotency keys per tenant every later database has them again, and
  every task is still there under its identity, with its definition, its deadline and its idempotency key,
  with a status the machine allows from the earlier one and a checkpoint no older than before; a task that
  has completed, failed or been canceled keeps that status.\<close>
theorem coordinator_invariant:
  assumes "runs ce db tr db'" and "db_ok db" and "r \<in> set (db_tasks db)"
  shows "db_ok db' \<and> (\<exists>r' \<in> set (db_tasks db'). tr_task_id r' = tr_task_id r \<and> tr_tenant_id r' = tr_tenant_id r
    \<and> tr_task_definition r' = tr_task_definition r \<and> tr_idempotency_key r' = tr_idempotency_key r
    \<and> tr_deadline_at r' = tr_deadline_at r \<and> status_step\<^sup>*\<^sup>* (tr_status r) (tr_status r') \<and> watermark r \<le> watermark r'
    \<and> (if terminal (tr_status r) then tr_status r' = tr_status r else True))"
proof -
  have ev: "evolves db db'" by (rule runs_evolve [OF assms(1)])
  obtain r' where "r' \<in> set (db_tasks db')" "row_evolves r r'" using evolves_row [OF ev assms(2,3)] by blast
  then show ?thesis using evolves_ok [OF ev assms(2)] terminal_stays unfolding row_evolves_def by fastforce
qed

text \<open>A process without input keys, a runtime of a tenant and a request, for concrete runs.\<close>

definition sample_coord_env :: "unit coord_env" where
  "sample_coord_env = \<lparr>ce_signing = sample_env, ce_input = \<lparr>in_H = (\<lambda>s. []), in_seal = (\<lambda>key nonce plaintext aad. []),
     in_open = (\<lambda>key nonce ciphertext aad. None), in_uuid_string = (\<lambda>u. ''id''), in_uuid_parse = (\<lambda>s. None),
     in_float = (\<lambda>n. n), in_KEYS = [], in_ACTIVE_KEY_VERSION = [], in_KEY = [], in_KEY_VERSION = []\<rparr>,
     ce_error_text = (\<lambda>e. [])\<rparr>"

definition sample_runtime :: "string \<Rightarrow> runtime_row" where
  "sample_runtime i = \<lparr>ru_runtime_id = i, ru_tenant_id = ''acme'', ru_endpoint = Some ''http://r'', ru_is_healthy = True,
     ru_status = ''active'', ru_last_heartbeat = 0\<rparr>"

definition sample_request :: TaskSubmitRequest where
  "sample_request = \<lparr>sr_TaskID = 5, sr_TenantID = ''acme'', sr_TaskType = ''single_inference'',
     sr_TaskDefinition = marshal (JObj [(''messages'', JArr [JObj []]), (''model'', JStr ''m'')]), sr_AgentIdentity = None,
     sr_RequiredCapabilities = [], sr_CredentialRequests = [], sr_IdempotencyKey = ''k'', sr_DeadlineAt = None,
     sr_PreferredRuntimeID = [], sr_RegisteredAgentID = None, sr_RegisteredAgentName = [], sr_BoundAction = None\<rparr>"

theorem coordinator_invariant_witness:
  "\<exists>tr db'. runs sample_coord_env (sample_db [sample_row TaskStatusDispatched]) tr db' \<and> map fst tr = [CCancel 5, CComplete 5]
    \<and> db_ok db' \<and> (\<exists>r' \<in> set (db_tasks db'). tr_task_id r' = 5 \<and> status_step\<^sup>*\<^sup>* TaskStatusDispatched (tr_status r'))"
proof -
  let ?db = "sample_db [sample_row TaskStatusDispatched]"
  obtain d1 db1 where 1: "perform sample_coord_env (CCancel 5) ?db = (d1, db1)" by (cases "perform sample_coord_env (CCancel 5) ?db")
  obtain d2 db2 where 2: "perform sample_coord_env (CComplete 5) db1 = (d2, db2)" by (cases "perform sample_coord_env (CComplete 5) db1")
  have run: "runs sample_coord_env ?db [(CCancel 5, d1), (CComplete 5, d2)] db2"
    using runs.next_call [OF runs.next_call [OF runs.start 1] 2] by simp
  have "sample_row TaskStatusDispatched \<in> set (db_tasks ?db)" by (simp add: sample_db_def)
  from coordinator_invariant [OF run sample_db_ok this] run show ?thesis by fastforce
qed

end
