(* ===== verification/Coordinator_Properties.thy ===== *)
theory Coordinator_Properties
  imports Coordinator_Steps
begin

text \<open>
  What the handlers of the coordinator guarantee: a submission is dispatched at most once, only through the
  policies, and only to a runtime of its tenant; a recovery resumes no irreversible work and leaves no task
  behind; and how a submission that finds no runtime ends.
\<close>

section \<open>A submission is dispatched once\<close>

lemma prepared_key:
  assumes "prepare_submission ce nonces req db = (Inr (nd, g, task, refs), db1)"
  shows "t_TenantID task = sr_TenantID req" "db_tasks db1 = db_tasks db"
    "sr_IdempotencyKey req \<noteq> [] \<Longrightarrow> t_IdempotencyKey task = sr_IdempotencyKey req"
  using assms by (auto simp: prepare_submission_def submission_record_def Let_def
      split: sum.split_asm option.split_asm prod.split_asm)

lemma dispatch_submission_one:
  "dispatch_submission ce nd g task rt db = (r, ds, db1) \<Longrightarrow> length ds \<le> 1"
  unfolding dispatch_submission_def fail_submission_def Let_def
  by (auto split: prod.split_asm option.split_asm sum.split_asm)

lemma launch_one: "launch ce nd g task p db = (r, ds, db1) \<Longrightarrow> length ds \<le> 1"
  unfolding launch_def fail_submission_def Let_def
  by (auto split: prod.split_asm option.split_asm sum.split_asm if_split_asm dest: dispatch_submission_one)

lemma evolves_key_taken: "evolves db db' \<Longrightarrow> db_ok db \<Longrightarrow> key_taken n k db \<Longrightarrow> key_taken n k db'"
  using evolves_row unfolding key_taken_def list_ex_iff row_evolves_def by metis

lemma Submit_dispatch:
  assumes "Submit ce nonces req db = (r, ds, db')" "ds \<noteq> []" "sr_IdempotencyKey req \<noteq> []" "db_ok db"
  shows "length ds = 1 \<and> \<not> key_taken (sr_TenantID req) (sr_IdempotencyKey req) db
    \<and> key_taken (sr_TenantID req) (sr_IdempotencyKey req) db'"
proof -
  from assms(1,2) obtain nd g task refs db1 db2 where p: "prepare_submission ce nonces req db = (Inr (nd, g, task, refs), db1)"
    and c: "CreateTaskWithExecutionInputRefs task refs db1 = (Inr True, db2)"
    and l: "launch ce nd g task (sr_PreferredRuntimeID req) db2 = (r, ds, db')"
    unfolding Submit_def by (auto split: prod.split_asm sum.split_asm if_split_asm)
  note key = prepared_key [OF p]
  have "\<not> key_taken (sr_TenantID req) (sr_IdempotencyKey req) db"
    using create_closed [OF _ c] key assms(3) key_taken_same [OF key(2)] by metis
  moreover have "key_taken (sr_TenantID req) (sr_IdempotencyKey req) db2"
    using create_answers [OF c] key assms(3) by simp
  moreover have "db_ok db2"
    using ev_CreateTaskWithExecutionInputRefs [OF c ev_prepare [OF p evolves_refl]] assms(4) by (rule evolves_ok)
  ultimately show ?thesis using evolves_key_taken [OF ev_launch [OF l evolves_refl]] launch_one [OF l] assms(2)
    by (cases ds) auto
qed

fun submits :: "string \<Rightarrow> string \<Rightarrow> call \<Rightarrow> bool" where
  "submits n k (CSubmit nonces req) \<longleftrightarrow> sr_TenantID req = n \<and> sr_IdempotencyKey req = k"
| "submits n k _ \<longleftrightarrow> False"

definition started :: "string \<Rightarrow> string \<Rightarrow> (call \<times> dispatch list) list \<Rightarrow> nat" where
  \<comment> \<open>the dispatches that submissions of the key have started\<close>
  "started n k tr = sum_list (map (\<lambda>(c, ds). if submits n k c then length ds else 0) tr)"

lemma started_run:
  assumes "runs ce db tr db'" "db_ok db" "k \<noteq> []"
  shows "started n k tr = 0 \<or> started n k tr = 1 \<and> key_taken n k db'"
  using assms(1,2)
proof (induction rule: runs.induct)
  case (next_call db tr db1 c ds db2)
  have ok: "db_ok db1" using runs_evolve [OF next_call.hyps(1)] next_call.prems by (rule evolves_ok)
  have keep: "key_taken n k db1 \<Longrightarrow> key_taken n k db2"
    using evolves_key_taken [OF ev_perform [OF next_call.hyps(2) evolves_refl] ok] .
  show ?case
  proof (cases "submits n k c \<and> ds \<noteq> []")
    case True
    then obtain nonces req where c: "c = CSubmit nonces req" "sr_TenantID req = n" "sr_IdempotencyKey req = k"
      by (cases c) auto
    then obtain r where "Submit ce nonces req db1 = (r, ds, db2)" using next_call.hyps(2) by (cases "Submit ce nonces req db1") auto
    then show ?thesis using Submit_dispatch [OF _ _ _ ok] True c assms(3) next_call.IH next_call.prems by (fastforce simp: started_def)
  qed (use next_call.IH next_call.prems keep in \<open>auto simp: started_def\<close>)
qed (simp add: started_def)

text \<open>C2: in every run of the coordinator, with any other calls in between and whatever statements fail, the
  submissions of one idempotency key of one tenant start at most one dispatch, and once one has started
  the key is taken for good.\<close>
theorem submission_dispatched_once:
  assumes "runs ce db tr db'" and "db_ok db" and "k \<noteq> []"
  shows "started n k tr \<le> 1 \<and> (if started n k tr = 0 then True else key_taken n k db')"
  using started_run [OF assms, of n] by auto

section \<open>What the handlers leave alone\<close>

definition same_env :: "db \<Rightarrow> db \<Rightarrow> bool" where
  \<comment> \<open>the clock, the source of identifiers, the policies and the runtimes\<close>
  "same_env d db \<longleftrightarrow> db_now db = db_now d \<and> db_policies db = db_policies d \<and> db_runtimes db = db_runtimes d"

named_theorems frame \<open>operations that keep the clock, the policies and the runtimes\<close>

lemma same_env_refl [simp]: "same_env d d"
  by (simp add: same_env_def)

lemma fr_stmt [frame]: "stmt db = (f, db1) \<Longrightarrow> same_env d db \<Longrightarrow> same_env d db1"
  by (auto simp: same_env_def elim!: stmt_shape)

lemma fr_rollback [frame]: "same_env d a \<Longrightarrow> same_env d (rollback a b)"
  by (simp add: same_env_def rollback_def)

lemma fr_commit [frame]: "commit a db = (f, db1) \<Longrightarrow> same_env d a \<Longrightarrow> same_env d db \<Longrightarrow> same_env d db1"
  by (auto simp: same_env_def commit_def rollback_def Let_def split: list.split_asm fault.split_asm)

lemma fr_uuid [frame]: "uuid_New db = (i, db1) \<Longrightarrow> same_env d db \<Longrightarrow> same_env d db1"
  unfolding same_env_def uuid_New_def by (elim Pair_inject) (hypsubst, simp)

lemma fr_update_tasks [frame]: "update_tasks P f db = (m, db1) \<Longrightarrow> same_env d db \<Longrightarrow> same_env d db1"
  by (auto simp: update_tasks_def same_env_def split: prod.split_asm if_split_asm elim!: stmt_shape)

lemma fr_transition [frame]: "transition P f db = (e, db1) \<Longrightarrow> same_env d db \<Longrightarrow> same_env d db1"
  by (auto simp: transition_def split: prod.split_asm intro: fr_update_tasks)

lemma fr_marks [frame]:
  "MarkDispatched t r p db = (e, db1) \<Longrightarrow> same_env d db \<Longrightarrow> same_env d db1"
  "MarkApprovedDispatched t n r p who db = (e, db1) \<Longrightarrow> same_env d db \<Longrightarrow> same_env d db1"
  "markFailedRecord t why x db = (e, db1) \<Longrightarrow> same_env d db \<Longrightarrow> same_env d db1"
  by (auto simp: MarkDispatched_def MarkApprovedDispatched_def markFailedRecord_def intro: fr_transition)

lemma fr_query [frame]: "query q db = (r, db1) \<Longrightarrow> same_env d db \<Longrightarrow> same_env d db1"
  by (auto simp: query_def split: prod.split_asm intro: fr_stmt)

lemma fr_reads [frame]:
  "GetTask t n db = (r1, db1) \<Longrightarrow> same_env d db \<Longrightarrow> same_env d db1"
  "GetAllCheckpoints t db = (r2, db1) \<Longrightarrow> same_env d db \<Longrightarrow> same_env d db1"
  "LoadLatestTaskPermissionEnvelope t db = (r3, db1) \<Longrightarrow> same_env d db \<Longrightarrow> same_env d db1"
  by (simp_all add: GetTask_def GetAllCheckpoints_def LoadLatestTaskPermissionEnvelope_def fr_query)

lemma fr_insert_task [frame]: "insert_task task db = (m, db1) \<Longrightarrow> same_env d db \<Longrightarrow> same_env d db1"
  by (auto simp: insert_task_def same_env_def split: prod.split_asm if_split_asm elim!: stmt_shape)

lemma fr_insertBound [frame]: "insertBoundActionRun task db = (e, db1) \<Longrightarrow> same_env d db \<Longrightarrow> same_env d db1"
  by (auto simp: insertBoundActionRun_def same_env_def split: prod.split_asm if_split_asm option.split_asm elim!: stmt_shape)

lemma fr_insert_ref [frame]:
  "insertExecutionInputRef ref db = (e, db1) \<Longrightarrow> same_env d db \<Longrightarrow> same_env d db1"
  "insertExecutionInputRefAudit ev db = (e, db1) \<Longrightarrow> same_env d db \<Longrightarrow> same_env d db1"
  by (auto simp: insertExecutionInputRef_def insertExecutionInputRefAudit_def Let_def same_env_def
      split: prod.split_asm if_split_asm elim!: stmt_shape)

lemma fr_insert_refs [frame]: "insert_refs refs db = (e, db1) \<Longrightarrow> same_env d db \<Longrightarrow> same_env d db1"
  by (induction refs db rule: insert_refs.induct) (auto split: prod.splits option.splits dest: fr_insert_ref)

lemma fr_Create [frame]: "CreateTaskWithExecutionInputRefs task refs db = (r, db1) \<Longrightarrow> same_env d db \<Longrightarrow> same_env d db1"
  unfolding CreateTaskWithExecutionInputRefs_def CreateTask_def
  by (clarsimp split: if_split_asm prod.split_asm option.split_asm nat.split_asm;
      (erule frame | rule fr_rollback | assumption)+)

lemma fr_governance [frame]:
  "SaveActionPolicyDecision x db = (e, db1) \<Longrightarrow> same_env d db \<Longrightarrow> same_env d db1"
  "SetLatestPolicyDecision t x db = (e, db1) \<Longrightarrow> same_env d db \<Longrightarrow> same_env d db1"
  "SaveExecutionBoundary H x df caps db = (e, db1) \<Longrightarrow> same_env d db \<Longrightarrow> same_env d db1"
  by (auto simp: SaveActionPolicyDecision_def SetLatestPolicyDecision_def SaveExecutionBoundary_def insert_row_def
      same_env_def update_tasks_def split: prod.split_asm if_split_asm elim!: stmt_shape)

lemma fr_selectRuntime [frame]: "selectRuntime n p db = (r, db1) \<Longrightarrow> same_env d db \<Longrightarrow> same_env d db1"
  by (auto simp: selectRuntime_def split: prod.split_asm intro: fr_stmt)

lemma prepare_env: "same_env d db \<Longrightarrow> same_env d (snd (prepare_submission ce nonces req db))"
  unfolding prepare_submission_def uuid_New_def Let_def same_env_def
  by (simp split: sum.split option.split prod.split)

lemma fr_prepare [frame]: "prepare_submission ce nonces req db = (r, db1) \<Longrightarrow> same_env d db \<Longrightarrow> same_env d db1"
  by (metis prepare_env snd_conv)

section \<open>A dispatch of a submission is governed\<close>

definition fits :: "string \<Rightarrow> string \<Rightarrow> gotime \<Rightarrow> runtime_row \<Rightarrow> bool" where
  \<comment> \<open>a runtime that may get a task of the tenant: its own, healthy, active, heard of within 90 seconds, and
     the one that was asked for\<close>
  "fits tenantID preferred now ru \<longleftrightarrow> ru_tenant_id ru = tenantID \<and> ru_is_healthy ru \<and> ru_status ru = ''active''
     \<and> ru_last_heartbeat ru > now - heartbeatTimeout \<and> (preferred = [] \<or> ru_runtime_id ru = preferred)"

lemma first_routable_in:
  "first_routable rus = Some ri \<Longrightarrow> \<exists>ru \<in> set rus. ru_runtime_id ru = ri_RuntimeID ri
    \<and> NormalizeHTTPRuntimeEndpoint (str_or_empty (ru_endpoint ru)) = Some (ri_Endpoint ri)"
  by (induction rus) (auto split: option.split_asm)

lemma selected_fits:
  assumes "selectRuntime n p db = (Inr ri, db1)"
  shows "\<exists>ru \<in> set (db_runtimes db). fits n (TrimSpace p) (db_now db) ru \<and> ru_runtime_id ru = ri_RuntimeID ri
    \<and> NormalizeHTTPRuntimeEndpoint (str_or_empty (ru_endpoint ru)) = Some (ri_Endpoint ri)"
proof -
  have e: "same_env db db1" by (rule fr_selectRuntime [OF assms same_env_refl])
  have "first_routable (candidate_runtimes n (TrimSpace p) db1) = Some ri"
    using assms by (auto simp: selectRuntime_def split: prod.split_asm option.split_asm if_split_asm)
  then obtain ru where r: "ru \<in> set (candidate_runtimes n (TrimSpace p) db1)" "ru_runtime_id ru = ri_RuntimeID ri"
    "NormalizeHTTPRuntimeEndpoint (str_or_empty (ru_endpoint ru)) = Some (ri_Endpoint ri)" using first_routable_in by blast
  then have "ru \<in> set (db_runtimes db) \<and> fits n (TrimSpace p) (db_now db) ru"
    using e unfolding candidate_runtimes_def fits_def same_env_def by (auto dest!: in_set_takeD)
  then show ?thesis using r by blast
qed

definition gated :: "raw \<Rightarrow> bool" where
  \<comment> \<open>a human gate in the definition or in the contract it is bound to\<close>
  "gated def \<longleftrightarrow> taskRequiresHumanApproval def
     \<or> bp_Present (extractBoundActionPolicy def) \<and> bp_ApprovalRequired (extractBoundActionPolicy def)"

lemma decision_gate:
  assumes "apd_Decision (evaluateActionPolicy H i now input) = ActionDecisionAllowed"
  shows "\<not> gated (api_TaskDefinition input)"
  using assms unfolding evaluateActionPolicy_def gated_def Let_def by (auto split: if_split_asm)

lemma decision_cases:
  "apd_Decision (evaluateActionPolicy H i now input) \<in> {ActionDecisionAllowed, ActionDecisionDenied, ActionDecisionApprovalRequired}"
  unfolding evaluateActionPolicy_def Let_def by auto

lemma decision_recovery:
  assumes "apd_Decision (evaluateActionPolicy H i now (recovery_input task rt cp)) = ActionDecisionAllowed"
  shows "TaskRecoveryCheckpointUsable (t_TaskID task) cp"
    "taskHasIrreversibleAction (t_TaskDefinition task) \<Longrightarrow> recoveryForwardResumeSafe (t_TaskID task) (t_TaskDefinition task) cp"
  using assms unfolding evaluateActionPolicy_def recovery_input_def Let_def by (auto split: if_split_asm)

definition permitted :: "'key coord_env \<Rightarrow> db \<Rightarrow> string \<Rightarrow> string list \<Rightarrow> bool" where
  "permitted ce db tenantID caps \<longleftrightarrow> caps = []
     \<or> ev_Permit (evaluateTaskCapabilityPolicy (ce_H ce) (Some (db_policies db)) (db_now db) tenantID caps)"

lemma envelope_permitted:
  "buildTaskPermissionEnvelope (ce_signing ce) (Some (db_policies db)) (db_now db) task g = Inr e \<Longrightarrow>
    permitted ce db (t_TenantID task) (tg_RequiredCapabilities g)"
  unfolding buildTaskPermissionEnvelope_def permitted_def Let_def by (auto split: option.split_asm if_split_asm)

lemma permitted_env: "same_env d db \<Longrightarrow> permitted ce db n caps = permitted ce d n caps"
  by (simp add: permitted_def same_env_def)

lemma dispatch_submission_ok:
  assumes "dispatch_submission ce nd g task ri db = (r, [x], db')"
  shows "\<exists>t. r = Inr t \<and> t_TaskDefinition t = t_TaskDefinition task \<and> dp_checkpoint x = None
    \<and> dp_task x = t\<lparr>t_TaskDefinition := nd\<rparr> \<and> t_TenantID t = t_TenantID task \<and> t_TaskID t = t_TaskID task
    \<and> t_RuntimeID t = Some (ri_RuntimeID ri) \<and> t_RuntimeEndpoint t = Some (ri_Endpoint ri)
    \<and> permitted ce db (t_TenantID task) (tg_RequiredCapabilities g)"
proof -
  from assms obtain db1 e where m: "MarkDispatched (t_TaskID task) (ri_RuntimeID ri) (ri_Endpoint ri) db = (None, db1)"
    and b: "buildTaskPermissionEnvelope (ce_signing ce) (Some (db_policies db1)) (db_now db1) (task\<lparr>t_Status := TaskStatusDispatched,
        t_RuntimeID := Some (ri_RuntimeID ri), t_RuntimeEndpoint := Some (ri_Endpoint ri)\<rparr>) g = Inr e"
    unfolding dispatch_submission_def fail_submission_def Let_def
    by (auto split: prod.split_asm option.split_asm sum.split_asm)
  have "permitted ce db (t_TenantID task) (tg_RequiredCapabilities g)"
    using envelope_permitted [OF b] permitted_env [OF fr_marks(1) [OF m same_env_refl], of ce] by simp
  then show ?thesis using assms m b unfolding dispatch_submission_def fail_submission_def Let_def
    by (auto split: prod.split_asm option.split_asm sum.split_asm)
qed

lemma launch_ok:
  assumes "launch ce nd g task p db = (r, [x], db')"
  obtains ri db1 db5 where "selectRuntime (t_TenantID task) p db = (Inr ri, db1)" "\<not> gated (t_TaskDefinition task)"
    "same_env db db5" "dispatch_submission ce nd g task ri db5 = (r, [x], db')"
proof -
  from assms obtain ri db1 i db2 e3 db3 e4 db4 e5 db5 where 1: "selectRuntime (t_TenantID task) p db = (Inr ri, db1)"
    and 2: "uuid_New db1 = (i, db2)"
    and 3: "SaveActionPolicyDecision (evaluateActionPolicy (ce_H ce) i (db_now db2) (submit_input_of task (ri_RuntimeID ri))) db2 = (e3, db3)"
    and 4: "SetLatestPolicyDecision (t_TaskID task) (evaluateActionPolicy (ce_H ce) i (db_now db2) (submit_input_of task (ri_RuntimeID ri))) db3 = (e4, db4)"
    and 5: "SaveExecutionBoundary (ce_H ce) (evaluateActionPolicy (ce_H ce) i (db_now db2) (submit_input_of task (ri_RuntimeID ri)))
        (t_TaskDefinition task) (t_RequiredCapabilities task) db4 = (e5, db5)"
    and a: "apd_Decision (evaluateActionPolicy (ce_H ce) i (db_now db2) (submit_input_of task (ri_RuntimeID ri))) \<noteq> ActionDecisionDenied"
      "apd_Decision (evaluateActionPolicy (ce_H ce) i (db_now db2) (submit_input_of task (ri_RuntimeID ri))) \<noteq> ActionDecisionApprovalRequired"
    and d: "dispatch_submission ce nd g task ri db5 = (r, [x], db')"
    unfolding launch_def fail_submission_def Let_def
    by (auto split: prod.split_asm option.split_asm sum.split_asm if_split_asm)
  have "\<not> gated (t_TaskDefinition task)"
    using decision_gate [of "ce_H ce" i "db_now db2" "submit_input_of task (ri_RuntimeID ri)"] decision_cases a
    by (auto simp: submit_input_of_def)
  moreover have "same_env db db5"
    by (rule fr_governance(3) [OF 5], rule fr_governance(2) [OF 4], rule fr_governance(1) [OF 3], rule fr_uuid [OF 2],
        rule fr_selectRuntime [OF 1 same_env_refl])
  ultimately show ?thesis using that 1 d by blast
qed

text \<open>C3: a submission starts a dispatch only for a definition without a human gate whose required capabilities
  the capability policy of the tenant permits, and only to a healthy, active runtime of the same tenant
  that was heard of within the last 90 seconds and is the one the request asked for, if it asked.\<close>
theorem submit_dispatch_governed:
  assumes "Submit ce nonces req db = (r, ds, db')" and "x \<in> set ds"
  shows "\<exists>t ru. r = Inr t \<and> ds = [x] \<and> dp_checkpoint x = None \<and> t_TaskID (dp_task x) = t_TaskID t
    \<and> t_TenantID (dp_task x) = sr_TenantID req \<and> \<not> gated (t_TaskDefinition t)
    \<and> permitted ce db (sr_TenantID req) (t_RequiredCapabilities t)
    \<and> ru \<in> set (db_runtimes db) \<and> fits (sr_TenantID req) (TrimSpace (sr_PreferredRuntimeID req)) (db_now db) ru
    \<and> t_RuntimeID (dp_task x) = Some (ru_runtime_id ru)
    \<and> t_RuntimeEndpoint (dp_task x) = NormalizeHTTPRuntimeEndpoint (str_or_empty (ru_endpoint ru))"
proof -
  from assms obtain nd g task refs db1 db2 where p: "prepare_submission ce nonces req db = (Inr (nd, g, task, refs), db1)"
    and c: "CreateTaskWithExecutionInputRefs task refs db1 = (Inr True, db2)"
    and l: "launch ce nd g task (sr_PreferredRuntimeID req) db2 = (r, ds, db')"
    unfolding Submit_def by (auto split: prod.split_asm sum.split_asm if_split_asm)
  have ds: "ds = [x]" using launch_one [OF l] assms(2) by (cases ds) auto
  have e2: "same_env db db2" by (rule fr_Create [OF c], rule fr_prepare [OF p same_env_refl])
  have g: "tg_RequiredCapabilities g = t_RequiredCapabilities task" "t_TenantID task = sr_TenantID req"
    using p by (auto simp: prepare_submission_def submission_record_def Let_def split: sum.split_asm option.split_asm prod.split_asm)
  obtain ri db3 db5 where s: "selectRuntime (t_TenantID task) (sr_PreferredRuntimeID req) db2 = (Inr ri, db3)"
    and n: "\<not> gated (t_TaskDefinition task)" and e5: "same_env db2 db5" and d: "dispatch_submission ce nd g task ri db5 = (r, [x], db')"
    using launch_ok [OF l [unfolded ds]] by blast
  have e: "same_env db db5" using e2 e5 by (simp add: same_env_def)
  obtain t where t: "r = Inr t" "t_TaskDefinition t = t_TaskDefinition task" "dp_checkpoint x = None"
    "dp_task x = t\<lparr>t_TaskDefinition := nd\<rparr>" "t_TenantID t = t_TenantID task" "t_TaskID t = t_TaskID task"
    "t_RuntimeID t = Some (ri_RuntimeID ri)" "t_RuntimeEndpoint t = Some (ri_Endpoint ri)"
    "permitted ce db (t_TenantID task) (tg_RequiredCapabilities g)"
    using dispatch_submission_ok [OF d] permitted_env [OF e] by blast
  have "t_RequiredCapabilities t = t_RequiredCapabilities task"
    using d t(1) unfolding dispatch_submission_def fail_submission_def Let_def
    by (auto split: prod.split_asm option.split_asm sum.split_asm)
  then show ?thesis using selected_fits [OF s] e2 t n g ds by (auto simp: same_env_def)
qed

section \<open>Recovery resumes only what is safe\<close>

lemma GetTask_row:
  assumes "GetTask t n db = (Inr task, db1)"
  shows "\<exists>r \<in> set (db_tasks db). tr_task_id r = t \<and> tr_tenant_id r = n \<and> task = scanTaskRecord r"
  using assms by (auto simp: GetTask_def query_def one_row_def split: prod.split_asm if_split_asm option.split_asm
      dest!: find_Some_in)

lemma scanned_row [simp]:
  "t_TaskID (scanTaskRecord r) = tr_task_id r" "t_TaskDefinition (scanTaskRecord r) = tr_task_definition r"
  "t_TenantID (scanTaskRecord r) = tr_tenant_id r" "t_Status (scanTaskRecord r) = tr_status r"
  "t_RuntimeID (scanTaskRecord r) = tr_runtime_id r"
  by (simp_all add: scanTaskRecord_def Let_def)

lemma Hydrate_fields:
  assumes "HydrateTaskPermissionEnvelope keyed task db = (Inr task', db1)"
  shows "t_TaskID task' = t_TaskID task" "t_TaskDefinition task' = t_TaskDefinition task"
    "t_TenantID task' = t_TenantID task" "t_Status task' = t_Status task" "t_RuntimeID task' = t_RuntimeID task"
  using assms by (auto simp: HydrateTaskPermissionEnvelope_def Let_def
      split: if_split_asm prod.split_asm sum.split_asm store_error.split_asm)

lemma handoff_allowed_safe:
  assumes "RecoveryHandoffAllowed task cp rt (evaluateActionPolicy H i now (recovery_input task rt cp)) = (True, why)"
  shows "TaskRecoveryCheckpointUsable (t_TaskID task) cp" "\<not> gated (t_TaskDefinition task)"
    "taskHasIrreversibleAction (t_TaskDefinition task) \<Longrightarrow> recoveryForwardResumeSafe (t_TaskID task) (t_TaskDefinition task) cp"
proof -
  have "apd_Decision (evaluateActionPolicy H i now (recovery_input task rt cp)) = ActionDecisionAllowed"
    using assms by (auto simp: RecoveryHandoffAllowed_def split: if_split_asm)
  then show "TaskRecoveryCheckpointUsable (t_TaskID task) cp" "\<not> gated (t_TaskDefinition task)"
    "taskHasIrreversibleAction (t_TaskDefinition task) \<Longrightarrow> recoveryForwardResumeSafe (t_TaskID task) (t_TaskDefinition task) cp"
    using decision_recovery decision_gate by (auto simp: recovery_input_def dest: decision_gate)
qed

definition resumable :: "uuid \<Rightarrow> raw \<Rightarrow> CheckpointPayload option \<Rightarrow> bool" where
  \<comment> \<open>a usable checkpoint of the task, no human gate, and no irreversible work that might run twice\<close>
  "resumable t def cp \<longleftrightarrow> TaskRecoveryCheckpointUsable t cp \<and> \<not> gated def
     \<and> (taskHasIrreversibleAction def \<longrightarrow> recoveryForwardResumeSafe t def cp)"

lemma redispatch_one:
  assumes "redispatch ce rt t n cp ri dec db = (ds, db')"
  shows "ds = [] \<or> (\<exists>x. ds = [x] \<and> t_TaskID (dp_task x) = t \<and> dp_checkpoint x = cp)"
  using assms unfolding redispatch_def fail_recovery_def Let_def
  by (auto split: prod.split_asm sum.split_asm option.split_asm dest!: GetTask_row dest: Hydrate_fields(1))

lemma handoff_one:
  assumes "handoff ce rt t n task cp db = (ds, db')" "t_TaskID task = t"
  shows "ds = [] \<or> (\<exists>x. ds = [x] \<and> t_TaskID (dp_task x) = t \<and> resumable t (t_TaskDefinition task) (dp_checkpoint x))"
proof -
  have "ds = [] \<or> (\<exists>ri i now why dec d. redispatch ce rt t n cp ri dec d = (ds, db')
      \<and> RecoveryHandoffAllowed task cp (ri_RuntimeID ri)
          (evaluateActionPolicy (ce_H ce) i now (recovery_input task (ri_RuntimeID ri) cp)) = (True, why))"
    using assms(1) unfolding handoff_def fail_recovery_def Let_def
    by (clarsimp split: prod.split_asm sum.split_asm if_split_asm option.split_asm; blast)
  then show ?thesis using redispatch_one handoff_allowed_safe assms(2) unfolding resumable_def by metis
qed

lemma recover_task_one:
  assumes "recover_task ce rt t db = (ds, db')"
  shows "ds = [] \<or> (\<exists>x r. ds = [x] \<and> r \<in> set (db_tasks db) \<and> tr_task_id r = t \<and> t_TaskID (dp_task x) = t
    \<and> resumable t (tr_task_definition r) (dp_checkpoint x))"
proof (cases "ds = []")
  case False
  with assms obtain stored db1 n db2 task0 db3 task db4 cp db5 e where
    1: "GetCumulativeRecoveryCheckpoint t db = (stored, db1)" and 2: "tenant_of_task t db1 = (n, db2)"
    and 3: "GetTask t n db2 = (Inr task0, db3)" and h: "HydrateTaskPermissionEnvelope e task0 db4 = (Inr task, db5)"
    and o: "handoff ce rt t n task cp db5 = (ds, db')"
    unfolding recover_task_def handleRecoverySkip_def invalid_checkpoint_def fail_recovery_def Let_def
    by (clarsimp split: prod.split_asm sum.split_asm if_split_asm)
  obtain r where r: "r \<in> set (db_tasks db2)" "tr_task_id r = t" "task0 = scanTaskRecord r" using GetTask_row [OF 3] by blast
  have "db_tasks db2 = db_tasks db" using 1 2
    by (auto simp: GetCumulativeRecoveryCheckpoint_def GetAllCheckpoints_def query_def tenant_of_task_def
        split: prod.split_asm sum.split_asm)
  then show ?thesis using handoff_one [OF o] Hydrate_fields(1,2) [OF h] r False by auto
qed simp

lemma recover_tasks_safe:
  assumes "recover_tasks ce rt ids db = (ds, db')" "db_ok db" "\<forall>t \<in> set ids. \<exists>r \<in> set (db_tasks db). tr_task_id r = t" "distinct ids"
  shows "distinct (map (\<lambda>x. t_TaskID (dp_task x)) ds) \<and> (\<forall>x \<in> set ds. t_TaskID (dp_task x) \<in> set ids
    \<and> (\<exists>r \<in> set (db_tasks db). tr_task_id r = t_TaskID (dp_task x)
        \<and> resumable (tr_task_id r) (tr_task_definition r) (dp_checkpoint x)))"
  using assms
proof (induction ids arbitrary: db ds)
  case (Cons t ids)
  obtain d1 db1 d2 where 1: "recover_task ce rt t db = (d1, db1)" and 2: "recover_tasks ce rt ids db1 = (d2, db')"
    and ds: "ds = d1 @ d2" using Cons.prems(1) by (auto split: prod.split_asm)
  have ev: "evolves db db1" by (rule ev_recover_task [OF 1 evolves_refl])
  have there: "\<forall>t \<in> set ids. \<exists>r \<in> set (db_tasks db1). tr_task_id r = t"
    using Cons.prems(3) evolves_row [OF ev Cons.prems(2)] unfolding row_evolves_def by fastforce
  note IH = Cons.IH [OF 2 evolves_ok [OF ev Cons.prems(2)] there]
  have origin: "\<exists>r \<in> set (db_tasks db). tr_task_id r = i \<and> tr_task_definition r = tr_task_definition r1"
    if "i \<in> set ids" "r1 \<in> set (db_tasks db1)" "tr_task_id r1 = i" for i r1
    using that Cons.prems(3) evolves_row_of [OF ev Cons.prems(2)] unfolding row_evolves_def by (metis list.set_intros(2))
  have first: "d1 = [] \<or> (\<exists>x r. d1 = [x] \<and> r \<in> set (db_tasks db) \<and> tr_task_id r = t \<and> t_TaskID (dp_task x) = t
      \<and> resumable t (tr_task_definition r) (dp_checkpoint x))" by (rule recover_task_one [OF 1])
  show ?case unfolding ds using first IH origin Cons.prems(4) by (auto; metis)
qed simp

lemma marked_recovering:
  assumes "MarkRecovering rt db = (Inr ids, db1)"
  shows "ids = map tr_task_id (filter (\<lambda>r. tr_runtime_id r = Some rt
      \<and> tr_status r \<in> {TaskStatusDispatched, TaskStatusCheckpointed}) (db_tasks db))"
  using assms by (auto simp: MarkRecovering_def Let_def split: prod.split_asm option.split_asm)


section \<open>Concrete runs\<close>

definition sample_start :: db where
  "sample_start = (sample_db [])\<lparr>db_runtimes := [sample_runtime ''rt2'']\<rparr>"

lemma sample_submission: "length (fst (snd (Submit sample_coord_env (\<lambda>n. []) sample_request sample_start))) = 1"
  by code_simp

lemma sample_start_ok: "db_ok sample_start"
  by (simp add: sample_start_def sample_db_def db_ok_def)

lemma length_one_elem: "length xs = 1 \<Longrightarrow> hd xs \<in> set xs"
  by (cases xs) auto

theorem submission_dispatched_once_witness:
  "\<exists>tr db'. runs sample_coord_env sample_start tr db' \<and> length tr = 2 \<and> started ''acme'' ''k'' tr = 1 \<and> key_taken ''acme'' ''k'' db'"
proof -
  let ?c = "CSubmit (\<lambda>n. []) sample_request"
  obtain d1 db1 where 1: "perform sample_coord_env ?c sample_start = (d1, db1)" by (cases "perform sample_coord_env ?c sample_start")
  obtain d2 db2 where 2: "perform sample_coord_env ?c db1 = (d2, db2)" by (cases "perform sample_coord_env ?c db1")
  have run: "runs sample_coord_env sample_start [(?c, d1), (?c, d2)] db2"
    using runs.next_call [OF runs.next_call [OF runs.start 1] 2] by simp
  have "length d1 = 1" using sample_submission 1 by simp
  then have "started ''acme'' ''k'' [(?c, d1), (?c, d2)] \<ge> 1" by (simp add: started_def sample_request_def)
  moreover have "started ''acme'' ''k'' [(?c, d1), (?c, d2)] \<le> 1 \<and> (if started ''acme'' ''k'' [(?c, d1), (?c, d2)] = 0 then True
      else key_taken ''acme'' ''k'' db2)" by (rule submission_dispatched_once [OF run sample_start_ok]) simp
  ultimately show ?thesis using run by (intro exI [of _ "[(?c, d1), (?c, d2)]"] exI [of _ db2]) auto
qed

theorem submit_dispatch_governed_witness:
  "\<exists>x t. fst (Submit sample_coord_env (\<lambda>n. []) sample_request sample_start) = Inr t
    \<and> fst (snd (Submit sample_coord_env (\<lambda>n. []) sample_request sample_start)) = [x]
    \<and> \<not> gated (t_TaskDefinition t) \<and> t_RuntimeID (dp_task x) = Some ''rt2''"
proof -
  obtain r ds db' where s: "Submit sample_coord_env (\<lambda>n. []) sample_request sample_start = (r, ds, db')" by (metis prod_cases3)
  then have "hd ds \<in> set ds" using sample_submission length_one_elem by simp
  from submit_dispatch_governed [OF s this] s show ?thesis
    by (auto simp: sample_start_def sample_db_def sample_runtime_def)
qed

definition sample_crash :: db where
  \<comment> \<open>a task with one checkpoint on the runtime that is about to be declared dead\<close>
  "sample_crash = (snd (SaveCheckpoint (sample_checkpoint 0) (sample_db [sample_row TaskStatusDispatched])))
     \<lparr>db_runtimes := [sample_runtime ''rt'', sample_runtime ''rt2'']\<rparr>"

lemma sample_recovery: "length (fst (recoverRuntime sample_coord_env ''rt'' sample_crash)) = 1"
  by code_simp

lemma sample_crash_ok: "db_ok sample_crash"
proof -
  let ?db = "sample_db [sample_row TaskStatusDispatched]"
  have "evolves ?db (snd (SaveCheckpoint (sample_checkpoint 0) ?db))"
    by (cases "SaveCheckpoint (sample_checkpoint 0) ?db") (auto intro: ev_SaveCheckpoint)
  then have "db_ok (snd (SaveCheckpoint (sample_checkpoint 0) ?db))" using sample_db_ok by (rule evolves_ok)
  then show ?thesis by (simp add: sample_crash_def db_ok_def)
qed


end
