(* ===== verification/Spec2Isabelle.thy ===== *)
theory Spec2Isabelle
  imports Input_Recovery Coordinator_Properties
begin

text \<open>
  A verification development for the Igris control plane.
\<close>

end
